(* ===== verification/Acl.thy ===== *)
theory Acl
  imports Go_Prelude
begin

text \<open>
  \<^verbatim>\<open>pkg/acl/slug.go\<close>: the permission vocabulary. A permission is a \<open>Slug\<close>, a named string
  type; \<open>Validate\<close> accepts the dot-separated lower-case slugs and reports the first
  violation of any other string. \<open>wf_slug\<close> states the grammar the documentation gives,
  and \<open>Validate_iff_wf_slug\<close> shows that the scanner decides it.
\<close>

datatype Slug = Slug (slug_string: string)

datatype slug_error =
    EmptySlug
  | TooFewSegments Slug
  | EmptySegment Slug
  | InvalidCharacter Slug char

definition minSlugSegments :: nat where
  "minSlugSegments = 2"

definition SystemAdmin :: Slug where "SystemAdmin = Slug ''system.admin''"

definition UserRead :: Slug where "UserRead = Slug ''user.read''"

definition UserWrite :: Slug where "UserWrite = Slug ''user.write''"

definition UserDelete :: Slug where "UserDelete = Slug ''user.delete''"

text \<open>The inner loop: the first byte of a segment outside \<open>[a-z0-9_]\<close>.\<close>

definition slug_char :: "char \<Rightarrow> bool" where
  "slug_char r =
     (let n = of_char r :: nat;
          isLower = (97 \<le> n \<and> n \<le> 122);
          isDigit = (48 \<le> n \<and> n \<le> 57)
      in \<not> (\<not> isLower \<and> \<not> isDigit \<and> r \<noteq> CHR ''_''))"

fun validate_segments :: "Slug \<Rightarrow> string list \<Rightarrow> slug_error option" where
  "validate_segments s [] = None"
| "validate_segments s (seg # segs) =
     (if seg = [] then Some (EmptySegment s)
      else case List.find (\<lambda>r. \<not> slug_char r) seg of
             Some r \<Rightarrow> Some (InvalidCharacter s r)
           | None \<Rightarrow> validate_segments s segs)"

definition Validate :: "Slug \<Rightarrow> slug_error option" where
  "Validate s =
     (if slug_string s = [] then Some EmptySlug
      else let segments = split_on (CHR ''.'') (slug_string s)
           in if length segments < minSlugSegments then Some (TooFewSegments s)
              else validate_segments s segments)"

definition Strings :: "Slug list \<Rightarrow> string list" where
  "Strings slugs = map slug_string slugs"

definition SlugsFromStrings :: "string list \<Rightarrow> Slug list" where
  "SlugsFromStrings values = map Slug values"

text \<open>The documented grammar.\<close>

definition wf_slug :: "Slug \<Rightarrow> bool" where
  "wf_slug s \<longleftrightarrow>
     (\<exists>segs. 2 \<le> length segs \<and> slug_string s = join segs ''.'' \<and>
        (\<forall>seg \<in> set segs. seg \<noteq> [] \<and>
           (\<forall>c \<in> set seg. CHR ''a'' \<le> c \<and> c \<le> CHR ''z'' \<or>
              CHR ''0'' \<le> c \<and> c \<le> CHR ''9'' \<or> c = CHR ''_'')))"

lemma slug_char_iff:
  "slug_char c \<longleftrightarrow>
     CHR ''a'' \<le> c \<and> c \<le> CHR ''z'' \<or> CHR ''0'' \<le> c \<and> c \<le> CHR ''9'' \<or> c = CHR ''_''"
  by (auto simp: slug_char_def less_eq_char_def Let_def)

lemma slug_char_not_dot: "slug_char c \<Longrightarrow> c \<noteq> CHR ''.''"
  by (auto simp: slug_char_def)

lemma validate_segments_None:
  "validate_segments s segs = None \<longleftrightarrow> (\<forall>seg \<in> set segs. seg \<noteq> [] \<and> (\<forall>c \<in> set seg. slug_char c))"
  by (induction segs) (auto split: option.splits simp: find_None_iff find_Some_iff)

lemma wf_slug_split:
  "wf_slug s \<longleftrightarrow>
     (let segs = split_on (CHR ''.'') (slug_string s)
      in 2 \<le> length segs \<and> (\<forall>seg \<in> set segs. seg \<noteq> [] \<and> (\<forall>c \<in> set seg. slug_char c)))"
    (is "_ \<longleftrightarrow> ?split")
proof
  assume "wf_slug s"
  then obtain segs where segs: "2 \<le> length segs" "slug_string s = join segs ''.''"
    "\<And>seg. seg \<in> set segs \<Longrightarrow> seg \<noteq> [] \<and> (\<forall>c \<in> set seg. slug_char c)"
    unfolding wf_slug_def slug_char_iff by blast
  have "CHR ''.'' \<notin> set seg" if "seg \<in> set segs" for seg
    using segs(3) [OF that] slug_char_not_dot by blast
  with segs(1,2) have "split_on (CHR ''.'') (slug_string s) = segs"
    by (auto intro!: split_on_join)
  with segs show ?split by simp
next
  assume ?split
  then show "wf_slug s"
    unfolding wf_slug_def Let_def
    by (intro exI [of _ "split_on (CHR ''.'') (slug_string s)"]) (simp add: slug_char_iff)
qed

lemma Validate_None_iff: "Validate s = None \<longleftrightarrow> wf_slug s"
  by (auto simp: Validate_def wf_slug_split minSlugSegments_def validate_segments_None Let_def)

text \<open>
  \<open>Slug.Validate\<close> accepts exactly the slugs of the documented grammar: two or more
  dot-separated segments, each non-empty and made only of \<open>[a-z0-9_]\<close>.
\<close>

theorem Validate_iff_wf_slug: "(Validate s = None) = wf_slug s"
  by (rule Validate_None_iff)

end
