(* ===== verification/Http.thy ===== *)
theory Http
  imports Go_Prelude
begin

text \<open>
  The part of \<^verbatim>\<open>net/http\<close> the framework uses: status codes, header maps with canonical keys,
  requests, cookies and the response writer. The writer records what reaches the client:
  a header change after the status is committed has no effect, a second status is ignored,
  a body on a status that forbids one is dropped. \<open>rw_logs\<close> is the \<open>slog\<close> stream.
\<close>

subsection \<open>Headers\<close>

text \<open>
  \<open>textproto.CanonicalMIMEHeaderKey\<close> on the ASCII tokens used as keys: the first letter and
  every letter after a hyphen in upper case, the rest in lower case.
\<close>

fun canon_from :: "bool \<Rightarrow> string \<Rightarrow> string" where
  "canon_from up [] = []"
| "canon_from up (c # cs) =
     (if up then upper_char c else lower_char c) # canon_from (c = CHR ''-'') cs"

definition canonical_key :: "string \<Rightarrow> string" where
  "canonical_key k = canon_from True k"

type_synonym header = "string \<Rightarrow> string list option"

definition header_values :: "header \<Rightarrow> string \<Rightarrow> string list" where
  "header_values h k = (case h (canonical_key k) of None \<Rightarrow> [] | Some vs \<Rightarrow> vs)"

definition header_get :: "header \<Rightarrow> string \<Rightarrow> string" where
  "header_get h k = (case header_values h k of [] \<Rightarrow> [] | v # _ \<Rightarrow> v)"

definition header_set :: "header \<Rightarrow> string \<Rightarrow> string \<Rightarrow> header" where
  "header_set h k v = h(canonical_key k \<mapsto> [v])"

definition header_add :: "header \<Rightarrow> string \<Rightarrow> string \<Rightarrow> header" where
  "header_add h k v = h(canonical_key k \<mapsto> header_values h k @ [v])"

definition header_del :: "header \<Rightarrow> string \<Rightarrow> header" where
  "header_del h k = h(canonical_key k := None)"


subsection \<open>Requests\<close>

text \<open>
  \<open>'c\<close> is the request context. A body that is \<open>nil\<close> or \<open>http.NoBody\<close> is \<open>None\<close>; a read that
  fails part way is \<open>BodyBroken\<close>.
\<close>

datatype body_stream = BodyBytes string | BodyBroken

record 'c http_request =
  rq_method :: string
  rq_path :: string
  rq_header :: header
  rq_query :: "string \<Rightarrow> string list"
  rq_cookies :: "(string \<times> string) list"
  rq_remote :: string
  rq_body :: "body_stream option"
  rq_content_length :: int
  rq_ctx :: 'c


subsection \<open>Cookies\<close>

datatype same_site = SameSiteDefault | SameSiteLax | SameSiteStrict | SameSiteNone

text \<open>
  The fields of \<open>http.Cookie\<close> a reply sets. \<open>Expires\<close> is a Unix time in seconds, \<open>None\<close> for
  the zero time.
\<close>

record http_cookie =
  ck_name :: string
  ck_value :: string
  ck_path :: string
  ck_http_only :: bool
  ck_secure :: bool
  ck_same_site :: same_site
  ck_max_age :: int
  ck_expires :: "int option"

definition token_char :: "char \<Rightarrow> bool" where
  "token_char c =
     (let n = of_char c :: nat in
      48 \<le> n \<and> n \<le> 57 \<or> 65 \<le> n \<and> n \<le> 90 \<or> 97 \<le> n \<and> n \<le> 122 \<or>
      n \<in> {33, 35, 36, 37, 38, 39, 42, 43, 45, 46, 94, 95, 96, 124, 126})"

definition is_token :: "string \<Rightarrow> bool" where
  "is_token s \<longleftrightarrow> s \<noteq> [] \<and> list_all token_char s"

definition cookie_value_char :: "char \<Rightarrow> bool" where
  "cookie_value_char c =
     (let n = of_char c :: nat in 0x20 \<le> n \<and> n < 0x7F \<and> n \<noteq> 0x22 \<and> n \<noteq> 0x3B \<and> n \<noteq> 0x5C)"

definition cookie_path_char :: "char \<Rightarrow> bool" where
  "cookie_path_char c = (let n = of_char c :: nat in 0x20 \<le> n \<and> n < 0x7F \<and> n \<noteq> 0x3B)"

text \<open>
  \<open>Cookie.Valid\<close>: the name is a token, a set expiry lies in or after the year 1601, and value
  and path hold no byte the header syntax forbids.
\<close>

definition cookie_valid :: "http_cookie \<Rightarrow> bool" where
  "cookie_valid c \<longleftrightarrow>
     is_token (ck_name c) \<and>
     (case ck_expires c of None \<Rightarrow> True | Some t \<Rightarrow> - 11644473600 \<le> t) \<and>
     list_all cookie_value_char (ck_value c) \<and>
     list_all cookie_path_char (ck_path c)"


subsection \<open>The response writer\<close>

datatype log_level = LevelWarn | LevelError

record response_writer =
  rw_header :: header
  rw_cookies :: "http_cookie list"
  rw_status :: "int option"
  rw_sent :: header
  rw_sent_cookies :: "http_cookie list"
  rw_body :: string
  rw_logs :: "(log_level \<times> string) list"

definition fresh_writer :: response_writer where
  "fresh_writer = \<lparr>rw_header = Map.empty, rw_cookies = [], rw_status = None, rw_sent = Map.empty,
     rw_sent_cookies = [], rw_body = [], rw_logs = []\<rparr>"

definition set_header :: "string \<Rightarrow> string \<Rightarrow> response_writer \<Rightarrow> response_writer" where
  "set_header k v w = w\<lparr>rw_header := header_set (rw_header w) k v\<rparr>"

definition add_header :: "string \<Rightarrow> string \<Rightarrow> response_writer \<Rightarrow> response_writer" where
  "add_header k v w = w\<lparr>rw_header := header_add (rw_header w) k v\<rparr>"

text \<open>\<open>http.SetCookie\<close> adds the cookie's header line unless the name is not a token.\<close>

definition set_cookie :: "http_cookie \<Rightarrow> response_writer \<Rightarrow> response_writer" where
  "set_cookie c w = (if is_token (ck_name c) then w\<lparr>rw_cookies := rw_cookies w @ [c]\<rparr> else w)"

definition write_header :: "int \<Rightarrow> response_writer \<Rightarrow> response_writer" where
  "write_header code w =
     (case rw_status w of
        None \<Rightarrow> w\<lparr>rw_status := Some code, rw_sent := rw_header w, rw_sent_cookies := rw_cookies w\<rparr>
      | Some _ \<Rightarrow> w)"

definition body_allowed :: "int \<Rightarrow> bool" where
  "body_allowed code \<longleftrightarrow> \<not> (100 \<le> code \<and> code \<le> 199 \<or> code = 204 \<or> code = 304)"

definition write_body :: "string \<Rightarrow> response_writer \<Rightarrow> response_writer" where
  "write_body b w =
     (let w' = (if rw_status w = None then write_header 200 w else w)
      in case rw_status w' of
           Some code \<Rightarrow> if body_allowed code then w'\<lparr>rw_body := rw_body w' @ b\<rparr> else w'
         | None \<Rightarrow> w')"

definition log_event :: "log_level \<Rightarrow> string \<Rightarrow> response_writer \<Rightarrow> response_writer" where
  "log_event l m w = w\<lparr>rw_logs := rw_logs w @ [(l, m)]\<rparr>"

text \<open>A writer nothing has been sent through yet.\<close>

definition uncommitted :: "response_writer \<Rightarrow> bool" where
  "uncommitted w \<longleftrightarrow> rw_status w = None \<and> rw_body w = []"

text \<open>What the client sees: the status, a header line, the cookies set.\<close>

definition sent_header :: "response_writer \<Rightarrow> string \<Rightarrow> string" where
  "sent_header w k = header_get (rw_sent w) k"

lemma canonical_keys [simp]:
  "canonical_key ''Content-Type'' = ''Content-Type''"
  "canonical_key ''Retry-After'' = ''Retry-After''"
  "canonical_key ''WWW-Authenticate'' = ''Www-Authenticate''"
  "canonical_key ''Location'' = ''Location''"
  "canonical_key ''Authorization'' = ''Authorization''"
  "canonical_key ''X-Forwarded-For'' = ''X-Forwarded-For''"
  "canonical_key ''X-Real-IP'' = ''X-Real-Ip''"
  "canonical_key ''True-Client-IP'' = ''True-Client-Ip''"
  by code_simp+

named_theorems wire_defs \<open>unfoldings of the response-writer operations\<close>

lemmas [wire_defs] = set_header_def add_header_def set_cookie_def write_header_def
  write_body_def log_event_def

lemma log_event_frame [simp]:
  "rw_status (log_event l m w) = rw_status w" "rw_body (log_event l m w) = rw_body w"
  "rw_header (log_event l m w) = rw_header w" "rw_cookies (log_event l m w) = rw_cookies w"
  "rw_sent (log_event l m w) = rw_sent w" "rw_sent_cookies (log_event l m w) = rw_sent_cookies w"
  "uncommitted (log_event l m w) = uncommitted w"
  by (simp_all add: log_event_def uncommitted_def)

lemma header_get_set_same [simp]: "header_get (header_set h k v) k = v"
  by (simp add: header_get_def header_values_def header_set_def)

lemma header_get_set_other:
  "canonical_key k \<noteq> canonical_key k' \<Longrightarrow> header_get (header_set h k v) k' = header_get h k'"
  by (simp add: header_get_def header_values_def header_set_def)

lemma header_values_add: "header_values (header_add h k v) k = header_values h k @ [v]"
  by (simp add: header_values_def header_add_def)

lemma header_get_del [simp]: "header_get (header_del h k) k = []"
  by (simp add: header_get_def header_values_def header_del_def)

end
