(* ===== verification/Wire_Json.thy ===== *)
theory Wire_Json
  imports Go_Prelude
begin

text \<open>
  The part of \<^verbatim>\<open>encoding/json/v2\<close> the writers use: \<open>json.Marshal\<close> of strings, integers,
  arrays and objects under the package's \<open>jsonWireOptions\<close>. Marshalling fails (\<open>None\<close>) on a
  string that is not valid UTF-8, which version 2 of the package rejects unless told
  otherwise, and on a value that has no encoding.
\<close>

definition cont_byte :: "char \<Rightarrow> bool" where
  "cont_byte c \<longleftrightarrow> (let n = of_char c :: nat in 0x80 \<le> n \<and> n \<le> 0xBF)"

text \<open>\<open>utf8.ValidString\<close>: the lead byte fixes the length and the range of the second byte.\<close>

fun utf8_tail :: "nat \<Rightarrow> string \<Rightarrow> nat option" where
  "utf8_tail n (a # s) =
     (let m = of_char a :: nat in
      if 0xC2 \<le> n \<and> n \<le> 0xDF then (if cont_byte a then Some 1 else None)
      else if 0xE0 \<le> n \<and> n \<le> 0xEF then
        (if (if n = 0xE0 then 0xA0 else 0x80) \<le> m \<and> m \<le> (if n = 0xED then 0x9F else 0xBF) \<and>
            (case s of b # _ \<Rightarrow> cont_byte b | [] \<Rightarrow> False)
         then Some 2 else None)
      else if 0xF0 \<le> n \<and> n \<le> 0xF4 then
        (if (if n = 0xF0 then 0x90 else 0x80) \<le> m \<and> m \<le> (if n = 0xF4 then 0x8F else 0xBF) \<and>
            (case s of b # c # _ \<Rightarrow> cont_byte b \<and> cont_byte c | _ \<Rightarrow> False)
         then Some 3 else None)
      else None)"
| "utf8_tail n [] = None"

function valid_utf8 :: "string \<Rightarrow> bool" where
  "valid_utf8 [] = True"
| "valid_utf8 (c # s) =
     (let n = of_char c :: nat in
      if n < 0x80 then valid_utf8 s
      else case utf8_tail n s of None \<Rightarrow> False | Some k \<Rightarrow> valid_utf8 (drop k s))"
  by pat_completeness auto
termination
  by (relation "measure length") auto

definition hex_digit :: "nat \<Rightarrow> char" where
  "hex_digit d = (if d < 10 then char_of (48 + d) else char_of (87 + d))"

definition escape_char :: "char \<Rightarrow> string" where
  "escape_char c =
     (let n = of_char c :: nat in
      if c = CHR 0x22 then [CHR 0x5C, CHR 0x22]
      else if c = CHR 0x5C then [CHR 0x5C, CHR 0x5C]
      else if n = 8 then [CHR 0x5C, CHR ''b'']
      else if n = 12 then [CHR 0x5C, CHR ''f'']
      else if n = 10 then [CHR 0x5C, CHR ''n'']
      else if n = 13 then [CHR 0x5C, CHR ''r'']
      else if n = 9 then [CHR 0x5C, CHR ''t'']
      else if n < 32 then [CHR 0x5C, CHR ''u'', CHR ''0'', CHR ''0'', hex_digit (n div 16), hex_digit (n mod 16)]
      else [c])"

definition json_quote :: "string \<Rightarrow> string option" where
  "json_quote s =
     (if valid_utf8 s then Some (CHR 0x22 # concat (map escape_char s) @ [CHR 0x22]) else None)"

text \<open>
  A value as the encoder sees it. \<open>JRaw\<close> is a value of a type the framework does not know: its
  own encoding, or \<open>None\<close> when it has none.
\<close>

datatype json =
    JInt int
  | JStr string
  | JRaw "string option"
  | JArr "json list"
  | JObj "(string \<times> json) list"

fun collect :: "'a option list \<Rightarrow> 'a list option" where
  "collect [] = Some []"
| "collect (x # xs) =
     (case x of None \<Rightarrow> None
      | Some v \<Rightarrow> (case collect xs of None \<Rightarrow> None | Some vs \<Rightarrow> Some (v # vs)))"

fun json_marshal :: "json \<Rightarrow> string option" where
  "json_marshal (JInt i) = Some (itoa i)"
| "json_marshal (JStr s) = json_quote s"
| "json_marshal (JRaw r) = r"
| "json_marshal (JArr vs) =
     (case collect (map json_marshal vs) of
        None \<Rightarrow> None
      | Some parts \<Rightarrow> Some (''['' @ join parts '','' @ '']''))"
| "json_marshal (JObj ms) =
     (case collect (map (\<lambda>(k, v). case (json_quote k, json_marshal v) of
                          (Some qk, Some ev) \<Rightarrow> Some (qk @ '':'' @ ev)
                        | _ \<Rightarrow> None) ms) of
        None \<Rightarrow> None
      | Some parts \<Rightarrow> Some (''{'' @ join parts '','' @ ''}''))"

lemma collect_None_iff: "collect xs = None \<longleftrightarrow> None \<in> set xs"
  by (induction xs) (auto split: option.splits)

lemma json_quote_None_iff [simp]: "json_quote s = None \<longleftrightarrow> \<not> valid_utf8 s"
  by (simp add: json_quote_def)

lemma json_marshal_obj_None_iff:
  "json_marshal (JObj ms) = None \<longleftrightarrow> (\<exists>(k, v) \<in> set ms. \<not> valid_utf8 k \<or> json_marshal v = None)"
proof -
  let ?member = "\<lambda>(k, v). case (json_quote k, json_marshal v) of
                   (Some qk, Some ev) \<Rightarrow> Some (qk @ '':'' @ ev) | _ \<Rightarrow> None"
  have "json_marshal (JObj ms) = None \<longleftrightarrow> None \<in> set (map ?member ms)"
    unfolding collect_None_iff [symmetric] by (simp split: option.splits)
  also have "\<dots> \<longleftrightarrow> (\<exists>m \<in> set ms. ?member m = None)"
    by (force simp: image_iff)
  also have "\<dots> \<longleftrightarrow> (\<exists>(k, v) \<in> set ms. \<not> valid_utf8 k \<or> json_marshal v = None)"
    by (intro bex_cong refl) (auto simp: json_quote_def split: option.splits)
  finally show ?thesis .
qed

declare json_marshal.simps(5) [simp del]

lemma ascii_valid_utf8: "(\<And>c. c \<in> set s \<Longrightarrow> (of_char c :: nat) < 0x80) \<Longrightarrow> valid_utf8 s"
  by (induction s) auto

lemma utf8_tail_append: "utf8_tail n s = Some k \<Longrightarrow> utf8_tail n (s @ t) = Some k \<and> k \<le> length s"
  by (cases s) (auto simp: Let_def split: if_splits list.splits)

lemma valid_utf8_append: "valid_utf8 s \<Longrightarrow> valid_utf8 t \<Longrightarrow> valid_utf8 (s @ t)"
proof (induction s rule: valid_utf8.induct)
  case (2 c s)
  then show ?case by (auto simp: Let_def utf8_tail_append split: if_splits option.splits)
qed simp

lemma invalid_after_ascii:
  "(\<And>c. c \<in> set s \<Longrightarrow> (of_char c :: nat) < 0x80) \<Longrightarrow> valid_utf8 (s @ t) = valid_utf8 t"
  by (induction s) auto

end
