(* ===== verification/Go_Errors.thy ===== *)
theory Go_Errors
  imports Go_Prelude
begin

text \<open>
  Go errors as values. An error is a sentinel, a driver or validator error, one of the two
  error types of \<^verbatim>\<open>internal/httpx/problem.go\<close> (\<open>ProblemDetails\<close>, \<open>challengeError\<close>), any other
  error, or a wrapper built by \<open>fmt.Errorf\<close> with \<open>%w\<close> verbs. \<open>error_tree\<close> lists an error and
  everything it wraps in the order \<open>errors.Is\<close> and \<open>errors.As\<close> visit it.
\<close>

datatype problemKindID =
    problemKindInvalid
  | problemKindBadRequest
  | problemKindUnauthorized
  | problemKindForbidden
  | problemKindNotFound
  | problemKindConflict
  | problemKindPayloadTooLarge
  | problemKindUnsupportedMediaType
  | problemKindUnprocessableEntity
  | problemKindTooManyRequests
  | problemKindInternal

text \<open>The sentinel errors the program compares with \<open>errors.Is\<close>.\<close>

datatype sentinel =
    PgxErrNoRows
  | ErrNotFound
  | ErrAlreadyExists
  | ErrForeignKeyViolation
  | ErrDatabaseError
  | ErrInvalidTTL
  | ErrInvalidHash
  | ErrIncompatibleVersion
  | ErrInvalidToken
  | ErrInvalidClaims
  | ErrTokenNotFound

record FieldError =
  fe_field :: string
  fe_tag :: string
  fe_param :: string

record ValidationError =
  ve_field :: string
  ve_message :: string

datatype ext_value = ExtInt int | ExtErrors "ValidationError list" | ExtOther "string option"

text \<open>
  \<open>ProblemDetails\<close>; its \<open>Extensions\<close> map is listed in iteration order. \<open>ENilProblem\<close> is the
  nil \<open>*ProblemDetails\<close> inside a non-nil error.
\<close>

datatype go_error =
    ESentinel sentinel
  | EOther string
  | EPg (pg_code: string)
  | EValidation "FieldError list"
  | EChallenge string
  | EProblem ProblemDetails
  | ENilProblem
  | EWrap string "go_error list"
and ProblemDetails = ProblemDetails
  (pd_type: string)
  (pd_title: string)
  (pd_status: int)
  (pd_detail: string)
  (pd_instance: string)
  (pd_extensions: "(string \<times> ext_value) list")
  (pd_err: "go_error option")
  (pd_kind: problemKindID)

text \<open>What \<open>Unwrap\<close> gives.\<close>

fun unwraps :: "go_error \<Rightarrow> go_error list" where
  "unwraps (EProblem p) = (case pd_err p of None \<Rightarrow> [] | Some e \<Rightarrow> [e])"
| "unwraps (EWrap m es) = es"
| "unwraps _ = []"

lemma unwraps_size: "e' \<in> set (unwraps e) \<Longrightarrow> size e' < size e"
proof (cases e)
  case (EProblem p)
  assume "e' \<in> set (unwraps e)"
  with EProblem show ?thesis by (cases p) (auto split: option.splits)
next
  case (EWrap m es)
  assume "e' \<in> set (unwraps e)"
  with EWrap have "e' \<in> set es" by simp
  then have "size e' \<le> size_list size es" by (simp add: size_list_estimation')
  with EWrap show ?thesis by simp
qed simp_all

function error_tree :: "go_error \<Rightarrow> go_error list" where
  "error_tree e = e # concat (map error_tree (unwraps e))"
  by pat_completeness auto
termination
  by (relation "measure size") (auto dest: unwraps_size)

declare error_tree.simps [simp del]

text \<open>\<open>errors.Is\<close> against a sentinel, and \<open>errors.As\<close> for the error types the program asks for.\<close>

definition errors_is :: "go_error \<Rightarrow> sentinel \<Rightarrow> bool" where
  "errors_is e s \<longleftrightarrow> ESentinel s \<in> set (error_tree e)"

fun first_some :: "('a \<Rightarrow> 'b option) \<Rightarrow> 'a list \<Rightarrow> 'b option" where
  "first_some f [] = None"
| "first_some f (x # xs) = (case f x of Some y \<Rightarrow> Some y | None \<Rightarrow> first_some f xs)"

lemma first_some_cong [fundef_cong]:
  "xs = ys \<Longrightarrow> (\<And>x. x \<in> set ys \<Longrightarrow> f x = g x) \<Longrightarrow> first_some f xs = first_some g ys"
  by (induction ys arbitrary: xs) (auto split: option.splits)

definition as_challenge :: "go_error \<Rightarrow> string option" where
  "as_challenge e = first_some (\<lambda>x. case x of EChallenge c \<Rightarrow> Some c | _ \<Rightarrow> None) (error_tree e)"

text \<open>The nil pointer is a match too: \<open>Some None\<close>.\<close>

definition as_problem :: "go_error \<Rightarrow> ProblemDetails option option" where
  "as_problem e = first_some (\<lambda>x. case x of EProblem p \<Rightarrow> Some (Some p) | ENilProblem \<Rightarrow> Some None | _ \<Rightarrow> None)
     (error_tree e)"

definition as_validation :: "go_error \<Rightarrow> FieldError list option" where
  "as_validation e = first_some (\<lambda>x. case x of EValidation v \<Rightarrow> Some v | _ \<Rightarrow> None) (error_tree e)"

definition as_pg :: "go_error \<Rightarrow> string option" where
  "as_pg e = first_some (\<lambda>x. case x of EPg c \<Rightarrow> Some c | _ \<Rightarrow> None) (error_tree e)"

text \<open>Unfolding the tree of a concrete error.\<close>

lemma error_tree_leaf [simp]:
  "error_tree (ESentinel s) = [ESentinel s]"
  "error_tree (EOther m) = [EOther m]"
  "error_tree (EPg c) = [EPg c]"
  "error_tree (EValidation v) = [EValidation v]"
  "error_tree (EChallenge c) = [EChallenge c]"
  "error_tree ENilProblem = [ENilProblem]"
  by (simp_all add: error_tree.simps)

lemma error_tree_wrap [simp]: "error_tree (EWrap m es) = EWrap m es # concat (map error_tree es)"
  by (simp add: error_tree.simps)

lemma error_tree_problem [simp]:
  "error_tree (EProblem p) = EProblem p # (case pd_err p of None \<Rightarrow> [] | Some e \<Rightarrow> error_tree e)"
  by (simp add: error_tree.simps [of "EProblem p"] split: option.splits)

lemma first_some_append:
  "first_some f (xs @ ys) = (case first_some f xs of Some y \<Rightarrow> Some y | None \<Rightarrow> first_some f ys)"
  by (induction xs) (auto split: option.splits)

lemma as_problem_problem [simp]: "as_problem (EProblem p) = Some (Some p)"
  by (simp add: as_problem_def)

lemma errors_is_wrap [simp]: "errors_is (EWrap m es) s \<longleftrightarrow> (\<exists>e \<in> set es. errors_is e s)"
  by (auto simp: errors_is_def)

lemma as_pg_wrap1 [simp]: "as_pg (EWrap m [e]) = as_pg e"
  by (simp add: as_pg_def)

lemma errors_is_leaf [simp]:
  "errors_is (ESentinel s') s \<longleftrightarrow> s' = s"
  "\<not> errors_is (EOther m) s"
  "\<not> errors_is (EPg c) s"
  "\<not> errors_is (EChallenge c) s"
  "\<not> errors_is (EValidation v) s"
  by (auto simp: errors_is_def)

end
