(* ===== verification/Problem.thy ===== *)
theory Problem
  imports Http Wire_Json Go_Errors
begin

text \<open>
  \<^verbatim>\<open>internal/httpx/problem.go\<close>: the closed vocabulary of problem kinds, the RFC 9457 error
  value, the per-operation problem plan, and the one dispatcher that turns an error into a
  response. The central fact is that a typed handler or a guard can only answer with a
  status its plan declares, with 500, or with a declared challenge.
\<close>

subsection \<open>Problem kinds\<close>

definition problemTypeNamespace :: string where
  "problemTypeNamespace = ''urn:tinker:error:''"

record problemKindDefinition =
  pkd_code :: string
  pkd_status :: int
  pkd_title :: string
  pkd_typeURI :: string

definition kind_def :: "string \<Rightarrow> int \<Rightarrow> string \<Rightarrow> problemKindDefinition option" where
  "kind_def c s t = Some \<lparr>pkd_code = c, pkd_status = s, pkd_title = t,
     pkd_typeURI = problemTypeNamespace @ c\<rparr>"

fun problemDefinition :: "problemKindID \<Rightarrow> problemKindDefinition option" where
  "problemDefinition problemKindBadRequest = kind_def ''bad-request'' 400 ''Bad Request''"
| "problemDefinition problemKindUnauthorized = kind_def ''unauthorized'' 401 ''Unauthorized''"
| "problemDefinition problemKindForbidden = kind_def ''forbidden'' 403 ''Forbidden''"
| "problemDefinition problemKindNotFound = kind_def ''not-found'' 404 ''Not Found''"
| "problemDefinition problemKindConflict = kind_def ''conflict'' 409 ''Conflict''"
| "problemDefinition problemKindPayloadTooLarge = kind_def ''payload-too-large'' 413 ''Payload Too Large''"
| "problemDefinition problemKindUnsupportedMediaType =
     kind_def ''unsupported-media-type'' 415 ''Unsupported Media Type''"
| "problemDefinition problemKindUnprocessableEntity = kind_def ''validation'' 422 ''Validation Error''"
| "problemDefinition problemKindTooManyRequests = kind_def ''too-many-requests'' 429 ''Too Many Requests''"
| "problemDefinition problemKindInternal = kind_def ''server-error'' 500 ''Internal Server Error''"
| "problemDefinition problemKindInvalid = None"

record ProblemKind =
  pk_id :: problemKindID
  pk_description :: string

definition pk_Code :: "ProblemKind \<Rightarrow> string" where
  "pk_Code k = (case problemDefinition (pk_id k) of Some d \<Rightarrow> pkd_code d | None \<Rightarrow> [])"

definition pk_Status :: "ProblemKind \<Rightarrow> int" where
  "pk_Status k = (case problemDefinition (pk_id k) of Some d \<Rightarrow> pkd_status d | None \<Rightarrow> 0)"

definition pk_Title :: "ProblemKind \<Rightarrow> string" where
  "pk_Title k = (case problemDefinition (pk_id k) of Some d \<Rightarrow> pkd_title d | None \<Rightarrow> [])"

definition pk_Type :: "ProblemKind \<Rightarrow> string" where
  "pk_Type k = (case problemDefinition (pk_id k) of Some d \<Rightarrow> pkd_typeURI d | None \<Rightarrow> [])"

definition pk_valid :: "ProblemKind \<Rightarrow> bool" where
  "pk_valid k \<longleftrightarrow> problemDefinition (pk_id k) \<noteq> None"

definition pk_same :: "ProblemKind \<Rightarrow> ProblemKind \<Rightarrow> bool" where
  "pk_same k other \<longleftrightarrow> pk_id k \<noteq> problemKindInvalid \<and> pk_id k = pk_id other"

definition Described :: "ProblemKind \<Rightarrow> string \<Rightarrow> ProblemKind" where
  "Described k prose = k\<lparr>pk_description := prose\<rparr>"

definition kind_of :: "problemKindID \<Rightarrow> ProblemKind" where
  "kind_of i = \<lparr>pk_id = i, pk_description = []\<rparr>"

definition BadRequest :: ProblemKind where "BadRequest = kind_of problemKindBadRequest"

definition Unauthorized :: ProblemKind where "Unauthorized = kind_of problemKindUnauthorized"

definition Forbidden :: ProblemKind where "Forbidden = kind_of problemKindForbidden"

definition NotFound :: ProblemKind where "NotFound = kind_of problemKindNotFound"

definition Conflict :: ProblemKind where "Conflict = kind_of problemKindConflict"

definition PayloadTooLarge :: ProblemKind where "PayloadTooLarge = kind_of problemKindPayloadTooLarge"

definition UnsupportedMediaType :: ProblemKind where
  "UnsupportedMediaType = kind_of problemKindUnsupportedMediaType"

definition UnprocessableEntity :: ProblemKind where
  "UnprocessableEntity = kind_of problemKindUnprocessableEntity"

definition TooManyRequests :: ProblemKind where "TooManyRequests = kind_of problemKindTooManyRequests"

definition Internal :: ProblemKind where "Internal = kind_of problemKindInternal"

lemmas kind_constructors = BadRequest_def Unauthorized_def Forbidden_def NotFound_def Conflict_def
  PayloadTooLarge_def UnsupportedMediaType_def UnprocessableEntity_def TooManyRequests_def
  Internal_def kind_of_def


subsection \<open>Problem values\<close>

definition mk_problem :: "problemKindDefinition \<Rightarrow> problemKindID \<Rightarrow> string \<Rightarrow> ProblemDetails" where
  "mk_problem d i detail = ProblemDetails (pkd_typeURI d) (pkd_title d) (pkd_status d) detail [] [] None i"

text \<open>\<open>ProblemKind.New\<close>: an invalid kind becomes the stable 500.\<close>

definition pk_New :: "ProblemKind \<Rightarrow> string \<Rightarrow> ProblemDetails" where
  "pk_New k detail =
     (case problemDefinition (pk_id k) of
        Some d \<Rightarrow> mk_problem d (pk_id k) detail
      | None \<Rightarrow> (case problemDefinition problemKindInternal of
                   Some d \<Rightarrow> mk_problem d problemKindInternal ''internal error''
                 | None \<Rightarrow> ProblemDetails [] [] 0 ''internal error'' [] [] None problemKindInternal))"

definition set_extensions :: "(string \<times> ext_value) list \<Rightarrow> ProblemDetails \<Rightarrow> ProblemDetails" where
  "set_extensions x p = ProblemDetails (pd_type p) (pd_title p) (pd_status p) (pd_detail p)
     (pd_instance p) x (pd_err p) (pd_kind p)"

definition set_instance :: "string \<Rightarrow> ProblemDetails \<Rightarrow> ProblemDetails" where
  "set_instance i p = ProblemDetails (pd_type p) (pd_title p) (pd_status p) (pd_detail p)
     i (pd_extensions p) (pd_err p) (pd_kind p)"

text \<open>The kind owns type, title and status: they are restored on the dispatcher's copy.\<close>

definition restore_sealed :: "ProblemDetails \<Rightarrow> ProblemDetails" where
  "restore_sealed p =
     (case problemDefinition (pd_kind p) of
        Some d \<Rightarrow> ProblemDetails (pkd_typeURI d) (pkd_title d) (pkd_status d) (pd_detail p)
                    (pd_instance p) (pd_extensions p) (pd_err p) (pd_kind p)
      | None \<Rightarrow> p)"

definition NewBadRequestError :: "string \<Rightarrow> go_error" where
  "NewBadRequestError m = EProblem (pk_New BadRequest m)"

definition NewUnauthorizedError :: "string \<Rightarrow> go_error" where
  "NewUnauthorizedError m = EProblem (pk_New Unauthorized m)"

definition NewForbiddenError :: "string \<Rightarrow> go_error" where
  "NewForbiddenError m = EProblem (pk_New Forbidden m)"

definition NewNotFoundError :: "string \<Rightarrow> go_error" where
  "NewNotFoundError m = EProblem (pk_New NotFound m)"

definition NewConflictError :: "string \<Rightarrow> go_error" where
  "NewConflictError m = EProblem (pk_New Conflict m)"

definition NewInternalError :: "string \<Rightarrow> go_error" where
  "NewInternalError m = EProblem (pk_New Internal m)"

definition retryAfterExtension :: string where
  "retryAfterExtension = ''retry_after''"

text \<open>A \<open>time.Duration\<close> counts nanoseconds.\<close>

definition second :: int where
  "second = 1000000000"

definition NewTooManyRequestsError :: "string \<Rightarrow> int \<Rightarrow> go_error" where
  "NewTooManyRequestsError message retryAfter =
     (let problem = pk_New TooManyRequests message
      in EProblem (if retryAfter > 0
           then let seconds = (retryAfter - retryAfter mod second) div second;
                    seconds = (if retryAfter mod second \<noteq> 0 then seconds + 1 else seconds)
                in set_extensions [(retryAfterExtension, ExtInt seconds)] problem
           else problem))"

definition NewChallengeError :: "string \<Rightarrow> go_error" where
  "NewChallengeError challenge = EChallenge challenge"


subsection \<open>Problem plans\<close>

record problemPlan =
  pp_label :: string
  pp_allowed :: "problemKindID set"
  pp_allowChallenge :: bool

definition newProblemPlan :: "string \<Rightarrow> problemPlan" where
  "newProblemPlan label = \<lparr>pp_label = label, pp_allowed = {}, pp_allowChallenge = False\<rparr>"

definition allow :: "problemPlan \<Rightarrow> ProblemKind \<Rightarrow> problemPlan" where
  "allow p kind = (if \<not> pk_valid kind then p else p\<lparr>pp_allowed := insert (pk_id kind) (pp_allowed p)\<rparr>)"

text \<open>\<open>None\<close> is the nil plan, which permits everything.\<close>

definition permits :: "problemPlan option \<Rightarrow> problemKindID \<Rightarrow> bool" where
  "permits p kind = (case p of None \<Rightarrow> True | Some pl \<Rightarrow> kind \<in> pp_allowed pl)"

definition permitsChallenge :: "problemPlan option \<Rightarrow> bool" where
  "permitsChallenge p = (case p of None \<Rightarrow> True | Some pl \<Rightarrow> pp_allowChallenge pl)"

definition planLabel :: "problemPlan option \<Rightarrow> string" where
  "planLabel plan = (case plan of None \<Rightarrow> [] | Some pl \<Rightarrow> pp_label pl)"


subsection \<open>Errors to problems\<close>

definition formatValidationMessage :: "FieldError \<Rightarrow> string" where
  "formatValidationMessage v =
     (if fe_tag v = ''required'' then fe_field v @ '' is required''
      else if fe_tag v = ''email'' then fe_field v @ '' must be a valid email address''
      else if fe_tag v = ''min'' then fe_field v @ '' must be at least '' @ fe_param v @ '' characters''
      else if fe_tag v = ''max'' then fe_field v @ '' must not exceed '' @ fe_param v @ '' characters''
      else fe_field v @ '' is invalid'')"

definition formatValidationErrors :: "FieldError list \<Rightarrow> ValidationError list" where
  "formatValidationErrors vs = map (\<lambda>v. \<lparr>ve_field = fe_field v, ve_message = formatValidationMessage v\<rparr>) vs"

definition validProblemDetails :: "ProblemDetails \<Rightarrow> bool" where
  "validProblemDetails p \<longleftrightarrow>
     400 \<le> pd_status p \<and> pd_status p \<le> 599 \<and>
     trim_space (pd_type p) \<noteq> [] \<and> trim_space (pd_title p) \<noteq> []"

definition classifyDatabaseError :: "go_error \<Rightarrow> ProblemDetails option" where
  "classifyDatabaseError err =
     (if errors_is err PgxErrNoRows then Some (pk_New NotFound ''The requested resource was not found'')
      else case as_pg err of
             None \<Rightarrow> None
           | Some code \<Rightarrow>
               Some (if code = ''23505'' then pk_New Conflict ''A resource with this information already exists''
                     else if code = ''23503'' then pk_New BadRequest ''Invalid reference to another resource''
                     else if code = ''23514'' \<or> code = ''23502''
                       then pk_New BadRequest ''The request violates data constraints''
                     else if code = ''22P02'' \<or> code = ''22001'' \<or> code = ''22003''
                       then pk_New BadRequest ''A value in the request is invalid or out of range''
                     else pk_New Internal ''A database error occurred''))"

definition errorToProblemDetails :: "go_error \<Rightarrow> bool \<Rightarrow> ProblemDetails \<times> bool \<times> problemKindID" where
  "errorToProblemDetails err classifyValidation =
     (case as_problem err of
        Some (Some pd) \<Rightarrow>
          (let problem = restore_sealed pd
           in if \<not> validProblemDetails problem
              then (pk_New Internal ''internal error'', True, problemKindInternal)
              else (problem, True, pd_kind problem))
      | _ \<Rightarrow>
          (case (if classifyValidation then as_validation err else None) of
             Some vs \<Rightarrow>
               (set_extensions [(''errors'', ExtErrors (formatValidationErrors vs))]
                  (pk_New UnprocessableEntity ''One or more fields are invalid''),
                False, problemKindUnprocessableEntity)
           | None \<Rightarrow>
               (case classifyDatabaseError err of
                  Some problem \<Rightarrow> (problem, True, pd_kind problem)
                | None \<Rightarrow> (pk_New Internal ''An unexpected error occurred'', False, problemKindInternal))))"


subsection \<open>Writing a problem\<close>

fun ext_json :: "ext_value \<Rightarrow> json" where
  "ext_json (ExtInt i) = JInt i"
| "ext_json (ExtErrors vs) =
     JArr (map (\<lambda>v. JObj [(''field'', JStr (ve_field v)), (''message'', JStr (ve_message v))]) vs)"
| "ext_json (ExtOther r) = JRaw r"

definition problem_json :: "ProblemDetails \<Rightarrow> json" where
  "problem_json p = JObj
     ([(''type'', JStr (pd_type p)), (''title'', JStr (pd_title p)), (''status'', JInt (pd_status p))] @
      (if pd_detail p = [] then [] else [(''detail'', JStr (pd_detail p))]) @
      (if pd_instance p = [] then [] else [(''instance'', JStr (pd_instance p))]) @
      (if pd_extensions p = [] then []
       else [(''extensions'', JObj (map (\<lambda>(k, v). (k, ext_json v)) (pd_extensions p)))]))"

text \<open>The literal of last resort; a double quote is the byte 0x22.\<close>

definition quoted :: "string \<Rightarrow> string" where
  "quoted s = CHR 0x22 # s @ [CHR 0x22]"

definition lastResortBody :: string where
  "lastResortBody = ''{'' @ quoted ''type'' @ '':'' @ quoted ''urn:tinker:error:server-error'' @ '',''
     @ quoted ''title'' @ '':'' @ quoted ''Internal Server Error'' @ '','' @ quoted ''status'' @ '':500,''
     @ quoted ''detail'' @ '':'' @ quoted ''internal error'' @ ''}''"

definition retry_header :: "ProblemDetails \<Rightarrow> response_writer \<Rightarrow> response_writer" where
  "retry_header problem w =
     (case map_of (pd_extensions problem) retryAfterExtension of
        Some (ExtInt s) \<Rightarrow> if s > 0 then set_header ''Retry-After'' (itoa s) w else w
      | _ \<Rightarrow> w)"

definition write_problem :: "ProblemDetails \<Rightarrow> string \<Rightarrow> response_writer \<Rightarrow> response_writer" where
  "write_problem problem body w =
     (let w = set_header ''Content-Type'' ''application/problem+json'' w;
          w = retry_header problem w;
          w = write_header (pd_status problem) w
      in write_body body w)"

text \<open>Every caller passes a non-nil problem.\<close>

definition writeProblemDetails :: "response_writer \<Rightarrow> ProblemDetails \<Rightarrow> response_writer" where
  "writeProblemDetails w problem0 =
     (let problem = (if \<not> validProblemDetails problem0 then pk_New Internal ''internal error'' else problem0)
      in case json_marshal (problem_json problem) of
           Some body \<Rightarrow> write_problem problem body w
         | None \<Rightarrow>
             (let w = log_event LevelError ''Failed to encode problem details'' w;
                  fallback = set_instance (pd_instance problem) (pk_New Internal ''internal error'')
              in case json_marshal (problem_json fallback) of
                   Some body \<Rightarrow> write_problem fallback body w
                 | None \<Rightarrow> write_problem fallback lastResortBody
                             (log_event LevelError ''Failed to encode fallback problem details'' w)))"


subsection \<open>The dispatcher\<close>

text \<open>The part of \<open>dispatchResolvedError\<close> after the challenge has been dealt with.\<close>

definition dispatchProblem ::
  "response_writer \<Rightarrow> 'c http_request option \<Rightarrow> go_error \<Rightarrow> problemPlan option \<Rightarrow> bool \<Rightarrow> bool
     \<Rightarrow> response_writer" where
  "dispatchProblem w r err plan enforceTyped classifyValidation =
     (case errorToProblemDetails err classifyValidation of
        (problem0, typed, kind) \<Rightarrow>
          (let undeclared = (enforceTyped \<and> typed \<and> \<not> permits plan kind);
               w = (if undeclared then log_event LevelError ''httpx: undeclared problem returned by handler'' w else w);
               problem = (if undeclared then pk_New Internal ''internal error'' else problem0)
           in case r of
                None \<Rightarrow> writeProblemDetails w problem
              | Some req \<Rightarrow>
                  (let w = (if pd_status problem \<ge> 500 then log_event LevelError ''httpx error report'' w
                            else log_event LevelWarn ''httpx client error'' w)
                   in writeProblemDetails w (set_instance (rq_method req @ '' '' @ rq_path req) problem))))"

definition dispatchResolvedError ::
  "response_writer \<Rightarrow> 'c http_request option \<Rightarrow> go_error option \<Rightarrow> problemPlan option \<Rightarrow> bool \<Rightarrow> bool
     \<Rightarrow> response_writer" where
  "dispatchResolvedError w r err plan enforceTyped classifyValidation =
     (case err of
        None \<Rightarrow> w
      | Some e \<Rightarrow>
          (case as_challenge e of
             Some challenge \<Rightarrow>
               if permitsChallenge plan then
                 (let w = (if r \<noteq> None then log_event LevelWarn ''httpx client error'' w else w)
                  in write_header 401 (add_header ''WWW-Authenticate'' challenge w))
               else dispatchProblem
                 (log_event LevelError ''httpx: undeclared authentication challenge returned'' w)
                 r (EProblem (pk_New Internal ''internal error'')) plan enforceTyped classifyValidation
           | None \<Rightarrow> dispatchProblem w r e plan enforceTyped classifyValidation))"

text \<open>\<open>Error\<close>, \<open>dispatchAdapterError\<close> and \<open>dispatchError\<close>.\<close>

definition httpx_Error :: "response_writer \<Rightarrow> 'c http_request option \<Rightarrow> go_error option \<Rightarrow> response_writer" where
  "httpx_Error w r err = dispatchResolvedError w r err None False True"

definition dispatchAdapterError ::
  "response_writer \<Rightarrow> 'c http_request option \<Rightarrow> go_error option \<Rightarrow> response_writer" where
  "dispatchAdapterError w r err = dispatchResolvedError w r err None False True"

definition dispatchError ::
  "response_writer \<Rightarrow> 'c http_request option \<Rightarrow> go_error option \<Rightarrow> problemPlan option \<Rightarrow> response_writer" where
  "dispatchError w r err plan = dispatchResolvedError w r err plan True False"


subsection \<open>Facts about kinds and problem values\<close>

declare kind_def_def [simp]

lemma set_instance_sel [simp]:
  "pd_type (set_instance i p) = pd_type p" "pd_title (set_instance i p) = pd_title p"
  "pd_status (set_instance i p) = pd_status p" "pd_detail (set_instance i p) = pd_detail p"
  "pd_instance (set_instance i p) = i" "pd_extensions (set_instance i p) = pd_extensions p"
  "pd_kind (set_instance i p) = pd_kind p"
  by (simp_all add: set_instance_def)

lemma set_extensions_sel [simp]:
  "pd_type (set_extensions x p) = pd_type p" "pd_title (set_extensions x p) = pd_title p"
  "pd_status (set_extensions x p) = pd_status p" "pd_detail (set_extensions x p) = pd_detail p"
  "pd_instance (set_extensions x p) = pd_instance p" "pd_extensions (set_extensions x p) = x"
  "pd_kind (set_extensions x p) = pd_kind p"
  by (simp_all add: set_extensions_def)

lemma validProblemDetails_set [simp]:
  "validProblemDetails (set_instance i p) = validProblemDetails p"
  "validProblemDetails (set_extensions x p) = validProblemDetails p"
  by (simp_all add: validProblemDetails_def)

lemma kind_titles_trimmed:
  "problemDefinition i = Some d \<Longrightarrow>
   trim_space (pkd_title d) = pkd_title d \<and> trim_space (pkd_typeURI d) = pkd_typeURI d \<and>
   pkd_title d \<noteq> [] \<and> pkd_typeURI d \<noteq> []"
  by (cases i) (auto simp: kind_def_def problemTypeNamespace_def space_seqs_def intro!: trim_space_id)

lemma kind_status_range: "problemDefinition i = Some d \<Longrightarrow> 400 \<le> pkd_status d \<and> pkd_status d \<le> 500"
  by (cases i) (auto simp: kind_def_def)

lemma problemDefinition_None_iff [simp]: "problemDefinition i = None \<longleftrightarrow> i = problemKindInvalid"
  by (cases i) (auto simp: kind_def_def)

lemma pk_valid_iff: "pk_valid k \<longleftrightarrow> pk_id k \<noteq> problemKindInvalid"
  by (simp add: pk_valid_def)

lemma kind_ids [simp]:
  "pk_id BadRequest = problemKindBadRequest" "pk_id Unauthorized = problemKindUnauthorized"
  "pk_id Forbidden = problemKindForbidden" "pk_id NotFound = problemKindNotFound"
  "pk_id Conflict = problemKindConflict" "pk_id PayloadTooLarge = problemKindPayloadTooLarge"
  "pk_id UnsupportedMediaType = problemKindUnsupportedMediaType"
  "pk_id UnprocessableEntity = problemKindUnprocessableEntity"
  "pk_id TooManyRequests = problemKindTooManyRequests" "pk_id Internal = problemKindInternal"
  by (simp_all add: kind_constructors)

lemma valid_kinds [simp]:
  "pk_valid BadRequest" "pk_valid Unauthorized" "pk_valid Forbidden" "pk_valid NotFound"
  "pk_valid Conflict" "pk_valid PayloadTooLarge" "pk_valid UnsupportedMediaType"
  "pk_valid UnprocessableEntity" "pk_valid TooManyRequests" "pk_valid Internal"
  by (simp_all add: pk_valid_iff kind_constructors)

lemma pk_New_valid:
  "pk_valid k \<Longrightarrow> pd_kind (pk_New k m) = pk_id k \<and> pd_status (pk_New k m) = pk_Status k \<and>
     pd_title (pk_New k m) = pk_Title k \<and> pd_type (pk_New k m) = pk_Type k \<and>
     pd_detail (pk_New k m) = m \<and> pd_extensions (pk_New k m) = [] \<and> pd_err (pk_New k m) = None"
  by (cases "problemDefinition (pk_id k)")
     (simp_all add: pk_New_def pk_valid_def pk_Status_def pk_Title_def pk_Type_def mk_problem_def)

lemma pk_New_validProblemDetails [simp]: "validProblemDetails (pk_New k m)"
proof (cases "problemDefinition (pk_id k)")
  case None
  then show ?thesis
    using kind_titles_trimmed [of problemKindInternal] kind_status_range [of problemKindInternal]
    by (simp add: pk_New_def validProblemDetails_def mk_problem_def)
next
  case (Some d)
  then show ?thesis using kind_titles_trimmed [OF Some] kind_status_range [OF Some]
    by (simp add: pk_New_def validProblemDetails_def mk_problem_def)
qed

lemma pk_New_Internal [simp]:
  "pd_status (pk_New Internal m) = 500" "pd_kind (pk_New Internal m) = problemKindInternal"
  "pd_extensions (pk_New Internal m) = []" "pd_detail (pk_New Internal m) = m"
  "pd_type (pk_New Internal m) = problemTypeNamespace @ ''server-error''"
  "pd_title (pk_New Internal m) = ''Internal Server Error''"
  by (simp_all add: pk_New_def Internal_def kind_of_def mk_problem_def)

lemma restore_sealed_kind [simp]: "pd_kind (restore_sealed p) = pd_kind p"
  by (simp add: restore_sealed_def split: option.splits)

lemma restore_sealed_fields:
  "problemDefinition (pd_kind p) = Some d \<Longrightarrow>
   pd_status (restore_sealed p) = pkd_status d \<and> pd_title (restore_sealed p) = pkd_title d \<and>
   pd_type (restore_sealed p) = pkd_typeURI d \<and> pd_detail (restore_sealed p) = pd_detail p \<and>
   pd_extensions (restore_sealed p) = pd_extensions p"
  by (simp add: restore_sealed_def)

lemma restore_sealed_valid: "pd_kind p \<noteq> problemKindInvalid \<Longrightarrow> validProblemDetails (restore_sealed p)"
proof -
  assume "pd_kind p \<noteq> problemKindInvalid"
  then obtain d where d: "problemDefinition (pd_kind p) = Some d" by fastforce
  then show ?thesis using restore_sealed_fields [OF d] kind_titles_trimmed [OF d] kind_status_range [OF d]
    by (simp add: validProblemDetails_def)
qed

lemma restore_sealed_New: "pk_valid k \<Longrightarrow> restore_sealed (pk_New k m) = pk_New k m"
  by (cases "problemDefinition (pk_id k)")
     (simp_all add: restore_sealed_def pk_New_def pk_valid_def mk_problem_def)


subsection \<open>Facts about the writer\<close>

lemma json_marshal_problem_ne: "json_marshal (problem_json p) = Some b \<Longrightarrow> b \<noteq> []"
  by (auto simp: problem_json_def json_marshal.simps(5) split: option.splits)

lemma body_allowed_error: "400 \<le> s \<Longrightarrow> body_allowed s"
  by (simp add: body_allowed_def)

lemma retry_header_frame [simp]:
  "rw_status (retry_header p w) = rw_status w" "rw_body (retry_header p w) = rw_body w"
  "rw_cookies (retry_header p w) = rw_cookies w"
  "header_get (rw_header (retry_header p w)) ''Content-Type'' = header_get (rw_header w) ''Content-Type''"
  by (simp_all add: retry_header_def set_header_def header_get_set_other
        split: option.splits ext_value.splits)

lemma write_problem_sent:
  assumes "rw_status w = None" and "validProblemDetails p"
  shows "rw_status (write_problem p b w) = Some (pd_status p)"
    and "sent_header (write_problem p b w) ''Content-Type'' = ''application/problem+json''"
    and "rw_body (write_problem p b w) = rw_body w @ b"
    and "rw_sent_cookies (write_problem p b w) = rw_cookies w"
proof -
  have "body_allowed (pd_status p)" using assms by (simp add: validProblemDetails_def body_allowed_error)
  then show "rw_status (write_problem p b w) = Some (pd_status p)"
    and "sent_header (write_problem p b w) ''Content-Type'' = ''application/problem+json''"
    and "rw_body (write_problem p b w) = rw_body w @ b"
    and "rw_sent_cookies (write_problem p b w) = rw_cookies w"
    using assms(1) by (simp_all add: write_problem_def write_header_def write_body_def sent_header_def
        set_header_def Let_def)
qed

lemma write_problem_retry:
  assumes "rw_status w = None" and "validProblemDetails p"
    and "map_of (pd_extensions p) retryAfterExtension = Some (ExtInt s)" and "0 < s"
  shows "sent_header (write_problem p b w) ''Retry-After'' = itoa s"
  using assms body_allowed_error [of "pd_status p"]
  by (simp add: write_problem_def retry_header_def wire_defs sent_header_def validProblemDetails_def)

lemma writeProblemDetails_ok:
  assumes "validProblemDetails p" and "json_marshal (problem_json p) = Some b"
  shows "writeProblemDetails w p = write_problem p b w"
  using assms by (simp add: writeProblemDetails_def)

text \<open>Whatever happens while encoding, a complete problem response is written.\<close>

lemma writeProblemDetails_cases:
  assumes "rw_status w = None"
  obtains p' b w' where "writeProblemDetails w p = write_problem p' b w'"
    and "rw_status w' = None" and "rw_body w' = rw_body w" and "rw_cookies w' = rw_cookies w"
    and "validProblemDetails p'" and "b \<noteq> []"
    and "p' = p \<and> validProblemDetails p \<or> pd_status p' = 500"
proof -
  define q where "q = (if \<not> validProblemDetails p then pk_New Internal ''internal error'' else p)"
  define f where "f = set_instance (pd_instance q) (pk_New Internal ''internal error'')"
  have q: "validProblemDetails q" "q = p \<and> validProblemDetails p \<or> pd_status q = 500"
    by (auto simp: q_def)
  have f: "validProblemDetails f" "pd_status f = 500" by (simp_all add: f_def)
  show thesis
  proof (cases "json_marshal (problem_json q)")
    case (Some b)
    then have "writeProblemDetails w p = write_problem q b w"
      by (simp add: writeProblemDetails_def q_def Let_def)
    with assms q json_marshal_problem_ne [OF Some] show thesis by (intro that [of q b w]) auto
  next
    case None
    have "\<exists>b w'. writeProblemDetails w p = write_problem f b w' \<and> rw_status w' = None \<and>
            rw_body w' = rw_body w \<and> rw_cookies w' = rw_cookies w \<and> b \<noteq> []"
    proof (cases "json_marshal (problem_json f)")
      case (Some b)
      with None assms json_marshal_problem_ne [OF Some] show ?thesis
        by (intro exI [of _ b] exI [of _ "log_event LevelError ''Failed to encode problem details'' w"])
           (simp add: writeProblemDetails_def q_def [symmetric] f_def [symmetric] Let_def)
    next
      case None
      with \<open>json_marshal (problem_json q) = None\<close> assms show ?thesis
        by (intro exI [of _ lastResortBody]
              exI [of _ "log_event LevelError ''Failed to encode fallback problem details''
                     (log_event LevelError ''Failed to encode problem details'' w)"])
           (simp add: writeProblemDetails_def q_def [symmetric] f_def [symmetric] Let_def lastResortBody_def)
    qed
    with f that show thesis by blast
  qed
qed

lemma writeProblemDetails_sent:
  assumes "uncommitted w"
  shows "\<exists>s. rw_status (writeProblemDetails w p) = Some s \<and> 400 \<le> s \<and> s \<le> 599 \<and>
           (s = 500 \<or> s = pd_status p \<and> validProblemDetails p) \<and>
           sent_header (writeProblemDetails w p) ''Content-Type'' = ''application/problem+json'' \<and>
           rw_body (writeProblemDetails w p) \<noteq> [] \<and>
           rw_sent_cookies (writeProblemDetails w p) = rw_cookies w"
proof -
  obtain p' b w' where *: "writeProblemDetails w p = write_problem p' b w'"
    "rw_status w' = None" "rw_body w' = rw_body w" "rw_cookies w' = rw_cookies w"
    "validProblemDetails p'" "b \<noteq> []" "p' = p \<and> validProblemDetails p \<or> pd_status p' = 500"
    using assms by (auto simp: uncommitted_def intro: writeProblemDetails_cases [of w p])
  from write_problem_sent [OF *(2,5), of b] * assms show ?thesis
    by (auto simp: validProblemDetails_def uncommitted_def)
qed


subsection \<open>Facts about the dispatcher\<close>

definition standard_problem :: "ProblemDetails \<Rightarrow> bool" where
  "standard_problem p \<longleftrightarrow> (\<exists>k m. pk_valid k \<and> p = pk_New k m)"

lemma standard_problem_New [simp]: "pk_valid k \<Longrightarrow> standard_problem (pk_New k m)"
  by (auto simp: standard_problem_def)

lemma classifyDatabaseError_standard: "classifyDatabaseError e = Some p \<Longrightarrow> standard_problem p"
  by (simp add: classifyDatabaseError_def split: option.splits if_split_asm)
     (drule sym, simp)+

lemma pk_New_definition:
  "pk_valid k \<Longrightarrow> problemDefinition (pd_kind (pk_New k m)) = Some d \<Longrightarrow>
     pd_status (pk_New k m) = pkd_status d \<and> pd_title (pk_New k m) = pkd_title d \<and>
     pd_type (pk_New k m) = pkd_typeURI d"
  using pk_New_valid [of k m] by (simp add: pk_Status_def pk_Title_def pk_Type_def)

lemma errorToProblemDetails_cases:
  assumes "errorToProblemDetails e c = (p, t, k)"
  obtains (typed) pd where "as_problem e = Some (Some pd)" "p = restore_sealed pd"
      "validProblemDetails p" "t" "k = pd_kind pd"
    | (built) k' m x where "pk_valid k'" "p = set_extensions x (pk_New k' m)" "k = pk_id k'"
      "\<not> t \<Longrightarrow> \<not> c \<Longrightarrow> k = problemKindInternal"
proof -
  have plain: "pk_New k' m = set_extensions [] (pk_New k' m)" if "pk_valid k'" for k' m
    using pk_New_valid [OF that, of m] by (cases "pk_New k' m") (simp add: set_extensions_def)
  consider (pd) pd where "as_problem e = Some (Some pd)"
    | (val) vs where "\<forall>pd. as_problem e \<noteq> Some (Some pd)" "c" "as_validation e = Some vs"
    | (rest) "\<forall>pd. as_problem e \<noteq> Some (Some pd)" "(if c then as_validation e else None) = None"
    by (cases "as_problem e"; cases "as_validation e"; cases c; force)
  then show thesis
  proof cases
    case (pd pd)
    show thesis
    proof (cases "validProblemDetails (restore_sealed pd)")
      case True
      with pd assms show thesis by (intro typed [of pd]) (auto simp: errorToProblemDetails_def)
    next
      case False
      with pd assms have "p = pk_New Internal ''internal error''" "k = problemKindInternal"
        by (auto simp: errorToProblemDetails_def)
      with plain [of Internal] show thesis
        by (intro built [of Internal "[]" "''internal error''"]) auto
    qed
  next
    case (val vs)
    with assms have "p = set_extensions [(''errors'', ExtErrors (formatValidationErrors vs))]
        (pk_New UnprocessableEntity ''One or more fields are invalid'')" "k = pk_id UnprocessableEntity"
      by (auto simp: errorToProblemDetails_def kind_constructors split: option.splits)
    with val(2) show thesis by (intro built [of UnprocessableEntity]) auto
  next
    case rest
    show thesis
    proof (cases "classifyDatabaseError e")
      case None
      with rest assms have "p = pk_New Internal ''An unexpected error occurred''" "k = pk_id Internal"
        by (auto simp: errorToProblemDetails_def kind_constructors split: option.splits)
      with plain [of Internal] show thesis
        by (intro built [of Internal "[]"]) auto
    next
      case (Some q)
      with rest assms have q: "p = q" "t" "k = pd_kind q"
        by (auto simp: errorToProblemDetails_def split: option.splits)
      obtain k' m where "pk_valid k'" "q = pk_New k' m" using classifyDatabaseError_standard [OF Some] by (auto simp: standard_problem_def)
      with q plain [of k' m] pk_New_valid [of k' m] show thesis by (intro built [of k' "[]" m]) auto
    qed
  qed
qed

lemma errorToProblemDetails_spec:
  assumes "errorToProblemDetails e c = (p, t, k)"
  shows "validProblemDetails p"
    and "problemDefinition k = Some d \<Longrightarrow>
           pd_status p = pkd_status d \<and> pd_title p = pkd_title d \<and> pd_type p = pkd_typeURI d"
    and "\<not> t \<Longrightarrow> \<not> c \<Longrightarrow> k = problemKindInternal"
    and "pd_kind p = k"
  using assms
  by (cases rule: errorToProblemDetails_cases; simp add: restore_sealed_fields pk_New_valid;
      metis pk_New_definition pk_New_valid)+

text \<open>The problem the dispatcher writes, before the request's instance is added.\<close>

definition resolved_problem :: "go_error \<Rightarrow> problemPlan option \<Rightarrow> bool \<Rightarrow> bool \<Rightarrow> ProblemDetails" where
  "resolved_problem e plan enforce classify =
     (case errorToProblemDetails e classify of
        (p, t, k) \<Rightarrow> if enforce \<and> t \<and> \<not> permits plan k then pk_New Internal ''internal error'' else p)"

definition with_instance :: "'c http_request option \<Rightarrow> ProblemDetails \<Rightarrow> ProblemDetails" where
  "with_instance r p = (case r of None \<Rightarrow> p | Some req \<Rightarrow> set_instance (rq_method req @ '' '' @ rq_path req) p)"

lemma with_instance_sel [simp]:
  "pd_status (with_instance r p) = pd_status p" "pd_extensions (with_instance r p) = pd_extensions p"
  "validProblemDetails (with_instance r p) = validProblemDetails p"
  by (simp_all add: with_instance_def split: option.splits)

lemma dispatchProblem_writes:
  "\<exists>w'. rw_status w' = rw_status w \<and> rw_body w' = rw_body w \<and> rw_cookies w' = rw_cookies w \<and>
     rw_header w' = rw_header w \<and>
     dispatchProblem w r e plan enforce classify =
       writeProblemDetails w' (with_instance r (resolved_problem e plan enforce classify))"
proof -
  obtain p t k where e: "errorToProblemDetails e classify = (p, t, k)"
    by (cases "errorToProblemDetails e classify")
  show ?thesis
  proof (cases r)
    case None
    with e show ?thesis
      by (intro exI [of _ "if enforce \<and> t \<and> \<not> permits plan k
            then log_event LevelError ''httpx: undeclared problem returned by handler'' w else w"])
         (simp add: dispatchProblem_def resolved_problem_def with_instance_def Let_def)
  next
    case (Some req)
    with e show ?thesis
      by (intro exI [of _ "(let u = (if enforce \<and> t \<and> \<not> permits plan k
              then log_event LevelError ''httpx: undeclared problem returned by handler'' w else w)
            in if pd_status (resolved_problem e plan enforce classify) \<ge> 500
               then log_event LevelError ''httpx error report'' u
               else log_event LevelWarn ''httpx client error'' u)"])
         (simp add: dispatchProblem_def resolved_problem_def with_instance_def Let_def)
  qed
qed

lemma dispatchProblem_sent:
  assumes "uncommitted w"
  shows "\<exists>s. rw_status (dispatchProblem w r e plan enforce classify) = Some s \<and>
           (s = 500 \<or> s = pd_status (resolved_problem e plan enforce classify)) \<and>
           rw_sent_cookies (dispatchProblem w r e plan enforce classify) = rw_cookies w"
proof -
  obtain w' where "rw_status w' = rw_status w" "rw_body w' = rw_body w" "rw_cookies w' = rw_cookies w"
    "dispatchProblem w r e plan enforce classify =
       writeProblemDetails w' (with_instance r (resolved_problem e plan enforce classify))"
    using dispatchProblem_writes [of w r e plan enforce classify] by blast
  with assms writeProblemDetails_sent
    [of w' "with_instance r (resolved_problem e plan enforce classify)"]
  show ?thesis by (auto simp: uncommitted_def)
qed

lemma resolved_problem_declared:
  assumes "\<And>k. k \<in> pp_allowed plan \<Longrightarrow> k \<noteq> problemKindInvalid"
  shows "pd_status (resolved_problem e (Some plan) True False) = 500 \<or>
         (\<exists>k \<in> pp_allowed plan. \<exists>d. problemDefinition k = Some d \<and>
            pd_status (resolved_problem e (Some plan) True False) = pkd_status d)"
proof -
  obtain p t k where e: "errorToProblemDetails e False = (p, t, k)"
    by (cases "errorToProblemDetails e False")
  note spec = errorToProblemDetails_spec [OF e]
  show ?thesis
  proof (cases "t \<and> k \<in> pp_allowed plan")
    case True
    then obtain d where "problemDefinition k = Some d" using assms [of k] by fastforce
    with True e spec(2) [of d] show ?thesis by (auto simp: resolved_problem_def permits_def)
  next
    case False
    with e spec(3) spec(2) show ?thesis by (auto simp: resolved_problem_def permits_def)
  qed
qed

lemma pp_allowed_foldl:
  "pp_allowed (foldl allow pl ks) = pp_allowed pl \<union> {pk_id k |k. k \<in> set ks \<and> pk_valid k}"
  by (induction ks arbitrary: pl) (auto simp: allow_def)

lemma newProblemPlan_allowed [simp]: "pp_allowed (newProblemPlan l) = {}"
  by (simp add: newProblemPlan_def)


subsection \<open>Which problems can be encoded\<close>

lemma utf8_members [simp]:
  "valid_utf8 ''type''" "valid_utf8 ''title''" "valid_utf8 ''status''" "valid_utf8 ''detail''"
  "valid_utf8 ''instance''" "valid_utf8 ''extensions''"
  by (simp_all add: Let_def)

lemma problem_json_encodes_iff:
  "json_marshal (problem_json p) \<noteq> None \<longleftrightarrow>
     valid_utf8 (pd_type p) \<and> valid_utf8 (pd_title p) \<and> valid_utf8 (pd_detail p) \<and>
     valid_utf8 (pd_instance p) \<and>
     (\<forall>(k, v) \<in> set (pd_extensions p). valid_utf8 k \<and> json_marshal (ext_json v) \<noteq> None)"
proof -
  have ext: "json_marshal (JObj (map (\<lambda>(k, v). (k, ext_json v)) xs)) = None \<longleftrightarrow>
      (\<exists>(k, v) \<in> set xs. \<not> valid_utf8 k \<or> json_marshal (ext_json v) = None)" for xs
    by (simp only: json_marshal_obj_None_iff) force
  show ?thesis
    by (simp add: problem_json_def json_marshal_obj_None_iff ext case_prod_beta conj_ac
          del: not_None_eq)
qed

lemma kind_texts_utf8:
  "problemDefinition i = Some d \<Longrightarrow> valid_utf8 (pkd_title d) \<and> valid_utf8 (pkd_typeURI d)"
  by (cases i) (auto simp: problemTypeNamespace_def Let_def)

lemma restore_sealed_utf8:
  "pd_kind p \<noteq> problemKindInvalid \<Longrightarrow>
     valid_utf8 (pd_title (restore_sealed p)) \<and> valid_utf8 (pd_type (restore_sealed p))"
  using kind_texts_utf8 [of "pd_kind p"] restore_sealed_fields [of p]
  by (cases "problemDefinition (pd_kind p)") auto


subsection \<open>Properties\<close>

text \<open>The plan a guard or an operation compiles from its declared kinds.\<close>

abbreviation plan_for :: "string \<Rightarrow> ProblemKind list \<Rightarrow> bool \<Rightarrow> problemPlan" where
  "plan_for l ks ch \<equiv> (foldl allow (newProblemPlan l) ks)\<lparr>pp_allowChallenge := ch\<rparr>"

lemma dispatchError_outcome:
  assumes "uncommitted w"
  shows "\<exists>s. rw_status (dispatchError w r (Some e) (Some (plan_for l ks ch))) = Some s \<and>
           (s = 500 \<or> (\<exists>k \<in> set ks. pk_valid k \<and> s = pk_Status k) \<or>
            (ch \<and> as_challenge e \<noteq> None \<and> s = 401)) \<and>
           rw_sent_cookies (dispatchError w r (Some e) (Some (plan_for l ks ch))) = rw_cookies w"
proof -
  let ?plan = "plan_for l ks ch"
  have kinds: "\<exists>k \<in> set ks. pk_valid k \<and> s = pk_Status k"
    if "i \<in> pp_allowed ?plan" "problemDefinition i = Some d" "s = pkd_status d" for i d s
    using that by (auto simp: pp_allowed_foldl pk_Status_def)
  have ok: "i \<noteq> problemKindInvalid" if "i \<in> pp_allowed ?plan" for i
    using that by (auto simp: pp_allowed_foldl pk_valid_iff)
  have dispatched: "\<exists>s. rw_status (dispatchProblem w' r e' (Some ?plan) True False) = Some s \<and>
      (s = 500 \<or> (\<exists>k \<in> set ks. pk_valid k \<and> s = pk_Status k)) \<and>
      rw_sent_cookies (dispatchProblem w' r e' (Some ?plan) True False) = rw_cookies w'"
    if "uncommitted w'" for w' e'
    using dispatchProblem_sent [OF that, of r e' "Some ?plan" True False]
      resolved_problem_declared [of ?plan e', OF ok] kinds by metis
  show ?thesis
  proof (cases "as_challenge e")
    case None
    then show ?thesis using dispatched [OF assms, of e]
      by (auto simp: dispatchError_def dispatchResolvedError_def)
  next
    case (Some c)
    show ?thesis
    proof (cases ch)
      case True
      with Some assms show ?thesis
        by (auto simp: dispatchError_def dispatchResolvedError_def permitsChallenge_def uncommitted_def
              wire_defs Let_def)
    next
      case False
      with Some show ?thesis
        using dispatched [of "log_event LevelError ''httpx: undeclared authentication challenge returned'' w"] assms
        by (simp add: dispatchError_def dispatchResolvedError_def permitsChallenge_def)
    qed
  qed
qed

text \<open>
  C1. Declared-problem enforcement. However a guard or a typed handler fails, and whatever error
  value it returns, the dispatcher commits exactly one status, and that status is 500, the
  status of a kind the plan was compiled from, or the 401 of a challenge the plan allows.
\<close>

theorem dispatchError_declared_only:
  assumes "uncommitted w"
  shows "\<exists>s. rw_status (dispatchError w r (Some e) (Some (plan_for l ks ch))) = Some s \<and>
           (s = 500 \<or> (\<exists>k \<in> set ks. pk_valid k \<and> s = pk_Status k) \<or>
            (ch \<and> as_challenge e \<noteq> None \<and> s = 401))"
  using dispatchError_outcome [OF assms] by metis

theorem dispatchError_declared_only_witness:
  "\<exists>s. rw_status (dispatchError fresh_writer (None :: unit http_request option)
          (Some (NewNotFoundError ''gone'')) (Some (plan_for ''GET /x'' [Conflict] False))) = Some s \<and>
       (s = 500 \<or> s = 409)"
proof -
  have "uncommitted fresh_writer" by (simp add: uncommitted_def fresh_writer_def)
  from dispatchError_declared_only [OF this, where r = "None :: unit http_request option"
      and e = "NewNotFoundError ''gone''" and l = "''GET /x''" and ks = "[Conflict]" and ch = False]
  show ?thesis by (simp add: pk_Status_def)
qed

lemma dispatchError_resolves:
  assumes "uncommitted w" and "as_challenge e = None" and "as_problem e = Some (Some p)"
    and "k \<in> set ks" and "pk_valid k" and "pd_kind p = pk_id k"
  obtains w' where "rw_status w' = None" "rw_body w' = []"
    "dispatchError w r (Some e) (Some (plan_for l ks ch)) =
       writeProblemDetails w' (with_instance r (restore_sealed p))"
    "validProblemDetails (restore_sealed p)"
proof -
  let ?plan = "plan_for l ks ch"
  have valid: "validProblemDetails (restore_sealed p)"
    using assms(5,6) by (intro restore_sealed_valid) (simp add: pk_valid_iff)
  have "permits (Some ?plan) (pk_id k)"
    using assms(4,5) by (auto simp: permits_def pp_allowed_foldl)
  with valid assms(3,6) have "resolved_problem e (Some ?plan) True False = restore_sealed p"
    by (simp add: resolved_problem_def errorToProblemDetails_def)
  then obtain w' where "rw_status w' = None" "rw_body w' = []"
    "dispatchProblem w r e (Some ?plan) True False =
       writeProblemDetails w' (with_instance r (restore_sealed p))"
    using dispatchProblem_writes [of w r e "Some ?plan" True False] assms(1)
    by (auto simp: uncommitted_def)
  with valid assms(2) show thesis
    by (intro that [of w']) (simp_all add: dispatchError_def dispatchResolvedError_def)
qed

text \<open>
  C23. A declared typed problem reaches the wire with the status, title and type its kind owns,
  whatever the caller stored in those fields, together with the caller's detail and extensions
  and the request as the instance.
\<close>

theorem dispatchError_seals_declared_kind:
  assumes "uncommitted w" and "as_challenge e = None" and "as_problem e = Some (Some p)"
    and "k \<in> set ks" and "pk_valid k" and "pd_kind p = pk_id k"
    and "json_marshal (problem_json (with_instance r (restore_sealed p))) \<noteq> None"
  shows "rw_status (dispatchError w r (Some e) (Some (plan_for l ks ch))) = Some (pk_Status k) \<and>
         json_marshal (problem_json (with_instance r (restore_sealed p))) =
           Some (rw_body (dispatchError w r (Some e) (Some (plan_for l ks ch)))) \<and>
         sent_header (dispatchError w r (Some e) (Some (plan_for l ks ch))) ''Content-Type''
           = ''application/problem+json'' \<and>
         pd_status (restore_sealed p) = pk_Status k \<and> pd_title (restore_sealed p) = pk_Title k \<and>
         pd_type (restore_sealed p) = pk_Type k \<and> pd_detail (restore_sealed p) = pd_detail p \<and>
         pd_extensions (restore_sealed p) = pd_extensions p"
proof -
  obtain body where body: "json_marshal (problem_json (with_instance r (restore_sealed p))) = Some body"
    using assms(7) by blast
  obtain d where d: "problemDefinition (pk_id k) = Some d" using assms(5) unfolding pk_valid_def by blast
  then have d': "problemDefinition (pd_kind p) = Some d" by (simp add: assms(6))
  from assms(1-6) obtain w' where w': "rw_status w' = None" "rw_body w' = []"
    "dispatchError w r (Some e) (Some (plan_for l ks ch)) =
       writeProblemDetails w' (with_instance r (restore_sealed p))"
    "validProblemDetails (restore_sealed p)" by (rule dispatchError_resolves)
  with body show ?thesis
    using writeProblemDetails_ok [of "with_instance r (restore_sealed p)" body w'] d
      write_problem_sent [of w' "with_instance r (restore_sealed p)" body] restore_sealed_fields [OF d']
    by (simp add: pk_Status_def pk_Title_def pk_Type_def)
qed

theorem dispatchError_seals_declared_kind_witness:
  "rw_status (dispatchError fresh_writer (None :: unit http_request option)
      (Some (EWrap ''ctx'' [EProblem (ProblemDetails ''x'' ''y'' 200 ''gone'' [] [] None problemKindNotFound)]))
      (Some (plan_for ''GET /x'' [NotFound] False))) = Some 404"
proof -
  let ?p = "ProblemDetails ''x'' ''y'' 200 ''gone'' [] [] None problemKindNotFound"
  have u: "uncommitted fresh_writer" by (simp add: uncommitted_def fresh_writer_def)
  have "json_marshal (problem_json (with_instance (None :: unit http_request option) (restore_sealed ?p))) \<noteq> None"
    unfolding problem_json_encodes_iff
    by (simp add: with_instance_def restore_sealed_def problemTypeNamespace_def Let_def)
  then show ?thesis
    using dispatchError_seals_declared_kind [OF u, where e = "EWrap ''ctx'' [EProblem ?p]" and p = ?p
        and k = NotFound and ks = "[NotFound]" and r = "None :: unit http_request option"
        and l = "''GET /x''" and ch = False]
    by (simp add: as_challenge_def as_problem_def pk_Status_def)
qed

text \<open>
  C31. The problem writer never leaves a response half written: on an uncommitted writer, and
  whatever problem it is given (out of vocabulary, or with members that cannot be encoded), it
  commits one 4xx or 5xx status, the problem media type and a non-empty body, and it sends no
  cookie that was not already set.
\<close>

theorem writeProblemDetails_complete:
  assumes "uncommitted w"
  shows "\<exists>s. rw_status (writeProblemDetails w p) = Some s \<and> 400 \<le> s \<and> s \<le> 599 \<and>
           (s = 500 \<or> s = pd_status p \<and> validProblemDetails p) \<and>
           sent_header (writeProblemDetails w p) ''Content-Type'' = ''application/problem+json'' \<and>
           rw_body (writeProblemDetails w p) \<noteq> [] \<and>
           rw_sent_cookies (writeProblemDetails w p) = rw_cookies w"
  using writeProblemDetails_sent [OF assms] .

theorem writeProblemDetails_complete_witness:
  "rw_status (writeProblemDetails fresh_writer
     (ProblemDetails ''t'' ''u'' 200 [] [] [] None problemKindInvalid)) = Some 500"
proof -
  have "uncommitted fresh_writer" by (simp add: uncommitted_def fresh_writer_def)
  from writeProblemDetails_complete [OF this, of "ProblemDetails ''t'' ''u'' 200 [] [] [] None problemKindInvalid"]
  show ?thesis by (auto simp: validProblemDetails_def)
qed

lemma second_pos: "0 < second"
  by (simp add: second_def)

lemma retry_seconds:
  assumes "0 < d"
  defines "s \<equiv> (let q = (d - d mod second) div second in if d mod second \<noteq> 0 then q + 1 else q)"
  shows "(s - 1) * second < d" and "d \<le> s * second" and "0 < s"
proof -
  have m: "0 \<le> d mod second" "d mod second < second" by (simp_all add: second_def)
  have q: "(d - d mod second) div second = d div second"
    by (simp add: minus_mod_eq_mult_div second_def)
  have d: "d = second * (d div second) + d mod second" by simp
  have s: "s = (if d mod second \<noteq> 0 then d div second + 1 else d div second)" by (simp add: s_def Let_def q)
  have bounds: "(s - 1) * second < d \<and> d \<le> s * second"
  proof (cases "d mod second = 0")
    case True
    then have "s * second = d" using d by (simp add: s mult.commute)
    moreover have "(s - 1) * second = s * second - second" by (simp add: left_diff_distrib)
    ultimately show ?thesis using second_pos by linarith
  next
    case False
    then have "(s - 1) * second = d - d mod second" "s * second = d - d mod second + second"
      by (simp_all add: s distrib_right distrib_left mult.commute minus_mod_eq_mult_div)
    with False m show ?thesis by linarith
  qed
  then show "(s - 1) * second < d" "d \<le> s * second" by blast+
  show "0 < s"
  proof (rule ccontr)
    assume "\<not> 0 < s"
    then have "s * second \<le> 0" by (simp add: second_def)
    with \<open>d \<le> s * second\<close> assms(1) show False by simp
  qed
qed

text \<open>
  C38. A rate-limit rejection tells the client the wait in whole seconds, rounded up: the
  \<open>Retry-After\<close> header the dispatcher sends for \<open>NewTooManyRequestsError\<close> is the least number
  of seconds that covers the duration.
\<close>

theorem tooManyRequests_retry_after:
  assumes "uncommitted w" and "0 < d" and "TooManyRequests \<in> set ks" and "valid_utf8 m"
    and "case r of None \<Rightarrow> True | Some req \<Rightarrow> valid_utf8 (rq_method req @ '' '' @ rq_path req)"
  shows "\<exists>s. sent_header (dispatchError w r (Some (NewTooManyRequestsError m d)) (Some (plan_for l ks ch)))
              ''Retry-After'' = itoa s \<and> (s - 1) * second < d \<and> d \<le> s * second \<and>
           rw_status (dispatchError w r (Some (NewTooManyRequestsError m d)) (Some (plan_for l ks ch))) = Some 429"
proof -
  define s where "s = (let q = (d - d mod second) div second in if d mod second \<noteq> 0 then q + 1 else q)"
  define p where "p = set_extensions [(retryAfterExtension, ExtInt s)] (pk_New TooManyRequests m)"
  have kind: "pd_kind p = pk_id TooManyRequests" by (simp add: p_def pk_New_valid)
  have e: "NewTooManyRequestsError m d = EProblem p"
    using assms(2) by (simp add: NewTooManyRequestsError_def p_def s_def Let_def)
  have err: "pd_err p = None" by (simp add: p_def pk_New_valid set_extensions_def)
  have ac: "as_challenge (EProblem p) = None" by (simp add: as_challenge_def err)
  have ap: "as_problem (EProblem p) = Some (Some p)" by (simp add: as_problem_def)
  have pv: "pk_valid TooManyRequests" by (simp add: pk_valid_def)
  obtain w' where w': "rw_status w' = None" "rw_body w' = []"
    "dispatchError w r (Some (EProblem p)) (Some (plan_for l ks ch)) =
       writeProblemDetails w' (with_instance r (restore_sealed p))"
    "validProblemDetails (restore_sealed p)"
    using dispatchError_resolves [OF assms(1) ac ap assms(3) pv kind] by blast
  have fields: "pd_status (restore_sealed p) = 429" "pd_extensions (restore_sealed p) = [(retryAfterExtension, ExtInt s)]"
    "pd_detail (restore_sealed p) = m" "pd_instance (restore_sealed p) = []"
    by (simp_all add: restore_sealed_def p_def pk_New_valid pk_New_def mk_problem_def)
  have "json_marshal (problem_json (with_instance r (restore_sealed p))) \<noteq> None"
    unfolding problem_json_encodes_iff using assms(4,5) restore_sealed_utf8 [of p] kind fields
    by (auto simp: with_instance_def retryAfterExtension_def Let_def split: option.splits)
  then obtain b where "json_marshal (problem_json (with_instance r (restore_sealed p))) = Some b" by blast
  then have "dispatchError w r (Some (EProblem p)) (Some (plan_for l ks ch)) =
      write_problem (with_instance r (restore_sealed p)) b w'"
    using w' by (simp add: writeProblemDetails_ok)
  then show ?thesis
    using write_problem_retry [of w' "with_instance r (restore_sealed p)" s b]
      write_problem_sent(1) [of w' "with_instance r (restore_sealed p)" b] w' fields
      retry_seconds [OF assms(2)]
    by (auto simp: e s_def)
qed

theorem tooManyRequests_retry_after_witness:
  "\<exists>s. sent_header (dispatchError fresh_writer (None :: unit http_request option)
          (Some (NewTooManyRequestsError ''slow down'' 1500000000))
          (Some (plan_for ''POST /login'' [TooManyRequests] False))) ''Retry-After'' = itoa s \<and>
       (s - 1) * second < 1500000000 \<and> 1500000000 \<le> s * second"
proof -
  have u: "uncommitted fresh_writer" by (simp add: uncommitted_def fresh_writer_def)
  have "valid_utf8 ''slow down''" by (simp add: Let_def)
  with u show ?thesis
    using tooManyRequests_retry_after [where w = fresh_writer and d = 1500000000 and ks = "[TooManyRequests]"
        and m = "''slow down''" and r = "None :: unit http_request option" and l = "''POST /login''" and ch = False]
    by auto
qed

text \<open>
  A request path that is not valid UTF-8 (a percent-encoded byte such as 0xFF) makes every
  problem response a 500: the path becomes the problem's instance, encoding it fails, and so
  does the fallback that copies the instance. The declared status of the failure is lost.
\<close>

theorem invalid_utf8_path_is_500:
  assumes "uncommitted w" and "\<not> valid_utf8 (rq_path req)"
    and "\<And>c. c \<in> set (rq_method req) \<Longrightarrow> (of_char c :: nat) < 0x80" and "as_challenge e = None"
  shows "rw_status (dispatchError w (Some req) (Some e) plan) = Some 500 \<and>
         rw_body (dispatchError w (Some req) (Some e) plan) = lastResortBody"
proof -
  have ascii: "(of_char c :: nat) < 0x80" if "c \<in> set (rq_method req @ '' '')" for c
    using that assms(3) [of c] by auto
  have inst: "\<not> valid_utf8 (rq_method req @ '' '' @ rq_path req)"
    using invalid_after_ascii [of "rq_method req @ '' ''" "rq_path req", OF ascii] assms(2) by simp
  let ?q = "with_instance (Some req) (resolved_problem e plan True False)"
  have "pd_instance ?q = rq_method req @ '' '' @ rq_path req" by (simp add: with_instance_def)
  with inst have n: "json_marshal (problem_json ?q) = None"
      "json_marshal (problem_json (set_instance (pd_instance ?q) (pk_New Internal ''internal error''))) = None"
    using problem_json_encodes_iff [of ?q]
      problem_json_encodes_iff [of "set_instance (pd_instance ?q) (pk_New Internal ''internal error'')"]
    by auto
  have valid: "validProblemDetails ?q"
  proof -
    obtain p t k where "errorToProblemDetails e False = (p, t, k)" by (cases "errorToProblemDetails e False")
    with errorToProblemDetails_spec(1) [OF this] show ?thesis by (simp add: resolved_problem_def)
  qed
  obtain w' where w': "rw_status w' = None" "rw_body w' = []"
    "dispatchProblem w (Some req) e plan True False = writeProblemDetails w' ?q"
    using dispatchProblem_writes [of w "Some req" e plan True False] assms(1) by (auto simp: uncommitted_def)
  have "writeProblemDetails w' ?q =
      write_problem (set_instance (pd_instance ?q) (pk_New Internal ''internal error'')) lastResortBody
        (log_event LevelError ''Failed to encode fallback problem details''
          (log_event LevelError ''Failed to encode problem details'' w'))"
    using n valid by (simp add: writeProblemDetails_def Let_def)
  with w' assms(4) show ?thesis
    using write_problem_sent [of "log_event LevelError ''Failed to encode fallback problem details''
          (log_event LevelError ''Failed to encode problem details'' w')"
        "set_instance (pd_instance ?q) (pk_New Internal ''internal error'')" lastResortBody]
    by (simp add: dispatchError_def dispatchResolvedError_def)
qed

theorem invalid_utf8_path_is_500_witness:
  "rw_status (dispatchError fresh_writer
     (Some \<lparr>rq_method = ''GET'', rq_path = CHR ''/'' # [CHR 0xFF], rq_header = Map.empty, rq_query = (\<lambda>_. []),
        rq_cookies = [], rq_remote = [], rq_body = None, rq_content_length = 0, rq_ctx = ()\<rparr>)
     (Some (NewUnauthorizedError ''no'')) (Some (plan_for ''guard'' [Unauthorized] False))) = Some 500"
proof -
  let ?req = "\<lparr>rq_method = ''GET'', rq_path = CHR ''/'' # [CHR 0xFF], rq_header = Map.empty, rq_query = (\<lambda>_. []),
        rq_cookies = [], rq_remote = [], rq_body = None, rq_content_length = 0, rq_ctx = ()\<rparr>"
  have u: "uncommitted fresh_writer" by (simp add: uncommitted_def fresh_writer_def)
  have bad: "\<not> valid_utf8 (rq_path ?req)" by (simp add: Let_def)
  have ascii: "(of_char c :: nat) < 0x80" if "c \<in> set (rq_method ?req)" for c using that by auto
  have "as_challenge (NewUnauthorizedError ''no'') = None"
    by (simp add: NewUnauthorizedError_def as_challenge_def pk_New_valid)
  with invalid_utf8_path_is_500 [OF u bad ascii, of "NewUnauthorizedError ''no''"] show ?thesis by simp
qed

end
