(* ===== verification/Guard.thy ===== *)
theory Guard
  imports Acl Problem "HOL-Library.AList"
begin

text \<open>
  \<^verbatim>\<open>internal/httpx/guard.go\<close>: the OR-of-AND credential algebra, the sealed \<open>Guard\<close> value with its
  checked constructor, and the middleware that runs a guard in front of a handler; and the fold
  of an operation's own guards (\<open>wrapRouteGuards\<close> in \<^verbatim>\<open>internal/httpx/declaration.go\<close>).

  A credential set is a Go map from scheme to scopes: the association list of its entries in the
  order an iteration visits them, with distinct keys (\<open>wf_credentials\<close>).
\<close>

subsection \<open>Credential algebra\<close>

type_synonym CredentialSet = "(string \<times> string list) list"

record RequirementSet =
  Alternatives :: "CredentialSet list"

definition SecuritySchemeBearerAuth :: string where
  "SecuritySchemeBearerAuth = ''BearerAuth''"

definition SecuritySchemeRefreshToken :: string where
  "SecuritySchemeRefreshToken = ''RefreshTokenCookieAuth''"

definition SecuritySchemeBasicAuth :: string where
  "SecuritySchemeBasicAuth = ''BasicAuth''"

definition knownSecuritySchemes :: "string list" where
  "knownSecuritySchemes = [SecuritySchemeBearerAuth, SecuritySchemeRefreshToken, SecuritySchemeBasicAuth]"

definition IsKnownSecurityScheme :: "string \<Rightarrow> bool" where
  "IsKnownSecurityScheme name \<longleftrightarrow> name \<in> set knownSecuritySchemes"

definition empty_requirement :: RequirementSet where
  "empty_requirement = \<lparr>Alternatives = []\<rparr>"

definition Requires :: "string list \<Rightarrow> RequirementSet" where
  "Requires schemes =
     (if schemes = [] then empty_requirement
      else let s = fold (\<lambda>scheme acc.
                     if scheme = [] then acc
                     else if map_of acc scheme = None then AList.update scheme [] acc else acc) schemes []
           in if s = [] then empty_requirement else \<lparr>Alternatives = [s]\<rparr>)"

definition NoCredential :: RequirementSet where
  "NoCredential = \<lparr>Alternatives = [[]]\<rparr>"

text \<open>Copying normalises a nil scope list to an empty one; both are \<open>[]\<close> here.\<close>

definition copyScopes :: "string list \<Rightarrow> string list" where
  "copyScopes scopes = map (\<lambda>s. s) scopes"

definition cloneCredentialSet :: "CredentialSet \<Rightarrow> CredentialSet" where
  "cloneCredentialSet c = map (\<lambda>(scheme, scopes). (scheme, copyScopes scopes)) c"

definition cloneRequirementSet :: "RequirementSet \<Rightarrow> RequirementSet" where
  "cloneRequirementSet r = \<lparr>Alternatives = map cloneCredentialSet (Alternatives r)\<rparr>"

definition sameCredentials :: "CredentialSet \<Rightarrow> CredentialSet \<Rightarrow> bool" where
  "sameCredentials a b \<longleftrightarrow>
     length a = length b \<and>
     list_all (\<lambda>(scheme, scopes).
        case map_of b scheme of
          None \<Rightarrow> False
        | Some other \<Rightarrow> length other = length scopes \<and> list_all2 (=) scopes other) a"

text \<open>\<open>or\<close> appends an alternative unless an identical one is already present.\<close>

definition or_alternative :: "RequirementSet \<Rightarrow> CredentialSet \<Rightarrow> RequirementSet" where
  "or_alternative r alt =
     (if list_ex (\<lambda>existing. sameCredentials existing alt) (Alternatives r) then r
      else r\<lparr>Alternatives := Alternatives r @ [cloneCredentialSet alt]\<rparr>)"

definition AnyOf :: "CredentialSet list \<Rightarrow> RequirementSet" where
  "AnyOf alternatives = foldl or_alternative empty_requirement alternatives"

definition Unstated :: "RequirementSet \<Rightarrow> bool" where
  "Unstated r \<longleftrightarrow> length (Alternatives r) = 0"

definition AllowsAnonymous :: "RequirementSet \<Rightarrow> bool" where
  "AllowsAnonymous r \<longleftrightarrow> list_ex (\<lambda>alt. length alt = 0) (Alternatives r)"

definition add_scopes :: "string list \<Rightarrow> string list \<Rightarrow> string list" where
  "add_scopes existing scopes =
     foldl (\<lambda>ex scope. if scope \<in> set ex then ex else ex @ [scope]) existing scopes"

definition merge_entry :: "CredentialSet \<Rightarrow> string \<times> string list \<Rightarrow> CredentialSet" where
  "merge_entry out e =
     (case e of (scheme, scopes) \<Rightarrow>
        (case map_of out scheme of
           None \<Rightarrow> AList.update scheme (copyScopes scopes) out
         | Some existing \<Rightarrow> AList.update scheme (add_scopes existing scopes) out))"

definition mergeCredentials :: "CredentialSet \<Rightarrow> CredentialSet \<Rightarrow> CredentialSet" where
  "mergeCredentials a b = foldl merge_entry (cloneCredentialSet a) b"

definition And :: "RequirementSet \<Rightarrow> RequirementSet \<Rightarrow> RequirementSet" where
  "And r other =
     (if Unstated other then cloneRequirementSet r
      else if Unstated r then cloneRequirementSet other
      else foldl or_alternative empty_requirement
             (concat (map (\<lambda>left. map (\<lambda>right. mergeCredentials left right) (Alternatives other))
                (Alternatives r))))"


subsection \<open>Requirement validation\<close>

text \<open>
  The error values carry what the messages are formatted from; the label is the prefix of the
  message. The repeated-scope check of the source follows the check that rejects any scope.
\<close>

datatype requirement_error =
    UnknownScheme string nat string
  | ScopedScheme string string
  | RepeatedScope string string string

fun repeated_scope :: "string list \<Rightarrow> string list \<Rightarrow> string option" where
  "repeated_scope seen [] = None"
| "repeated_scope seen (s # ss) = (if s \<in> set seen then Some s else repeated_scope (s # seen) ss)"

fun validate_schemes :: "string \<Rightarrow> nat \<Rightarrow> CredentialSet \<Rightarrow> string list \<Rightarrow> requirement_error option" where
  "validate_schemes label i alternative [] = None"
| "validate_schemes label i alternative (scheme # schemes) =
     (let scopes = (case map_of alternative scheme of None \<Rightarrow> [] | Some s \<Rightarrow> s)
      in if \<not> IsKnownSecurityScheme scheme then Some (UnknownScheme label i scheme)
         else if length scopes > 0 then Some (ScopedScheme label scheme)
         else case repeated_scope [] scopes of
                Some s \<Rightarrow> Some (RepeatedScope label scheme s)
              | None \<Rightarrow> validate_schemes label i alternative schemes)"

fun validate_alternatives :: "string \<Rightarrow> nat \<Rightarrow> CredentialSet list \<Rightarrow> requirement_error option" where
  "validate_alternatives label i [] = None"
| "validate_alternatives label i (alternative # rest) =
     (case validate_schemes label i alternative (sort (map fst alternative)) of
        Some e \<Rightarrow> Some e
      | None \<Rightarrow> validate_alternatives label (Suc i) rest)"

definition validateRequirementSet :: "string \<Rightarrow> RequirementSet \<Rightarrow> requirement_error option" where
  "validateRequirementSet label requirement = validate_alternatives label 0 (Alternatives requirement)"


subsection \<open>Guards\<close>

definition ModeSingle :: string where "ModeSingle = ''single''"

definition ModeAny :: string where "ModeAny = ''any''"

definition ModeAll :: string where "ModeAll = ''all''"

text \<open>
  A check inspects the request and gives the request the rest of the chain sees, or an error;
  it may wrongly give neither. \<open>None\<close> is the nil function.
\<close>

type_synonym 'c guard_check = "'c http_request \<Rightarrow> 'c http_request option \<times> go_error option"

record 'c Guard =
  gd_id :: string
  gd_check :: "'c guard_check option"
  gd_credentials :: RequirementSet
  gd_problems :: "ProblemKind list"
  gd_permissions :: "Slug list"
  gd_permissionMode :: string
  gd_note :: string
  gd_fallbackNote :: string
  gd_challenge :: bool

record 'c GuardConfig =
  gc_ID :: string
  gc_Check :: "'c guard_check option"
  gc_Credentials :: RequirementSet
  gc_Problems :: "ProblemKind list"
  gc_Permissions :: "Slug list"
  gc_PermissionMode :: string
  gc_Note :: string
  gc_FallbackNote :: string
  gc_Challenge :: bool

datatype guard_error =
    EmptyID
  | NilCheck string
  | BadCredentials requirement_error
  | UnknownProblemKind string
  | ProblemNot4xx string string int
  | DuplicateProblem string string
  | ChallengeWithUnauthorized string
  | BadPermission string slug_error
  | ModeWithoutPermissions string string
  | ModeNotExplicit string nat
  | UnknownMode string string

fun check_problems :: "string \<Rightarrow> bool \<Rightarrow> problemKindID list \<Rightarrow> ProblemKind list \<Rightarrow> guard_error option" where
  "check_problems i challenge seen [] = None"
| "check_problems i challenge seen (p # ps) =
     (if \<not> pk_valid p then Some (UnknownProblemKind i)
      else if pk_Status p < 400 \<or> pk_Status p > 499 then Some (ProblemNot4xx i (pk_Code p) (pk_Status p))
      else if pk_id p \<in> set seen then Some (DuplicateProblem i (pk_Code p))
      else if challenge \<and> pk_same p Unauthorized then Some (ChallengeWithUnauthorized i)
      else check_problems i challenge (pk_id p # seen) ps)"

definition resolve_mode :: "string \<Rightarrow> Slug list \<Rightarrow> string \<Rightarrow> guard_error + string" where
  "resolve_mode i permissions mode =
     (if length permissions = 0 then (if mode \<noteq> [] then Inl (ModeWithoutPermissions i mode) else Inr mode)
      else if length permissions = 1 then Inr (if mode = [] then ModeSingle else mode)
      else if mode \<noteq> ModeAny \<and> mode \<noteq> ModeAll then Inl (ModeNotExplicit i (length permissions))
      else Inr mode)"

definition NewGuard :: "'c GuardConfig \<Rightarrow> guard_error + 'c Guard" where
  "NewGuard cfg =
     (if gc_ID cfg = [] then Inl EmptyID
      else if gc_Check cfg = None then Inl (NilCheck (gc_ID cfg))
      else case validateRequirementSet (''httpx: NewGuard('' @ gc_ID cfg @ '')'') (gc_Credentials cfg) of
        Some e \<Rightarrow> Inl (BadCredentials e)
      | None \<Rightarrow>
     (case check_problems (gc_ID cfg) (gc_Challenge cfg) [] (gc_Problems cfg) of
        Some e \<Rightarrow> Inl e
      | None \<Rightarrow>
     (case first_some Validate (gc_Permissions cfg) of
        Some e \<Rightarrow> Inl (BadPermission (gc_ID cfg) e)
      | None \<Rightarrow>
     (case resolve_mode (gc_ID cfg) (gc_Permissions cfg) (gc_PermissionMode cfg) of
        Inl e \<Rightarrow> Inl e
      | Inr mode \<Rightarrow>
          if mode \<noteq> [] \<and> mode \<noteq> ModeSingle \<and> mode \<noteq> ModeAny \<and> mode \<noteq> ModeAll
          then Inl (UnknownMode (gc_ID cfg) mode)
          else Inr \<lparr>gd_id = gc_ID cfg, gd_check = gc_Check cfg,
                    gd_credentials = cloneRequirementSet (gc_Credentials cfg),
                    gd_problems = gc_Problems cfg, gd_permissions = gc_Permissions cfg,
                    gd_permissionMode = mode, gd_note = gc_Note cfg,
                    gd_fallbackNote = gc_FallbackNote cfg, gd_challenge = gc_Challenge cfg\<rparr>))))"

text \<open>\<open>MustGuard\<close> panics where \<open>NewGuard\<close> fails: \<open>None\<close> is the panic.\<close>

definition MustGuard :: "'c GuardConfig \<Rightarrow> 'c Guard option" where
  "MustGuard cfg = (case NewGuard cfg of Inl _ \<Rightarrow> None | Inr g \<Rightarrow> Some g)"

definition guard_valid :: "'c Guard \<Rightarrow> bool" where
  "guard_valid g \<longleftrightarrow> gd_check g \<noteq> None \<and> gd_id g \<noteq> []"


subsection \<open>Middleware\<close>

text \<open>
  A handler reads a request and acts on the response writer and on the state \<open>'s\<close> of the rest of
  the program.
\<close>

type_synonym ('s, 'c) handler = "'c http_request \<Rightarrow> response_writer \<times> 's \<Rightarrow> response_writer \<times> 's"

definition guard_plan :: "'c Guard \<Rightarrow> problemPlan" where
  "guard_plan g = (foldl allow (newProblemPlan (''guard '' @ gd_id g)) (gd_problems g))
     \<lparr>pp_allowChallenge := gd_challenge g\<rparr>"

text \<open>Only valid guards are installed, so the check is never nil when a request arrives.\<close>

definition run_check :: "'c Guard \<Rightarrow> 'c guard_check" where
  "run_check g r = (case gd_check g of Some f \<Rightarrow> f r | None \<Rightarrow> (None, None))"

definition guardMiddleware :: "'c Guard \<Rightarrow> ('s, 'c) handler \<Rightarrow> ('s, 'c) handler" where
  "guardMiddleware g nxt r ws =
     (case ws of (w, s) \<Rightarrow>
        (case run_check g r of (checked, err) \<Rightarrow>
           (case err of
              Some e \<Rightarrow> (dispatchError w (Some r) (Some e) (Some (guard_plan g)), s)
            | None \<Rightarrow>
                (case checked of
                   None \<Rightarrow>
                     (dispatchError (log_event LevelError ''guard check returned nil request and nil error'' w)
                        (Some r) (Some (NewInternalError ''internal error'')) (Some (guard_plan g)), s)
                 | Some r' \<Rightarrow> nxt r' (w, s)))))"

definition wrapRouteGuards :: "('s, 'c) handler \<Rightarrow> 'c Guard list \<Rightarrow> ('s, 'c) handler" where
  "wrapRouteGuards h guards =
     (if length guards = 0 then h else foldr (\<lambda>g handler. guardMiddleware g handler) guards h)"


subsection \<open>What a requirement means\<close>

text \<open>
  \<open>G\<close> gives the scopes a caller's credential for a scheme grants, \<open>None\<close> where the caller presents
  none. An alternative is satisfied when all its schemes are presented together with their
  scopes; a requirement is met when it states nothing or one of its alternatives is satisfied.
\<close>

type_synonym grants = "string \<Rightarrow> string set option"

definition presents :: "grants \<Rightarrow> string \<Rightarrow> string list \<Rightarrow> bool" where
  "presents G scheme scopes \<longleftrightarrow> (case G scheme of None \<Rightarrow> False | Some g \<Rightarrow> list_all (\<lambda>s. s \<in> g) scopes)"

definition satisfies :: "grants \<Rightarrow> CredentialSet \<Rightarrow> bool" where
  "satisfies G alt \<longleftrightarrow> list_all (\<lambda>(scheme, scopes). presents G scheme scopes) alt"

definition meets :: "grants \<Rightarrow> RequirementSet \<Rightarrow> bool" where
  "meets G r \<longleftrightarrow> Unstated r \<or> list_ex (satisfies G) (Alternatives r)"

definition wf_credentials :: "CredentialSet \<Rightarrow> bool" where
  "wf_credentials c \<longleftrightarrow> distinct (map fst c)"

definition wf_requirement :: "RequirementSet \<Rightarrow> bool" where
  "wf_requirement r \<longleftrightarrow> list_all wf_credentials (Alternatives r)"

lemma copyScopes_id [simp]: "copyScopes s = s"
  by (simp add: copyScopes_def)

lemma cloneCredentialSet_id [simp]: "cloneCredentialSet c = c"
  by (induction c) (auto simp: cloneCredentialSet_def)

lemma cloneRequirementSet_id [simp]: "cloneRequirementSet r = r"
  by (simp add: cloneRequirementSet_def map_idI)

lemma satisfies_map_of:
  "wf_credentials c \<Longrightarrow> satisfies G c \<longleftrightarrow> (\<forall>k v. map_of c k = Some v \<longrightarrow> presents G k v)"
  by (auto simp: satisfies_def wf_credentials_def list_all_iff)

lemma list_all2_eq_list: "list_all2 (=) xs ys \<longleftrightarrow> xs = ys"
  by (simp add: list.rel_eq)

lemma sameCredentials_iff:
  assumes "wf_credentials a" and "wf_credentials b"
  shows "sameCredentials a b \<longleftrightarrow> map_of a = map_of b"
proof
  assume same: "sameCredentials a b"
  have sub: "map_of a \<subseteq>\<^sub>m map_of b"
  proof (rule map_le_def [THEN iffD2], rule ballI)
    fix k assume "k \<in> dom (map_of a)"
    then obtain v where v: "map_of a k = Some v" by blast
    then have "(k, v) \<in> set a" by (rule map_of_SomeD)
    with same have "map_of b k = Some v"
      by (auto simp: sameCredentials_def list_all_iff list_all2_eq_list split: option.splits)
    with v show "map_of a k = map_of b k" by simp
  qed
  moreover have "card (dom (map_of a)) = card (dom (map_of b))"
    using same assms
    by (simp add: sameCredentials_def dom_map_of_conv_image_fst wf_credentials_def distinct_card flip: set_map)
  then have "dom (map_of a) = dom (map_of b)"
    using sub by (intro card_subset_eq) (auto simp: finite_dom_map_of map_le_implies_dom_le)
  ultimately show "map_of a = map_of b"
    by (metis map_le_antisym map_le_def)
next
  assume eq: "map_of a = map_of b"
  then have "dom (map_of a) = dom (map_of b)" by simp
  with assms have "length a = length b"
    by (metis dom_map_of_conv_image_fst distinct_card length_map set_map wf_credentials_def)
  moreover have "map_of b k = Some v" if "(k, v) \<in> set a" for k v
    using that assms(1) eq by (metis map_of_is_SomeI wf_credentials_def)
  ultimately show "sameCredentials a b"
    by (auto simp: sameCredentials_def list_all_iff list_all2_eq_list)
qed

lemma set_add_scopes [simp]: "set (add_scopes ex scopes) = set ex \<union> set scopes"
proof (unfold add_scopes_def, induction scopes arbitrary: ex)
  case (Cons s ss)
  then show ?case by (auto simp: Cons.IH)
qed simp

lemma presents_add_scopes: "presents G k (add_scopes ex ss) \<longleftrightarrow> presents G k ex \<and> presents G k ss"
  by (auto simp: presents_def list_all_iff split: option.splits)

lemma merge_entry_wf: "wf_credentials out \<Longrightarrow> wf_credentials (merge_entry out e)"
  by (cases e) (auto simp: merge_entry_def wf_credentials_def distinct_update split: option.splits)

lemma merge_entry_satisfies:
  assumes "wf_credentials out"
  shows "satisfies G (merge_entry out (k, v)) \<longleftrightarrow> satisfies G out \<and> presents G k v"
  using assms merge_entry_wf [OF assms, of "(k, v)"]
  by (auto simp: satisfies_map_of merge_entry_def update_conv' presents_add_scopes split: option.splits if_splits)

lemma mergeCredentials_spec:
  "wf_credentials a \<Longrightarrow>
     wf_credentials (mergeCredentials a b) \<and>
     (satisfies G (mergeCredentials a b) \<longleftrightarrow> satisfies G a \<and> satisfies G b)"
proof (unfold mergeCredentials_def cloneCredentialSet_id, induction b arbitrary: a)
  case (Cons e b)
  then show ?case
    by (cases e) (simp add: merge_entry_wf merge_entry_satisfies, simp add: satisfies_def conj_ac)
qed (simp add: satisfies_def)

lemma or_alternative_wf:
  "wf_requirement r \<Longrightarrow> wf_credentials alt \<Longrightarrow> wf_requirement (or_alternative r alt)"
  by (simp add: or_alternative_def wf_requirement_def)

lemma or_alternative_satisfies:
  assumes "wf_requirement r" and "wf_credentials alt"
  shows "list_ex (satisfies G) (Alternatives (or_alternative r alt)) \<longleftrightarrow>
         list_ex (satisfies G) (Alternatives r) \<or> satisfies G alt"
proof (cases "list_ex (\<lambda>existing. sameCredentials existing alt) (Alternatives r)")
  case True
  then obtain c where "c \<in> set (Alternatives r)" "sameCredentials c alt" by (auto simp: list_ex_iff)
  moreover from this assms have "satisfies G c \<longleftrightarrow> satisfies G alt"
    by (simp add: sameCredentials_iff satisfies_map_of wf_requirement_def list_all_iff)
  ultimately show ?thesis using True by (auto simp: or_alternative_def list_ex_iff)
qed (simp add: or_alternative_def)

lemma or_alternative_stated [simp]: "Alternatives (or_alternative r alt) \<noteq> []"
  by (auto simp: or_alternative_def)

lemma foldl_or_alternative:
  assumes "wf_requirement r" and "list_all wf_credentials alts"
  shows "wf_requirement (foldl or_alternative r alts) \<and>
         (list_ex (satisfies G) (Alternatives (foldl or_alternative r alts)) \<longleftrightarrow>
            list_ex (satisfies G) (Alternatives r) \<or> list_ex (satisfies G) alts) \<and>
         (Alternatives (foldl or_alternative r alts) = [] \<longleftrightarrow> Alternatives r = [] \<and> alts = [])"
  using assms
proof (induction alts arbitrary: r)
  case (Cons alt alts)
  then show ?case by (simp add: or_alternative_wf or_alternative_satisfies)
qed simp

definition product_alternatives :: "RequirementSet \<Rightarrow> RequirementSet \<Rightarrow> CredentialSet list" where
  "product_alternatives r other =
     concat (map (\<lambda>left. map (\<lambda>right. mergeCredentials left right) (Alternatives other)) (Alternatives r))"

lemma product_alternatives_spec:
  assumes "wf_requirement r" and "wf_requirement s"
  shows "list_all wf_credentials (product_alternatives r s) \<and>
         (list_ex (satisfies G) (product_alternatives r s) \<longleftrightarrow>
            list_ex (satisfies G) (Alternatives r) \<and> list_ex (satisfies G) (Alternatives s)) \<and>
         (product_alternatives r s = [] \<longleftrightarrow> Alternatives r = [] \<or> Alternatives s = [])"
  using assms mergeCredentials_spec
  by (auto simp: product_alternatives_def list_all_iff list_ex_iff wf_requirement_def)

lemma empty_requirement_simps [simp]:
  "wf_requirement empty_requirement" "Alternatives empty_requirement = []" "meets G empty_requirement"
  by (simp_all add: empty_requirement_def wf_requirement_def meets_def Unstated_def)

lemma And_spec:
  assumes "wf_requirement r" and "wf_requirement s"
  shows "wf_requirement (And r s) \<and> (meets G (And r s) \<longleftrightarrow> meets G r \<and> meets G s) \<and>
         (Unstated (And r s) \<longleftrightarrow> Unstated r \<and> Unstated s)"
proof (cases "Unstated r \<or> Unstated s")
  case True
  with assms show ?thesis by (auto simp: And_def meets_def)
next
  case False
  then have "And r s = foldl or_alternative empty_requirement (product_alternatives r s)"
    by (simp add: And_def product_alternatives_def)
  with False show ?thesis
    using product_alternatives_spec [OF assms, of G]
      foldl_or_alternative [of empty_requirement "product_alternatives r s" G]
    by (auto simp: meets_def Unstated_def)
qed


subsection \<open>Requirement algebras\<close>

text \<open>
  What composing a guard chain needs from the algebra: a conjunction with a unit whose meaning
  is the conjunction of the meanings. The requirement of a whole chain then means that every
  guard's requirement is met.
\<close>

locale requirement_algebra =
  fixes conjoin :: "'r \<Rightarrow> 'r \<Rightarrow> 'r" and unstated :: 'r
    and wf :: "'r \<Rightarrow> bool" and means :: "'g \<Rightarrow> 'r \<Rightarrow> bool"
  assumes wf_unstated: "wf unstated" and means_unstated: "means g unstated"
    and wf_conjoin: "wf r \<Longrightarrow> wf s \<Longrightarrow> wf (conjoin r s)"
    and means_conjoin: "wf r \<Longrightarrow> wf s \<Longrightarrow> means g (conjoin r s) \<longleftrightarrow> means g r \<and> means g s"
begin

lemma chain_from:
  "wf r \<Longrightarrow> list_all wf rs \<Longrightarrow>
     wf (foldl conjoin r rs) \<and> (means g (foldl conjoin r rs) \<longleftrightarrow> means g r \<and> list_all (means g) rs)"
  by (induction rs arbitrary: r) (auto simp: wf_conjoin means_conjoin)

lemma chain:
  "list_all wf rs \<Longrightarrow>
     wf (foldl conjoin unstated rs) \<and> (means g (foldl conjoin unstated rs) \<longleftrightarrow> list_all (means g) rs)"
  using chain_from [OF wf_unstated] by (simp add: means_unstated)

end

interpretation credentials: requirement_algebra And empty_requirement wf_requirement meets
  using And_spec by unfold_locales auto

subsection \<open>What the constructor accepts\<close>

text \<open>The contract of a sealed guard, and of the configuration it is built from.\<close>

definition wf_modes :: "Slug list \<Rightarrow> string \<Rightarrow> bool" where
  "wf_modes permissions mode \<longleftrightarrow>
     (if permissions = [] then mode = []
      else if length permissions = 1 then mode \<in> {ModeSingle, ModeAny, ModeAll}
      else mode \<in> {ModeAny, ModeAll})"

definition wf_problems :: "bool \<Rightarrow> ProblemKind list \<Rightarrow> bool" where
  "wf_problems challenge ps \<longleftrightarrow>
     distinct (map pk_id ps) \<and> (\<forall>p \<in> set ps. pk_valid p \<and> 400 \<le> pk_Status p \<and> pk_Status p \<le> 499) \<and>
     (challenge \<longrightarrow> problemKindUnauthorized \<notin> pk_id ` set ps)"

definition documentable :: "RequirementSet \<Rightarrow> bool" where
  "documentable r \<longleftrightarrow>
     (\<forall>alt \<in> set (Alternatives r). \<forall>(scheme, scopes) \<in> set alt. IsKnownSecurityScheme scheme \<and> scopes = [])"

definition wf_guard :: "'c Guard \<Rightarrow> bool" where
  "wf_guard g \<longleftrightarrow>
     gd_id g \<noteq> [] \<and> gd_check g \<noteq> None \<and> documentable (gd_credentials g) \<and>
     wf_problems (gd_challenge g) (gd_problems g) \<and> (\<forall>p \<in> set (gd_permissions g). wf_slug p) \<and>
     wf_modes (gd_permissions g) (gd_permissionMode g)"

lemma check_problems_None:
  "check_problems i ch seen ps = None \<longleftrightarrow>
     wf_problems ch ps \<and> pk_id ` set ps \<inter> set seen = {}"
proof (induction ps arbitrary: seen)
  case (Cons p ps)
  have "pk_same p Unauthorized \<longleftrightarrow> pk_id p = problemKindUnauthorized"
    by (auto simp: pk_same_def kind_constructors)
  with Cons show ?case by (auto simp: wf_problems_def)
qed (simp add: wf_problems_def)

lemma validate_schemes_None:
  "validate_schemes label i alt schemes = None \<longleftrightarrow>
     (\<forall>s \<in> set schemes. IsKnownSecurityScheme s \<and> (case map_of alt s of None \<Rightarrow> True | Some scopes \<Rightarrow> scopes = []))"
  by (induction schemes) (auto simp: Let_def split: option.splits)

lemma validate_alternatives_None:
  assumes "list_all wf_credentials alts"
  shows "validate_alternatives label i alts = None \<longleftrightarrow> documentable \<lparr>Alternatives = alts\<rparr>"
  using assms
proof (induction alts arbitrary: i)
  case (Cons alt alts)
  then have d: "distinct (map fst alt)" by (simp add: wf_credentials_def)
  have "validate_schemes label i alt (sort (map fst alt)) = None \<longleftrightarrow>
      (\<forall>(scheme, scopes) \<in> set alt. IsKnownSecurityScheme scheme \<and> scopes = [])"
    using d by (auto simp: validate_schemes_None split: option.splits)
  with Cons show ?case by (auto simp: documentable_def split: option.splits)
qed (simp add: documentable_def)

lemma validateRequirementSet_None:
  "wf_requirement r \<Longrightarrow> validateRequirementSet label r = None \<longleftrightarrow> documentable r"
  by (cases r) (simp add: validateRequirementSet_def validate_alternatives_None wf_requirement_def)

lemma first_some_None: "first_some f xs = None \<longleftrightarrow> (\<forall>x \<in> set xs. f x = None)"
  by (induction xs) (auto split: option.splits)

lemma resolve_mode_wf:
  "(\<exists>m. resolve_mode i ps mode = Inr m \<and> (m = [] \<or> m = ModeSingle \<or> m = ModeAny \<or> m = ModeAll)) \<longleftrightarrow>
     wf_modes ps (if mode = [] \<and> length ps = 1 then ModeSingle else mode)"
  by (cases ps; cases "tl ps")
    (auto simp: resolve_mode_def wf_modes_def ModeSingle_def ModeAny_def ModeAll_def)

lemma resolve_mode_Inr:
  "resolve_mode i ps mode = Inr m \<Longrightarrow> m = (if mode = [] \<and> length ps = 1 then ModeSingle else mode)"
  by (auto simp: resolve_mode_def split: if_splits)

text \<open>The guard a configuration describes, with the mode the constructor defaults.\<close>

definition sealed :: "'c GuardConfig \<Rightarrow> 'c Guard" where
  "sealed cfg = \<lparr>gd_id = gc_ID cfg, gd_check = gc_Check cfg, gd_credentials = gc_Credentials cfg,
     gd_problems = gc_Problems cfg, gd_permissions = gc_Permissions cfg,
     gd_permissionMode = (if gc_PermissionMode cfg = [] \<and> length (gc_Permissions cfg) = 1 then ModeSingle
                          else gc_PermissionMode cfg),
     gd_note = gc_Note cfg, gd_fallbackNote = gc_FallbackNote cfg, gd_challenge = gc_Challenge cfg\<rparr>"

text \<open>
  C32. \<open>NewGuard\<close> is exact: it returns the sealed value precisely when the configuration describes
  a well-formed guard (an id, a check, only known schemes and no scopes, distinct 4xx problem
  kinds, no \<open>Unauthorized\<close> kind on a challenge guard, well-formed slugs, a permission mode that
  fits their number), and fails otherwise.
\<close>

theorem NewGuard_exact:
  assumes "wf_requirement (gc_Credentials cfg)"
  shows "(NewGuard cfg = Inr g) \<longleftrightarrow> g = sealed cfg \<and> wf_guard (sealed cfg)"
proof -
  have ok: "wf_guard (sealed cfg) \<longleftrightarrow>
      gc_ID cfg \<noteq> [] \<and> gc_Check cfg \<noteq> None \<and>
      validateRequirementSet (''httpx: NewGuard('' @ gc_ID cfg @ '')'') (gc_Credentials cfg) = None \<and>
      check_problems (gc_ID cfg) (gc_Challenge cfg) [] (gc_Problems cfg) = None \<and>
      first_some Validate (gc_Permissions cfg) = None \<and>
      (\<exists>m. resolve_mode (gc_ID cfg) (gc_Permissions cfg) (gc_PermissionMode cfg) = Inr m \<and>
           (m = [] \<or> m = ModeSingle \<or> m = ModeAny \<or> m = ModeAll))"
    unfolding resolve_mode_wf
    by (simp add: wf_guard_def sealed_def validateRequirementSet_None [OF assms] check_problems_None
        first_some_None Validate_None_iff)
  show ?thesis
    unfolding ok
    by (auto simp: NewGuard_def sealed_def dest: resolve_mode_Inr split: option.splits sum.splits if_splits)
qed

theorem NewGuard_exact_witness:
  "\<exists>g. NewGuard (\<lparr>gc_ID = ''can:user.read'', gc_Check = Some (\<lambda>r. (Some r, None)),
        gc_Credentials = Requires [''BearerAuth''], gc_Problems = [Unauthorized, Forbidden],
        gc_Permissions = [UserRead], gc_PermissionMode = [], gc_Note = [], gc_FallbackNote = [],
        gc_Challenge = False\<rparr> :: unit GuardConfig) = Inr g \<and> gd_permissionMode g = ModeSingle"
proof -
  let ?cfg = "\<lparr>gc_ID = ''can:user.read'', gc_Check = Some (\<lambda>r. (Some r, None)),
        gc_Credentials = Requires [''BearerAuth''], gc_Problems = [Unauthorized, Forbidden],
        gc_Permissions = [UserRead], gc_PermissionMode = [], gc_Note = [], gc_FallbackNote = [],
        gc_Challenge = False\<rparr> :: unit GuardConfig"
  have req: "Requires [''BearerAuth''] = \<lparr>Alternatives = [[(''BearerAuth'', [])]]\<rparr>"
    by (simp add: Requires_def)
  have "Validate UserRead = None" by (simp add: Validate_def UserRead_def minSlugSegments_def slug_char_def)
  then have "wf_slug UserRead" by (simp add: Validate_None_iff)
  then have "wf_guard (sealed ?cfg)"
    by (simp add: wf_guard_def sealed_def req documentable_def IsKnownSecurityScheme_def
        knownSecuritySchemes_def SecuritySchemeBearerAuth_def wf_problems_def wf_modes_def
        pk_valid_def pk_Status_def)
  moreover have "wf_requirement (gc_Credentials ?cfg)"
    by (simp add: req wf_requirement_def wf_credentials_def)
  ultimately have "NewGuard ?cfg = Inr (sealed ?cfg)"
    using NewGuard_exact [of ?cfg "sealed ?cfg"] by simp
  then show ?thesis by (auto simp: sealed_def)
qed


subsection \<open>Running a chain\<close>

text \<open>
  The specification of a chain: run the checks in order, each on the request the one before it
  returned, up to the first that does not let the request through.
\<close>

datatype 'c verdict = Passed "'c http_request" | Stopped "'c Guard" "'c http_request"

fun judge :: "'c Guard list \<Rightarrow> 'c http_request \<Rightarrow> 'c verdict" where
  "judge [] r = Passed r"
| "judge (g # gs) r = (case run_check g r of (Some r', None) \<Rightarrow> judge gs r' | _ \<Rightarrow> Stopped g r)"

lemma wrapRouteGuards_simps [simp]:
  "wrapRouteGuards h [] = h"
  "wrapRouteGuards h (g # gs) = guardMiddleware g (wrapRouteGuards h gs)"
  by (simp_all add: wrapRouteGuards_def)

lemma guardMiddleware_pass:
  "run_check g r = (Some r', None) \<Longrightarrow> guardMiddleware g nxt r ws = nxt r' ws"
  by (cases ws) (simp add: guardMiddleware_def)

lemma guardMiddleware_stop:
  assumes "\<And>r'. run_check g r \<noteq> (Some r', None)" and "uncommitted w"
  shows "\<exists>w' st. guardMiddleware g nxt r (w, s) = (w', s) \<and> rw_status w' = Some st \<and>
           (st = 500 \<or> (\<exists>k \<in> set (gd_problems g). pk_valid k \<and> st = pk_Status k) \<or> gd_challenge g \<and> st = 401) \<and>
           rw_sent_cookies w' = rw_cookies w"
proof -
  let ?log = "log_event LevelError ''guard check returned nil request and nil error'' w"
  note out = dispatchError_outcome [where l = "''guard '' @ gd_id g" and ks = "gd_problems g"
      and ch = "gd_challenge g", folded guard_plan_def]
  consider x e where "run_check g r = (x, Some e)" | "run_check g r = (None, None)"
    using assms(1) by (metis option.exhaust surj_pair)
  then show ?thesis
  proof cases
    case 1
    then show ?thesis using out [OF assms(2), of "Some r" e] by (auto simp: guardMiddleware_def)
  next
    case 2
    then show ?thesis
      using out [of ?log "Some r" "NewInternalError ''internal error''"] assms(2)
      by (auto simp: guardMiddleware_def)
  qed
qed

lemma wrapRouteGuards_outcome:
  assumes "uncommitted w"
  shows "case judge gs r of
           Passed r' \<Rightarrow> wrapRouteGuards h gs r (w, s) = h r' (w, s)
         | Stopped g _ \<Rightarrow> g \<in> set gs \<and>
             (\<exists>w' st. wrapRouteGuards h gs r (w, s) = (w', s) \<and> rw_status w' = Some st \<and>
                (st = 500 \<or> (\<exists>k \<in> set (gd_problems g). pk_valid k \<and> st = pk_Status k) \<or>
                 gd_challenge g \<and> st = 401) \<and>
                rw_sent_cookies w' = rw_cookies w)"
proof (induction gs arbitrary: r)
  case (Cons g gs)
  show ?case
  proof (cases "\<exists>r'. run_check g r = (Some r', None)")
    case True
    then obtain r' where "run_check g r = (Some r', None)" by blast
    then show ?thesis using Cons [of r'] by (auto simp: guardMiddleware_pass split: verdict.splits)
  next
    case False
    then have stop: "\<And>r'. run_check g r \<noteq> (Some r', None)" by blast
    then have "judge (g # gs) r = Stopped g r" by (auto split: prod.splits option.splits)
    then show ?thesis using guardMiddleware_stop [OF stop assms, of "wrapRouteGuards h gs" s] by simp
  qed
qed simp

text \<open>
  C13. A guarded operation is reached exactly through its guards. When every check lets the request
  through, the handler runs on the request the last check returned, and nothing else happens;
  when one stops it, the handler does not run (the program state is unchanged, no cookie is
  added) and the client gets the status of a kind that guard declared, its challenge, or 500.
\<close>

theorem wrapRouteGuards_spec:
  assumes "uncommitted w"
  shows "case judge gs r of
           Passed r' \<Rightarrow> wrapRouteGuards h gs r (w, s) = h r' (w, s)
         | Stopped g _ \<Rightarrow> g \<in> set gs \<and>
             (\<exists>w' st. wrapRouteGuards h gs r (w, s) = (w', s) \<and> rw_status w' = Some st \<and>
                (st = 500 \<or> (\<exists>k \<in> set (gd_problems g). pk_valid k \<and> st = pk_Status k) \<or>
                 gd_challenge g \<and> st = 401) \<and>
                rw_sent_cookies w' = rw_cookies w)"
  by (rule wrapRouteGuards_outcome [OF assms])

theorem wrapRouteGuards_spec_witness:
  "\<exists>w'. wrapRouteGuards (\<lambda>r (w, s). (w, s + 1))
      [\<lparr>gd_id = ''deny'', gd_check = Some (\<lambda>r. (None, Some (NewForbiddenError ''no''))),
        gd_credentials = empty_requirement, gd_problems = [Forbidden], gd_permissions = [],
        gd_permissionMode = [], gd_note = [], gd_fallbackNote = [], gd_challenge = False\<rparr>]
      \<lparr>rq_method = ''GET'', rq_path = ''/'', rq_header = Map.empty, rq_query = (\<lambda>_. []),
        rq_cookies = [], rq_remote = [], rq_body = None, rq_content_length = 0, rq_ctx = ()\<rparr>
      (fresh_writer, 0 :: nat) = (w', 0)"
proof -
  let ?g = "\<lparr>gd_id = ''deny'', gd_check = Some (\<lambda>r. (None, Some (NewForbiddenError ''no''))),
        gd_credentials = empty_requirement, gd_problems = [Forbidden], gd_permissions = [],
        gd_permissionMode = [], gd_note = [], gd_fallbackNote = [], gd_challenge = False\<rparr>"
  let ?r = "\<lparr>rq_method = ''GET'', rq_path = ''/'', rq_header = Map.empty, rq_query = (\<lambda>_. []),
        rq_cookies = [], rq_remote = [], rq_body = None, rq_content_length = 0, rq_ctx = ()\<rparr>"
  have u: "uncommitted fresh_writer" by (simp add: uncommitted_def fresh_writer_def)
  have "judge [?g] ?r = Stopped ?g ?r" by (simp add: run_check_def)
  with wrapRouteGuards_spec [OF u, where gs = "[?g]" and r = ?r and h = "\<lambda>r (w, s). (w, s + 1)" and s = "0 :: nat"]
  show ?thesis by auto
qed

end
