(* ===== verification/Go_Reflect.thy ===== *)
theory Go_Reflect
  imports Go_Prelude
begin

text \<open>
  Go values as \<^verbatim>\<open>reflect.Value\<close> shows them to the code that walks them. A nil pointer, interface,
  slice or map is \<open>None\<close>; a struct carries its type name and its field values in order; a map
  lists its entries in iteration order; \<open>VOpaque\<close> is a value the walkers never open.
\<close>

datatype gval =
    VBool bool
  | VInt int
  | VUint nat
  | VString string
  | VPtr "gval option"
  | VIface "gval option"
  | VSlice "gval list option"
  | VArray "gval list"
  | VMap "(gval \<times> gval) list option"
  | VStruct string "gval list"
  | VOpaque string

text \<open>
  Go types as \<^verbatim>\<open>reflect.Type\<close> shows them. A string argument is the qualified name, empty for an
  unnamed type and for a predeclared one (but the types \<open>int\<close> and \<open>uint\<close>, of 64 bits, keep theirs);
  integer and float types carry their bit size. \<open>time.Time\<close> and \<open>httpx.RawJSON[T]\<close> are structs of
  their own. \<open>TOther\<close> stands for channels, functions and complex numbers. A field
  lists its tag's key/value pairs in order. Struct types are finite trees: a struct type that
  contains itself is outside the model.
\<close>

datatype gtype =
    TBool string
  | TInt string nat
  | TUint string nat
  | TFloat string nat
  | TString string
  | TPtr gtype
  | TSlice string gtype
  | TArray string nat gtype
  | TMap string gtype gtype
  | TIface string
  | TStruct string "sfield list"
  | TTime
  | TRawJSON gtype
  | TOther string
and sfield = SField
  (sf_Name: string)
  (sf_PkgPath: string)
  (sf_Anonymous: bool)
  (sf_Tag: "(string \<times> string) list")
  (sf_Type: gtype)

datatype gkind =
    KBool | KInt | KUint | KFloat | KString | KPointer | KSlice | KArray | KMap | KInterface | KStruct | KOther

fun type_kind :: "gtype \<Rightarrow> gkind" where
  "type_kind (TBool _) = KBool"
| "type_kind (TInt _ _) = KInt"
| "type_kind (TUint _ _) = KUint"
| "type_kind (TFloat _ _) = KFloat"
| "type_kind (TString _) = KString"
| "type_kind (TPtr _) = KPointer"
| "type_kind (TSlice _ _) = KSlice"
| "type_kind (TArray _ _ _) = KArray"
| "type_kind (TMap _ _ _) = KMap"
| "type_kind (TIface _) = KInterface"
| "type_kind (TStruct _ _) = KStruct"
| "type_kind TTime = KStruct"
| "type_kind (TRawJSON _) = KStruct"
| "type_kind (TOther _) = KOther"

text \<open>
  \<open>StructTag.Lookup\<close> and \<open>StructTag.Get\<close>, and the fields of a struct type. Those of \<open>time.Time\<close> are
  unexported and carry no tags, and neither does the location they point to.
\<close>

definition tag_lookup :: "sfield \<Rightarrow> string \<Rightarrow> string option" where
  "tag_lookup f key = map_of (sf_Tag f) key"

definition tag_get :: "sfield \<Rightarrow> string \<Rightarrow> string" where
  "tag_get f key = (case tag_lookup f key of None \<Rightarrow> [] | Some v \<Rightarrow> v)"

definition exported :: "sfield \<Rightarrow> bool" where
  "exported f \<longleftrightarrow> sf_PkgPath f = []"

fun type_fields :: "gtype \<Rightarrow> sfield list" where
  "type_fields (TStruct _ fs) = fs"
| "type_fields (TRawJSON t) =
     [SField ''raw'' ''httpx'' False [] (TSlice [] (TUint [] 8)),
      SField ''value'' ''httpx'' False [] t,
      SField ''err'' ''httpx'' False [] (TIface ''error'')]"
| "type_fields TTime =
     [SField ''wall'' ''time'' False [] (TUint [] 64),
      SField ''ext'' ''time'' False [] (TInt [] 64),
      SField ''loc'' ''time'' False [] (TPtr (TStruct ''time.Location'' []))]"
| "type_fields _ = []"

fun struct_name :: "gtype \<Rightarrow> string" where
  "struct_name (TStruct n _) = n"
| "struct_name TTime = ''time.Time''"
| "struct_name (TRawJSON _) = ''httpx.RawJSON''"
| "struct_name _ = []"

text \<open>
  \<open>reflect.Zero\<close> and \<open>Value.IsZero\<close>. Floats and times are opaque; their zero value is \<open>VOpaque []\<close>.
  The byte slice of a \<open>RawJSON\<close> is opaque too.
\<close>

fun zero_value :: "gtype \<Rightarrow> gval" and zero_fields :: "sfield list \<Rightarrow> gval list" where
  "zero_value (TBool _) = VBool False"
| "zero_value (TInt _ _) = VInt 0"
| "zero_value (TUint _ _) = VUint 0"
| "zero_value (TFloat _ _) = VOpaque []"
| "zero_value (TString _) = VString []"
| "zero_value (TPtr _) = VPtr None"
| "zero_value (TSlice _ _) = VSlice None"
| "zero_value (TArray _ n t) = VArray (replicate n (zero_value t))"
| "zero_value (TMap _ _ _) = VMap None"
| "zero_value (TIface _) = VIface None"
| "zero_value (TStruct n fs) = VStruct n (zero_fields fs)"
| "zero_value TTime = VOpaque []"
| "zero_value (TRawJSON t) = VStruct ''httpx.RawJSON'' [VOpaque [], zero_value t, VIface None]"
| "zero_value (TOther _) = VIface None"
| "zero_fields [] = []"
| "zero_fields (SField _ _ _ _ t # fs) = zero_value t # zero_fields fs"

fun is_zero :: "gval \<Rightarrow> bool" where
  "is_zero (VBool b) = (\<not> b)"
| "is_zero (VInt i) = (i = 0)"
| "is_zero (VUint n) = (n = 0)"
| "is_zero (VString s) = (s = [])"
| "is_zero (VPtr p) = (p = None)"
| "is_zero (VIface p) = (p = None)"
| "is_zero (VSlice p) = (p = None)"
| "is_zero (VArray vs) = list_all is_zero vs"
| "is_zero (VMap m) = (m = None)"
| "is_zero (VStruct _ vs) = list_all is_zero vs"
| "is_zero (VOpaque s) = (s = [])"

text \<open>\<open>v.Field(i)\<close> read and written.\<close>

fun get_field :: "gval \<Rightarrow> nat \<Rightarrow> gval" where
  "get_field (VStruct n vs) i = (if i < length vs then vs ! i else VOpaque [])"
| "get_field v i = VOpaque []"

fun set_field :: "gval \<Rightarrow> nat \<Rightarrow> gval \<Rightarrow> gval" where
  "set_field (VStruct n vs) i x = VStruct n (vs[i := x])"
| "set_field v i x = v"

text \<open>The values of a type.\<close>

fun has_type :: "gtype \<Rightarrow> gval \<Rightarrow> bool" and have_types :: "sfield list \<Rightarrow> gval list \<Rightarrow> bool" where
  "has_type (TBool _) v = (case v of VBool _ \<Rightarrow> True | _ \<Rightarrow> False)"
| "has_type (TInt _ n) v = (case v of VInt i \<Rightarrow> - (2 ^ (n - 1)) \<le> i \<and> i < 2 ^ (n - 1) | _ \<Rightarrow> False)"
| "has_type (TUint _ n) v = (case v of VUint u \<Rightarrow> u < 2 ^ n | _ \<Rightarrow> False)"
| "has_type (TFloat _ _) v = (case v of VOpaque _ \<Rightarrow> True | _ \<Rightarrow> False)"
| "has_type (TString _) v = (case v of VString _ \<Rightarrow> True | _ \<Rightarrow> False)"
| "has_type (TPtr t) v = (case v of VPtr None \<Rightarrow> True | VPtr (Some x) \<Rightarrow> has_type t x | _ \<Rightarrow> False)"
| "has_type (TSlice _ t) v = (case v of VSlice None \<Rightarrow> True | VSlice (Some vs) \<Rightarrow> list_all (has_type t) vs | _ \<Rightarrow> False)"
| "has_type (TArray _ n t) v = (case v of VArray vs \<Rightarrow> length vs = n \<and> list_all (has_type t) vs | _ \<Rightarrow> False)"
| "has_type (TMap _ k t) v =
     (case v of VMap None \<Rightarrow> True
      | VMap (Some es) \<Rightarrow> list_all (\<lambda>e. has_type k (fst e) \<and> has_type t (snd e)) es | _ \<Rightarrow> False)"
| "has_type (TIface _) v = (case v of VIface _ \<Rightarrow> True | _ \<Rightarrow> False)"
| "has_type (TStruct m fs) v = (case v of VStruct n vs \<Rightarrow> n = m \<and> have_types fs vs | _ \<Rightarrow> False)"
| "has_type TTime v = (case v of VOpaque _ \<Rightarrow> True | _ \<Rightarrow> False)"
| "has_type (TRawJSON t) v =
     (case v of VStruct n [VOpaque _, x, VIface _] \<Rightarrow> n = ''httpx.RawJSON'' \<and> has_type t x | _ \<Rightarrow> False)"
| "has_type (TOther _) v = (case v of VIface _ \<Rightarrow> True | _ \<Rightarrow> False)"
| "have_types [] vs = (vs = [])"
| "have_types (SField _ _ _ _ t # fs) vs = (case vs of [] \<Rightarrow> False | v # vs' \<Rightarrow> has_type t v \<and> have_types fs vs')"

lemma have_types_iff: "have_types fs vs \<longleftrightarrow> list_all2 (\<lambda>f v. has_type (sf_Type f) v) fs vs"
proof (induction fs arbitrary: vs)
  case (Cons f fs)
  then show ?case by (cases f; cases vs) auto
qed simp

lemma zero_value_typed:
  "has_type t (zero_value t)"
  "have_types fs (zero_fields fs)"
  by (induction t and fs rule: zero_value_zero_fields.induct) (auto simp: list_all_iff)

end
