(* ===== verification/Response.thy ===== *)
theory Response
  imports Problem Go_Reflect
begin

text \<open>
  \<^verbatim>\<open>internal/httpx/response.go\<close>: cursor pagination, the closed set of response modes, the \<open>Reply\<close>
  value, the staged writer that commits a reply under an operation's write plan, the refresh
  cookie, and the wire options for integers and PostgreSQL values.

  How \<^verbatim>\<open>encoding/json/v2\<close> lays out a payload's fields is a parameter (\<open>enc\<close>), as are the time
  encoding (\<open>enc_time\<close>), the struct validator of the third-party validation package
  (\<open>struct_check\<close>), and the decoders of the PostgreSQL types.
\<close>

subsection \<open>Pagination\<close>

text \<open>\<open>'t\<close> is a time; \<open>None\<close> is the zero time.\<close>

record 't Pagination =
  HasNext :: bool
  HasPrev :: bool
  NextAfterID :: string
  NextAfterCreatedAt :: "'t option"
  PrevBeforeID :: string
  PrevBeforeCreatedAt :: "'t option"
  Limit :: int
  Records :: int

record 't PageCursor =
  pc_ID :: string
  pc_CreatedAt :: "'t option"

text \<open>\<open>CursorID\<close> renders a string as it is, a UUID by its \<open>String\<close> method, an integer in decimal.\<close>

datatype 'u PaginationID = PidInt int | PidString string | PidUUID 'u

fun CursorID :: "('u \<Rightarrow> string) \<Rightarrow> 'u PaginationID \<Rightarrow> string" where
  "CursorID uuid_string (PidString v) = v"
| "CursorID uuid_string (PidUUID v) = uuid_string v"
| "CursorID uuid_string (PidInt v) = itoa v"

text \<open>The in-place reversal: swap \<open>i\<close> and \<open>j\<close> while \<open>i < j\<close>.\<close>

function swap_loop :: "nat \<Rightarrow> nat \<Rightarrow> 'a list \<Rightarrow> 'a list" where
  "swap_loop i j rows =
     (if i < j then swap_loop (i + 1) (j - 1) (rows[i := rows ! j, j := rows ! i]) else rows)"
  by auto
termination
  by (relation "measure (\<lambda>(i, j, _). j - i)") auto

declare swap_loop.simps [simp del]

text \<open>
  \<open>FinishCursorPage\<close>; \<open>None\<close> is the run-time panic of \<open>rows[:limit]\<close> with a negative limit. The
  reversal loop starts at \<open>0\<close> and \<open>len(rows)-1\<close>, which is \<open>-1\<close> for an empty page and swaps nothing.
\<close>

definition FinishCursorPage ::
  "'a list \<Rightarrow> int \<Rightarrow> bool \<Rightarrow> bool \<Rightarrow> ('a \<Rightarrow> 't PageCursor) \<Rightarrow> ('a \<Rightarrow> int) option
     \<Rightarrow> ('a list \<times> 't Pagination) option" where
  "FinishCursorPage rows limit hasAfter hasBefore cursor records =
     (let meta = \<lparr>HasNext = False, HasPrev = False, NextAfterID = [], NextAfterCreatedAt = None,
                  PrevBeforeID = [], PrevBeforeCreatedAt = None, Limit = limit, Records = 0\<rparr>;
          meta = (case records of
                    Some f \<Rightarrow> if length rows > 0 then meta\<lparr>Records := f (rows ! (length rows - 1))\<rparr> else meta
                  | None \<Rightarrow> meta);
          hasMore = (int (length rows) > limit)
      in if hasMore \<and> limit < 0 then None
         else let rows = (if hasMore then take (nat limit) rows else rows);
                  rows = (if hasBefore then swap_loop 0 (length rows - 1) rows else rows);
                  meta = (if length rows > 0
                          then let f = cursor (rows ! 0); l = cursor (rows ! (length rows - 1))
                               in meta\<lparr>NextAfterID := pc_ID l, NextAfterCreatedAt := pc_CreatedAt l,
                                       PrevBeforeID := pc_ID f, PrevBeforeCreatedAt := pc_CreatedAt f\<rparr>
                          else meta);
                  meta = (if hasBefore then meta\<lparr>HasPrev := hasMore, HasNext := length rows > 0\<rparr>
                          else meta\<lparr>HasNext := hasMore, HasPrev := hasAfter \<and> length rows > 0\<rparr>)
              in Some (rows, meta))"


subsection \<open>Response modes and replies\<close>

datatype responseMode = modeUnset | modeEnveloped | modePage | modeMessage | modeRedirect

fun mode_String :: "responseMode \<Rightarrow> string" where
  "mode_String modeEnveloped = ''Enveloped''"
| "mode_String modePage = ''PageOf''"
| "mode_String modeMessage = ''Message''"
| "mode_String modeRedirect = ''RedirectWith''"
| "mode_String modeUnset = ''unset''"

record SuccessMode =
  sm_mode :: responseMode
  sm_status :: int

definition Enveloped :: "int \<Rightarrow> SuccessMode" where
  "Enveloped status = \<lparr>sm_mode = modeEnveloped, sm_status = status\<rparr>"

definition PageOf :: "int \<Rightarrow> SuccessMode" where
  "PageOf status = \<lparr>sm_mode = modePage, sm_status = status\<rparr>"

definition Message :: "int \<Rightarrow> SuccessMode" where
  "Message status = \<lparr>sm_mode = modeMessage, sm_status = status\<rparr>"

definition RedirectWith :: "int \<Rightarrow> SuccessMode" where
  "RedirectWith status = \<lparr>sm_mode = modeRedirect, sm_status = status\<rparr>"

datatype replyKind = replyUnset | replyData | replyPaged | replyMessage | replyRedirect

text \<open>A nil cookie pointer is \<open>None\<close>.\<close>

record 't Reply =
  rp_kind :: replyKind
  rp_message :: string
  rp_body :: gval
  rp_meta :: "'t Pagination option"
  rp_location :: string
  rp_cookies :: "http_cookie option list"

definition NoBody :: gval where
  "NoBody = VStruct ''NoBody'' []"

definition OK :: "string \<Rightarrow> gval \<Rightarrow> 't Reply" where
  "OK message body = \<lparr>rp_kind = replyData, rp_message = message, rp_body = body, rp_meta = None,
     rp_location = [], rp_cookies = []\<rparr>"

definition Paged :: "string \<Rightarrow> gval list option \<Rightarrow> 't Pagination option \<Rightarrow> 't Reply" where
  "Paged message rows meta = \<lparr>rp_kind = replyPaged, rp_message = message, rp_body = VSlice rows,
     rp_meta = meta, rp_location = [], rp_cookies = []\<rparr>"

definition Done :: "string \<Rightarrow> 't Reply" where
  "Done message = \<lparr>rp_kind = replyMessage, rp_message = message, rp_body = NoBody, rp_meta = None,
     rp_location = [], rp_cookies = []\<rparr>"

definition RedirectTo :: "string \<Rightarrow> 't Reply" where
  "RedirectTo location = \<lparr>rp_kind = replyRedirect, rp_message = [], rp_body = NoBody, rp_meta = None,
     rp_location = location, rp_cookies = []\<rparr>"

definition WithCookie :: "'t Reply \<Rightarrow> http_cookie option list \<Rightarrow> 't Reply" where
  "WithCookie rp cookies = rp\<lparr>rp_cookies := rp_cookies rp @ cookies\<rparr>"

text \<open>\<open>accepts\<close>: which constructor may answer which mode.\<close>

fun mode_accepts :: "responseMode \<Rightarrow> replyKind \<Rightarrow> bool" where
  "mode_accepts modeEnveloped k = (k = replyData)"
| "mode_accepts modePage k = (k = replyPaged)"
| "mode_accepts modeMessage k = (k = replyMessage)"
| "mode_accepts modeRedirect k = (k = replyRedirect)"
| "mode_accepts modeUnset k = False"


subsection \<open>Response validation\<close>

text \<open>
  \<open>validateResponseRoot\<close>: structs go to the validator, containers are walked, everything else
  passes.
\<close>

fun validateResponseRoot :: "(gval \<Rightarrow> go_error option) \<Rightarrow> gval \<Rightarrow> go_error option" where
  "validateResponseRoot check (VPtr p) = (case p of None \<Rightarrow> None | Some v \<Rightarrow> validateResponseRoot check v)"
| "validateResponseRoot check (VIface p) = (case p of None \<Rightarrow> None | Some v \<Rightarrow> validateResponseRoot check v)"
| "validateResponseRoot check (VStruct n fs) = check (VStruct n fs)"
| "validateResponseRoot check (VSlice p) =
     (case p of None \<Rightarrow> None | Some vs \<Rightarrow> first_some (\<lambda>v. validateResponseRoot check v) vs)"
| "validateResponseRoot check (VArray vs) = first_some (\<lambda>v. validateResponseRoot check v) vs"
| "validateResponseRoot check (VMap p) =
     (case p of None \<Rightarrow> None | Some es \<Rightarrow> first_some (\<lambda>e. validateResponseRoot check (snd e)) es)"
| "validateResponseRoot check v = None"

text \<open>
  \<open>compileResponseValidator\<close>. Whether the type carries validation, the validator's struct check
  and the compiled enum check of the type come from the validation and enum components.
\<close>

definition compileResponseValidator ::
  "bool \<Rightarrow> (gval \<Rightarrow> go_error option) \<Rightarrow> (gval \<Rightarrow> ValidationError list) option
     \<Rightarrow> (gval \<Rightarrow> go_error option) option" where
  "compileResponseValidator hasValidation check enumCheck =
     (if \<not> hasValidation \<and> enumCheck = None then None
      else Some (\<lambda>value.
        case (if hasValidation then validateResponseRoot check value else None) of
          Some err \<Rightarrow> Some (EWrap ''validate tags: '' [err])
        | None \<Rightarrow>
            (case enumCheck of
               None \<Rightarrow> None
             | Some ec \<Rightarrow>
                 (case ec value of
                    [] \<Rightarrow> None
                  | e # _ \<Rightarrow> Some (EOther (''registered enum: '' @ ve_message e))))))"


subsection \<open>The staged writer\<close>

record writePlan =
  wp_mode :: responseMode
  wp_status :: int
  wp_bodiless :: bool
  wp_label :: string
  wp_responseCookies :: "string list"
  wp_allowedCookies :: "string set"
  wp_validatePayload :: "(gval \<Rightarrow> go_error option) option"

definition compileWritePlan :: "SuccessMode \<Rightarrow> string \<Rightarrow> string list \<Rightarrow> writePlan" where
  "compileWritePlan mode label responseCookies =
     (let cookies = sort responseCookies
      in \<lparr>wp_mode = sm_mode mode, wp_status = sm_status mode,
          wp_bodiless = (sm_status mode = 204 \<or> sm_status mode = 205), wp_label = label,
          wp_responseCookies = cookies, wp_allowedCookies = set cookies, wp_validatePayload = None\<rparr>)"

definition withResponseValidation ::
  "writePlan \<Rightarrow> (gval \<Rightarrow> go_error option) option \<Rightarrow> writePlan" where
  "withResponseValidation p validator =
     (if wp_mode p = modeEnveloped \<or> wp_mode p = modePage then p\<lparr>wp_validatePayload := validator\<rparr> else p)"

definition validateResponseValue :: "writePlan \<Rightarrow> gval \<Rightarrow> go_error option" where
  "validateResponseValue p value = (case wp_validatePayload p of None \<Rightarrow> None | Some f \<Rightarrow> f value)"

definition json_bool :: "bool \<Rightarrow> json" where
  "json_bool b = JRaw (Some (if b then ''true'' else ''false''))"

text \<open>
  An \<open>int64\<close> is written as a JSON string; \<open>omitempty\<close> and \<open>omitzero\<close> members are left out.
\<close>

definition pagination_json :: "('t \<Rightarrow> json) \<Rightarrow> 't Pagination \<Rightarrow> json" where
  "pagination_json enc_time m = JObj
     ([(''has_next'', json_bool (HasNext m)), (''has_prev'', json_bool (HasPrev m))] @
      (if NextAfterID m = [] then [] else [(''next_after_id'', JStr (NextAfterID m))]) @
      (case NextAfterCreatedAt m of None \<Rightarrow> [] | Some t \<Rightarrow> [(''next_after_created_at'', enc_time t)]) @
      (if PrevBeforeID m = [] then [] else [(''prev_before_id'', JStr (PrevBeforeID m))]) @
      (case PrevBeforeCreatedAt m of None \<Rightarrow> [] | Some t \<Rightarrow> [(''prev_before_created_at'', enc_time t)]) @
      [(''limit'', JInt (Limit m))] @
      (if Records m = 0 then [] else [(''records'', JStr (itoa (Records m)))]))"

text \<open>The success envelope. An untyped nil \<open>Data\<close> (\<open>VIface None\<close>) is omitted.\<close>

record 't envelope =
  env_Message :: string
  env_Meta :: "'t Pagination option"
  env_Data :: gval

definition envelope_json :: "(gval \<Rightarrow> json) \<Rightarrow> ('t \<Rightarrow> json) \<Rightarrow> 't envelope \<Rightarrow> json" where
  "envelope_json enc enc_time e = JObj
     ([(''message'', JStr (env_Message e))] @
      (case env_Meta e of None \<Rightarrow> [] | Some m \<Rightarrow> [(''meta'', pagination_json enc_time m)]) @
      (if env_Data e = VIface None then [] else [(''data'', enc (env_Data e))]))"

definition emitCookies :: "response_writer \<Rightarrow> http_cookie option list \<Rightarrow> response_writer" where
  "emitCookies w cookies = fold (\<lambda>c w. case c of Some ck \<Rightarrow> set_cookie ck w | None \<Rightarrow> w) cookies w"

definition commitValidatedJSON ::
  "(gval \<Rightarrow> json) \<Rightarrow> ('t \<Rightarrow> json) \<Rightarrow> response_writer \<Rightarrow> int \<Rightarrow> http_cookie option list \<Rightarrow> 't envelope
     \<Rightarrow> (unit \<Rightarrow> go_error option) option \<Rightarrow> response_writer" where
  "commitValidatedJSON enc enc_time w code cookies v validate =
     (case json_marshal (envelope_json enc enc_time v) of
        None \<Rightarrow> writeProblemDetails (log_event LevelError ''Failed to encode success response'' w)
                  (pk_New Internal ''internal error'')
      | Some body \<Rightarrow>
          (case (case validate of None \<Rightarrow> None | Some f \<Rightarrow> f ()) of
             Some err \<Rightarrow> writeProblemDetails
                (log_event LevelError ''httpx: success response violates its declared contract'' w)
                (pk_New Internal ''internal error'')
           | None \<Rightarrow>
               (let w = emitCookies w cookies;
                    w = set_header ''Content-Type'' ''application/json'' w;
                    w = write_header code w
                in write_body body w)))"

definition commitJSON ::
  "(gval \<Rightarrow> json) \<Rightarrow> ('t \<Rightarrow> json) \<Rightarrow> response_writer \<Rightarrow> int \<Rightarrow> http_cookie option list \<Rightarrow> 't envelope
     \<Rightarrow> response_writer" where
  "commitJSON enc enc_time w code cookies v = commitValidatedJSON enc enc_time w code cookies v None"

definition WriteSuccess ::
  "(gval \<Rightarrow> json) \<Rightarrow> ('t \<Rightarrow> json) \<Rightarrow> response_writer \<Rightarrow> int \<Rightarrow> string \<Rightarrow> gval \<Rightarrow> response_writer" where
  "WriteSuccess enc enc_time w code message data =
     commitJSON enc enc_time w code [] \<lparr>env_Message = message, env_Meta = None, env_Data = data\<rparr>"

definition nilReply :: "response_writer \<Rightarrow> response_writer" where
  "nilReply w = httpx_Error (log_event LevelError ''handler returned nil reply and nil error'' w)
     (None :: unit http_request option) (Some (NewInternalError ''internal error''))"

text \<open>The loop over the reply's cookies: what is wrong with the first bad one.\<close>

fun cookie_fault :: "string set \<Rightarrow> http_cookie option list \<Rightarrow> string option" where
  "cookie_fault allowed [] = None"
| "cookie_fault allowed (c # cs) =
     (case c of
        None \<Rightarrow> Some ''httpx: reply contains a nil response cookie''
      | Some ck \<Rightarrow>
          if ck_name ck \<notin> allowed then Some ''httpx: reply contains an undeclared response cookie''
          else if \<not> cookie_valid ck then Some ''httpx: reply contains an invalid response cookie''
          else cookie_fault allowed cs)"

definition internal_error :: "response_writer \<Rightarrow> 'c http_request option \<Rightarrow> string \<Rightarrow> response_writer" where
  "internal_error w r msg = httpx_Error (log_event LevelError msg w) r (Some (NewInternalError ''internal error''))"

definition commit ::
  "(gval \<Rightarrow> json) \<Rightarrow> ('t \<Rightarrow> json) \<Rightarrow> 't Reply option \<Rightarrow> response_writer \<Rightarrow> 'c http_request option \<Rightarrow> writePlan
     \<Rightarrow> response_writer" where
  "commit enc enc_time reply w r p =
     (case reply of
        None \<Rightarrow> nilReply w
      | Some rp \<Rightarrow>
          if \<not> mode_accepts (wp_mode p) (rp_kind rp)
          then internal_error w r ''httpx: reply constructor does not match the operation's declared mode''
          else case cookie_fault (wp_allowedCookies p) (rp_cookies rp) of
            Some msg \<Rightarrow> internal_error w r msg
          | None \<Rightarrow>
              (case wp_mode p of
                 modeRedirect \<Rightarrow>
                   if trim_space (rp_location rp) = []
                   then internal_error w r ''httpx: redirect reply has an empty location''
                   else write_header (wp_status p)
                          (set_header ''Location'' (rp_location rp) (emitCookies w (rp_cookies rp)))
               | modeMessage \<Rightarrow>
                   if wp_bodiless p then write_header (wp_status p) (emitCookies w (rp_cookies rp))
                   else commitJSON enc enc_time w (wp_status p) (rp_cookies rp)
                          \<lparr>env_Message = rp_message rp, env_Meta = None, env_Data = VIface None\<rparr>
               | modePage \<Rightarrow>
                   commitValidatedJSON enc enc_time w (wp_status p) (rp_cookies rp)
                     \<lparr>env_Message = rp_message rp, env_Meta = rp_meta rp, env_Data = rp_body rp\<rparr>
                     (Some (\<lambda>_. validateResponseValue p (rp_body rp)))
               | _ \<Rightarrow>
                   commitValidatedJSON enc enc_time w (wp_status p) (rp_cookies rp)
                     \<lparr>env_Message = rp_message rp, env_Meta = None, env_Data = rp_body rp\<rparr>
                     (Some (\<lambda>_. validateResponseValue p (rp_body rp)))))"


subsection \<open>Refresh cookies\<close>

definition RefreshTokenCookieName :: string where
  "RefreshTokenCookieName = ''refresh_token''"

text \<open>\<open>now\<close> is the Unix time at which the cookie is built.\<close>

definition NewRefreshTokenCookie :: "int \<Rightarrow> string \<Rightarrow> int \<Rightarrow> http_cookie" where
  "NewRefreshTokenCookie now token maxAgeSeconds =
     (let useMax = (if maxAgeSeconds \<le> 0 then 60 * 60 * 24 * 30 else maxAgeSeconds)
      in \<lparr>ck_name = RefreshTokenCookieName, ck_value = token, ck_path = ''/'', ck_http_only = True,
          ck_secure = True, ck_same_site = SameSiteLax, ck_max_age = useMax, ck_expires = Some (now + useMax)\<rparr>)"

definition ClearedRefreshTokenCookie :: http_cookie where
  "ClearedRefreshTokenCookie =
     \<lparr>ck_name = RefreshTokenCookieName, ck_value = [], ck_path = ''/'', ck_http_only = True,
      ck_secure = True, ck_same_site = SameSiteLax, ck_max_age = -1, ck_expires = Some 0\<rparr>"


subsection \<open>Wire integers and PostgreSQL values\<close>

text \<open>
  \<open>strconv.Unquote\<close> of a double-quoted string, after the opening quote; \<open>None\<close> is its syntax
  error. The decoder has already checked that the input is UTF-8, so a byte outside ASCII is
  copied. \<open>\x\<close> and octal escapes give a byte, \<open>\u\<close> and \<open>\U\<close> the UTF-8 encoding of a code point.
\<close>

definition base_val :: "nat \<Rightarrow> char \<Rightarrow> nat option" where
  "base_val base c =
     (let n = of_char c :: nat;
          v = (if 48 \<le> n \<and> n \<le> 57 then n - 48 else if 97 \<le> n \<and> n \<le> 102 then n - 87
               else if 65 \<le> n \<and> n \<le> 70 then n - 55 else base)
      in if v < base then Some v else None)"

fun read_base :: "nat \<Rightarrow> nat \<Rightarrow> nat \<Rightarrow> string \<Rightarrow> nat option" where
  "read_base base 0 acc cs = Some acc"
| "read_base base (Suc n) acc cs =
     (case cs of
        [] \<Rightarrow> None
      | c # cs' \<Rightarrow> (case base_val base c of None \<Rightarrow> None | Some v \<Rightarrow> read_base base n (base * acc + v) cs'))"

definition utf8_encode :: "nat \<Rightarrow> string option" where
  "utf8_encode n =
     (if n < 0x80 then Some [char_of n]
      else if n < 0x800 then Some [char_of (0xC0 + n div 64), char_of (0x80 + n mod 64)]
      else if 0xD800 \<le> n \<and> n < 0xE000 then None
      else if n < 0x10000 then
        Some [char_of (0xE0 + n div 4096), char_of (0x80 + n div 64 mod 64), char_of (0x80 + n mod 64)]
      else if n < 0x110000 then
        Some [char_of (0xF0 + n div 262144), char_of (0x80 + n div 4096 mod 64),
              char_of (0x80 + n div 64 mod 64), char_of (0x80 + n mod 64)]
      else None)"

definition simple_escape :: "char \<Rightarrow> char option" where
  "simple_escape c = map_of
     [(CHR ''a'', CHR 0x07), (CHR ''b'', CHR 0x08), (CHR ''f'', CHR 0x0C), (CHR ''n'', CHR 0x0A),
      (CHR ''r'', CHR 0x0D), (CHR ''t'', CHR 0x09), (CHR ''v'', CHR 0x0B), (CHR 0x5C, CHR 0x5C),
      (CHR 0x22, CHR 0x22)] c"

text \<open>What follows a backslash: the bytes it denotes and how many characters it takes.\<close>

definition escape_at :: "string \<Rightarrow> (string \<times> nat) option" where
  "escape_at cs =
     (case cs of
        [] \<Rightarrow> None
      | d # ds \<Rightarrow>
          (case simple_escape d of
             Some e \<Rightarrow> Some ([e], 1)
           | None \<Rightarrow>
               if d = CHR ''x'' then map_option (\<lambda>v. ([char_of v], 3)) (read_base 16 2 0 ds)
               else if d = CHR ''u'' then
                 Option.bind (read_base 16 4 0 ds) (\<lambda>v. map_option (\<lambda>b. (b, 5)) (utf8_encode v))
               else if d = CHR ''U'' then
                 Option.bind (read_base 16 8 0 ds) (\<lambda>v. map_option (\<lambda>b. (b, 9)) (utf8_encode v))
               else Option.bind (read_base 8 3 0 cs) (\<lambda>v. if v < 256 then Some ([char_of v], 3) else None)))"

function unquote_rest :: "string \<Rightarrow> string option" where
  "unquote_rest [] = None"
| "unquote_rest (c # cs) =
     (if c = CHR 0x22 then (if cs = [] then Some [] else None)
      else if c = CHR 0x0A then None
      else if c = CHR 0x5C then
        (case escape_at cs of
           None \<Rightarrow> None
         | Some (b, n) \<Rightarrow> map_option (\<lambda>r. b @ r) (unquote_rest (drop n cs)))
      else map_option (Cons c) (unquote_rest cs))"
  by pat_completeness auto
termination
  by (relation "measure length") auto

text \<open>\<open>parseJSONNumberString\<close>: \<open>Inl\<close> an error, \<open>Inr []\<close> JSON null, otherwise the digits.\<close>

definition parseJSONNumberString :: "string \<Rightarrow> string + string" where
  "parseJSONNumberString b =
     (let s = trim_space b
      in if s = [] \<or> s = ''null'' then Inr []
         else if has_prefix s [CHR 0x22] then
           (case unquote_rest (tl s) of
              None \<Rightarrow> Inl ''invalid syntax''
            | Some u \<Rightarrow>
                let unquoted = trim_space u
                in if unquoted = [] then Inl ''empty string is not a valid integer'' else Inr unquoted)
         else if list_all (\<lambda>r. is_digit r \<or> r = CHR ''-'' \<or> r = CHR ''+'') s then Inr s
         else Inl (''invalid numeric value '' @ s))"

text \<open>
  The \<open>int64\<close> and \<open>uint64\<close> entries of \<open>jsonWireOptions\<close>. Decoding gives an error, leaves the target
  alone (\<open>Inr None\<close>, for null), or stores a value.
\<close>

definition marshal_int64 :: "int \<Rightarrow> string" where
  "marshal_int64 v = quoted (itoa v)"

definition marshal_uint64 :: "nat \<Rightarrow> string" where
  "marshal_uint64 v = quoted (show_nat v)"

definition unmarshal_int64 :: "string \<Rightarrow> string + int option" where
  "unmarshal_int64 b =
     (case parseJSONNumberString b of
        Inl e \<Rightarrow> Inl e
      | Inr val \<Rightarrow> if val = [] then Inr None
          else (case parse_int 64 val of None \<Rightarrow> Inl ''parse error'' | Some v \<Rightarrow> Inr (Some v)))"

definition unmarshal_uint64 :: "string \<Rightarrow> string + nat option" where
  "unmarshal_uint64 b =
     (case parseJSONNumberString b of
        Inl e \<Rightarrow> Inl e
      | Inr val \<Rightarrow> if val = [] then Inr None
          else (case parse_uint 64 val of None \<Rightarrow> Inl ''parse error'' | Some v \<Rightarrow> Inr (Some v)))"

text \<open>
  What the guards read of a PostgreSQL value: SQL NULL, the numeric NaN, the infinities. The
  driver's own JSON codec (\<open>mj\<close>, \<open>uj\<close>) is a parameter.
\<close>

datatype InfinityModifier = Finite | PosInfinity | NegInfinity

record pg_value =
  pg_Valid :: bool
  pg_NaN :: bool
  pg_Infinity :: InfinityModifier
  pg_text :: string

type_synonym pg_encoder = "pg_value \<Rightarrow> string + string"

type_synonym pg_decoder = "string \<Rightarrow> string + pg_value"

definition marshal_Numeric :: "pg_encoder \<Rightarrow> pg_encoder" where
  "marshal_Numeric mj v =
     (if \<not> pg_Valid v then mj v
      else if pg_NaN v \<or> pg_Infinity v \<noteq> Finite then Inl ''non-finite PostgreSQL numeric''
      else mj v)"

definition marshal_Timestamptz :: "pg_encoder \<Rightarrow> pg_encoder" where
  "marshal_Timestamptz mj v =
     (if \<not> pg_Valid v then mj v
      else if pg_Infinity v \<noteq> Finite then Inl ''non-finite PostgreSQL timestamptz''
      else mj v)"

definition marshal_Timestamp :: "pg_encoder \<Rightarrow> pg_encoder" where
  "marshal_Timestamp mj v =
     (if \<not> pg_Valid v then mj v
      else if pg_Infinity v \<noteq> Finite then Inl ''non-finite PostgreSQL timestamp''
      else mj v)"

definition marshal_Date :: "pg_encoder \<Rightarrow> pg_encoder" where
  "marshal_Date mj v =
     (if \<not> pg_Valid v then mj v
      else if pg_Infinity v \<noteq> Finite then Inl ''non-finite PostgreSQL date''
      else mj v)"

definition numericGuard :: "pg_decoder \<Rightarrow> pg_decoder" where
  "numericGuard uj b =
     (case uj b of
        Inl e \<Rightarrow> Inl e
      | Inr v \<Rightarrow> if pg_NaN v then Inl ''NaN is not a valid numeric value'' else Inr v)"

definition timestamptzGuard :: "pg_decoder \<Rightarrow> pg_decoder" where
  "timestamptzGuard uj b =
     (case uj b of
        Inl e \<Rightarrow> Inl e
      | Inr v \<Rightarrow> if pg_Infinity v \<noteq> Finite then Inl ''not a valid timestamp'' else Inr v)"

definition timestampGuard :: "pg_decoder \<Rightarrow> pg_decoder" where
  "timestampGuard uj b =
     (case uj b of
        Inl e \<Rightarrow> Inl e
      | Inr v \<Rightarrow> if pg_Infinity v \<noteq> Finite then Inl ''not a valid timestamp'' else Inr v)"

definition dateGuard :: "pg_decoder \<Rightarrow> pg_decoder" where
  "dateGuard uj b =
     (case uj b of
        Inl e \<Rightarrow> Inl e
      | Inr v \<Rightarrow> if pg_Infinity v \<noteq> Finite then Inl ''not a valid date'' else Inr v)"


subsection \<open>The cursor page\<close>

lemma swap_loop_middle:
  "length m = j + 1 - length a \<Longrightarrow> swap_loop (length a) j (a @ m @ b) = a @ rev m @ b"
proof (induction "length m" arbitrary: a m b j rule: less_induct)
  case less
  show ?case
  proof (cases "length a < j")
    case False
    with less.prems have "length m \<le> 1" by simp
    then have "rev m = m" by (cases m) auto
    with False show ?thesis by (simp add: swap_loop.simps [of "length a" j])
  next
    case True
    with less.prems have "2 \<le> length m" by simp
    then obtain x r where r: "m = x # r" "r \<noteq> []" by (cases m; cases "tl m") auto
    then obtain m' y where m: "m = x # m' @ [y]" by (cases r rule: rev_cases) auto
    with less.prems True have j: "j = length a + Suc (length m')" by simp
    have step: "(a @ m @ b)[length a := (a @ m @ b) ! j, j := (a @ m @ b) ! length a] = (a @ [y]) @ m' @ (x # b)"
      by (simp add: m j list_update_append nth_append)
    have "swap_loop (length (a @ [y])) (j - 1) ((a @ [y]) @ m' @ (x # b)) = (a @ [y]) @ rev m' @ (x # b)"
      by (rule less.hyps) (simp_all add: m j)
    moreover have "swap_loop (length a) j (a @ m @ b) =
        swap_loop (length a + 1) (j - 1) ((a @ m @ b)[length a := (a @ m @ b) ! j, j := (a @ m @ b) ! length a])"
      using True by (subst swap_loop.simps) simp
    ultimately show ?thesis unfolding step by (simp add: m)
  qed
qed

lemma swap_loop_rev: "swap_loop 0 (length rows - 1) rows = rev rows"
proof (cases rows)
  case (Cons r rs)
  then show ?thesis using swap_loop_middle [of rows "length rows - 1" "[]" "[]"] by simp
qed (simp add: swap_loop.simps)


text \<open>The page a request asks for: at most \<open>limit\<close> rows, in ascending order.\<close>

definition page_rows :: "'a list \<Rightarrow> int \<Rightarrow> bool \<Rightarrow> 'a list" where
  "page_rows rows limit hasBefore =
     (if hasBefore then rev (take (nat limit) rows) else take (nat limit) rows)"

lemma trimmed_rows:
  "0 \<le> limit \<Longrightarrow> (if int (length rows) > limit then take (nat limit) rows else rows) = take (nat limit) rows"
  by auto

text \<open>
  C33. \<open>FinishCursorPage\<close> on an over-fetched result, for a non-negative limit, returns the first
  \<open>limit\<close> rows (reversed back to ascending order on a backward page) and a meta object that agrees
  with them: its cursors are those of the first and last row returned, the flag in the
  direction of travel is set exactly when the fetch found more rows than the limit, and the
  opposite flag exactly when a non-empty page was reached from a cursor.
\<close>

theorem FinishCursorPage_spec:
  assumes "0 \<le> limit"
  shows "\<exists>meta. FinishCursorPage rows limit hasAfter hasBefore cursor records =
            Some (page_rows rows limit hasBefore, meta) \<and>
         Limit meta = limit \<and>
         (HasNext meta \<longleftrightarrow> (if hasBefore then page_rows rows limit hasBefore \<noteq> [] else limit < int (length rows))) \<and>
         (HasPrev meta \<longleftrightarrow> (if hasBefore then limit < int (length rows)
                           else hasAfter \<and> page_rows rows limit hasBefore \<noteq> [])) \<and>
         (page_rows rows limit hasBefore \<noteq> [] \<longrightarrow>
            NextAfterID meta = pc_ID (cursor (last (page_rows rows limit hasBefore))) \<and>
            NextAfterCreatedAt meta = pc_CreatedAt (cursor (last (page_rows rows limit hasBefore))) \<and>
            PrevBeforeID meta = pc_ID (cursor (hd (page_rows rows limit hasBefore))) \<and>
            PrevBeforeCreatedAt meta = pc_CreatedAt (cursor (hd (page_rows rows limit hasBefore)))) \<and>
         (case records of None \<Rightarrow> Records meta = 0
          | Some f \<Rightarrow> Records meta = (if rows = [] then 0 else f (last rows)))"
proof -
  have page: "(if hasBefore then swap_loop 0 (length (take (nat limit) rows) - 1) (take (nat limit) rows)
      else take (nat limit) rows) = page_rows rows limit hasBefore"
    unfolding page_rows_def swap_loop_rev ..
  show ?thesis
    unfolding FinishCursorPage_def Let_def trimmed_rows [OF assms] page
    using assms by (auto simp: hd_conv_nth last_conv_nth split: option.splits)
qed

theorem FinishCursorPage_spec_witness:
  "\<exists>meta. FinishCursorPage [3, 2, 1 :: int] 2 False True (\<lambda>n. \<lparr>pc_ID = itoa n, pc_CreatedAt = None :: nat option\<rparr>) None
     = Some ([2, 3], meta) \<and> HasPrev meta \<and> HasNext meta"
  using FinishCursorPage_spec [of 2 "[3, 2, 1 :: int]" False True
      "\<lambda>n. \<lparr>pc_ID = itoa n, pc_CreatedAt = None :: nat option\<rparr>" None]
  by (auto simp: page_rows_def)


subsection \<open>Committing a reply\<close>

lemma emitCookies_frame [simp]:
  "rw_status (emitCookies w cs) = rw_status w" "rw_body (emitCookies w cs) = rw_body w"
  "rw_header (emitCookies w cs) = rw_header w"
proof -
  have "rw_status (emitCookies w cs) = rw_status w \<and> rw_body (emitCookies w cs) = rw_body w \<and>
      rw_header (emitCookies w cs) = rw_header w"
    unfolding emitCookies_def
    by (induction cs arbitrary: w) (auto simp: set_cookie_def split: option.splits)
  then show "rw_status (emitCookies w cs) = rw_status w" "rw_body (emitCookies w cs) = rw_body w"
    "rw_header (emitCookies w cs) = rw_header w" by blast+
qed

lemma cookie_fault_None:
  "cookie_fault allowed cs = None \<longleftrightarrow>
     (\<forall>c \<in> set cs. \<exists>ck. c = Some ck \<and> ck_name ck \<in> allowed \<and> cookie_valid ck)"
  by (induction cs) (auto split: option.splits)

lemma emitCookies_cookies:
  "cookie_fault allowed cs = None \<Longrightarrow> rw_cookies (emitCookies w cs) = rw_cookies w @ map the cs"
proof (unfold emitCookies_def, induction cs arbitrary: w)
  case (Cons c cs)
  then show ?case
    by (auto simp: set_cookie_def cookie_valid_def split: option.splits if_splits)
qed simp

lemma errorToProblemDetails_internal:
  "errorToProblemDetails (NewInternalError m) c = (pk_New Internal m, True, problemKindInternal)"
  by (simp add: errorToProblemDetails_def NewInternalError_def restore_sealed_New pk_New_valid)

lemma httpx_Error_internal:
  assumes "uncommitted w"
  shows "rw_status (httpx_Error w r (Some (NewInternalError m))) = Some 500"
    and "rw_sent_cookies (httpx_Error w r (Some (NewInternalError m))) = rw_cookies w"
proof -
  have "httpx_Error w r (Some (NewInternalError m)) = dispatchProblem w r (NewInternalError m) None False True"
    by (simp add: httpx_Error_def dispatchResolvedError_def as_challenge_def NewInternalError_def pk_New_valid)
  moreover have "pd_status (resolved_problem (NewInternalError m) None False True) = 500"
    by (simp add: resolved_problem_def errorToProblemDetails_internal)
  ultimately show "rw_status (httpx_Error w r (Some (NewInternalError m))) = Some 500"
    and "rw_sent_cookies (httpx_Error w r (Some (NewInternalError m))) = rw_cookies w"
    using dispatchProblem_sent [OF assms, of r "NewInternalError m" None False True] by auto
qed

text \<open>When a reply can be committed as it is.\<close>

definition reply_envelope :: "writePlan \<Rightarrow> 't Reply \<Rightarrow> 't envelope" where
  "reply_envelope p rp =
     \<lparr>env_Message = rp_message rp, env_Meta = (if wp_mode p = modePage then rp_meta rp else None),
      env_Data = (if wp_mode p = modeMessage then VIface None else rp_body rp)\<rparr>"

definition has_json_body :: "writePlan \<Rightarrow> bool" where
  "has_json_body p \<longleftrightarrow> wp_mode p \<noteq> modeRedirect \<and> \<not> (wp_mode p = modeMessage \<and> wp_bodiless p)"

definition committable :: "(gval \<Rightarrow> json) \<Rightarrow> ('t \<Rightarrow> json) \<Rightarrow> writePlan \<Rightarrow> 't Reply \<Rightarrow> bool" where
  "committable enc enc_time p rp \<longleftrightarrow>
     mode_accepts (wp_mode p) (rp_kind rp) \<and> cookie_fault (wp_allowedCookies p) (rp_cookies rp) = None \<and>
     (wp_mode p = modeRedirect \<longrightarrow> trim_space (rp_location rp) \<noteq> []) \<and>
     (has_json_body p \<longrightarrow> json_marshal (envelope_json enc enc_time (reply_envelope p rp)) \<noteq> None) \<and>
     (wp_mode p = modePage \<or> wp_mode p = modeEnveloped \<longrightarrow> validateResponseValue p (rp_body rp) = None)"


lemma commitValidatedJSON_ok:
  assumes "uncommitted w" and "json_marshal (envelope_json enc enc_time v) = Some body"
    and "(case validate of None \<Rightarrow> None | Some f \<Rightarrow> f ()) = None"
    and "cookie_fault allowed cs = None"
  shows "rw_status (commitValidatedJSON enc enc_time w code cs v validate) = Some code \<and>
         rw_sent_cookies (commitValidatedJSON enc enc_time w code cs v validate) = rw_cookies w @ map the cs \<and>
         sent_header (commitValidatedJSON enc enc_time w code cs v validate) ''Content-Type'' = ''application/json'' \<and>
         rw_body (commitValidatedJSON enc enc_time w code cs v validate) = (if body_allowed code then body else [])"
  using assms emitCookies_cookies [OF assms(4), of w]
  by (simp add: commitValidatedJSON_def wire_defs uncommitted_def sent_header_def Let_def)

lemma commitValidatedJSON_fail:
  assumes "uncommitted w"
    and "json_marshal (envelope_json enc enc_time v) = None \<or>
         (case validate of None \<Rightarrow> None | Some f \<Rightarrow> f ()) \<noteq> None"
  shows "rw_status (commitValidatedJSON enc enc_time w code cs v validate) = Some 500 \<and>
         rw_sent_cookies (commitValidatedJSON enc enc_time w code cs v validate) = rw_cookies w"
proof -
  have "\<exists>m. commitValidatedJSON enc enc_time w code cs v validate =
      writeProblemDetails (log_event LevelError m w) (pk_New Internal ''internal error'')"
    using assms(2) by (auto simp: commitValidatedJSON_def split: option.splits)
  then show ?thesis
    using writeProblemDetails_sent [of "log_event LevelError _ w" "pk_New Internal ''internal error''"] assms(1)
    by fastforce
qed

lemma internal_error_sent:
  assumes "uncommitted w"
  shows "rw_status (internal_error w r m) = Some 500" and "rw_sent_cookies (internal_error w r m) = rw_cookies w"
  using httpx_Error_internal [of "log_event LevelError m w"] assms by (simp_all add: internal_error_def)

definition sent_ok :: "(gval \<Rightarrow> json) \<Rightarrow> ('t \<Rightarrow> json) \<Rightarrow> writePlan \<Rightarrow> 't Reply \<Rightarrow> response_writer \<Rightarrow> response_writer \<Rightarrow> bool" where
  "sent_ok enc enc_time p rp w w' \<longleftrightarrow>
     rw_status w' = Some (wp_status p) \<and> rw_sent_cookies w' = rw_cookies w @ map the (rp_cookies rp) \<and>
     (wp_mode p = modeRedirect \<longrightarrow> sent_header w' ''Location'' = rp_location rp) \<and>
     (if has_json_body p \<and> body_allowed (wp_status p)
      then Some (rw_body w') = json_marshal (envelope_json enc enc_time (reply_envelope p rp))
      else rw_body w' = [])"

definition sent_500 :: "response_writer \<Rightarrow> response_writer \<Rightarrow> bool" where
  "sent_500 w w' \<longleftrightarrow> rw_status w' = Some 500 \<and> rw_sent_cookies w' = rw_cookies w"

lemma commit_committable:
  assumes "uncommitted w" and "committable enc enc_time p rp"
  shows "sent_ok enc enc_time p rp w (commit enc enc_time (Some rp) w r p)"
proof -
  have ok: "mode_accepts (wp_mode p) (rp_kind rp)" "cookie_fault (wp_allowedCookies p) (rp_cookies rp) = None"
    using assms(2) by (simp_all add: committable_def)
  note cookies = emitCookies_cookies [OF ok(2), of w]
  show ?thesis
  proof (cases "has_json_body p")
    case False
    then show ?thesis
      using ok cookies assms
      by (auto simp: commit_def has_json_body_def sent_ok_def committable_def wire_defs sent_header_def
          uncommitted_def)
  next
    case True
    then obtain body where body: "json_marshal (envelope_json enc enc_time (reply_envelope p rp)) = Some body"
      using assms(2) by (auto simp: committable_def)
    define validate where "validate = (if wp_mode p = modeMessage then None
      else Some (\<lambda>_ :: unit. validateResponseValue p (rp_body rp)))"
    have c: "commit enc enc_time (Some rp) w r p =
        commitValidatedJSON enc enc_time w (wp_status p) (rp_cookies rp) (reply_envelope p rp) validate"
      using ok True
      by (cases "wp_mode p")
        (auto simp: commit_def has_json_body_def reply_envelope_def validate_def commitJSON_def)
    have v: "(case validate of None \<Rightarrow> None | Some f \<Rightarrow> f ()) = None"
      using assms(2) True ok(1)
      by (cases "wp_mode p") (auto simp: validate_def committable_def has_json_body_def)
    show ?thesis
      using commitValidatedJSON_ok [OF assms(1) body v ok(2), of "wp_status p"] True body
      by (auto simp: c sent_ok_def has_json_body_def)
  qed
qed

lemma commit_not_committable:
  assumes "uncommitted w" and "\<not> committable enc enc_time p rp"
  shows "sent_500 w (commit enc enc_time (Some rp) w r p)"
proof (cases "mode_accepts (wp_mode p) (rp_kind rp) \<and>
    cookie_fault (wp_allowedCookies p) (rp_cookies rp) = None \<and>
    (wp_mode p = modeRedirect \<longrightarrow> trim_space (rp_location rp) \<noteq> [])")
  case False
  then have "\<exists>m. commit enc enc_time (Some rp) w r p = internal_error w r m"
    by (auto simp: commit_def split: option.splits)
  then show ?thesis using internal_error_sent [OF assms(1)] by (auto simp: sent_500_def)
next
  case True
  with assms(2) have b: "has_json_body p"
    by (auto simp: committable_def has_json_body_def)
  define validate where "validate = (if wp_mode p = modeMessage then None
    else Some (\<lambda>_ :: unit. validateResponseValue p (rp_body rp)))"
  have "commit enc enc_time (Some rp) w r p =
      commitValidatedJSON enc enc_time w (wp_status p) (rp_cookies rp) (reply_envelope p rp) validate"
    using True b
    by (cases "wp_mode p")
      (auto simp: commit_def has_json_body_def reply_envelope_def validate_def commitJSON_def)
  moreover have bad: "json_marshal (envelope_json enc enc_time (reply_envelope p rp)) = None \<or>
      (case validate of None \<Rightarrow> None | Some f \<Rightarrow> f ()) \<noteq> None"
    using True b assms(2) by (auto simp: committable_def validate_def has_json_body_def)
  ultimately show ?thesis
    by (simp add: sent_500_def commitValidatedJSON_fail [OF assms(1) bad])
qed

text \<open>
  C19. All or nothing. A reply that matches the declared mode, carries only declared and valid
  cookies, encodes and passes the response contract is sent with exactly the declared status,
  its cookies and its encoded envelope; any other reply is a 500 that sends none of the reply's
  cookies, so no credential leaks with a response that failed to materialise.
\<close>

theorem commit_all_or_nothing:
  assumes "uncommitted w"
  shows "if committable enc enc_time p rp
         then sent_ok enc enc_time p rp w (commit enc enc_time (Some rp) w r p)
         else sent_500 w (commit enc enc_time (Some rp) w r p)"
  by (simp add: commit_committable [OF assms] commit_not_committable [OF assms])

theorem commit_all_or_nothing_witness:
  "sent_500 fresh_writer (commit (\<lambda>_. JInt 1) (\<lambda>_ :: unit. JInt 0)
     (Some (WithCookie (OK ''hi'' (VInt 1)) [Some (NewRefreshTokenCookie 0 ''secret'' 60)])) fresh_writer
     (None :: unit http_request option) (compileWritePlan (Enveloped 200) ''GET /x'' []))"
proof -
  have u: "uncommitted fresh_writer" by (simp add: uncommitted_def fresh_writer_def)
  have "\<not> committable (\<lambda>_. JInt 1) (\<lambda>_ :: unit. JInt 0) (compileWritePlan (Enveloped 200) ''GET /x'' [])
     (WithCookie (OK ''hi'' (VInt 1)) [Some (NewRefreshTokenCookie 0 ''secret'' 60)])"
    by (simp add: committable_def WithCookie_def OK_def compileWritePlan_def)
  with commit_all_or_nothing [OF u, of "\<lambda>_. JInt 1" "\<lambda>_ :: unit. JInt 0"
      "compileWritePlan (Enveloped 200) ''GET /x'' []"
      "WithCookie (OK ''hi'' (VInt 1)) [Some (NewRefreshTokenCookie 0 ''secret'' 60)]" None]
  show ?thesis by simp
qed


subsection \<open>Wire integers survive the wire\<close>

lemma unquote_rest_plain:
  "(\<And>c. c \<in> set s \<Longrightarrow> c \<notin> {CHR 0x22, CHR 0x0A, CHR 0x5C}) \<Longrightarrow> unquote_rest (s @ [CHR 0x22]) = Some s"
  by (induction s) auto

lemma visible_quote: "visible (CHR 0x22)"
  by (simp add: visible_def)

lemma parse_quoted_number:
  assumes "s \<noteq> []" and "visible (hd s)" and "visible (last s)"
    and "\<And>c. c \<in> set s \<Longrightarrow> is_digit c \<or> c = CHR ''-''"
  shows "parseJSONNumberString (quoted s) = Inr s"
proof -
  have "trim_space (quoted s) = quoted s"
    by (intro trim_space_visible) (simp_all add: quoted_def visible_quote)
  moreover have "trim_space s = s" using assms by (intro trim_space_visible)
  moreover have "unquote_rest (s @ [CHR 0x22]) = Some s"
    by (intro unquote_rest_plain) (auto dest!: assms(4) simp: is_digit_def)
  ultimately show ?thesis using assms(1) by (simp add: parseJSONNumberString_def quoted_def)
qed

text \<open>
  C34. Integers keep their value on the wire: what the encoder writes for an \<open>int64\<close> or a \<open>uint64\<close>
  (a JSON string, so no client loses precision beyond 53 bits) decodes back to the same
  integer, and a decoded integer is always within the range of its type.
\<close>

theorem wire_integers_roundtrip:
  "(\<forall>v. - (2 ^ 63) \<le> v \<and> v < 2 ^ 63 \<longrightarrow> unmarshal_int64 (marshal_int64 v) = Inr (Some v)) \<and>
   (\<forall>n. n < 2 ^ 64 \<longrightarrow> unmarshal_uint64 (marshal_uint64 n) = Inr (Some n)) \<and>
   (\<forall>b v. unmarshal_int64 b = Inr (Some v) \<longrightarrow> - (2 ^ 63) \<le> v \<and> v < 2 ^ 63) \<and>
   (\<forall>b n. unmarshal_uint64 b = Inr (Some n) \<longrightarrow> n < 2 ^ 64)"
proof (intro conjI allI impI)
  fix v :: int assume "- (2 ^ 63) \<le> v \<and> v < 2 ^ 63"
  then have "parse_int 64 (itoa v) = Some v" by (intro parse_int_itoa) simp_all
  moreover have "parseJSONNumberString (quoted (itoa v)) = Inr (itoa v)"
    using itoa_visible itoa_chars by (intro parse_quoted_number) auto
  ultimately show "unmarshal_int64 (marshal_int64 v) = Inr (Some v)"
    by (simp add: unmarshal_int64_def marshal_int64_def)
next
  fix n :: nat assume "n < 2 ^ 64"
  moreover have "parseJSONNumberString (quoted (show_nat n)) = Inr (show_nat n)"
    using digits_visible [of "show_nat n"] show_nat_digits [of n]
    by (intro parse_quoted_number) (auto simp: list_all_iff)
  ultimately show "unmarshal_uint64 (marshal_uint64 n) = Inr (Some n)"
    by (simp add: unmarshal_uint64_def marshal_uint64_def)
next
  fix b v assume "unmarshal_int64 b = Inr (Some v)"
  then have "\<exists>s. parse_int 64 s = Some v"
    by (auto simp: unmarshal_int64_def split: sum.splits if_splits option.splits)
  then show "- (2 ^ 63) \<le> v" "v < 2 ^ 63" by (auto dest: parse_int_bounds)
next
  fix b n assume "unmarshal_uint64 b = Inr (Some n)"
  then show "n < 2 ^ 64"
    by (auto simp: unmarshal_uint64_def parse_uint_def split: sum.splits if_splits option.splits)
qed

theorem wire_integers_roundtrip_witness:
  "unmarshal_int64 (marshal_int64 (- 9223372036854775808)) = Inr (Some (- 9223372036854775808))"
proof -
  have "- (2 ^ 63) \<le> (- 9223372036854775808 :: int) \<and> (- 9223372036854775808 :: int) < 2 ^ 63" by simp
  with wire_integers_roundtrip show ?thesis by blast
qed

text \<open>
  No value the documented schemas cannot express crosses the wire: a valid PostgreSQL numeric,
  timestamp or date is encoded only when it is finite, and decoding never yields the numeric NaN
  or an infinite timestamp or date, whatever the driver's own codec accepts.
\<close>

lemma pg_guards_finite:
  "(\<forall>mj v b. pg_Valid v \<longrightarrow> marshal_Numeric mj v = Inr b \<longrightarrow> \<not> pg_NaN v \<and> pg_Infinity v = Finite \<and> mj v = Inr b) \<and>
   (\<forall>mj v b. \<forall>f \<in> {marshal_Timestamptz, marshal_Timestamp, marshal_Date}.
      pg_Valid v \<longrightarrow> f mj v = Inr b \<longrightarrow> pg_Infinity v = Finite \<and> mj v = Inr b) \<and>
   (\<forall>uj b v. numericGuard uj b = Inr v \<longleftrightarrow> uj b = Inr v \<and> \<not> pg_NaN v) \<and>
   (\<forall>uj b v. \<forall>g \<in> {timestamptzGuard, timestampGuard, dateGuard}.
      g uj b = Inr v \<longleftrightarrow> uj b = Inr v \<and> pg_Infinity v = Finite)"
  by (auto simp: marshal_Numeric_def marshal_Timestamptz_def marshal_Timestamp_def marshal_Date_def
      numericGuard_def timestamptzGuard_def timestampGuard_def dateGuard_def split: if_splits sum.splits)

end
