(* ===== verification/Cache.thy ===== *)
theory Cache
  imports Problem "HOL-Library.AList"
begin

text \<open>
  \<^verbatim>\<open>internal/db/cache/cache.go\<close> over the statements of \<^verbatim>\<open>internal/db/sqlc/cache.sql.go\<close> (generated from
  \<^verbatim>\<open>internal/db/queries/cache.sql\<close>): a key/value table whose rows expire, and the one-statement
  fixed-window counter.

  The table lists its rows by primary key. A statement reads the clock once (\<open>NOW()\<close>), runs
  atomically, and either fails as a whole with the driver's error (\<open>fault\<close>) or takes effect; the
  environment supplies both. Times count nanoseconds. A \<open>JSONB\<close> value is its text;
  \<open>jsonb\<close>, the normalisation PostgreSQL applies to stored JSON, is part of the environment.
\<close>

subsection \<open>The table and its statements\<close>

record cache_row =
  cr_value :: string
  cr_expires_at :: "int option"
  cr_created_at :: int

type_synonym cache_table = "(string \<times> cache_row) list"

record db_env =
  NOW :: int
  fault :: "go_error option"
  jsonb :: "string \<Rightarrow> string option"

definition live :: "int \<Rightarrow> cache_row \<Rightarrow> bool" where
  "live now r \<longleftrightarrow> (case cr_expires_at r of None \<Rightarrow> True | Some e \<Rightarrow> e > now)"

text \<open>\<open>LIKE\<close>: \<open>%\<close> matches any run, \<open>_\<close> one character, and a backslash takes the next character literally.\<close>

fun like :: "string \<Rightarrow> string \<Rightarrow> bool" where
  "like [] s = (s = [])"
| "like (p # ps) s =
     (if p = CHR ''%'' then like ps s \<or> (case s of [] \<Rightarrow> False | _ # cs \<Rightarrow> like (p # ps) cs)
      else if p = CHR 0x5C then
        (case ps of
           [] \<Rightarrow> False
         | q # qs \<Rightarrow> (case s of [] \<Rightarrow> False | c # cs \<Rightarrow> c = q \<and> like qs cs))
      else (case s of [] \<Rightarrow> False | c # cs \<Rightarrow> (p = CHR ''_'' \<or> c = p) \<and> like ps cs))"

definition DeleteCacheEntries :: "db_env \<Rightarrow> string list \<Rightarrow> cache_table \<Rightarrow> go_error option \<times> cache_table" where
  "DeleteCacheEntries env keys t =
     (case fault env of Some e \<Rightarrow> (Some e, t) | None \<Rightarrow> (None, filter (\<lambda>(k, _). k \<notin> set keys) t))"

definition DeleteCacheEntriesByPattern :: "db_env \<Rightarrow> string \<Rightarrow> cache_table \<Rightarrow> go_error option \<times> cache_table" where
  "DeleteCacheEntriesByPattern env pattern t =
     (case fault env of Some e \<Rightarrow> (Some e, t) | None \<Rightarrow> (None, filter (\<lambda>(k, _). \<not> like pattern k) t))"

definition GetCacheEntry :: "db_env \<Rightarrow> string \<Rightarrow> cache_table \<Rightarrow> go_error + string" where
  "GetCacheEntry env key t =
     (case fault env of
        Some e \<Rightarrow> Inl e
      | None \<Rightarrow>
          (case map_of t key of
             None \<Rightarrow> Inl (ESentinel PgxErrNoRows)
           | Some r \<Rightarrow> if live (NOW env) r then Inr (cr_value r) else Inl (ESentinel PgxErrNoRows)))"

record IncrementCacheCounterParams =
  icp_Key :: string
  icp_WindowSeconds :: int

record IncrementCacheCounterRow =
  icr_Hits :: int
  icr_ExpiresAt :: "int option"

text \<open>
  The upsert. A row whose \<open>expires_at\<close> is null or past restarts at 1 with a new expiry; a live row
  is incremented in place. \<open>(value)::TEXT::INT\<close> fails on a value that is no 32-bit integer, and
  the addition on overflow; the statement then changes nothing.
\<close>

definition IncrementCacheCounter ::
  "db_env \<Rightarrow> IncrementCacheCounterParams \<Rightarrow> cache_table \<Rightarrow> (go_error + IncrementCacheCounterRow) \<times> cache_table" where
  "IncrementCacheCounter env arg t =
     (case fault env of
        Some e \<Rightarrow> (Inl e, t)
      | None \<Rightarrow>
          (let expiry = NOW env + icp_WindowSeconds arg * second
           in case map_of t (icp_Key arg) of
                None \<Rightarrow>
                  (Inr \<lparr>icr_Hits = 1, icr_ExpiresAt = Some expiry\<rparr>,
                   AList.update (icp_Key arg)
                     \<lparr>cr_value = itoa 1, cr_expires_at = Some expiry, cr_created_at = NOW env\<rparr> t)
              | Some r \<Rightarrow>
                  if cr_expires_at r = None \<or> the (cr_expires_at r) \<le> NOW env then
                    (Inr \<lparr>icr_Hits = 1, icr_ExpiresAt = Some expiry\<rparr>,
                     AList.update (icp_Key arg) (r\<lparr>cr_value := itoa 1, cr_expires_at := Some expiry\<rparr>) t)
                  else
                    (case parse_int 32 (cr_value r) of
                       None \<Rightarrow> (Inl (EPg ''22P02''), t)
                     | Some n \<Rightarrow>
                         if n + 1 \<ge> 2 ^ 31 then (Inl (EPg ''22003''), t)
                         else (Inr \<lparr>icr_Hits = n + 1, icr_ExpiresAt = cr_expires_at r\<rparr>,
                               AList.update (icp_Key arg) (r\<lparr>cr_value := itoa (n + 1)\<rparr>) t))))"

definition ListCacheKeysByPattern :: "db_env \<Rightarrow> string \<Rightarrow> cache_table \<Rightarrow> go_error + string list" where
  "ListCacheKeysByPattern env pattern t =
     (case fault env of
        Some e \<Rightarrow> Inl e
      | None \<Rightarrow> Inr (sort (map fst (filter (\<lambda>(k, r). like pattern k \<and> live (NOW env) r) t))))"

definition PurgeExpiredCacheEntries :: "db_env \<Rightarrow> cache_table \<Rightarrow> (go_error + nat) \<times> cache_table" where
  "PurgeExpiredCacheEntries env t =
     (case fault env of
        Some e \<Rightarrow> (Inl e, t)
      | None \<Rightarrow>
          (let keep = (\<lambda>(k, r). \<not> (cr_expires_at r \<noteq> None \<and> the (cr_expires_at r) \<le> NOW env))
           in (Inr (length (filter (\<lambda>e. \<not> keep e) t)), filter keep t)))"

record SetCacheEntryParams =
  scp_Key :: string
  scp_Value :: string
  scp_TtlSeconds :: int

definition SetCacheEntry :: "db_env \<Rightarrow> SetCacheEntryParams \<Rightarrow> cache_table \<Rightarrow> go_error option \<times> cache_table" where
  "SetCacheEntry env arg t =
     (case fault env of
        Some e \<Rightarrow> (Some e, t)
      | None \<Rightarrow>
          (case jsonb env (scp_Value arg) of
             None \<Rightarrow> (Some (EPg ''22P02''), t)
           | Some v \<Rightarrow>
               (None, AList.update (scp_Key arg)
                  \<lparr>cr_value = v,
                   cr_expires_at = (if scp_TtlSeconds arg > 0
                      then Some (NOW env + scp_TtlSeconds arg * second) else None),
                   cr_created_at = NOW env\<rparr> t)))"


subsection \<open>The cache\<close>

definition maxTTLSeconds :: int where
  "maxTTLSeconds = 31 * 24 * 60 * 60"

record Window =
  Hits :: int
  ExpiresAt :: int

text \<open>\<open>Truncate\<close> rounds towards zero, which for the positive remainder here is down.\<close>

definition RetryAfter :: "Window \<Rightarrow> int \<Rightarrow> int" where
  "RetryAfter w now =
     (let remaining = ExpiresAt w - now;
          truncated = remaining - remaining mod second
      in if remaining \<le> 0 then second
         else if truncated = remaining then truncated else truncated + second)"

definition Get :: "db_env \<Rightarrow> string \<Rightarrow> cache_table \<Rightarrow> go_error + string option" where
  "Get env key t =
     (case GetCacheEntry env key t of
        Inr v \<Rightarrow> Inr (Some v)
      | Inl e \<Rightarrow> if errors_is e PgxErrNoRows then Inr None else Inl (EWrap ''cache get'' [e]))"

definition Set_entry :: "db_env \<Rightarrow> string \<Rightarrow> json \<Rightarrow> int \<Rightarrow> cache_table \<Rightarrow> go_error option \<times> cache_table" where
  "Set_entry env key value ttlSeconds t =
     (if ttlSeconds < 0 \<or> ttlSeconds > maxTTLSeconds then (Some (ESentinel ErrInvalidTTL), t)
      else case json_marshal value of
        None \<Rightarrow> (Some (EWrap ''cache set: encoding value'' [EOther ''json'']), t)
      | Some encoded \<Rightarrow>
          (case SetCacheEntry env \<lparr>scp_Key = key, scp_Value = encoded, scp_TtlSeconds = ttlSeconds\<rparr> t of
             (Some e, t') \<Rightarrow> (Some (EWrap ''cache set'' [e]), t')
           | (None, t') \<Rightarrow> (None, t')))"

text \<open>The zero \<open>time.Time\<close> of a window whose row has no expiry; the counter always has one.\<close>

definition zero_time :: int where
  "zero_time = - 62135596800 * second"

definition IncrementWindow :: "db_env \<Rightarrow> string \<Rightarrow> int \<Rightarrow> cache_table \<Rightarrow> (go_error + Window) \<times> cache_table" where
  "IncrementWindow env key windowSeconds t =
     (if windowSeconds \<le> 0 \<or> windowSeconds > maxTTLSeconds then (Inl (ESentinel ErrInvalidTTL), t)
      else case IncrementCacheCounter env \<lparr>icp_Key = key, icp_WindowSeconds = windowSeconds\<rparr> t of
        (Inl e, t') \<Rightarrow> (Inl (EWrap ''cache increment'' [e]), t')
      | (Inr row, t') \<Rightarrow>
          (Inr \<lparr>Hits = icr_Hits row,
                ExpiresAt = (case icr_ExpiresAt row of None \<Rightarrow> zero_time | Some e \<Rightarrow> e)\<rparr>, t'))"

definition Increment :: "db_env \<Rightarrow> string \<Rightarrow> int \<Rightarrow> cache_table \<Rightarrow> (go_error + int) \<times> cache_table" where
  "Increment env key windowSeconds t =
     (case IncrementWindow env key windowSeconds t of
        (Inl e, t') \<Rightarrow> (Inl e, t')
      | (Inr w, t') \<Rightarrow> (Inr (Hits w), t'))"

definition Flush :: "db_env \<Rightarrow> string list \<Rightarrow> cache_table \<Rightarrow> go_error option \<times> cache_table" where
  "Flush env keys t =
     (if length keys = 0 then (None, t)
      else case DeleteCacheEntries env keys t of
        (Some e, t') \<Rightarrow> (Some (EWrap ''cache flush'' [e]), t')
      | (None, t') \<Rightarrow> (None, t'))"

definition likePattern :: "string \<Rightarrow> string" where
  "likePattern pattern = map (\<lambda>c. if c = CHR ''*'' then CHR ''%'' else c) pattern"

definition FlushPattern :: "db_env \<Rightarrow> string \<Rightarrow> cache_table \<Rightarrow> go_error option \<times> cache_table" where
  "FlushPattern env pattern t =
     (case DeleteCacheEntriesByPattern env (likePattern pattern) t of
        (Some e, t') \<Rightarrow> (Some (EWrap ''cache flush pattern'' [e]), t')
      | (None, t') \<Rightarrow> (None, t'))"

definition GetPattern :: "db_env \<Rightarrow> string \<Rightarrow> cache_table \<Rightarrow> go_error + string list" where
  "GetPattern env pattern t =
     (case ListCacheKeysByPattern env (likePattern pattern) t of
        Inl e \<Rightarrow> Inl (EWrap ''cache get pattern'' [e])
      | Inr keys \<Rightarrow> Inr keys)"

definition PruneExpired :: "db_env \<Rightarrow> cache_table \<Rightarrow> (go_error + nat) \<times> cache_table" where
  "PruneExpired env t =
     (case PurgeExpiredCacheEntries env t of
        (Inl e, t') \<Rightarrow> (Inl (EWrap ''cache prune expired'' [e]), t')
      | (Inr n, t') \<Rightarrow> (Inr n, t'))"


subsection \<open>The table invariant\<close>

text \<open>The primary key: no two rows share a key. Every operation keeps it.\<close>

definition wf_table :: "cache_table \<Rightarrow> bool" where
  "wf_table t \<longleftrightarrow> distinct (map fst t)"

lemma wf_table_update [simp]: "wf_table t \<Longrightarrow> wf_table (AList.update k r t)"
  by (simp add: wf_table_def distinct_update)

lemma wf_table_filter [simp]: "wf_table t \<Longrightarrow> wf_table (filter P t)"
  by (simp add: wf_table_def distinct_map_filter)

lemma map_of_filter_key: "map_of (filter (\<lambda>(k, _). P k) t) k = (if P k then map_of t k else None)"
  by (induction t) auto

lemma map_of_filter_row:
  "wf_table t \<Longrightarrow>
     map_of (filter (\<lambda>(k, r). P r) t) k =
       (case map_of t k of None \<Rightarrow> None | Some r \<Rightarrow> if P r then Some r else None)"
proof (induction t)
  case (Cons e t)
  then show ?case
    by (cases e) (force simp: wf_table_def map_of_eq_None_iff split: option.splits)
qed simp

lemma cache_operations_wf:
  assumes "wf_table t"
  shows "wf_table (snd (Set_entry env key v ttl t))" "wf_table (snd (IncrementWindow env key ws t))"
    "wf_table (snd (Flush env keys t))" "wf_table (snd (FlushPattern env pat t))"
    "wf_table (snd (PruneExpired env t))"
  using assms
  by (auto simp: Set_entry_def SetCacheEntry_def IncrementWindow_def IncrementCacheCounter_def Flush_def
      DeleteCacheEntries_def FlushPattern_def DeleteCacheEntriesByPattern_def PruneExpired_def
      PurgeExpiredCacheEntries_def Let_def split: option.splits sum.splits prod.splits if_splits)

lemma Get_ok:
  "fault env = None \<Longrightarrow>
     Get env key t = Inr (case map_of t key of None \<Rightarrow> None
                          | Some r \<Rightarrow> if live (NOW env) r then Some (cr_value r) else None)"
  by (auto simp: Get_def GetCacheEntry_def split: option.splits)

text \<open>
  C26. Read your write, and never a stale value. After a successful \<open>Set\<close>, a read of that key
  returns the stored value while the entry lives (for ever with a zero TTL) and a miss from the
  instant it expires, whether or not it has been reaped; every other key reads as before.
\<close>

theorem Get_after_Set:
  assumes "0 \<le> ttl" and "ttl \<le> maxTTLSeconds" and "json_marshal v = Some encoded"
    and "jsonb env encoded = Some stored" and "fault env = None" and "fault env' = None"
  shows "fst (Set_entry env key v ttl t) = None \<and>
         Get env' key' (snd (Set_entry env key v ttl t)) =
           (if key' = key
            then Inr (if ttl = 0 \<or> NOW env' < NOW env + ttl * second then Some stored else None)
            else Get env' key' t)"
  using assms
  by (auto simp: Set_entry_def SetCacheEntry_def Get_ok update_conv' live_def)

theorem Get_after_Set_witness:
  "Get \<lparr>NOW = 61 * second, fault = None, jsonb = Some\<rparr> ''k''
     (snd (Set_entry \<lparr>NOW = 0, fault = None, jsonb = Some\<rparr> ''k'' (JInt 7) 60 [])) = Inr None"
  using Get_after_Set [of 60 "JInt 7" "itoa 7" "\<lparr>NOW = 0, fault = None, jsonb = Some\<rparr>" "itoa 7"
      "\<lparr>NOW = 61 * second, fault = None, jsonb = Some\<rparr>" "''k''" "[]" "''k''"]
  by (simp add: maxTTLSeconds_def second_def)

text \<open>
  Reaping is invisible: whatever a reader sees of any key from the time of the purge on, it
  would have seen without the purge, and the number reported is the number of rows that went.
\<close>

theorem PruneExpired_invisible:
  assumes "wf_table t" and "fault env = None" and "NOW env \<le> NOW env'"
  shows "Get env' key (snd (PruneExpired env t)) = Get env' key t \<and>
         (\<exists>n. fst (PruneExpired env t) = Inr n \<and> length t = length (snd (PruneExpired env t)) + n)"
proof -
  let ?keep = "\<lambda>r. \<not> (cr_expires_at r \<noteq> None \<and> the (cr_expires_at r) \<le> NOW env)"
  have p: "PruneExpired env t =
      (Inr (length (filter (\<lambda>e. \<not> (\<lambda>(k, r). ?keep r) e) t)), filter (\<lambda>(k, r). ?keep r) t)"
    using assms(2) by (simp add: PruneExpired_def PurgeExpiredCacheEntries_def Let_def)
  have "Get env' key (filter (\<lambda>(k, r). ?keep r) t) = Get env' key t"
  proof (cases "fault env'")
    case None
    then show ?thesis
      using assms(3)
      by (auto simp: Get_ok map_of_filter_row [OF assms(1)] live_def split: option.splits)
  qed (simp add: Get_def GetCacheEntry_def)
  moreover have "length t = length (filter (\<lambda>(k, r). ?keep r) t) +
      length (filter (\<lambda>e. \<not> (\<lambda>(k, r). ?keep r) e) t)"
    by (rule sum_length_filter_compl [symmetric])
  ultimately show ?thesis unfolding p by simp
qed

theorem PruneExpired_invisible_witness:
  "Get \<lparr>NOW = 10, fault = None, jsonb = Some\<rparr> ''a''
     (snd (PruneExpired \<lparr>NOW = 5, fault = None, jsonb = Some\<rparr>
        [(''a'', \<lparr>cr_value = ''1'', cr_expires_at = Some 20, cr_created_at = 0\<rparr>),
         (''b'', \<lparr>cr_value = ''2'', cr_expires_at = Some 3, cr_created_at = 0\<rparr>)])) = Inr (Some ''1'')"
  using PruneExpired_invisible [of "[(''a'', \<lparr>cr_value = ''1'', cr_expires_at = Some 20, cr_created_at = 0\<rparr>),
         (''b'', \<lparr>cr_value = ''2'', cr_expires_at = Some 3, cr_created_at = 0\<rparr>)]"
      "\<lparr>NOW = 5, fault = None, jsonb = Some\<rparr>" "\<lparr>NOW = 10, fault = None, jsonb = Some\<rparr>" "''a''"]
  by (simp add: wf_table_def Get_ok live_def)

lemma RetryAfter_at_least: "second \<le> RetryAfter w now"
proof -
  define rem where "rem = ExpiresAt w - now"
  have "second \<le> rem" if "rem mod second = 0" "0 < rem"
    using that by (intro zdvd_imp_le) (simp_all add: dvd_eq_mod_eq_0)
  moreover have "0 \<le> rem - rem mod second" if "0 < rem"
    using zmod_le_nonneg_dividend [of rem second] that by simp
  ultimately show ?thesis using second_pos by (auto simp: RetryAfter_def Let_def rem_def [symmetric])
qed

text \<open>
  \<open>RetryAfter\<close> is a whole number of seconds, at least one, and long enough to reach the end of
  the window; it overshoots an open window by less than a second.
\<close>

lemma RetryAfter_bounds:
  "second \<le> RetryAfter w now \<and> second dvd RetryAfter w now \<and> ExpiresAt w \<le> now + RetryAfter w now \<and>
   (now < ExpiresAt w \<longrightarrow> RetryAfter w now < ExpiresAt w - now + second)"
proof (cases "ExpiresAt w - now \<le> 0")
  case True
  then show ?thesis using second_pos by (simp add: RetryAfter_def Let_def)
next
  case False
  define rem where "rem = ExpiresAt w - now"
  have mod: "0 \<le> rem mod second" "rem mod second < second" using second_pos by simp_all
  have le: "rem mod second \<le> rem" using False by (intro zmod_le_nonneg_dividend) (simp add: rem_def)
  have trunc: "rem - rem mod second = second * (rem div second)" by (simp add: minus_mod_eq_mult_div)
  have "RetryAfter w now = (if rem - rem mod second = rem then rem - rem mod second
      else rem - rem mod second + second)"
    using False by (simp add: RetryAfter_def Let_def rem_def)
  moreover have "second \<le> rem" if "rem mod second = 0"
    using that False second_pos by (metis dvd_imp_le_int dvd_eq_mod_eq_0 abs_of_pos linorder_not_le rem_def zdvd_imp_le)
  moreover have "second dvd rem - rem mod second" using trunc by simp
  ultimately show ?thesis using False mod le by (auto simp: rem_def)
qed

subsection \<open>Patterns\<close>

text \<open>What a caller means by a pattern: \<open>*\<close> stands for any run of characters.\<close>

fun glob :: "string \<Rightarrow> string \<Rightarrow> bool" where
  "glob [] s = (s = [])"
| "glob (p # ps) s =
     (if p = CHR ''*'' then glob ps s \<or> (case s of [] \<Rightarrow> False | _ # cs \<Rightarrow> glob (p # ps) cs)
      else (case s of [] \<Rightarrow> False | c # cs \<Rightarrow> c = p \<and> glob ps cs))"

lemma like_glob:
  "set p \<inter> {CHR ''%'', CHR ''_'', CHR 0x5C} = {} \<Longrightarrow> like (likePattern p) s \<longleftrightarrow> glob p s"
proof (induction p s rule: glob.induct)
  case (2 p ps s)
  then show ?case by (cases s) (auto simp: likePattern_def)
qed (simp add: likePattern_def)

text \<open>
  For a pattern without SQL metacharacters, \<open>GetPattern\<close> lists exactly the live keys the glob
  matches and \<open>FlushPattern\<close> removes exactly the entries it matches. An underscore is not
  escaped: it matches any character.
\<close>

theorem pattern_operations_glob:
  assumes "set p \<inter> {CHR ''%'', CHR ''_'', CHR 0x5C} = {}" and "fault env = None"
  shows "(\<exists>ks. GetPattern env p t = Inr ks \<and>
            set ks = {k. \<exists>r. (k, r) \<in> set t \<and> live (NOW env) r \<and> glob p k}) \<and>
         (\<exists>t'. FlushPattern env p t = (None, t') \<and>
            (\<forall>k. map_of t' k = (if glob p k then None else map_of t k))) \<and>
         like (likePattern ''a_b'') ''axb''"
proof -
  have "\<exists>ks. GetPattern env p t = Inr ks \<and> set ks = {k. \<exists>r. (k, r) \<in> set t \<and> live (NOW env) r \<and> glob p k}"
    using assms by (force simp: GetPattern_def ListCacheKeysByPattern_def like_glob image_iff)
  moreover have "FlushPattern env p t = (None, filter (\<lambda>(k, _). \<not> glob p k) t)"
    using assms by (simp add: FlushPattern_def DeleteCacheEntriesByPattern_def like_glob)
  moreover have "like (likePattern ''a_b'') ''axb''" by (simp add: likePattern_def)
  ultimately show ?thesis by (simp add: map_of_filter_key)
qed

theorem pattern_operations_glob_witness:
  "\<exists>ks. GetPattern \<lparr>NOW = 0, fault = None, jsonb = Some\<rparr> ''ratelimit:*''
     [(''ratelimit:a'', \<lparr>cr_value = ''1'', cr_expires_at = None, cr_created_at = 0\<rparr>),
      (''x'', \<lparr>cr_value = ''1'', cr_expires_at = None, cr_created_at = 0\<rparr>)] = Inr ks \<and> ''ratelimit:a'' \<in> set ks"
proof -
  let ?env = "\<lparr>NOW = 0, fault = None, jsonb = Some\<rparr>"
  let ?row = "\<lparr>cr_value = ''1'', cr_expires_at = None, cr_created_at = 0\<rparr>"
  let ?t = "[(''ratelimit:a'', ?row), (''x'', ?row)]"
  have plain: "set ''ratelimit:*'' \<inter> {CHR ''%'', CHR ''_'', CHR 0x5C} = {}" by simp
  have ok: "fault ?env = None" by simp
  have "glob ''ratelimit:*'' ''ratelimit:a'' \<and> live (NOW ?env) ?row" by (simp add: live_def)
  moreover obtain ks where "GetPattern ?env ''ratelimit:*'' ?t = Inr ks"
    "set ks = {k. \<exists>r. (k, r) \<in> set ?t \<and> live (NOW ?env) r \<and> glob ''ratelimit:*'' k}"
    using pattern_operations_glob [OF plain ok, of ?t] by blast
  ultimately show ?thesis by (intro exI [of _ ks]) simp
qed

end
