(* ===== verification/Rate_Limit.thy ===== *)
theory Rate_Limit
  imports Cache
begin

text \<open>
  \<^verbatim>\<open>internal/db/cache/ratelimit.go\<close>: the fixed-window limiter over the \<open>Store\<close> interface of
  \<^verbatim>\<open>internal/db/cache/cache.go\<close>. The interface and the laws the limiter relies on are the locale
  \<open>counter_store\<close>; \<open>Cache\<close> is its interpretation. The digest of an identifier (\<open>hexsum\<close>, SHA-256 in
  hexadecimal) is a parameter.
\<close>

subsection \<open>The limiter\<close>

definition rateLimitPrefix :: string where
  "rateLimitPrefix = ''ratelimit''"

definition identifierDigestLength :: nat where
  "identifierDigestLength = 32"

definition Key :: "(string \<Rightarrow> string) \<Rightarrow> string \<Rightarrow> string \<Rightarrow> string" where
  "Key hexsum scope identifier =
     rateLimitPrefix @ '':'' @ scope @ '':'' @
     take identifierDigestLength (hexsum (to_lower (trim_space identifier)))"

record Decision =
  Allowed :: bool
  dHits :: int
  dLimit :: int
  dRetryAfter :: int

text \<open>
  The two methods of the \<open>Store\<close> interface the limiter calls. \<open>now\<close> is what \<open>time.Now()\<close> gives
  where the decision computes its retry time.
\<close>

type_synonym 's increment = "string \<Rightarrow> int \<Rightarrow> 's \<Rightarrow> (go_error + Window) \<times> 's"

type_synonym 's flush_op = "string list \<Rightarrow> 's \<Rightarrow> go_error option \<times> 's"

definition Allow ::
  "'s increment \<Rightarrow> (string \<Rightarrow> string) \<Rightarrow> int \<Rightarrow> string \<Rightarrow> string \<Rightarrow> int \<Rightarrow> int \<Rightarrow> 's
     \<Rightarrow> (go_error + Decision) \<times> 's" where
  "Allow incr hexsum now scope identifier limit windowSeconds s =
     (case incr (Key hexsum scope identifier) windowSeconds s of
        (Inl e, s') \<Rightarrow> (Inl e, s')
      | (Inr window, s') \<Rightarrow>
          (let allowed = (Hits window \<le> limit)
           in (Inr \<lparr>Allowed = allowed, dHits = Hits window, dLimit = limit,
                    dRetryAfter = (if \<not> allowed then RetryAfter window now else 0)\<rparr>, s')))"

definition Assert ::
  "'s increment \<Rightarrow> (string \<Rightarrow> string) \<Rightarrow> int \<Rightarrow> string \<Rightarrow> string \<Rightarrow> int \<Rightarrow> int \<Rightarrow> 's
     \<Rightarrow> go_error option \<times> 's" where
  "Assert incr hexsum now scope identifier limit windowSeconds s =
     (case Allow incr hexsum now scope identifier limit windowSeconds s of
        (Inl e, s') \<Rightarrow> (Some e, s')
      | (Inr decision, s') \<Rightarrow>
          (if \<not> Allowed decision
           then Some (NewTooManyRequestsError ''too many attempts, please try again later'' (dRetryAfter decision))
           else None, s'))"

definition Clear :: "'s flush_op \<Rightarrow> (string \<Rightarrow> string) \<Rightarrow> string \<Rightarrow> string \<Rightarrow> 's \<Rightarrow> go_error option \<times> 's" where
  "Clear flush hexsum scope identifier s = flush [Key hexsum scope identifier] s"


subsection \<open>The store interface\<close>

text \<open>
  \<open>counter s k\<close> is the last window opened for a key, its hits and the instant it closes. A hit in
  an open window counts on and keeps the closing instant; a hit outside one opens a new window.
\<close>

locale counter_store =
  fixes incr :: "int \<Rightarrow> 's increment" and flush :: "int \<Rightarrow> 's flush_op"
    and counter :: "'s \<Rightarrow> string \<Rightarrow> (int \<times> int) option"
    and inv :: "'s \<Rightarrow> bool" and owned :: "string \<Rightarrow> bool"
  assumes incr_open:
      "inv s \<Longrightarrow> owned k \<Longrightarrow> 0 < ws \<Longrightarrow> ws \<le> maxTTLSeconds \<Longrightarrow> counter s k = Some (h, e) \<Longrightarrow> now < e \<Longrightarrow>
       h + 1 < 2 ^ 31 \<Longrightarrow>
       fst (incr now k ws s) = Inr \<lparr>Hits = h + 1, ExpiresAt = e\<rparr> \<and>
       counter (snd (incr now k ws s)) k = Some (h + 1, e)"
    and incr_closed:
      "inv s \<Longrightarrow> owned k \<Longrightarrow> 0 < ws \<Longrightarrow> ws \<le> maxTTLSeconds \<Longrightarrow>
       (\<And>h e. counter s k = Some (h, e) \<Longrightarrow> e \<le> now) \<Longrightarrow>
       fst (incr now k ws s) = Inr \<lparr>Hits = 1, ExpiresAt = now + ws * second\<rparr> \<and>
       counter (snd (incr now k ws s)) k = Some (1, now + ws * second)"
    and incr_other: "inv s \<Longrightarrow> k' \<noteq> k \<Longrightarrow> counter (snd (incr now k ws s)) k' = counter s k'"
    and incr_inv: "inv s \<Longrightarrow> owned k \<Longrightarrow> inv (snd (incr now k ws s))"
    and flush_spec:
      "inv s \<Longrightarrow> fst (flush now ks s) = None \<and> inv (snd (flush now ks s)) \<and>
       counter (snd (flush now ks s)) k = (if k \<in> set ks then None else counter s k)"

text \<open>A sequence of hits in the order the database serialises them: each has its own \<open>NOW()\<close>.\<close>

fun run_hits :: "(int \<Rightarrow> 's increment) \<Rightarrow> int \<Rightarrow> (int \<times> string) list \<Rightarrow> 's
    \<Rightarrow> (go_error + Window) list \<times> 's" where
  "run_hits incr ws [] s = ([], s)"
| "run_hits incr ws ((now, k) # ops) s =
     (case incr now k ws s of (r, s') \<Rightarrow>
        (case run_hits incr ws ops s' of (rs, s'') \<Rightarrow> (r # rs, s'')))"

text \<open>The closing instant of a key's window: of the one that is open, else of the one its first hit opens.\<close>

definition base_hits :: "('s \<Rightarrow> string \<Rightarrow> (int \<times> int) option) \<Rightarrow> int \<Rightarrow> 's \<Rightarrow> string \<Rightarrow> int" where
  "base_hits counter until s k = (case counter s k of Some (h, e) \<Rightarrow> if until \<le> e then h else 0 | None \<Rightarrow> 0)"

definition window_end ::
  "('s \<Rightarrow> string \<Rightarrow> (int \<times> int) option) \<Rightarrow> int \<Rightarrow> int \<Rightarrow> (int \<times> string) list \<Rightarrow> 's \<Rightarrow> string \<Rightarrow> int" where
  "window_end counter until ws ops s k =
     (case counter s k of
        Some (h, e) \<Rightarrow> if until \<le> e then e
          else (case List.find (\<lambda>op. snd op = k) ops of Some (now, _) \<Rightarrow> now + ws * second | None \<Rightarrow> 0)
      | None \<Rightarrow> (case List.find (\<lambda>op. snd op = k) ops of Some (now, _) \<Rightarrow> now + ws * second | None \<Rightarrow> 0))"

context counter_store
begin

text \<open>Every window is closed by \<open>from\<close> or open until \<open>until\<close>, with room for \<open>n\<close> more hits.\<close>

definition settled :: "int \<Rightarrow> int \<Rightarrow> nat \<Rightarrow> 's \<Rightarrow> bool" where
  "settled from until n s \<longleftrightarrow>
     (\<forall>k h e. counter s k = Some (h, e) \<longrightarrow> e \<le> from \<or> until \<le> e \<and> 0 \<le> h \<and> h + int n < 2 ^ 31)"

lemma hit_step:
  assumes "inv s" "owned k" "0 < ws" "ws \<le> maxTTLSeconds" and "from \<le> now" "now < until"
    and "until \<le> from + ws * second" and "settled from until (Suc n) s" and "Suc n < 2 ^ 31"
  shows "fst (incr now k ws s) =
           Inr \<lparr>Hits = base_hits counter until s k + 1, ExpiresAt = window_end counter until ws ((now, k) # ops) s k\<rparr> \<and>
         counter (snd (incr now k ws s)) k =
           Some (base_hits counter until s k + 1, window_end counter until ws ((now, k) # ops) s k) \<and>
         until \<le> window_end counter until ws ((now, k) # ops) s k \<and>
         settled from until n (snd (incr now k ws s))"
proof -
  have rest: "settled from until n (snd (incr now k ws s))"
    if "counter (snd (incr now k ws s)) k = Some (h, e)" "until \<le> e" "0 \<le> h" "h + int n < 2 ^ 31" for h e
    unfolding settled_def
  proof (intro allI impI)
    fix k' h' e'
    assume c: "counter (snd (incr now k ws s)) k' = Some (h', e')"
    show "e' \<le> from \<or> until \<le> e' \<and> 0 \<le> h' \<and> h' + int n < 2 ^ 31"
    proof (cases "k' = k")
      case True
      with c that show ?thesis by simp
    next
      case False
      with c have "counter s k' = Some (h', e')" using incr_other [OF assms(1) False] by simp
      with assms(8) show ?thesis by (force simp: settled_def)
    qed
  qed
  show ?thesis
  proof (cases "\<exists>h e. counter s k = Some (h, e) \<and> until \<le> e")
    case True
    then obtain h e where c: "counter s k = Some (h, e)" "until \<le> e" by blast
    with assms(5,6,8) have h: "0 \<le> h" "h + int (Suc n) < 2 ^ 31" "now < e" by (fastforce simp: settled_def)+
    from incr_open [OF assms(1-4) c(1) h(3)] h(2) have i:
      "fst (incr now k ws s) = Inr \<lparr>Hits = h + 1, ExpiresAt = e\<rparr>"
      "counter (snd (incr now k ws s)) k = Some (h + 1, e)" by simp_all
    with c h rest [OF i(2) c(2)] show ?thesis by (simp add: base_hits_def window_end_def)
  next
    case False
    with assms(5,8) have closed: "e \<le> now" if "counter s k = Some (h, e)" for h e
      using that by (fastforce simp: settled_def)
    have i: "fst (incr now k ws s) = Inr \<lparr>Hits = 1, ExpiresAt = now + ws * second\<rparr>"
      "counter (snd (incr now k ws s)) k = Some (1, now + ws * second)"
      using incr_closed [OF assms(1-4), of now] closed by blast+
    moreover have "until \<le> now + ws * second" using assms(5,7) by linarith
    moreover have "base_hits counter until s k = 0" "window_end counter until ws ((now, k) # ops) s k = now + ws * second"
      using False by (auto simp: base_hits_def window_end_def split: option.splits)
    ultimately show ?thesis using rest [OF i(2)] assms(9) by simp
  qed
qed

lemma hits_counted:
  assumes "inv s" "0 < ws" "ws \<le> maxTTLSeconds" and "until \<le> from + ws * second"
    and "\<And>now k. (now, k) \<in> set ops \<Longrightarrow> owned k \<and> from \<le> now \<and> now < until"
    and "settled from until (length ops) s" and "length ops < 2 ^ 31" and "i < length ops"
  shows "fst (run_hits incr ws ops s) ! i =
           Inr \<lparr>Hits = base_hits counter until s (snd (ops ! i)) +
                        int (count_list (map snd (take (Suc i) ops)) (snd (ops ! i))),
                ExpiresAt = window_end counter until ws ops s (snd (ops ! i))\<rparr>"
  using assms
proof (induction ops arbitrary: s i)
  case (Cons op ops)
  obtain now k where op: "op = (now, k)" by (cases op)
  define s' where "s' = snd (incr now k ws s)"
  have k: "owned k" "from \<le> now" "now < until" using Cons.prems(5) [of now k] by (simp_all add: op)
  note step = hit_step [OF Cons.prems(1) k(1) Cons.prems(2,3) k(2,3) Cons.prems(4), of "length ops" ops,
      folded s'_def]
  have s': "fst (incr now k ws s) = Inr \<lparr>Hits = base_hits counter until s k + 1,
        ExpiresAt = window_end counter until ws ((now, k) # ops) s k\<rparr>"
    "counter s' k = Some (base_hits counter until s k + 1, window_end counter until ws ((now, k) # ops) s k)"
    "until \<le> window_end counter until ws ((now, k) # ops) s k" "settled from until (length ops) s'"
    using step Cons.prems(6,7) by simp_all
  have other: "counter s' k' = counter s k'" if "k' \<noteq> k" for k'
    unfolding s'_def by (rule incr_other [OF Cons.prems(1) that])
  have base: "base_hits counter until s' k' = base_hits counter until s k' + (if k' = k then 1 else 0)" for k'
    using s'(2,3) other [of k'] by (simp add: base_hits_def)
  have wend: "window_end counter until ws ops s' k' = window_end counter until ws ((now, k) # ops) s k'" for k'
  proof (cases "k' = k")
    case True
    with s'(2,3) show ?thesis by (simp add: window_end_def [of _ _ _ _ s'])
  next
    case False
    then have "List.find (\<lambda>op. snd op = k') ((now, k) # ops) = List.find (\<lambda>op. snd op = k') ops" by auto
    then show ?thesis using other [OF False] by (simp only: window_end_def)
  qed
  have run: "fst (run_hits incr ws ((now, k) # ops) s) = fst (incr now k ws s) # fst (run_hits incr ws ops s')"
    by (simp add: s'_def case_prod_beta)
  show ?case
  proof (cases i)
    case 0
    then show ?thesis unfolding op run using s'(1) by simp
  next
    case (Suc j)
    have inv': "inv s'" unfolding s'_def by (rule incr_inv [OF Cons.prems(1) k(1)])
    have "fst (run_hits incr ws ops s') ! j =
        Inr \<lparr>Hits = base_hits counter until s' (snd (ops ! j)) +
               int (count_list (map snd (take (Suc j) ops)) (snd (ops ! j))),
             ExpiresAt = window_end counter until ws ops s' (snd (ops ! j))\<rparr>"
      using Cons.prems Suc inv' s'(4) by (intro Cons.IH) auto
    with Suc show ?thesis unfolding op run by (simp add: base wend)
  qed
qed simp

end


subsection \<open>The cache implements the store\<close>

text \<open>A statement that meets no fault, at a given \<open>NOW()\<close>.\<close>

definition fair :: "int \<Rightarrow> db_env" where
  "fair now = \<lparr>NOW = now, fault = None, jsonb = Some\<rparr>"

definition cache_incr :: "int \<Rightarrow> cache_table increment" where
  "cache_incr now = IncrementWindow (fair now)"

definition cache_flush :: "int \<Rightarrow> cache_table flush_op" where
  "cache_flush now = Flush (fair now)"

definition owned_key :: "string \<Rightarrow> bool" where
  "owned_key k \<longleftrightarrow> has_prefix k (rateLimitPrefix @ '':'')"

definition cache_counter :: "cache_table \<Rightarrow> string \<Rightarrow> (int \<times> int) option" where
  "cache_counter t k =
     (case map_of t k of
        None \<Rightarrow> None
      | Some r \<Rightarrow>
          (case (cr_expires_at r, parse_int 32 (cr_value r)) of
             (Some e, Some n) \<Rightarrow> Some (n, e)
           | _ \<Rightarrow> None))"

text \<open>Rows in the limiter's namespace that expire hold integers: only the limiter writes there.\<close>

definition cache_inv :: "cache_table \<Rightarrow> bool" where
  "cache_inv t \<longleftrightarrow> wf_table t \<and>
     (\<forall>k r. owned_key k \<longrightarrow> map_of t k = Some r \<longrightarrow> cr_expires_at r \<noteq> None \<longrightarrow> parse_int 32 (cr_value r) \<noteq> None)"

lemma parse_32: "- (2 ^ 31) \<le> n \<Longrightarrow> n < 2 ^ 31 \<Longrightarrow> parse_int 32 (itoa n) = Some n"
  by (rule parse_int_itoa) simp_all

lemma cache_inv_update:
  "cache_inv t \<Longrightarrow> (owned_key k \<Longrightarrow> cr_expires_at r \<noteq> None \<Longrightarrow> parse_int 32 (cr_value r) \<noteq> None) \<Longrightarrow>
     cache_inv (AList.update k r t)"
  by (auto simp: cache_inv_def update_conv' split: if_splits)

lemma cache_inv_filter: "cache_inv t \<Longrightarrow> cache_inv (filter (\<lambda>(k, _). P k) t)"
  by (auto simp: cache_inv_def map_of_filter_key split: if_splits)

lemma cache_inv_Set: "cache_inv t \<Longrightarrow> \<not> owned_key k \<Longrightarrow> cache_inv (snd (Set_entry env k v ttl t))"
  by (auto simp: Set_entry_def SetCacheEntry_def intro: cache_inv_update split: option.splits)

lemma cache_counter_update:
  "cache_counter (AList.update k r t) k' =
     (if k' = k then (case (cr_expires_at r, parse_int 32 (cr_value r)) of
                        (Some e, Some n) \<Rightarrow> Some (n, e) | _ \<Rightarrow> None)
      else cache_counter t k')"
  by (simp add: cache_counter_def update_conv')

lemma cache_incr_open:
  assumes "0 < ws" "ws \<le> maxTTLSeconds" and "cache_counter t k = Some (h, e)" and "now < e" and "h + 1 < 2 ^ 31"
  shows "fst (cache_incr now k ws t) = Inr \<lparr>Hits = h + 1, ExpiresAt = e\<rparr> \<and>
         cache_counter (snd (cache_incr now k ws t)) k = Some (h + 1, e)"
proof -
  obtain r where r: "map_of t k = Some r" "cr_expires_at r = Some e" "parse_int 32 (cr_value r) = Some h"
    using assms(3) by (auto simp: cache_counter_def split: option.splits)
  have "- (2 ^ 31) \<le> h" using parse_int_bounds [OF r(3)] by simp
  then have "parse_int 32 (itoa (h + 1)) = Some (h + 1)" using assms(5) by (intro parse_32) simp_all
  then show ?thesis
    using r assms
    by (simp add: cache_incr_def fair_def IncrementWindow_def IncrementCacheCounter_def cache_counter_update Let_def)
qed

lemma cache_incr_closed:
  assumes "cache_inv t" "owned_key k" "0 < ws" "ws \<le> maxTTLSeconds"
    and "\<And>h e. cache_counter t k = Some (h, e) \<Longrightarrow> e \<le> now"
  shows "fst (cache_incr now k ws t) = Inr \<lparr>Hits = 1, ExpiresAt = now + ws * second\<rparr> \<and>
         cache_counter (snd (cache_incr now k ws t)) k = Some (1, now + ws * second)"
proof -
  have one: "parse_int 32 (itoa 1) = Some 1" by (rule parse_32) simp_all
  have closed: "cr_expires_at r = None \<or> the (cr_expires_at r) \<le> now" if r: "map_of t k = Some r" for r
  proof (cases "cr_expires_at r")
    case (Some e)
    then obtain n where "parse_int 32 (cr_value r) = Some n"
      using r assms(1,2) unfolding cache_inv_def by blast
    with Some r have "cache_counter t k = Some (n, e)" by (simp add: cache_counter_def)
    from assms(5) [OF this] Some show ?thesis by simp
  qed simp
  show ?thesis
    using one assms(3,4) closed
    by (auto simp: cache_incr_def fair_def IncrementWindow_def IncrementCacheCounter_def
        cache_counter_update Let_def split: option.splits)
qed

lemma cache_incr_frame:
  "k' \<noteq> k \<Longrightarrow> cache_counter (snd (cache_incr now k ws t)) k' = cache_counter t k'"
  by (auto simp: cache_incr_def fair_def IncrementWindow_def IncrementCacheCounter_def
      cache_counter_update Let_def split: option.splits if_splits)

lemma cache_incr_inv:
  assumes "cache_inv t"
  shows "cache_inv (snd (cache_incr now k ws t))"
proof -
  have one: "parse_int 32 (itoa 1) \<noteq> None" by (simp add: parse_32)
  have more: "parse_int 32 (itoa (n + 1)) \<noteq> None" if "parse_int 32 s = Some n" "\<not> n + 1 \<ge> 2 ^ 31" for s n
    using that parse_int_bounds [OF that(1)] by (simp add: parse_32)
  show ?thesis
    using assms one more
    by (auto simp: cache_incr_def fair_def IncrementWindow_def IncrementCacheCounter_def Let_def
        intro!: cache_inv_update split: option.splits if_splits)
qed

lemma cache_flush_spec:
  "cache_inv t \<Longrightarrow> fst (cache_flush now ks t) = None \<and> cache_inv (snd (cache_flush now ks t)) \<and>
     cache_counter (snd (cache_flush now ks t)) k = (if k \<in> set ks then None else cache_counter t k)"
  by (auto simp: cache_flush_def fair_def Flush_def DeleteCacheEntries_def cache_inv_filter
      cache_counter_def map_of_filter_key)

interpretation cache_store: counter_store cache_incr cache_flush cache_counter cache_inv owned_key
  using cache_incr_open cache_incr_closed cache_incr_frame cache_incr_inv cache_flush_spec
  by unfold_locales blast+


subsection \<open>Properties\<close>

text \<open>
  No window of the limiter's namespace is open at \<open>from\<close>. (A row elsewhere that happens to look
  like a counter is closed too, or outlives the run with room to count.)
\<close>

definition quiet :: "int \<Rightarrow> cache_table \<Rightarrow> bool" where
  "quiet from t \<longleftrightarrow> (\<forall>k h e. cache_counter t k = Some (h, e) \<longrightarrow> e \<le> from)"

lemma quiet_settled: "quiet from t \<Longrightarrow> cache_store.settled from until n t"
  by (auto simp: quiet_def cache_store.settled_def)

lemma quiet_base: "quiet from t \<Longrightarrow> from < until \<Longrightarrow> base_hits cache_counter until t k = 0"
  by (fastforce simp: quiet_def base_hits_def split: option.splits)

lemma quiet_window_end:
  "quiet from t \<Longrightarrow> from < until \<Longrightarrow>
     window_end cache_counter until ws ops t k =
       (case List.find (\<lambda>op. snd op = k) ops of Some (now, _) \<Rightarrow> now + ws * second | None \<Rightarrow> 0)"
  by (fastforce simp: quiet_def window_end_def split: option.splits)

lemma quiet_hits_counted:
  assumes "cache_inv t" and "quiet from t" and "0 < ws" and "ws \<le> maxTTLSeconds"
    and "\<forall>(now, k) \<in> set ops. owned_key k \<and> from \<le> now \<and> now < from + ws * second"
    and "length ops < 2 ^ 31" and "i < length ops"
  shows "fst (run_hits cache_incr ws ops t) ! i =
           Inr \<lparr>Hits = int (count_list (map snd (take (Suc i) ops)) (snd (ops ! i))),
                ExpiresAt = (case List.find (\<lambda>op. snd op = snd (ops ! i)) ops of
                               Some (now, _) \<Rightarrow> now + ws * second | None \<Rightarrow> 0)\<rparr>"
proof -
  have "from < from + ws * second" using assms(3) second_pos by simp
  moreover have "fst (run_hits cache_incr ws ops t) ! i =
      Inr \<lparr>Hits = base_hits cache_counter (from + ws * second) t (snd (ops ! i)) +
             int (count_list (map snd (take (Suc i) ops)) (snd (ops ! i))),
           ExpiresAt = window_end cache_counter (from + ws * second) ws ops t (snd (ops ! i))\<rparr>"
    using assms by (intro cache_store.hits_counted quiet_settled) auto
  ultimately show ?thesis by (simp add: quiet_base [OF assms(2)] quiet_window_end [OF assms(2)])
qed

text \<open>
  Every hit is counted exactly once. For any interleaving of hits on any buckets within one
  window length, serialised by the database in any order and with any clock readings, the
  \<open>i\<close>-th hit reports as its count the number of hits on its bucket up to and including itself,
  and as its closing instant the one set by the first hit on that bucket: a client that keeps
  hitting never extends its own window.
\<close>

lemma IncrementWindow_counts_every_hit:
  assumes "cache_inv t" and "quiet from t" and "0 < ws" and "ws \<le> maxTTLSeconds"
    and "\<forall>(now, k) \<in> set ops. owned_key k \<and> from \<le> now \<and> now < from + ws * second"
    and "length ops < 2 ^ 31" and "i < length ops"
  shows "fst (run_hits cache_incr ws ops t) ! i =
           Inr \<lparr>Hits = int (count_list (map snd (take (Suc i) ops)) (snd (ops ! i))),
                ExpiresAt = (case List.find (\<lambda>op. snd op = snd (ops ! i)) ops of
                               Some (now, _) \<Rightarrow> now + ws * second | None \<Rightarrow> 0)\<rparr>"
  by (rule quiet_hits_counted [OF assms])

text \<open>A sequence of attempts: the database's clock, the program's clock, scope and identifier.\<close>

fun run_allow :: "(string \<Rightarrow> string) \<Rightarrow> int \<Rightarrow> int \<Rightarrow> (int \<times> int \<times> string \<times> string) list \<Rightarrow> cache_table
    \<Rightarrow> (go_error + Decision) list \<times> cache_table" where
  "run_allow hexsum limit ws [] t = ([], t)"
| "run_allow hexsum limit ws ((now, clock, scope, identifier) # as) t =
     (case Allow (cache_incr now) hexsum clock scope identifier limit ws t of (r, t') \<Rightarrow>
        (case run_allow hexsum limit ws as t' of (rs, t'') \<Rightarrow> (r # rs, t'')))"

definition attempt_hit :: "(string \<Rightarrow> string) \<Rightarrow> int \<times> int \<times> string \<times> string \<Rightarrow> int \<times> string" where
  "attempt_hit hexsum a = (case a of (now, clock, scope, identifier) \<Rightarrow> (now, Key hexsum scope identifier))"

definition decide :: "int \<Rightarrow> int \<Rightarrow> go_error + Window \<Rightarrow> go_error + Decision" where
  "decide limit clock r = map_sum id (\<lambda>w.
     \<lparr>Allowed = Hits w \<le> limit, dHits = Hits w, dLimit = limit,
      dRetryAfter = (if \<not> Hits w \<le> limit then RetryAfter w clock else 0)\<rparr>) r"

lemma run_allow_hits:
  "i < length as \<Longrightarrow>
     fst (run_allow hexsum limit ws as t) ! i =
       decide limit (fst (snd (as ! i))) (fst (run_hits cache_incr ws (map (attempt_hit hexsum) as) t) ! i)"
proof (induction as arbitrary: t i)
  case (Cons a as)
  obtain now clock scope ident where a: "a = (now, clock, scope, ident)" by (cases a)
  show ?case
    using Cons.prems Cons.IH
    by (cases i; cases "cache_incr now (Key hexsum scope ident) ws t")
      (auto simp: a attempt_hit_def Allow_def decide_def case_prod_beta Let_def split: sum.splits)
qed simp

lemma owned_Key [simp]: "owned_key (Key hexsum scope identifier)"
  by (simp add: owned_key_def Key_def rateLimitPrefix_def)

text \<open>
  C20. The limiter enforces its budget. Within one window length, an attempt is allowed exactly
  while its bucket (scope and normalised identifier) has seen at most \<open>limit\<close> attempts,
  the refused ones counted too, however attempts on different buckets interleave; a refused
  attempt is told to wait at least one second.
\<close>

theorem Allow_enforces_budget:
  assumes "cache_inv t" and "quiet from t" and "0 < ws" and "ws \<le> maxTTLSeconds"
    and "\<forall>(now, _) \<in> set as. from \<le> now \<and> now < from + ws * second"
    and "length as < 2 ^ 31" and "i < length as"
  shows "\<exists>d. fst (run_allow hexsum limit ws as t) ! i = Inr d \<and>
           dHits d = int (count_list (map (\<lambda>a. snd (attempt_hit hexsum a)) (take (Suc i) as))
                            (snd (attempt_hit hexsum (as ! i)))) \<and>
           (Allowed d \<longleftrightarrow> dHits d \<le> limit) \<and> (\<not> Allowed d \<longrightarrow> second \<le> dRetryAfter d)"
proof -
  let ?ops = "map (attempt_hit hexsum) as"
  have "fst (run_hits cache_incr ws ?ops t) ! i =
      Inr \<lparr>Hits = int (count_list (map snd (take (Suc i) ?ops)) (snd (?ops ! i))),
           ExpiresAt = (case List.find (\<lambda>op. snd op = snd (?ops ! i)) ?ops of
                          Some (now, _) \<Rightarrow> now + ws * second | None \<Rightarrow> 0)\<rparr>" (is "_ = Inr ?w")
    using assms by (intro quiet_hits_counted) (auto simp: attempt_hit_def)
  then have d: "fst (run_allow hexsum limit ws as t) ! i = decide limit (fst (snd (as ! i))) (Inr ?w)"
    using run_allow_hits [OF assms(7)] by simp
  have "second \<le> RetryAfter ?w (fst (snd (as ! i)))" by (rule RetryAfter_at_least)
  with d show ?thesis using assms(7) by (simp add: decide_def take_map comp_def)
qed

theorem Allow_enforces_budget_witness:
  "\<exists>d. fst (run_allow id 1 60 [(0, 0, ''login'', ''A@x''), (1, 1, ''login'', ''a@x'')] []) ! 1 = Inr d \<and>
       \<not> Allowed d"
proof -
  have "cache_inv []" "quiet 0 []" by (simp_all add: cache_inv_def wf_table_def quiet_def cache_counter_def)
  moreover have lower: "to_lower ''A@x'' = ''a@x''" "to_lower ''a@x'' = ''a@x''" by code_simp+
  then have "Key id ''login'' ''A@x'' = Key id ''login'' ''a@x''"
    using lower by (simp add: Key_def trim_space_visible visible_def)
  ultimately show ?thesis
    using Allow_enforces_budget [of "[]" 0 60 "[(0, 0, ''login'', ''A@x''), (1, 1, ''login'', ''a@x'')]" 1 id 1]
    by (auto simp: maxTTLSeconds_def second_def attempt_hit_def)
qed

text \<open>
  \<open>Clear\<close> gives a bucket its whole budget back: after it, the next attempt on that bucket is
  counted as the first of a new window, and no other bucket is affected.
\<close>

lemma Clear_resets_bucket:
  assumes "cache_inv t" and "0 < ws" and "ws \<le> maxTTLSeconds"
  shows "let t' = snd (Clear (cache_flush now) hexsum scope identifier t)
         in fst (Clear (cache_flush now) hexsum scope identifier t) = None \<and>
            (\<exists>d. fst (Allow (cache_incr now') hexsum clock scope identifier limit ws t') = Inr d \<and>
                 dHits d = 1 \<and> (Allowed d \<longleftrightarrow> 1 \<le> limit)) \<and>
            (\<forall>k. k \<noteq> Key hexsum scope identifier \<longrightarrow> cache_counter t' k = cache_counter t k)"
proof -
  define t' where "t' = snd (Clear (cache_flush now) hexsum scope identifier t)"
  have t': "fst (Clear (cache_flush now) hexsum scope identifier t) = None" "cache_inv t'"
    "cache_counter t' k = (if k = Key hexsum scope identifier then None else cache_counter t k)" for k
    using cache_store.flush_spec [OF assms(1), of now "[Key hexsum scope identifier]" k]
    by (simp_all add: Clear_def t'_def)
  have "fst (cache_incr now' (Key hexsum scope identifier) ws t') = Inr \<lparr>Hits = 1, ExpiresAt = now' + ws * second\<rparr>"
    using cache_incr_closed [OF t'(2) owned_Key assms(2,3), of hexsum scope "identifier" now'] t'(3) by simp
  then show ?thesis
    using t' unfolding t'_def [symmetric]
    by (cases "cache_incr now' (Key hexsum scope identifier) ws t'") (simp add: Allow_def Let_def t'_def)
qed

end
