(* ===== verification/Argon2id.thy ===== *)
theory Argon2id
  imports Go_Errors
begin

text \<open>
  \<^verbatim>\<open>pkg/argon2id/argon2id.go\<close>: the encoded password hash
  \<^verbatim>\<open>$argon2id$v=..$m=..,t=..,p=..$salt$hash\<close>, its parser, and the comparison. The key derivation
  \<open>argon2.IDKey\<close>, its version constant and the random salt are parameters; Base64
  and \<open>fmt.Sscanf\<close> are modelled as far as the parser uses them.
\<close>

subsection \<open>Base64 without padding\<close>

definition b64_char :: "nat \<Rightarrow> char" where
  "b64_char n = char_of (if n < 26 then n + 65 else if n < 52 then n + 71 else if n < 62 then n - 4
     else if n = 62 then 43 else 47)"

definition b64_val :: "char \<Rightarrow> nat option" where
  "b64_val c = (let n = of_char c :: nat in
     if 65 \<le> n \<and> n \<le> 90 then Some (n - 65)
     else if 97 \<le> n \<and> n \<le> 122 then Some (n - 71)
     else if 48 \<le> n \<and> n \<le> 57 then Some (n + 4)
     else if n = 43 then Some 62 else if n = 47 then Some 63 else None)"

fun sextets :: "nat list \<Rightarrow> nat list" where
  "sextets [] = []"
| "sextets [a] = [a div 4, (a mod 4) * 16]"
| "sextets [a, b] = [a div 4, (a mod 4) * 16 + b div 16, (b mod 16) * 4]"
| "sextets (a # b # c # bs) =
     [a div 4, (a mod 4) * 16 + b div 16, (b mod 16) * 4 + c div 64, c mod 64] @ sextets bs"

definition b64_encode :: "string \<Rightarrow> string" where
  "b64_encode s = map b64_char (sextets (map of_char s))"

text \<open>Strict decoding: no single trailing character, and the unused trailing bits are zero.\<close>

fun octets :: "nat list \<Rightarrow> nat list option" where
  "octets [] = Some []"
| "octets [a] = None"
| "octets [a, b] = (if b mod 16 = 0 then Some [a * 4 + b div 16] else None)"
| "octets [a, b, c] = (if c mod 4 = 0 then Some [a * 4 + b div 16, (b mod 16) * 16 + c div 4] else None)"
| "octets (a # b # c # d # xs) =
     map_option (\<lambda>ys. [a * 4 + b div 16, (b mod 16) * 16 + c div 4, (c mod 4) * 64 + d] @ ys) (octets xs)"

fun all_vals :: "string \<Rightarrow> nat list option" where
  "all_vals [] = Some []"
| "all_vals (c # cs) =
     (case b64_val c of None \<Rightarrow> None | Some v \<Rightarrow> map_option (Cons v) (all_vals cs))"

text \<open>The decoder skips carriage returns and line feeds.\<close>

definition b64_decode :: "string \<Rightarrow> string option" where
  "b64_decode s =
     Option.bind (all_vals (filter (\<lambda>c. c \<noteq> CHR 0x0D \<and> c \<noteq> CHR 0x0A) s))
       (\<lambda>vs. map_option (map char_of) (octets vs))"


subsection \<open>Scanning\<close>

text \<open>\<open>SkipSpace\<close> of \<open>Sscanf\<close>: blanks are skipped, a newline is an error.\<close>

fun skip_blanks :: "nat \<Rightarrow> string \<Rightarrow> string option" where
  "skip_blanks 0 s = Some s"
| "skip_blanks (Suc n) s =
     (if has_prefix s [CHR 0x0A] then None
      else case List.find (\<lambda>w. has_prefix s w) space_seqs of
        None \<Rightarrow> Some s
      | Some w \<Rightarrow> skip_blanks n (drop (length w) s))"

definition scan_lit :: "string \<Rightarrow> string \<Rightarrow> string option" where
  "scan_lit lit s = (if has_prefix s lit then Some (drop (length lit) s) else None)"

definition scan_uint :: "nat \<Rightarrow> string \<Rightarrow> (nat \<times> string) option" where
  "scan_uint bits s =
     Option.bind (skip_blanks (length s) s)
       (\<lambda>s. map_option (\<lambda>v. (v, dropWhile is_digit s)) (parse_uint bits (takeWhile is_digit s)))"

definition scan_int :: "string \<Rightarrow> (int \<times> string) option" where
  "scan_int s =
     Option.bind (skip_blanks (length s) s)
       (\<lambda>s. let sign = (case s of c # _ \<Rightarrow> c = CHR ''-'' \<or> c = CHR ''+'' | [] \<Rightarrow> False);
                body = (if sign then tl s else s)
            in if takeWhile is_digit body = [] then None
               else map_option (\<lambda>v. (v, dropWhile is_digit body))
                      (parse_int 64 ((if sign then [hd s] else []) @ takeWhile is_digit body)))"


subsection \<open>Hashing\<close>

record argon2_lib =
  lib_Version :: int
  lib_IDKey :: "string \<Rightarrow> string \<Rightarrow> nat \<Rightarrow> nat \<Rightarrow> nat \<Rightarrow> nat \<Rightarrow> string"

record Config =
  Memory :: nat
  Iterations :: nat
  Parallelism :: nat
  SaltLength :: nat
  KeyLength :: nat

definition DefaultConfig :: Config where
  "DefaultConfig = \<lparr>Memory = 64 * 1024, Iterations = 3, Parallelism = 2, SaltLength = 16, KeyLength = 32\<rparr>"

definition encode_hash :: "argon2_lib \<Rightarrow> Config \<Rightarrow> string \<Rightarrow> string \<Rightarrow> string" where
  "encode_hash lib c salt hash =
     ''$argon2id$v='' @ itoa (lib_Version lib) @ ''$m='' @ show_nat (Memory c) @ '',t='' @ show_nat (Iterations c) @
     '',p='' @ show_nat (Parallelism c) @ ''$'' @ b64_encode salt @ ''$'' @ b64_encode hash"

text \<open>\<open>generateRandomBytes\<close> reads \<open>n\<close> bytes from the random source \<open>rnd\<close>, or fails.\<close>

definition generateRandomBytes :: "(nat \<Rightarrow> go_error + string) \<Rightarrow> nat \<Rightarrow> go_error + string" where
  "generateRandomBytes rnd n = rnd n"

definition HashPassword :: "argon2_lib \<Rightarrow> (nat \<Rightarrow> go_error + string) \<Rightarrow> Config \<Rightarrow> string \<Rightarrow> go_error + string" where
  "HashPassword lib rnd c password =
     (case generateRandomBytes rnd (SaltLength c) of
        Inl e \<Rightarrow> Inl e
      | Inr salt \<Rightarrow>
          Inr (encode_hash lib c salt
                 (lib_IDKey lib password salt (Iterations c) (Memory c) (Parallelism c) (KeyLength c))))"

definition scan_params :: "string \<Rightarrow> (nat \<times> nat \<times> nat) option" where
  "scan_params s =
     Option.bind (scan_lit ''m='' s) (\<lambda>s. Option.bind (scan_uint 32 s) (\<lambda>(m, s).
     Option.bind (scan_lit '',t='' s) (\<lambda>s. Option.bind (scan_uint 32 s) (\<lambda>(t, s).
     Option.bind (scan_lit '',p='' s) (\<lambda>s. Option.bind (scan_uint 8 s) (\<lambda>(p, s). Some (m, t, p)))))))"

text \<open>Only the number of fields is checked: the empty first field and the algorithm name are not read.\<close>

definition decodeHash :: "argon2_lib \<Rightarrow> string \<Rightarrow> go_error + Config \<times> string \<times> string" where
  "decodeHash lib encodedHash =
     (let parts = split_on (CHR ''$'') encodedHash
      in if length parts \<noteq> 6 then Inl (ESentinel ErrInvalidHash)
         else case Option.bind (scan_lit ''v='' (parts ! 2)) scan_int of
           None \<Rightarrow> Inl (EOther ''scan version'')
         | Some (version, _) \<Rightarrow>
             if version \<noteq> lib_Version lib then Inl (ESentinel ErrIncompatibleVersion)
             else case scan_params (parts ! 3) of
               None \<Rightarrow> Inl (EOther ''scan parameters'')
             | Some (m, t, p) \<Rightarrow>
                 (case b64_decode (parts ! 4) of
                    None \<Rightarrow> Inl (EOther ''illegal base64 data'')
                  | Some salt \<Rightarrow>
                      (case b64_decode (parts ! 5) of
                         None \<Rightarrow> Inl (EOther ''illegal base64 data'')
                       | Some hash \<Rightarrow>
                           Inr (\<lparr>Memory = m, Iterations = t, Parallelism = p,
                                 SaltLength = length salt mod 2 ^ 32, KeyLength = length hash mod 2 ^ 32\<rparr>,
                                salt, hash))))"

definition ComparePasswordAndHash :: "argon2_lib \<Rightarrow> string \<Rightarrow> string \<Rightarrow> go_error + bool" where
  "ComparePasswordAndHash lib password encodedHash =
     (case decodeHash lib encodedHash of
        Inl e \<Rightarrow> Inl e
      | Inr (parsed, salt, hash) \<Rightarrow>
          (let otherHash = lib_IDKey lib password salt (Iterations parsed) (Memory parsed)
                             (Parallelism parsed) (KeyLength parsed)
           in Inr (hash = otherHash)))"


subsection \<open>Base64 round trip\<close>

lemma b64_val_char: "n < 64 \<Longrightarrow> b64_val (b64_char n) = Some n"
  by (auto simp: b64_val_def b64_char_def Let_def)

lemma b64_char_other: "b64_val c = None \<Longrightarrow> n < 64 \<Longrightarrow> b64_char n \<noteq> c"
  using b64_val_char by force

lemma b64_char_facts:
  assumes "n < 64"
  shows "b64_val (b64_char n) = Some n" "b64_char n \<noteq> CHR ''$''" "b64_char n \<noteq> CHR 0x0D"
    "b64_char n \<noteq> CHR 0x0A"
  using assms by (simp_all add: b64_val_char) (rule b64_char_other; simp add: b64_val_def)+

lemma byte_div:
  "(a :: nat) < 256 \<Longrightarrow> a div 4 < 64" "(b :: nat) < 256 \<Longrightarrow> b div 16 < 16" "(c :: nat) < 256 \<Longrightarrow> c div 64 < 4"
  by (simp_all add: less_mult_imp_div_less)

lemma sextet_bounds:
  "(a :: nat) < 256 \<Longrightarrow> a div 4 < 64" "(b :: nat) < 256 \<Longrightarrow> (a mod 4) * 16 + b div 16 < 64"
  "(c :: nat) < 256 \<Longrightarrow> (b mod 16) * 4 + c div 64 < 64" "(a mod 4) * 16 < (64 :: nat)"
  "(b mod 16) * 4 < (64 :: nat)"
proof -
  have m: "a mod 4 < 4" "b mod 16 < 16" by simp_all
  show "(a :: nat) < 256 \<Longrightarrow> a div 4 < 64" by (rule byte_div)
  show "(b :: nat) < 256 \<Longrightarrow> (a mod 4) * 16 + b div 16 < 64" using m byte_div(2) [of b] by linarith
  show "(c :: nat) < 256 \<Longrightarrow> (b mod 16) * 4 + c div 64 < 64" using m byte_div(3) [of c] by linarith
  show "(a mod 4) * 16 < (64 :: nat)" "(b mod 16) * 4 < (64 :: nat)" using m by linarith+
qed

lemma sextets_range: "list_all (\<lambda>n. n < 256) bs \<Longrightarrow> list_all (\<lambda>n. n < 64) (sextets bs)"
  by (induction bs rule: sextets.induct) (simp_all add: sextet_bounds)

lemma all_vals_chars: "list_all (\<lambda>n. n < 64) vs \<Longrightarrow> all_vals (map b64_char vs) = Some vs"
  by (induction vs) (simp_all add: b64_char_facts)

lemma octet_inverse:
  "(b :: nat) < 256 \<Longrightarrow> a div 4 * 4 + ((a mod 4) * 16 + b div 16) div 16 = a"
  "(b :: nat) < 256 \<Longrightarrow> c < 256 \<Longrightarrow>
     ((a mod 4) * 16 + b div 16) mod 16 * 16 + ((b mod 16) * 4 + c div 64) div 4 = b"
  "(c :: nat) < 256 \<Longrightarrow> ((b mod 16) * 4 + c div 64) mod 4 * 64 + c mod 64 = c"
  "(b :: nat) < 256 \<Longrightarrow> ((a mod 4) * 16 + b div 16) mod 16 * 16 + (b mod 16) * 4 div 4 = b"
  "a div 4 * 4 + (a mod 4) * 16 div 16 = (a :: nat)"
  using byte_div [of b] byte_div [of c] by simp_all

lemma octets_sextets: "list_all (\<lambda>n. n < 256) bs \<Longrightarrow> octets (sextets bs) = Some bs"
proof (induction bs rule: sextets.induct)
  case (4 a b c bs)
  then have r: "b < 256" "c < 256" by simp_all
  show ?case
    using 4 octet_inverse(1) [OF r(1), of a] octet_inverse(2) [OF r, of a] octet_inverse(3) [OF r(2), of b]
    by (simp del: div_mult_self4 mod_mult_self4)
next
  case (3 a b)
  then have r: "b < 256" by simp
  have "(b mod 16) * 4 mod 4 = 0" by simp
  then show ?case using octet_inverse(1) [OF r, of a] octet_inverse(4) [OF r, of a] by simp
next
  case (2 a)
  show ?case using octet_inverse(5) [of a] by simp
qed simp

lemma bytes_range: "list_all (\<lambda>n. n < 256) (map of_char s :: nat list)"
  by (induction s) (simp_all add: of_char_def)


lemma b64_roundtrip: "b64_decode (b64_encode s) = Some s"
proof -
  let ?bs = "map of_char s :: nat list"
  have r: "list_all (\<lambda>n. n < 64) (sextets ?bs)" by (intro sextets_range bytes_range)
  then have "filter (\<lambda>c. c \<noteq> CHR 0x0D \<and> c \<noteq> CHR 0x0A) (b64_encode s) = b64_encode s"
    by (auto simp: b64_encode_def filter_id_conv list_all_iff b64_char_facts)
  then show ?thesis
    using all_vals_chars [OF r] octets_sextets [OF bytes_range]
    by (simp add: b64_decode_def b64_encode_def comp_def)
qed

lemma b64_no_dollar: "CHR ''$'' \<notin> set (b64_encode s)"
  using sextets_range [OF bytes_range, of s] b64_char_facts(2)
  by (fastforce simp: b64_encode_def list_all_iff)


subsection \<open>Scanning what was printed\<close>

lemma skip_blanks_visible: "visible (hd s) \<Longrightarrow> s \<noteq> [] \<Longrightarrow> skip_blanks n s = Some s"
proof (cases n)
  case (Suc m)
  assume v: "visible (hd s)" "s \<noteq> []"
  have "\<not> has_prefix s [CHR 0x0A]" using v by (cases s) (auto simp: visible_def)
  moreover have "List.find (\<lambda>w. has_prefix s w) space_seqs = None"
    using space_seqs_invisible by (intro find_prefix_visible v) (auto simp: list_all_iff)
  ultimately show ?thesis by (simp add: Suc)
qed simp

lemma takeWhile_digits:
  "list_all is_digit d \<Longrightarrow> (r = [] \<or> \<not> is_digit (hd r)) \<Longrightarrow> takeWhile is_digit (d @ r) = d \<and> dropWhile is_digit (d @ r) = r"
  by (induction d; cases r) auto

lemma scan_uint_printed:
  assumes "n < 2 ^ bits" and "r = [] \<or> \<not> is_digit (hd r)"
  shows "scan_uint bits (show_nat n @ r) = Some (n, r)"
proof -
  have v: "visible (hd (show_nat n @ r))" "show_nat n @ r \<noteq> []"
    using digits_visible [OF show_nat_ne show_nat_digits, of n] by simp_all
  show ?thesis
    using assms(1) takeWhile_digits [OF show_nat_digits assms(2), of n]
    by (simp add: scan_uint_def skip_blanks_visible [OF v])
qed

lemma scan_int_printed:
  assumes "- (2 ^ 63) \<le> i" "i < 2 ^ 63"
  shows "scan_int (itoa i) = Some (i, [])"
proof -
  obtain c cs where s: "show_nat (nat i) = c # cs" by (cases "show_nat (nat i)") simp_all
  have c: "is_digit c" using show_nat_digits [of "nat i"] by (simp add: s)
  have tw: "takeWhile is_digit (show_nat n) = show_nat n" "dropWhile is_digit (show_nat n) = []" for n
    using takeWhile_digits [OF show_nat_digits, of "[]" n] by simp_all
  have cs: "takeWhile is_digit cs = cs" "dropWhile is_digit cs = []"
    using show_nat_digits [of "nat i"] by (auto simp: s takeWhile_eq_all_conv list_all_iff)
  have p: "parse_int 64 (itoa i) = Some i" using assms by (intro parse_int_itoa) simp_all
  show ?thesis
  proof (cases "i < 0")
    case True
    have sk: "skip_blanks (length (itoa i)) (itoa i) = Some (itoa i)"
      by (simp add: skip_blanks_visible itoa_visible)
    show ?thesis unfolding scan_int_def sk using True p by (simp add: itoa_def tw Let_def)
  next
    case False
    have sk: "skip_blanks (length (itoa i)) (itoa i) = Some (itoa i)"
      by (simp add: skip_blanks_visible itoa_visible)
    show ?thesis unfolding scan_int_def sk
      using False p c digit_not_sign [OF c] by (simp add: itoa_def s Let_def cs)
  qed
qed

lemma scan_lit_append [simp]: "scan_lit lit (lit @ s) = Some s"
  by (simp add: scan_lit_def)

lemma scan_params_printed:
  assumes "m < 2 ^ 32" "t < 2 ^ 32" "p < 2 ^ 8"
  shows "scan_params (''m='' @ show_nat m @ '',t='' @ show_nat t @ '',p='' @ show_nat p) = Some (m, t, p)"
proof -
  have comma: "\<not> is_digit (CHR '','')" by (simp add: is_digit_def)
  have "scan_uint 32 (show_nat m @ '',t='' @ show_nat t @ '',p='' @ show_nat p) =
      Some (m, '',t='' @ show_nat t @ '',p='' @ show_nat p)"
    "scan_uint 32 (show_nat t @ '',p='' @ show_nat p) = Some (t, '',p='' @ show_nat p)"
    "scan_uint 8 (show_nat p) = Some (p, [])"
    using assms comma scan_uint_printed [of p 8 "[]"] by (simp_all add: scan_uint_printed)
  then show ?thesis unfolding scan_params_def by (simp only: scan_lit_append bind.bind_lunit prod.case)
qed

lemma no_dollar: "CHR ''$'' \<notin> set (itoa i)" "CHR ''$'' \<notin> set (show_nat n)"
  using itoa_chars [of "CHR ''$''" i] show_nat_digits [of n, unfolded list_all_iff]
  by (auto simp: is_digit_def)

lemma split_encode_hash:
  "split_on (CHR ''$'') (encode_hash lib c salt hash) =
     [[], ''argon2id'', ''v='' @ itoa (lib_Version lib),
      ''m='' @ show_nat (Memory c) @ '',t='' @ show_nat (Iterations c) @ '',p='' @ show_nat (Parallelism c),
      b64_encode salt, b64_encode hash]"
proof -
  have "encode_hash lib c salt hash = join
     [[], ''argon2id'', ''v='' @ itoa (lib_Version lib),
      ''m='' @ show_nat (Memory c) @ '',t='' @ show_nat (Iterations c) @ '',p='' @ show_nat (Parallelism c),
      b64_encode salt, b64_encode hash] ''$''"
    by (simp add: encode_hash_def)
  then show ?thesis by (simp only:) (rule split_on_join; auto simp: b64_no_dollar no_dollar)
qed

lemma decode_encode_hash:
  assumes "Memory c < 2 ^ 32" "Iterations c < 2 ^ 32" "Parallelism c < 2 ^ 8"
    and "- (2 ^ 63) \<le> lib_Version lib" "lib_Version lib < 2 ^ 63"
    and "length salt < 2 ^ 32" "length hash < 2 ^ 32"
  shows "decodeHash lib (encode_hash lib c salt hash) =
           Inr (c\<lparr>SaltLength := length salt, KeyLength := length hash\<rparr>, salt, hash)"
  using assms(6,7) scan_params_printed [OF assms(1-3)] scan_int_printed [OF assms(4,5)]
  by (simp add: decodeHash_def split_encode_hash b64_roundtrip Let_def del: append.simps)


subsection \<open>Properties\<close>

text \<open>
  What the code relies on of the key derivation: a key of the requested length. Of the version
  constant: it fits an \<open>int\<close>.
\<close>

definition argon2_ok :: "argon2_lib \<Rightarrow> bool" where
  "argon2_ok lib \<longleftrightarrow> - (2 ^ 63) \<le> lib_Version lib \<and> lib_Version lib < 2 ^ 63 \<and>
     (\<forall>pw salt t m p k. length (lib_IDKey lib pw salt t m p k) = k)"

definition wf_config :: "Config \<Rightarrow> bool" where
  "wf_config c \<longleftrightarrow> Memory c < 2 ^ 32 \<and> Iterations c < 2 ^ 32 \<and> Parallelism c < 2 ^ 8 \<and>
     SaltLength c < 2 ^ 32 \<and> KeyLength c < 2 ^ 32"

lemma hash_verifies:
  assumes "argon2_ok lib" and "wf_config c" and "rnd (SaltLength c) = Inr salt" and "length salt = SaltLength c"
  shows "\<exists>enc. HashPassword lib rnd c pw = Inr enc \<and>
           (\<forall>pw'. ComparePasswordAndHash lib pw' enc =
              Inr (lib_IDKey lib pw salt (Iterations c) (Memory c) (Parallelism c) (KeyLength c) =
                   lib_IDKey lib pw' salt (Iterations c) (Memory c) (Parallelism c) (KeyLength c)))"
proof -
  let ?hash = "lib_IDKey lib pw salt (Iterations c) (Memory c) (Parallelism c) (KeyLength c)"
  have "length ?hash = KeyLength c" using assms(1) by (simp add: argon2_ok_def)
  with assms have "decodeHash lib (encode_hash lib c salt ?hash) = Inr (c, salt, ?hash)"
    by (subst decode_encode_hash) (auto simp: argon2_ok_def wf_config_def)
  with assms(3) show ?thesis
    by (simp add: HashPassword_def generateRandomBytes_def ComparePasswordAndHash_def)
qed

text \<open>
  C35. A stored hash verifies exactly the passwords that derive the same key: whatever valid
  configuration hashed a password and whatever configuration the verifier runs with, the encoded
  string is parsed back to its parameters, salt and key, the password itself is accepted, and
  another one is accepted only if it derives the same key from that salt.
\<close>

theorem HashPassword_verifies:
  assumes "argon2_ok lib" and "wf_config c" and "rnd (SaltLength c) = Inr salt" and "length salt = SaltLength c"
  shows "\<exists>enc. HashPassword lib rnd c pw = Inr enc \<and> ComparePasswordAndHash lib pw enc = Inr True \<and>
           (\<forall>pw'. ComparePasswordAndHash lib pw' enc =
              Inr (lib_IDKey lib pw salt (Iterations c) (Memory c) (Parallelism c) (KeyLength c) =
                   lib_IDKey lib pw' salt (Iterations c) (Memory c) (Parallelism c) (KeyLength c)))"
  using hash_verifies [of lib c rnd salt pw] assms by auto

text \<open>A toy derivation: the password, padded or cut to the key length.\<close>

definition pad_lib :: argon2_lib where
  "pad_lib = \<lparr>lib_Version = 19,
     lib_IDKey = (\<lambda>pw salt t m p k. take k (pw @ replicate k (CHR ''0'')))\<rparr>"

theorem HashPassword_verifies_witness:
  "\<exists>enc. HashPassword pad_lib (\<lambda>n. Inr (replicate n (CHR ''s''))) DefaultConfig ''secret pw'' = Inr enc \<and>
     ComparePasswordAndHash pad_lib ''secret pw'' enc = Inr True \<and>
     ComparePasswordAndHash pad_lib ''guess'' enc = Inr False"
proof -
  have ok: "argon2_ok pad_lib" by (auto simp: argon2_ok_def pad_lib_def min_def)
  have wf: "wf_config DefaultConfig" by (simp add: wf_config_def DefaultConfig_def)
  have ne: "lib_IDKey pad_lib ''secret pw'' s t m p 32 \<noteq> lib_IDKey pad_lib ''guess'' s t m p 32" for s t m p
    by (simp add: pad_lib_def)
  obtain enc where enc:
    "HashPassword pad_lib (\<lambda>n. Inr (replicate n (CHR ''s''))) DefaultConfig ''secret pw'' = Inr enc"
    "ComparePasswordAndHash pad_lib ''secret pw'' enc = Inr True"
    "\<And>pw'. ComparePasswordAndHash pad_lib pw' enc =
       Inr (lib_IDKey pad_lib ''secret pw'' (replicate (SaltLength DefaultConfig) (CHR ''s'')) (Iterations DefaultConfig)
              (Memory DefaultConfig) (Parallelism DefaultConfig) (KeyLength DefaultConfig) =
            lib_IDKey pad_lib pw' (replicate (SaltLength DefaultConfig) (CHR ''s'')) (Iterations DefaultConfig)
              (Memory DefaultConfig) (Parallelism DefaultConfig) (KeyLength DefaultConfig))"
    using HashPassword_verifies [OF ok wf, of "\<lambda>n. Inr (replicate n (CHR ''s''))"
        "replicate (SaltLength DefaultConfig) (CHR ''s'')" "''secret pw''"] by auto
  have "KeyLength DefaultConfig = 32" by (simp add: DefaultConfig_def)
  then have "ComparePasswordAndHash pad_lib ''guess'' enc = Inr False" using enc(3) [of "''guess''"] ne by simp
  with enc show ?thesis by blast
qed

text \<open>
  The parser never looks at the algorithm field: a hash labelled with any other algorithm (and
  anything in front of the first separator) is read as an Argon2id hash.
\<close>

lemma decodeHash_ignores_algorithm:
  assumes "CHR ''$'' \<notin> set pre" and "CHR ''$'' \<notin> set alg" and "CHR ''$'' \<notin> set pre'" and "CHR ''$'' \<notin> set alg'"
  shows "decodeHash lib (pre @ ''$'' @ alg @ ''$'' @ rest) = decodeHash lib (pre' @ ''$'' @ alg' @ ''$'' @ rest)"
proof -
  have nth: "(x # y # ys) ! 2 = ys ! 0" "(x # y # ys) ! 3 = ys ! 1" "(x # y # ys) ! 4 = ys ! 2"
    "(x # y # ys) ! 5 = ys ! 3" for x y :: string and ys
    by (simp_all add: eval_nat_numeral)
  have parts: "split_on (CHR ''$'') (a @ ''$'' @ b @ ''$'' @ rest) = a # b # split_on (CHR ''$'') rest"
    if "CHR ''$'' \<notin> set a" "CHR ''$'' \<notin> set b" for a b
    using that by (simp add: split_on_append)
  show ?thesis
    unfolding decodeHash_def Let_def parts [OF assms(1,2)] parts [OF assms(3,4)] nth by simp
qed

end
