(* ===== verification/Jwt.thy ===== *)
theory Jwt
  imports Guard
begin

text \<open>
  \<^verbatim>\<open>internal/jwt\<close>: the one-shot initialisation of the token service (\<^verbatim>\<open>service.go\<close>), issuing and parsing
  token pairs (\<^verbatim>\<open>tokens.go\<close>) and the two bearer guards (\<^verbatim>\<open>guards.go\<close>).

  Signing and parsing belong to the third-party package \<^verbatim>\<open>golang-jwt\<close>: the record \<open>jwt_lib\<close> holds the
  two functions the code calls, and \<open>jwt_lib_ok\<close> says what their documentation promises. Token
  times are whole Unix seconds (\<open>NumericDate\<close>), the clock and durations count nanoseconds.
\<close>

subsection \<open>Claims and tokens\<close>

record Claims =
  cl_ID :: string
  cl_Issuer :: string
  cl_Subject :: string
  cl_IssuedAt :: "int option"
  cl_NotBefore :: "int option"
  cl_ExpiresAt :: "int option"
  cl_Role :: string

record Tokens =
  AccessToken :: string
  RefreshToken :: string
  ExpiresIn :: int

definition AccessIssuer :: string where
  "AccessIssuer = ''auth-access''"

definition RefreshIssuer :: string where
  "RefreshIssuer = ''auth-refresh''"

text \<open>The parser options the code passes: accepted methods, leeway, expected issuer.\<close>

record parser_options =
  po_methods :: "string list"
  po_leeway :: int
  po_issuer :: string

text \<open>
  \<open>SignedString\<close> of an ES256 token under the private key, and \<open>ParseWithClaims\<close> under the public
  key at a clock reading: an error, or the claims and the token's \<open>Valid\<close> flag.
\<close>

record jwt_lib =
  jl_sign :: "Claims \<Rightarrow> go_error + string"
  jl_parse :: "parser_options \<Rightarrow> int \<Rightarrow> string \<Rightarrow> go_error + Claims \<times> bool"

record jwtService =
  js_lib :: jwt_lib
  js_accessTime :: int
  js_refreshTime :: int
  js_clockSkew :: int

definition createToken :: "jwtService \<Rightarrow> Claims \<Rightarrow> go_error + string" where
  "createToken j claims = jl_sign (js_lib j) claims"

text \<open>\<open>NewNumericDate\<close> truncates to the second; times are after the epoch.\<close>

definition numeric_date :: "int \<Rightarrow> int" where
  "numeric_date t = t div second"

definition IssueTokenPair :: "jwtService \<Rightarrow> int \<Rightarrow> int \<Rightarrow> string \<Rightarrow> string \<Rightarrow> go_error + Tokens" where
  "IssueTokenPair j now userID email role =
     (if userID = 0 then Inl (EWrap ''user ID cannot be zero'' [ESentinel ErrInvalidClaims])
      else if email = [] then Inl (EWrap ''email cannot be empty'' [ESentinel ErrInvalidClaims])
      else if role = [] then Inl (EWrap ''role cannot be empty'' [ESentinel ErrInvalidClaims])
      else let userIDStr = itoa userID;
               accessClaims = \<lparr>cl_ID = userIDStr, cl_Issuer = AccessIssuer, cl_Subject = email,
                 cl_IssuedAt = Some (numeric_date now), cl_NotBefore = Some (numeric_date now),
                 cl_ExpiresAt = Some (numeric_date (now + js_accessTime j)), cl_Role = role\<rparr>
           in case createToken j accessClaims of
             Inl e \<Rightarrow> Inl (EWrap ''failed to create access token'' [e])
           | Inr accessToken \<Rightarrow>
               (let refreshClaims = \<lparr>cl_ID = userIDStr, cl_Issuer = RefreshIssuer, cl_Subject = email,
                      cl_IssuedAt = Some (numeric_date now), cl_NotBefore = Some (numeric_date now),
                      cl_ExpiresAt = Some (numeric_date (now + js_refreshTime j)), cl_Role = []\<rparr>
                in case createToken j refreshClaims of
                     Inl e \<Rightarrow> Inl (EWrap ''failed to create refresh token'' [e])
                   | Inr refreshToken \<Rightarrow>
                       Inr \<lparr>AccessToken = accessToken, RefreshToken = refreshToken,
                            ExpiresIn = sgn (js_accessTime j) * (\<bar>js_accessTime j\<bar> div second)\<rparr>))"

definition parseTokenClaims :: "jwtService \<Rightarrow> int \<Rightarrow> string \<Rightarrow> string \<Rightarrow> go_error + Claims" where
  "parseTokenClaims j now token expectedIssuer =
     (case jl_parse (js_lib j) \<lparr>po_methods = [''ES256''], po_leeway = js_clockSkew j, po_issuer = expectedIssuer\<rparr>
             now token of
        Inl e \<Rightarrow> Inl (EWrap ''invalid token'' [ESentinel ErrInvalidToken, e])
      | Inr (claims, valid) \<Rightarrow> if \<not> valid then Inl (ESentinel ErrInvalidToken) else Inr claims)"

definition ParseAccessToken :: "jwtService \<Rightarrow> int \<Rightarrow> string \<Rightarrow> go_error + Claims" where
  "ParseAccessToken j now token = parseTokenClaims j now token AccessIssuer"

definition ParseRefreshToken :: "jwtService \<Rightarrow> int \<Rightarrow> string \<Rightarrow> go_error + Claims" where
  "ParseRefreshToken j now token = parseTokenClaims j now token RefreshIssuer"


subsection \<open>Initialisation\<close>

record Jwt_config =
  jc_PubKeyPath :: string
  jc_PvtKeyPath :: string
  jc_AccessExpiryTime :: int
  jc_RefreshExpiryTime :: int
  jc_ClockSkew :: int

text \<open>The package variables: whether \<open>jwtOnce\<close> has run, \<open>jwtSvc\<close> and \<open>initErr\<close>.\<close>

record jwt_state =
  jwtOnce :: bool
  jwtSvc :: "jwtService option"
  initErr :: "go_error option"

text \<open>
  \<open>loadKeys\<close> reads the two files, private key first, and parses the keys; the file system and the
  two PEM parsers are parameters, and the key pair becomes the signing and parsing functions.
\<close>

definition loadKeys ::
  "(string \<Rightarrow> go_error + string) \<Rightarrow> (string \<Rightarrow> go_error + 'pv) \<Rightarrow> (string \<Rightarrow> go_error + 'pb)
     \<Rightarrow> string \<Rightarrow> string \<Rightarrow> go_error + 'pv \<times> 'pb" where
  "loadKeys readFile parsePriv parsePub publicKeyPath privateKeyPath =
     (case readFile privateKeyPath of
        Inl e \<Rightarrow> Inl (EWrap ''failed to read private key'' [e])
      | Inr privateKeyPEM \<Rightarrow>
     (case parsePriv privateKeyPEM of
        Inl e \<Rightarrow> Inl (EWrap ''failed to parse ECDSA private key'' [e])
      | Inr privateKey \<Rightarrow>
     (case readFile publicKeyPath of
        Inl e \<Rightarrow> Inl (EWrap ''failed to read public key'' [e])
      | Inr publicKeyPEM \<Rightarrow>
     (case parsePub publicKeyPEM of
        Inl e \<Rightarrow> Inl (EWrap ''failed to parse ECDSA public key'' [e])
      | Inr publicKey \<Rightarrow> Inr (privateKey, publicKey)))))"

definition InitJWT ::
  "(string \<Rightarrow> go_error + string) \<Rightarrow> (string \<Rightarrow> go_error + 'pv) \<Rightarrow> (string \<Rightarrow> go_error + 'pb)
     \<Rightarrow> ('pv \<Rightarrow> 'pb \<Rightarrow> jwt_lib) \<Rightarrow> Jwt_config \<Rightarrow> jwt_state \<Rightarrow> go_error option \<times> jwt_state" where
  "InitJWT readFile parsePriv parsePub lib c st =
     (let st' = (if jwtOnce st then st
                 else (case loadKeys readFile parsePriv parsePub (jc_PubKeyPath c) (jc_PvtKeyPath c) of
                         Inl e \<Rightarrow> st\<lparr>jwtOnce := True, initErr := Some e\<rparr>
                       | Inr (privateKey, publicKey) \<Rightarrow>
                           (let clockSkew = (if jc_ClockSkew c = 0 then 10 * second else jc_ClockSkew c)
                            in st\<lparr>jwtOnce := True, jwtSvc := Some
                                 \<lparr>js_lib = lib privateKey publicKey, js_accessTime = jc_AccessExpiryTime c,
                                  js_refreshTime = jc_RefreshExpiryTime c, js_clockSkew = clockSkew\<rparr>\<rparr>)))
      in (case initErr st' of
            Some e \<Rightarrow> (Some (EWrap ''failed to initialize jwt service'' [e]), st')
          | None \<Rightarrow> (None, st')))"


subsection \<open>Guards\<close>

text \<open>The request context: the claims under \<open>AuthCtxKey\<close>, set by the bearer guards.\<close>

record req_ctx =
  auth_user :: "Claims option"

definition AuthHeaderKey :: string where
  "AuthHeaderKey = ''Authorization''"

definition BearerPrefix :: string where
  "BearerPrefix = ''Bearer''"

definition errInvalidAuthHeader :: string where
  "errInvalidAuthHeader =
     ''authorization header format must be '' @ [CHR 0x27] @ ''Bearer {token}'' @ [CHR 0x27]"

definition bearer_check :: "(string \<Rightarrow> go_error + Claims) \<Rightarrow> 'x req_ctx_scheme guard_check" where
  "bearer_check parse r =
     (let header = header_get (rq_header r) AuthHeaderKey
      in if \<not> has_prefix header (BearerPrefix @ '' '')
         then (Some r, Some (NewUnauthorizedError errInvalidAuthHeader))
         else case parse (trim_prefix header (BearerPrefix @ '' '')) of
           Inl _ \<Rightarrow> (Some r, Some (NewUnauthorizedError ''invalid or expired token''))
         | Inr claims \<Rightarrow> (Some (r\<lparr>rq_ctx := (rq_ctx r)\<lparr>auth_user := Some claims\<rparr>\<rparr>), None))"

text \<open>\<open>None\<close> is the panic of \<open>bearerGuard\<close> when \<open>NewGuard\<close> fails.\<close>

definition bearerGuard :: "string \<Rightarrow> (string \<Rightarrow> go_error + Claims) \<Rightarrow> 'x req_ctx_scheme Guard option" where
  "bearerGuard i parse =
     (case NewGuard \<lparr>gc_ID = i, gc_Check = Some (bearer_check parse),
             gc_Credentials = Requires [SecuritySchemeBearerAuth], gc_Problems = [Unauthorized],
             gc_Permissions = [], gc_PermissionMode = [], gc_Note = [], gc_FallbackNote = [],
             gc_Challenge = False\<rparr> of
        Inl _ \<Rightarrow> None
      | Inr g \<Rightarrow> Some g)"

text \<open>The guards read the clock when they parse a token: \<open>now\<close>.\<close>

definition AccessGuard :: "jwtService \<Rightarrow> int \<Rightarrow> 'x req_ctx_scheme Guard option" where
  "AccessGuard j now = bearerGuard ''access-token'' (ParseAccessToken j now)"

definition RefreshGuard :: "jwtService \<Rightarrow> int \<Rightarrow> 'x req_ctx_scheme Guard option" where
  "RefreshGuard j now = bearerGuard ''refresh-token'' (ParseRefreshToken j now)"

definition ParseClaimsCtx :: "'x req_ctx_scheme \<Rightarrow> go_error + Claims \<times> int" where
  "ParseClaimsCtx ctx =
     (case auth_user ctx of
        None \<Rightarrow> Inl (ESentinel ErrTokenNotFound)
      | Some raw \<Rightarrow>
          (case parse_int 64 (cl_ID raw) of
             None \<Rightarrow> Inl (EWrap ''invalid user ID in token claims'' [EOther ''strconv''])
           | Some uid \<Rightarrow> Inr (raw, uid)))"


subsection \<open>What the token package promises\<close>

text \<open>
  The documentation of \<^verbatim>\<open>golang-jwt\<close>: a token signed with the private key parses, under the public key
  and with its method accepted, exactly when its issuer is the expected one, it is not expired
  and it is not used before its time, each with the leeway; its claims come back unchanged.
\<close>

definition in_time :: "int \<Rightarrow> int \<Rightarrow> Claims \<Rightarrow> bool" where
  "in_time leeway now c \<longleftrightarrow>
     (case cl_ExpiresAt c of None \<Rightarrow> True | Some e \<Rightarrow> now < e * second + leeway) \<and>
     (case cl_NotBefore c of None \<Rightarrow> True | Some n \<Rightarrow> n * second - leeway \<le> now)"

definition jwt_lib_ok :: "jwt_lib \<Rightarrow> bool" where
  "jwt_lib_ok lib \<longleftrightarrow>
     (\<forall>c tok o' now. jl_sign lib c = Inr tok \<longrightarrow> ''ES256'' \<in> set (po_methods o') \<longrightarrow>
        (if cl_Issuer c = po_issuer o' \<and> in_time (po_leeway o') now c
         then jl_parse lib o' now tok = Inr (c, True)
         else \<exists>e. jl_parse lib o' now tok = Inl e))"

lemma parse_signed:
  assumes "jwt_lib_ok (js_lib j)" and "createToken j c = Inr tok"
  shows "if cl_Issuer c = iss \<and> in_time (js_clockSkew j) now c
         then parseTokenClaims j now tok iss = Inr c
         else \<exists>e. parseTokenClaims j now tok iss = Inl e"
proof -
  let ?o = "\<lparr>po_methods = [''ES256''], po_leeway = js_clockSkew j, po_issuer = iss\<rparr>"
  have "if cl_Issuer c = iss \<and> in_time (js_clockSkew j) now c
        then jl_parse (js_lib j) ?o now tok = Inr (c, True) else \<exists>e. jl_parse (js_lib j) ?o now tok = Inl e"
    using assms(1) [unfolded jwt_lib_ok_def, rule_format, of c tok ?o now] assms(2)
    by (simp add: createToken_def)
  then show ?thesis by (auto simp: parseTokenClaims_def split: if_splits)
qed

text \<open>The claims of the two tokens of a pair.\<close>

definition pair_claims :: "int \<Rightarrow> int \<Rightarrow> string \<Rightarrow> string \<Rightarrow> int \<Rightarrow> string \<Rightarrow> Claims" where
  "pair_claims now userID email iss life role =
     \<lparr>cl_ID = itoa userID, cl_Issuer = iss, cl_Subject = email, cl_IssuedAt = Some (numeric_date now),
      cl_NotBefore = Some (numeric_date now), cl_ExpiresAt = Some (numeric_date (now + life)), cl_Role = role\<rparr>"

lemma IssueTokenPair_Inr:
  "IssueTokenPair j now userID email role = Inr toks \<longleftrightarrow>
     userID \<noteq> 0 \<and> email \<noteq> [] \<and> role \<noteq> [] \<and>
     createToken j (pair_claims now userID email AccessIssuer (js_accessTime j) role) = Inr (AccessToken toks) \<and>
     createToken j (pair_claims now userID email RefreshIssuer (js_refreshTime j) []) = Inr (RefreshToken toks) \<and>
     ExpiresIn toks = sgn (js_accessTime j) * (\<bar>js_accessTime j\<bar> div second)"
  by (cases toks) (auto simp: IssueTokenPair_def pair_claims_def Let_def split: sum.splits)

lemma issuers_differ: "AccessIssuer \<noteq> RefreshIssuer"
  by (simp add: AccessIssuer_def RefreshIssuer_def)

text \<open>
  C27. Issued tokens come back, in their own role only. The access token of a pair is accepted by
  \<open>ParseAccessToken\<close> exactly within its life (with the clock-skew leeway) and returns the user's
  id, email and role; \<open>ParseRefreshToken\<close> never accepts it. The refresh token is accepted by
  \<open>ParseRefreshToken\<close> within its own life, carries no role, and is never an access token.
\<close>

theorem token_pair_roundtrip:
  assumes "jwt_lib_ok (js_lib j)" and "IssueTokenPair j now userID email role = Inr toks"
  shows "(ParseAccessToken j t (AccessToken toks) =
            Inr (pair_claims now userID email AccessIssuer (js_accessTime j) role) \<longleftrightarrow>
          numeric_date now * second - js_clockSkew j \<le> t \<and>
          t < numeric_date (now + js_accessTime j) * second + js_clockSkew j) \<and>
         (ParseRefreshToken j t (RefreshToken toks) =
            Inr (pair_claims now userID email RefreshIssuer (js_refreshTime j) []) \<longleftrightarrow>
          numeric_date now * second - js_clockSkew j \<le> t \<and>
          t < numeric_date (now + js_refreshTime j) * second + js_clockSkew j) \<and>
         (\<exists>e. ParseRefreshToken j t (AccessToken toks) = Inl e) \<and>
         (\<exists>e. ParseAccessToken j t (RefreshToken toks) = Inl e)"
proof -
  have signed: "createToken j (pair_claims now userID email AccessIssuer (js_accessTime j) role) = Inr (AccessToken toks)"
    "createToken j (pair_claims now userID email RefreshIssuer (js_refreshTime j) []) = Inr (RefreshToken toks)"
    using assms(2) by (simp_all add: IssueTokenPair_Inr)
  show ?thesis
    using parse_signed [OF assms(1) signed(1), of AccessIssuer t]
      parse_signed [OF assms(1) signed(1), of RefreshIssuer t]
      parse_signed [OF assms(1) signed(2), of AccessIssuer t]
      parse_signed [OF assms(1) signed(2), of RefreshIssuer t] issuers_differ
    by (auto simp: ParseAccessToken_def ParseRefreshToken_def pair_claims_def in_time_def split: if_splits)
qed

text \<open>A token package that signs two sets of claims only, and recognises the two tokens.\<close>

definition two_token_lib :: "Claims \<Rightarrow> Claims \<Rightarrow> jwt_lib" where
  "two_token_lib c0 c1 =
     \<lparr>jl_sign = (\<lambda>c. if c = c0 then Inr ''token-0'' else if c = c1 then Inr ''token-1'' else Inl (EOther ''no key'')),
      jl_parse = (\<lambda>opts now tok.
        let c = (if tok = ''token-0'' then c0 else c1)
        in if tok \<in> {''token-0'', ''token-1''} \<and> cl_Issuer c = po_issuer opts \<and> in_time (po_leeway opts) now c
           then Inr (c, True) else Inl (EOther ''invalid''))\<rparr>"

lemma two_token_lib_ok: "jwt_lib_ok (two_token_lib c0 c1)"
  by (auto simp: jwt_lib_ok_def two_token_lib_def Let_def)

definition demo_service :: jwtService where
  "demo_service = \<lparr>js_lib = two_token_lib (pair_claims 0 7 ''a@x'' AccessIssuer (300 * second) ''admin'')
       (pair_claims 0 7 ''a@x'' RefreshIssuer (1800 * second) []),
     js_accessTime = 300 * second, js_refreshTime = 1800 * second, js_clockSkew = 10 * second\<rparr>"

lemma demo_tokens:
  "IssueTokenPair demo_service 0 7 ''a@x'' ''admin'' =
     Inr \<lparr>AccessToken = ''token-0'', RefreshToken = ''token-1'', ExpiresIn = 300\<rparr>"
  unfolding IssueTokenPair_Inr
  by (simp add: createToken_def demo_service_def two_token_lib_def pair_claims_def AccessIssuer_def
      RefreshIssuer_def second_def)

lemma demo_lib_ok: "jwt_lib_ok (js_lib demo_service)"
  by (simp add: demo_service_def two_token_lib_ok)

theorem token_pair_roundtrip_witness:
  "(\<exists>c. ParseAccessToken demo_service (299 * second) ''token-0'' = Inr c \<and> cl_Role c = ''admin'') \<and>
   (\<exists>e. ParseAccessToken demo_service (299 * second) ''token-1'' = Inl e)"
proof -
  note rt = token_pair_roundtrip [OF demo_lib_ok demo_tokens, of "299 * second"]
  have "ParseAccessToken demo_service (299 * second) ''token-0'' =
      Inr (pair_claims 0 7 ''a@x'' AccessIssuer (js_accessTime demo_service) ''admin'')"
    using rt by (simp add: numeric_date_def demo_service_def second_def)
  moreover have "\<exists>e. ParseAccessToken demo_service (299 * second) ''token-1'' = Inl e" using rt by simp
  ultimately show ?thesis by (simp add: pair_claims_def)
qed


subsection \<open>The bearer guards\<close>

lemma bearerGuard_Some:
  assumes "i \<noteq> []"
  shows "bearerGuard i parse = Some
     \<lparr>gd_id = i, gd_check = Some (bearer_check parse),
      gd_credentials = \<lparr>Alternatives = [[(SecuritySchemeBearerAuth, [])]]\<rparr>, gd_problems = [Unauthorized],
      gd_permissions = [], gd_permissionMode = [], gd_note = [], gd_fallbackNote = [], gd_challenge = False\<rparr>"
  using assms
  by (simp add: bearerGuard_def NewGuard_def Requires_def SecuritySchemeBearerAuth_def validateRequirementSet_def
      IsKnownSecurityScheme_def knownSecuritySchemes_def pk_Status_def resolve_mode_def)

definition bearer_request :: "string \<Rightarrow> 'c http_request \<Rightarrow> bool" where
  "bearer_request tok r \<longleftrightarrow> header_get (rq_header r) AuthHeaderKey = BearerPrefix @ '' '' @ tok"

lemma bearer_check_token:
  "bearer_request tok r \<Longrightarrow>
     bearer_check parse r =
       (case parse tok of
          Inl _ \<Rightarrow> (Some r, Some (NewUnauthorizedError ''invalid or expired token''))
        | Inr claims \<Rightarrow> (Some (r\<lparr>rq_ctx := (rq_ctx r)\<lparr>auth_user := Some claims\<rparr>\<rparr>), None))"
  by (simp add: bearer_check_def bearer_request_def trim_prefix_def)

lemma bearer_guard_rejects:
  assumes "uncommitted w" and "gd_check g = Some (bearer_check parse)" and "gd_problems g = [Unauthorized]"
    and "\<not> gd_challenge g" and "\<And>r'. bearer_check parse r \<noteq> (Some r', None)"
  shows "\<exists>w' st. guardMiddleware g h r (w, s) = (w', s) \<and> rw_status w' = Some st \<and> st \<in> {401, 500}"
proof -
  have "run_check g r \<noteq> (Some r', None)" for r' using assms(2,5) by (simp add: run_check_def)
  from guardMiddleware_stop [OF this assms(1), of h s] show ?thesis
    using assms(3,4) by (force simp: pk_Status_def)
qed



text \<open>
  Initialisation is decided once: after a first \<open>InitJWT\<close>, every later call, with whatever
  configuration, changes nothing and reports the same outcome, and a service exists exactly when
  that outcome is success.
\<close>

lemma InitJWT_once:
  assumes "jwtOnce st = False" and "jwtSvc st = None" and "initErr st = None"
  shows "let (r, st') = InitJWT rf pv pb lib c st
         in InitJWT rf' pv' pb' lib' c' st' = (r, st') \<and> (r = None \<longleftrightarrow> jwtSvc st' \<noteq> None)"
  using assms by (auto simp: InitJWT_def Let_def split: sum.splits prod.splits)

end
