(* ===== verification/Db.thy ===== *)
theory Db
  imports Go_Errors
begin

text \<open>
  \<^verbatim>\<open>internal/db\<close>: error classification (\<^verbatim>\<open>error.go\<close>), transactions and the life cycle of pools and
  queue (\<^verbatim>\<open>db.go\<close>, \<^verbatim>\<open>queue.go\<close>, \<^verbatim>\<open>config.go\<close>, \<^verbatim>\<open>jobs/jobs.go\<close>), the log-level mapping (\<^verbatim>\<open>logger.go\<close>) and the
  inert database of the documentation generator (\<^verbatim>\<open>inert.go\<close>). What the driver and the queue client
  answer is a parameter.
\<close>

subsection \<open>Domain errors\<close>

text \<open>
  \<open>WrapDBError\<close>; the outer \<open>None\<close> is a panic: the log line calls \<open>err.Error()\<close> before the nil check.
\<close>

definition WrapDBError :: "go_error option \<Rightarrow> go_error option option" where
  "WrapDBError err =
     (case err of
        None \<Rightarrow> None
      | Some e \<Rightarrow>
          Some (Some
            (if errors_is e PgxErrNoRows then EWrap ''resource not found'' [ESentinel ErrNotFound, e]
             else case as_pg e of
               Some code \<Rightarrow>
                 if code = ''23505'' then EWrap ''resource already exists'' [ESentinel ErrAlreadyExists, e]
                 else if code = ''23503''
                   then EWrap ''invalid reference to another resource'' [ESentinel ErrForeignKeyViolation, e]
                 else EWrap ''database error'' [ESentinel ErrDatabaseError, e]
             | None \<Rightarrow> EWrap ''unhandled error'' [e])))"

definition IsNotFoundError :: "go_error \<Rightarrow> bool" where
  "IsNotFoundError err \<longleftrightarrow> errors_is err ErrNotFound \<or> errors_is err PgxErrNoRows"

definition IsAlreadyExistsError :: "go_error \<Rightarrow> bool" where
  "IsAlreadyExistsError err \<longleftrightarrow> errors_is err ErrAlreadyExists"

definition IsForeignKeyViolationError :: "go_error \<Rightarrow> bool" where
  "IsForeignKeyViolationError err \<longleftrightarrow> errors_is err ErrForeignKeyViolation"

definition IsDatabaseError :: "go_error \<Rightarrow> bool" where
  "IsDatabaseError err \<longleftrightarrow> errors_is err ErrDatabaseError"


subsection \<open>Transactions\<close>

text \<open>
  How a function ends: it returns an error or nil, or it panics. Inside a transaction it works on
  a private copy of the database state.
\<close>

datatype outcome = Returned "go_error option" | Panicked string

datatype tx_call = Begin | Commit | Rollback

text \<open>
  What the driver answers. A failed commit may or may not have been applied by the server before
  the connection broke: the flag says which.
\<close>

record tx_env =
  te_begin :: "go_error option"
  te_rollback :: "go_error option"
  te_commit :: "(go_error \<times> bool) option"

record 's tx_result =
  tr_outcome :: outcome
  tr_state :: 's
  tr_calls :: "tx_call list"
  tr_logs :: "string list"

definition runInTransaction :: "tx_env \<Rightarrow> ('s \<Rightarrow> outcome \<times> 's) \<Rightarrow> 's \<Rightarrow> 's tx_result" where
  "runInTransaction env fn s =
     (case te_begin env of
        Some e \<Rightarrow> \<lparr>tr_outcome = Returned (Some (EWrap ''failed to begin transaction'' [e])), tr_state = s,
                   tr_calls = [Begin], tr_logs = []\<rparr>
      | None \<Rightarrow>
          (case fn s of
             (Panicked p, _) \<Rightarrow>
               \<lparr>tr_outcome = Panicked p, tr_state = s, tr_calls = [Begin, Rollback],
                tr_logs = (if te_rollback env \<noteq> None then [''failed to rollback transaction after panic''] else [])\<rparr>
           | (Returned (Some e), _) \<Rightarrow>
               \<lparr>tr_outcome = Returned (Some e), tr_state = s, tr_calls = [Begin, Rollback],
                tr_logs = (if te_rollback env \<noteq> None then [''failed to rollback transaction after error''] else [])\<rparr>
           | (Returned None, s') \<Rightarrow>
               (case te_commit env of
                  Some (e, applied) \<Rightarrow>
                    \<lparr>tr_outcome = Returned (Some (EWrap ''failed to commit transaction'' [e])),
                     tr_state = (if applied then s' else s), tr_calls = [Begin, Commit], tr_logs = []\<rparr>
                | None \<Rightarrow> \<lparr>tr_outcome = Returned None, tr_state = s', tr_calls = [Begin, Commit], tr_logs = []\<rparr>)))"

definition WithTransaction :: "tx_env \<Rightarrow> ('s \<Rightarrow> outcome \<times> 's) \<Rightarrow> 's \<Rightarrow> 's tx_result" where
  "WithTransaction env fn s = runInTransaction env fn s"


subsection \<open>Pools\<close>

record Database_config =
  dc_RootUrl :: string
  dc_RiverUrl :: string
  dc_TimeZone :: string
  dc_PoolMax :: int
  dc_PoolMin :: int
  dc_MaxConnLifetime :: int
  dc_MaxConnIdleTime :: int
  dc_HealthCheckPeriod :: int
  dc_ConnectTimeout :: int
  dc_LogQueries :: bool

record PoolConfig =
  pl_MaxConns :: int
  pl_MinConns :: int
  pl_MaxConnLifetime :: int
  pl_MaxConnIdleTime :: int
  pl_HealthCheckPeriod :: int
  pl_ConnectTimeout :: int
  pl_search_path :: string
  pl_tracer :: bool
  pl_timezone :: "string option"

definition configurePoolSettings :: "PoolConfig \<Rightarrow> Database_config \<Rightarrow> PoolConfig" where
  "configurePoolSettings config conf = config
     \<lparr>pl_MaxConns := dc_PoolMax conf, pl_MinConns := dc_PoolMin conf,
      pl_MaxConnLifetime := dc_MaxConnLifetime conf, pl_MaxConnIdleTime := dc_MaxConnIdleTime conf,
      pl_HealthCheckPeriod := dc_HealthCheckPeriod conf, pl_ConnectTimeout := dc_ConnectTimeout conf\<rparr>"

text \<open>\<open>ParseConfig\<close> and \<open>NewWithConfig\<close> of the driver are parameters; a pool is a handle \<open>'p\<close>.\<close>

definition parsePoolConfig ::
  "(string \<Rightarrow> go_error + PoolConfig) \<Rightarrow> string \<Rightarrow> Database_config \<Rightarrow> go_error + PoolConfig" where
  "parsePoolConfig ParseConfig dbURL conf =
     (case ParseConfig dbURL of
        Inl e \<Rightarrow> Inl (EWrap ''failed to parse database URL'' [e])
      | Inr config \<Rightarrow>
          (let config = configurePoolSettings config conf
           in Inr (if dc_LogQueries conf then config\<lparr>pl_tracer := True\<rparr> else config)))"

definition createRootPool ::
  "(string \<Rightarrow> go_error + PoolConfig) \<Rightarrow> (PoolConfig \<Rightarrow> go_error + 'p) \<Rightarrow> Database_config \<Rightarrow> go_error + 'p" where
  "createRootPool ParseConfig NewWithConfig conf =
     (case parsePoolConfig ParseConfig (dc_RootUrl conf) conf of
        Inl e \<Rightarrow> Inl e
      | Inr config \<Rightarrow> NewWithConfig (config\<lparr>pl_timezone := Some (dc_TimeZone conf)\<rparr>))"

definition createRiverPool ::
  "(string \<Rightarrow> go_error + PoolConfig) \<Rightarrow> (PoolConfig \<Rightarrow> go_error + 'p) \<Rightarrow> Database_config \<Rightarrow> go_error + 'p" where
  "createRiverPool ParseConfig NewWithConfig conf =
     (case ParseConfig (dc_RiverUrl conf) of
        Inl e \<Rightarrow> Inl (EWrap ''failed to parse river database URL'' [e])
      | Inr config \<Rightarrow>
          if pl_search_path config = [] then Inl (EOther ''river database URL must include a search_path'')
          else NewWithConfig config)"

text \<open>The queue client: \<open>None\<close> until \<open>StartQueue\<close> has made one.\<close>

record ('p, 'q) PostgresDB =
  rootStore :: 'p
  riverStore :: 'p
  queue :: "'q option"

text \<open>The pools that are open, in the order they were opened.\<close>

definition New ::
  "(string \<Rightarrow> go_error + PoolConfig) \<Rightarrow> (PoolConfig \<Rightarrow> go_error + 'p) \<Rightarrow> Database_config \<Rightarrow> 'p list
     \<Rightarrow> (go_error + ('p, 'q) PostgresDB) \<times> 'p list" where
  "New ParseConfig NewWithConfig conf opened =
     (case createRootPool ParseConfig NewWithConfig conf of
        Inl e \<Rightarrow> (Inl (EWrap ''failed to create root connection pool'' [e]), opened)
      | Inr rootPool \<Rightarrow>
          (let opened' = opened @ [rootPool]
           in case createRiverPool ParseConfig NewWithConfig conf of
                Inl e \<Rightarrow> (Inl (EWrap ''failed to create river connection pool'' [e]), remove1 rootPool opened')
              | Inr riverPool \<Rightarrow>
                  (Inr \<lparr>rootStore = rootPool, riverStore = riverPool, queue = None\<rparr>, opened' @ [riverPool])))"

definition Ping :: "('p \<Rightarrow> go_error option) \<Rightarrow> ('p, 'q) PostgresDB \<Rightarrow> go_error option" where
  "Ping ping db =
     (case ping (rootStore db) of
        Some e \<Rightarrow> Some (EWrap ''root store'' [e])
      | None \<Rightarrow>
          (case ping (riverStore db) of
             Some e \<Rightarrow> Some (EWrap ''river store'' [e])
           | None \<Rightarrow> None))"

text \<open>
  \<open>NewQueue\<close>: the client is test-only outside production. \<open>NewClient\<close> of the queue package is a
  parameter.
\<close>

definition MaxDefaultWorkers :: int where
  "MaxDefaultWorkers = 20"

definition MaxRetries :: int where
  "MaxRetries = 3"

record queue_config =
  qc_pool_workers :: int
  qc_TestOnly :: bool

definition NewQueue :: "('p \<Rightarrow> queue_config \<Rightarrow> go_error + 'q) \<Rightarrow> 'p \<Rightarrow> string \<Rightarrow> go_error + 'q" where
  "NewQueue NewClient pool AppEnv =
     (case NewClient pool \<lparr>qc_pool_workers = MaxDefaultWorkers, qc_TestOnly = (AppEnv \<noteq> ''production'')\<rparr> of
        Inl e \<Rightarrow> Inl (EWrap ''failed to create river client'' [e])
      | Inr client \<Rightarrow> Inr client)"

text \<open>Every call made on the queue client, in order.\<close>

datatype 'q queue_call = QStart 'q | QStop 'q

definition StartQueue ::
  "('p \<Rightarrow> queue_config \<Rightarrow> go_error + 'q) \<Rightarrow> ('q \<Rightarrow> go_error option) \<Rightarrow> string \<Rightarrow> ('p, 'q) PostgresDB
     \<Rightarrow> go_error option \<times> ('p, 'q) PostgresDB \<times> 'q queue_call list" where
  "StartQueue NewClient start AppEnv db =
     (case NewQueue NewClient (riverStore db) AppEnv of
        Inl e \<Rightarrow> (Some (EWrap ''failed to initialize queue'' [e]), db\<lparr>queue := None\<rparr>, [])
      | Inr q \<Rightarrow> (start q, db\<lparr>queue := Some q\<rparr>, [QStart q]))"

definition StopQueue ::
  "('q \<Rightarrow> go_error option) \<Rightarrow> ('p, 'q) PostgresDB \<Rightarrow> go_error option \<times> 'q queue_call list" where
  "StopQueue stop db = (case queue db of None \<Rightarrow> (None, []) | Some q \<Rightarrow> (stop q, [QStop q]))"

text \<open>\<open>Close\<close> stops the queue first, ignoring its error, then closes both pools.\<close>

definition Close :: "('p, 'q) PostgresDB \<Rightarrow> 'p list \<Rightarrow> 'p list \<times> 'q queue_call list" where
  "Close db opened =
     (remove1 (riverStore db) (remove1 (rootStore db) opened),
      case queue db of None \<Rightarrow> [] | Some q \<Rightarrow> [QStop q])"


subsection \<open>Log levels\<close>

datatype trace_level =
    LogLevelError | LogLevelWarn | LogLevelInfo | LogLevelDebug | LogLevelTrace | LogLevelNone | LogLevelOther

text \<open>The \<open>slog\<close> level and the attribute an unknown level adds.\<close>

fun Log_level :: "trace_level \<Rightarrow> int \<times> string list" where
  "Log_level LogLevelError = (8, [])"
| "Log_level LogLevelWarn = (4, [])"
| "Log_level LogLevelInfo = (0, [])"
| "Log_level LogLevelDebug = (-4, [])"
| "Log_level LogLevelTrace = (-4 - 1, [])"
| "Log_level LogLevelNone = (-4 - 2, [])"
| "Log_level LogLevelOther = (-4, [''INVALID_PGX_LOG_LEVEL''])"


subsection \<open>The inert database\<close>

datatype inert_call =
    RootStore_Queries | RootStore_Pool | RiverStore_Pool | Queue_handle
  | DBTX_Exec | DBTX_Query | DBTX_QueryRow
  | Pool_BeginTx | Pool_Exec | Pool_Ping | Pool_Close
  | Store_WithTransaction | Store_Ping | Store_Close
  | River_Ping | River_Close
  | Queue_Insert | Queue_InsertTx | Queue_Start | Queue_Stop
  | DB_Ping | DB_Close | DB_StartQueue | DB_StopQueue

definition inertQueryMsg :: string where
  "inertQueryMsg = ''inert db: query executed during docs generation''"

definition inertTxMsg :: string where
  "inertTxMsg = ''inert db: transaction started during docs generation''"

definition inertPingMsg :: string where
  "inertPingMsg = ''inert db: ping executed during docs generation''"

definition inertQueueMsg :: string where
  "inertQueueMsg = ''inert db: job enqueued during docs generation''"

fun inert :: "inert_call \<Rightarrow> outcome" where
  "inert DBTX_Exec = Panicked inertQueryMsg"
| "inert DBTX_Query = Panicked inertQueryMsg"
| "inert DBTX_QueryRow = Panicked inertQueryMsg"
| "inert Pool_BeginTx = Panicked inertTxMsg"
| "inert Pool_Exec = Panicked inertQueryMsg"
| "inert Pool_Ping = Panicked inertPingMsg"
| "inert Store_WithTransaction = Panicked inertTxMsg"
| "inert Store_Ping = Panicked inertPingMsg"
| "inert River_Ping = Panicked inertPingMsg"
| "inert Queue_Insert = Panicked inertQueueMsg"
| "inert Queue_InsertTx = Panicked inertQueueMsg"
| "inert Queue_Start = Panicked inertQueueMsg"
| "inert DB_Ping = Panicked inertPingMsg"
| "inert DB_StartQueue = Panicked inertQueueMsg"
| "inert c = Returned None"


subsection \<open>Properties\<close>

text \<open>The sentinels \<open>WrapDBError\<close> adds; driver errors do not carry them.\<close>

definition plain_error :: "go_error \<Rightarrow> bool" where
  "plain_error e \<longleftrightarrow>
     (\<forall>s \<in> {ErrNotFound, ErrAlreadyExists, ErrForeignKeyViolation, ErrDatabaseError}. \<not> errors_is e s)"

lemma WrapDBError_classes:
  assumes "plain_error e" and "WrapDBError (Some e) = Some (Some e')"
  shows "IsNotFoundError e' \<longleftrightarrow> errors_is e PgxErrNoRows"
    and "IsAlreadyExistsError e' \<longleftrightarrow> \<not> errors_is e PgxErrNoRows \<and> as_pg e = Some ''23505''"
    and "IsForeignKeyViolationError e' \<longleftrightarrow> \<not> errors_is e PgxErrNoRows \<and> as_pg e = Some ''23503''"
    and "IsDatabaseError e' \<longleftrightarrow> \<not> errors_is e PgxErrNoRows \<and> as_pg e \<notin> {None, Some ''23505'', Some ''23503''}"
  using assms
  by (auto simp: WrapDBError_def IsNotFoundError_def IsAlreadyExistsError_def IsForeignKeyViolationError_def
      IsDatabaseError_def plain_error_def split: if_splits option.splits)





lemma remove1_last: "x \<notin> set xs \<Longrightarrow> remove1 x (xs @ [x]) = xs"
  by (simp add: remove1_append)

text \<open>
  Pools do not leak. A failed \<open>New\<close> leaves no pool open that was not open before; a successful
  one opens exactly two, and \<open>Close\<close>, after whatever happened to the queue, closes both and stops
  the queue if one was started.
\<close>

lemma New_Close_balance:
  assumes "\<And>c p. NewWithConfig c = Inr p \<Longrightarrow> p \<notin> set opened"
  shows "case New ParseConfig NewWithConfig conf opened of
           (Inl _, opened') \<Rightarrow> opened' = opened
         | (Inr db, opened') \<Rightarrow> opened' = opened @ [rootStore db, riverStore db] \<and>
             (\<forall>q. fst (Close (db\<lparr>queue := q\<rparr>) opened') = opened \<and>
                  snd (Close (db\<lparr>queue := q\<rparr>) opened') = (case q of None \<Rightarrow> [] | Some c \<Rightarrow> [QStop c]))"
proof -
  have root: "p \<notin> set opened" if "createRootPool ParseConfig NewWithConfig conf = Inr p" for p
    using that assms by (auto simp: createRootPool_def split: sum.splits)
  have river: "p \<notin> set opened" if "createRiverPool ParseConfig NewWithConfig conf = Inr p" for p
    using that assms by (auto simp: createRiverPool_def split: sum.splits if_splits)
  show ?thesis
    using root river
    by (auto simp: New_def Close_def Let_def remove1_append remove1_idem split: sum.splits)
qed

end
