(* ===== verification/Auth.thy ===== *)
theory Auth
  imports Jwt Argon2id Db Response
begin

text \<open>
  \<^verbatim>\<open>internal/api/auth\<close>: the repository over the statements of \<^verbatim>\<open>internal/db/sqlc/users.sql.go\<close>, the
  service and the four handlers. The service relies on its repository through the locale
  \<open>user_repository\<close>, interpreted here on the table model. What the deployed schema
  rejects (\<open>constraint\<close>) and what the driver fails with (\<open>fault\<close>) are parameters, and so are the
  hashing and token libraries of \<open>Argon2id\<close> and \<open>Jwt\<close>.
\<close>

subsection \<open>The users table\<close>

record AuthUser =
  ID :: int
  Email :: string
  EmailVerified :: bool
  Phone :: string
  PhoneVerified :: bool
  Password :: string
  Role :: string
  CreatedAt :: int
  UpdatedAt :: int

definition RoleTypeAdmin :: string where "RoleTypeAdmin = ''admin''"

definition RoleTypeCustomer :: string where "RoleTypeCustomer = ''customer''"

text \<open>
  The rows in the order a scan visits them, and the next value of the identity column. \<open>LOWER\<close> is
  the ASCII one.
\<close>

record user_table =
  ut_rows :: "AuthUser list"
  ut_next :: int

record user_env =
  ue_now :: int
  ue_fault :: "go_error option"
  ue_constraint :: "AuthUser list \<Rightarrow> AuthUser \<Rightarrow> go_error option"

record CreateAdminUserParams =
  cap_Email :: string
  cap_Phone :: string
  cap_Password :: string

definition CreateAdminUser :: "user_env \<Rightarrow> CreateAdminUserParams \<Rightarrow> user_table \<Rightarrow> go_error option \<times> user_table" where
  "CreateAdminUser env arg t =
     (case ue_fault env of
        Some e \<Rightarrow> (Some e, t)
      | None \<Rightarrow>
          (let u = \<lparr>ID = ut_next t, Email = to_lower (cap_Email arg), EmailVerified = False,
                    Phone = cap_Phone arg, PhoneVerified = False, Password = cap_Password arg,
                    Role = RoleTypeAdmin, CreatedAt = ue_now env, UpdatedAt = ue_now env\<rparr>
           in case ue_constraint env (ut_rows t) u of
                Some e \<Rightarrow> (Some e, t\<lparr>ut_next := ut_next t + 1\<rparr>)
              | None \<Rightarrow> (None, t\<lparr>ut_rows := ut_rows t @ [u], ut_next := ut_next t + 1\<rparr>)))"

definition select_email :: "user_env \<Rightarrow> string \<Rightarrow> user_table \<Rightarrow> go_error + AuthUser" where
  "select_email env email t =
     (case ue_fault env of
        Some e \<Rightarrow> Inl e
      | None \<Rightarrow>
          (case List.find (\<lambda>u. Email u = email) (ut_rows t) of
             None \<Rightarrow> Inl (ESentinel PgxErrNoRows)
           | Some u \<Rightarrow> Inr u))"

definition sqlc_GetUser :: "user_env \<Rightarrow> string \<Rightarrow> user_table \<Rightarrow> go_error + AuthUser" where
  "sqlc_GetUser env email t = select_email env (to_lower email) t"

definition sqlc_GetUserDetails :: "user_env \<Rightarrow> string \<Rightarrow> user_table \<Rightarrow> go_error + AuthUser" where
  "sqlc_GetUserDetails env email t = select_email env email t"

text \<open>The update trigger stamps \<open>updated_at\<close>.\<close>

definition UpdateVerification ::
  "user_env \<Rightarrow> int \<Rightarrow> bool \<Rightarrow> bool \<Rightarrow> user_table \<Rightarrow> (go_error + nat) \<times> user_table" where
  "UpdateVerification env uid emailVerified phoneVerified t =
     (case ue_fault env of
        Some e \<Rightarrow> (Inl e, t)
      | None \<Rightarrow>
          (Inr (length (filter (\<lambda>u. ID u = uid) (ut_rows t))),
           t\<lparr>ut_rows := map (\<lambda>u. if ID u = uid
               then u\<lparr>EmailVerified := emailVerified, PhoneVerified := phoneVerified, UpdatedAt := ue_now env\<rparr>
               else u) (ut_rows t)\<rparr>))"


subsection \<open>The repository\<close>

record RegisterRequest =
  rr_Email :: string
  rr_Password :: string

record LoginRequest =
  lr_Identity :: string
  lr_Password :: string

definition FindUser :: "user_env \<Rightarrow> string \<Rightarrow> user_table \<Rightarrow> go_error + AuthUser" where
  "FindUser env ident t =
     (case sqlc_GetUser env ident t of Inl e \<Rightarrow> Inl (EWrap ''find user'' [e]) | Inr u \<Rightarrow> Inr u)"

definition GetUserDetails :: "user_env \<Rightarrow> string \<Rightarrow> user_table \<Rightarrow> go_error + AuthUser" where
  "GetUserDetails env ident t =
     (case sqlc_GetUserDetails env ident t of Inl e \<Rightarrow> Inl (EWrap ''get user details'' [e]) | Inr u \<Rightarrow> Inr u)"

definition CreateAdmin :: "user_env \<Rightarrow> RegisterRequest \<Rightarrow> user_table \<Rightarrow> go_error option \<times> user_table" where
  "CreateAdmin env user t =
     CreateAdminUser env \<lparr>cap_Email = rr_Email user, cap_Phone = [], cap_Password = rr_Password user\<rparr> t"

definition UpdateVerificationStatus ::
  "user_env \<Rightarrow> int \<Rightarrow> bool \<Rightarrow> bool \<Rightarrow> user_table \<Rightarrow> go_error option \<times> user_table" where
  "UpdateVerificationStatus env userID emailVerified phoneVerified t =
     (case UpdateVerification env userID emailVerified phoneVerified t of
        (Inl e, t') \<Rightarrow> (Some e, t')
      | (Inr rows, t') \<Rightarrow> (if rows = 0 then Some (ESentinel PgxErrNoRows) else None, t'))"


subsection \<open>The service\<close>

text \<open>
  The methods of the \<open>Repository\<close> interface the service calls; the argon2 library and random
  source; the token service and its clock.
\<close>

record 's Repository =
  repo_FindUser :: "string \<Rightarrow> 's \<Rightarrow> go_error + AuthUser"
  repo_GetUserDetails :: "string \<Rightarrow> 's \<Rightarrow> go_error + AuthUser"
  repo_CreateAdmin :: "RegisterRequest \<Rightarrow> 's \<Rightarrow> go_error option \<times> 's"

record 's service =
  sv_repo :: "'s Repository"
  sv_token :: jwtService
  sv_now :: int
  sv_argon :: Config
  sv_lib :: argon2_lib
  sv_rnd :: "nat \<Rightarrow> go_error + string"

definition issueTokens :: "'s service \<Rightarrow> AuthUser \<Rightarrow> go_error + Tokens" where
  "issueTokens s user =
     (case IssueTokenPair (sv_token s) (sv_now s) (ID user) (Email user) (Role user) of
        Inl e \<Rightarrow> Inl (NewInternalError ''could not issue tokens'')
      | Inr tokens \<Rightarrow> Inr tokens)"

text \<open>The inner \<open>None\<close> of \<open>WrapDBError\<close> cannot occur: the error is not nil here.\<close>

definition wrapped :: "go_error \<Rightarrow> go_error" where
  "wrapped e = (case WrapDBError (Some e) of Some (Some e') \<Rightarrow> e' | _ \<Rightarrow> e)"

definition RegisterAdmin :: "'s service \<Rightarrow> RegisterRequest \<Rightarrow> 's \<Rightarrow> go_error option \<times> 's" where
  "RegisterAdmin s user st =
     (case HashPassword (sv_lib s) (sv_rnd s) (sv_argon s) (rr_Password user) of
        Inl e \<Rightarrow> (Some (NewInternalError ''could not register user''), st)
      | Inr hashedPassword \<Rightarrow>
          (case repo_CreateAdmin (sv_repo s) (user\<lparr>rr_Password := hashedPassword\<rparr>) st of
             (Some e, st') \<Rightarrow>
               (Some (if IsAlreadyExistsError (wrapped e)
                      then NewConflictError ''a user with this identity already exists''
                      else NewInternalError ''could not register user''), st')
           | (None, st') \<Rightarrow> (None, st')))"

definition Login :: "'s service \<Rightarrow> LoginRequest \<Rightarrow> 's \<Rightarrow> go_error + Tokens" where
  "Login s credentials st =
     (case repo_FindUser (sv_repo s) (lr_Identity credentials) st of
        Inl e \<Rightarrow> Inl (NewUnauthorizedError ''invalid credentials'')
      | Inr user \<Rightarrow>
          (case ComparePasswordAndHash (sv_lib s) (lr_Password credentials) (Password user) of
             Inl e \<Rightarrow> Inl (NewInternalError ''could not authenticate'')
           | Inr match \<Rightarrow>
               if \<not> match then Inl (NewUnauthorizedError ''invalid credentials'')
               else issueTokens s user))"

definition Me :: "'s service \<Rightarrow> string \<Rightarrow> 's \<Rightarrow> go_error + AuthUser" where
  "Me s ident st =
     (case repo_GetUserDetails (sv_repo s) ident st of
        Inl e \<Rightarrow>
          Inl (if IsNotFoundError (wrapped e) then NewNotFoundError ''user does not exist''
               else NewInternalError ''could not load user'')
      | Inr user \<Rightarrow> Inr user)"

definition Refresh :: "'s service \<Rightarrow> string \<Rightarrow> 's \<Rightarrow> go_error + Tokens" where
  "Refresh s ident st =
     (case repo_FindUser (sv_repo s) ident st of
        Inl e \<Rightarrow> Inl (NewUnauthorizedError ''refresh token is no longer valid'')
      | Inr user \<Rightarrow> issueTokens s user)"


subsection \<open>Handlers\<close>

record UserResponse =
  ur_ID :: int
  ur_Email :: string
  ur_EmailVerified :: bool
  ur_Phone :: string
  ur_PhoneVerified :: bool
  ur_Role :: string
  ur_CreatedAt :: int
  ur_UpdatedAt :: int

definition userResponse :: "AuthUser \<Rightarrow> UserResponse" where
  "userResponse user = \<lparr>ur_ID = ID user, ur_Email = Email user, ur_EmailVerified = EmailVerified user,
     ur_Phone = Phone user, ur_PhoneVerified = PhoneVerified user, ur_Role = Role user,
     ur_CreatedAt = CreatedAt user, ur_UpdatedAt = UpdatedAt user\<rparr>"

text \<open>The reflected form of the two payloads, field by field.\<close>

definition reflect_user :: "UserResponse \<Rightarrow> gval" where
  "reflect_user u = VStruct ''UserResponse''
     [VInt (ur_ID u), VString (ur_Email u), VBool (ur_EmailVerified u), VString (ur_Phone u),
      VBool (ur_PhoneVerified u), VString (ur_Role u), VInt (ur_CreatedAt u), VInt (ur_UpdatedAt u)]"

definition reflect_tokens :: "Tokens \<Rightarrow> gval" where
  "reflect_tokens t = VStruct ''Tokens'' [VString (AccessToken t), VString (RefreshToken t), VInt (ExpiresIn t)]"

definition handle_RegisterAdmin :: "'s service \<Rightarrow> RegisterRequest \<Rightarrow> 's \<Rightarrow> (go_error + 't Reply) \<times> 's" where
  "handle_RegisterAdmin s body st =
     (case RegisterAdmin s body st of
        (Some e, st') \<Rightarrow> (Inl e, st')
      | (None, st') \<Rightarrow> (Inr (Done ''User registered successfully''), st'))"

definition handle_Login :: "'s service \<Rightarrow> LoginRequest \<Rightarrow> 's \<Rightarrow> go_error + 't Reply" where
  "handle_Login s body st =
     (case Login s body st of
        Inl e \<Rightarrow> Inl e
      | Inr tokens \<Rightarrow> Inr (OK ''Login successful'' (reflect_tokens tokens)))"

definition handle_Me :: "'s service \<Rightarrow> 'x req_ctx_scheme \<Rightarrow> 's \<Rightarrow> go_error + 't Reply" where
  "handle_Me s ctx st =
     (case ParseClaimsCtx ctx of
        Inl e \<Rightarrow> Inl (NewUnauthorizedError ''authentication required'')
      | Inr (claims, _) \<Rightarrow>
          (case Me s (cl_Subject claims) st of
             Inl e \<Rightarrow> Inl e
           | Inr user \<Rightarrow> Inr (OK ''User details fetched successfully'' (reflect_user (userResponse user)))))"

definition handle_Refresh :: "'s service \<Rightarrow> 'x req_ctx_scheme \<Rightarrow> 's \<Rightarrow> go_error + 't Reply" where
  "handle_Refresh s ctx st =
     (case ParseClaimsCtx ctx of
        Inl e \<Rightarrow> Inl (NewUnauthorizedError ''authentication required'')
      | Inr (claims, _) \<Rightarrow>
          (case Refresh s (cl_Subject claims) st of
             Inl e \<Rightarrow> Inl e
           | Inr tokens \<Rightarrow> Inr (OK ''Token refreshed successfully'' (reflect_tokens tokens))))"



subsection \<open>What the service needs of a repository\<close>

text \<open>
  A user that was not there before is found after it was created, with the stored password and
  the administrator role; users that were there stay as they are.
\<close>

locale user_repository =
  fixes find_user :: "string \<Rightarrow> 's \<Rightarrow> go_error + AuthUser"
    and create :: "RegisterRequest \<Rightarrow> 's \<Rightarrow> go_error option \<times> 's"
    and inv :: "'s \<Rightarrow> bool"
  assumes create_new:
      "inv st \<Longrightarrow> create r st = (None, st') \<Longrightarrow> find_user (rr_Email r) st = Inl e \<Longrightarrow>
       \<exists>u. find_user (rr_Email r) st' = Inr u \<and> Email u = to_lower (rr_Email r) \<and>
           Password u = rr_Password r \<and> Role u = RoleTypeAdmin \<and> ID u \<noteq> 0"
    and create_keeps:
      "inv st \<Longrightarrow> create r st = (None, st') \<Longrightarrow> find_user i st = Inr u \<Longrightarrow> find_user i st' = Inr u"
    and create_inv: "inv st \<Longrightarrow> inv (snd (create r st))"
begin

lemma register_creates:
  assumes "inv st" and "repo_CreateAdmin (sv_repo s) = create" and "RegisterAdmin s user st = (None, st')"
    and "find_user (rr_Email user) st = Inl e"
  shows "\<exists>u enc. HashPassword (sv_lib s) (sv_rnd s) (sv_argon s) (rr_Password user) = Inr enc \<and>
           find_user (rr_Email user) st' = Inr u \<and> Email u = to_lower (rr_Email user) \<and> Password u = enc \<and>
           Role u = RoleTypeAdmin \<and> ID u \<noteq> 0"
proof -
  obtain enc where enc: "HashPassword (sv_lib s) (sv_rnd s) (sv_argon s) (rr_Password user) = Inr enc"
    "create (user\<lparr>rr_Password := enc\<rparr>) st = (None, st')"
    using assms(2,3) by (auto simp: RegisterAdmin_def split: sum.splits prod.splits option.splits)
  from create_new [OF assms(1) enc(2), of e] assms(4) enc(1) show ?thesis by auto
qed

lemma login_after_register:
  assumes "inv st" and "repo_CreateAdmin (sv_repo s) = create" and "repo_FindUser (sv_repo s) = find_user"
    and "RegisterAdmin s user st = (None, st')" and "find_user (rr_Email user) st = Inl e"
    and "argon2_ok (sv_lib s)" and "wf_config (sv_argon s)"
    and "sv_rnd s (SaltLength (sv_argon s)) = Inr salt" and "length salt = SaltLength (sv_argon s)"
  shows "\<exists>u. Email u = to_lower (rr_Email user) \<and> Role u = RoleTypeAdmin \<and> ID u \<noteq> 0 \<and>
           (\<forall>pw. Login s \<lparr>lr_Identity = rr_Email user, lr_Password = pw\<rparr> st' =
              (if lib_IDKey (sv_lib s) (rr_Password user) salt (Iterations (sv_argon s)) (Memory (sv_argon s))
                    (Parallelism (sv_argon s)) (KeyLength (sv_argon s)) =
                  lib_IDKey (sv_lib s) pw salt (Iterations (sv_argon s)) (Memory (sv_argon s))
                    (Parallelism (sv_argon s)) (KeyLength (sv_argon s))
               then issueTokens s u else Inl (NewUnauthorizedError ''invalid credentials'')))"
proof -
  obtain u enc where u: "HashPassword (sv_lib s) (sv_rnd s) (sv_argon s) (rr_Password user) = Inr enc"
    "find_user (rr_Email user) st' = Inr u" "Email u = to_lower (rr_Email user)" "Password u = enc"
    "Role u = RoleTypeAdmin" "ID u \<noteq> 0"
    using register_creates [OF assms(1,2,4,5)] by blast
  obtain enc' where "HashPassword (sv_lib s) (sv_rnd s) (sv_argon s) (rr_Password user) = Inr enc'"
    "\<And>pw. ComparePasswordAndHash (sv_lib s) pw enc' =
       Inr (lib_IDKey (sv_lib s) (rr_Password user) salt (Iterations (sv_argon s)) (Memory (sv_argon s))
              (Parallelism (sv_argon s)) (KeyLength (sv_argon s)) =
            lib_IDKey (sv_lib s) pw salt (Iterations (sv_argon s)) (Memory (sv_argon s))
              (Parallelism (sv_argon s)) (KeyLength (sv_argon s)))"
    using hash_verifies [of "sv_lib s" "sv_argon s" "sv_rnd s" salt "rr_Password user"] assms(6-9) by blast
  with u assms(3) show ?thesis by (intro exI [of _ u]) (simp add: Login_def)
qed

end


subsection \<open>The table is a repository\<close>

definition calm :: "int \<Rightarrow> (AuthUser list \<Rightarrow> AuthUser \<Rightarrow> go_error option) \<Rightarrow> user_env" where
  "calm now con = \<lparr>ue_now = now, ue_fault = None, ue_constraint = con\<rparr>"

text \<open>The identity column starts at 1 and only grows.\<close>

definition wf_users :: "user_table \<Rightarrow> bool" where
  "wf_users t \<longleftrightarrow> 0 < ut_next t \<and> list_all (\<lambda>u. 0 < ID u \<and> ID u < ut_next t) (ut_rows t)"

lemma find_append:
  "List.find P (xs @ ys) = (case List.find P xs of None \<Rightarrow> List.find P ys | Some x \<Rightarrow> Some x)"
  by (induction xs) auto

lemma CreateAdmin_None:
  "CreateAdmin (calm now con) r t = (None, t') \<Longrightarrow>
     \<exists>u. ut_rows t' = ut_rows t @ [u] \<and> ID u = ut_next t \<and> Email u = to_lower (rr_Email r) \<and>
         Password u = rr_Password r \<and> Role u = RoleTypeAdmin"
  by (auto simp: CreateAdmin_def CreateAdminUser_def calm_def Let_def split: option.splits)

lemma wf_users_CreateAdmin: "wf_users t \<Longrightarrow> wf_users (snd (CreateAdmin env r t))"
  by (auto simp: wf_users_def CreateAdmin_def CreateAdminUser_def Let_def list_all_iff split: option.splits)

lemma FindUser_calm:
  "FindUser (calm now con) i t =
     (case List.find (\<lambda>u. Email u = to_lower i) (ut_rows t) of
        None \<Rightarrow> Inl (EWrap ''find user'' [ESentinel PgxErrNoRows]) | Some u \<Rightarrow> Inr u)"
  by (simp add: FindUser_def sqlc_GetUser_def select_email_def calm_def split: option.splits)

interpretation users: user_repository "FindUser (calm now con)" "CreateAdmin (calm now con)" wf_users for now con
proof unfold_locales
  fix st r st' e
  assume "wf_users st" and c: "CreateAdmin (calm now con) r st = (None, st')"
    and "FindUser (calm now con) (rr_Email r) st = Inl e"
  moreover obtain u where "ut_rows st' = ut_rows st @ [u]" "ID u = ut_next st" "Email u = to_lower (rr_Email r)"
    "Password u = rr_Password r" "Role u = RoleTypeAdmin"
    using CreateAdmin_None [OF c] by blast
  ultimately show "\<exists>u. FindUser (calm now con) (rr_Email r) st' = Inr u \<and> Email u = to_lower (rr_Email r) \<and>
      Password u = rr_Password r \<and> Role u = RoleTypeAdmin \<and> ID u \<noteq> 0"
    by (auto simp: FindUser_calm find_append wf_users_def split: option.splits)
next
  fix st r st' i u
  assume "wf_users st" and c: "CreateAdmin (calm now con) r st = (None, st')"
    and "FindUser (calm now con) i st = Inr u"
  with CreateAdmin_None [OF c] show "FindUser (calm now con) i st' = Inr u"
    by (auto simp: FindUser_calm find_append split: option.splits)
next
  fix st r
  assume "wf_users st"
  then show "wf_users (snd (CreateAdmin (calm now con) r st))" by (rule wf_users_CreateAdmin)
qed

definition table_repo :: "user_env \<Rightarrow> user_table Repository" where
  "table_repo env = \<lparr>repo_FindUser = FindUser env, repo_GetUserDetails = GetUserDetails env,
     repo_CreateAdmin = CreateAdmin env\<rparr>"


subsection \<open>Properties\<close>


definition demo_auth :: "user_table service" where
  "demo_auth = \<lparr>sv_repo = table_repo (calm 0 (\<lambda>_ _. None)), sv_token = demo_service, sv_now = 0,
     sv_argon = DefaultConfig, sv_lib = pad_lib, sv_rnd = (\<lambda>n. Inr (replicate n (CHR ''s'')))\<rparr>"

definition empty_users :: user_table where
  "empty_users = \<lparr>ut_rows = [], ut_next = 7\<rparr>"


text \<open>
  C28. Registering and logging in fit together. After a successful registration of a new identity,
  logging in with that identity and the registered password issues tokens for the stored
  administrator, and every password that derives another key is refused, under any spelling of
  the parameters the hash was stored with.
\<close>

theorem Register_then_Login:
  assumes "wf_users t" and "RegisterAdmin s user t = (None, t')"
    and "sv_repo s = table_repo (calm now con)"
    and "FindUser (calm now con) (rr_Email user) t = Inl e"
    and "argon2_ok (sv_lib s)" and "wf_config (sv_argon s)"
    and "sv_rnd s (SaltLength (sv_argon s)) = Inr salt" and "length salt = SaltLength (sv_argon s)"
  shows "\<exists>u. Email u = to_lower (rr_Email user) \<and> Role u = RoleTypeAdmin \<and> ID u \<noteq> 0 \<and>
           Login s \<lparr>lr_Identity = rr_Email user, lr_Password = rr_Password user\<rparr> t' = issueTokens s u \<and>
           (\<forall>pw. lib_IDKey (sv_lib s) (rr_Password user) salt (Iterations (sv_argon s)) (Memory (sv_argon s))
                    (Parallelism (sv_argon s)) (KeyLength (sv_argon s)) \<noteq>
                  lib_IDKey (sv_lib s) pw salt (Iterations (sv_argon s)) (Memory (sv_argon s))
                    (Parallelism (sv_argon s)) (KeyLength (sv_argon s)) \<longrightarrow>
              Login s \<lparr>lr_Identity = rr_Email user, lr_Password = pw\<rparr> t' =
                Inl (NewUnauthorizedError ''invalid credentials''))"
proof -
  have repo: "repo_CreateAdmin (sv_repo s) = CreateAdmin (calm now con)"
    "repo_FindUser (sv_repo s) = FindUser (calm now con)"
    using assms(3) by (simp_all add: table_repo_def)
  from users.login_after_register [OF assms(1) repo assms(2,4-8)] show ?thesis by fastforce
qed

theorem Register_then_Login_witness:
  "\<exists>t' u. RegisterAdmin demo_auth \<lparr>rr_Email = ''a@x'', rr_Password = ''secret pw''\<rparr> empty_users = (None, t') \<and>
     Login demo_auth \<lparr>lr_Identity = ''a@x'', lr_Password = ''secret pw''\<rparr> t' = issueTokens demo_auth u \<and>
     Role u = RoleTypeAdmin"
proof -
  let ?user = "\<lparr>rr_Email = ''a@x'', rr_Password = ''secret pw''\<rparr>"
  have wf: "wf_users empty_users" by (simp add: wf_users_def empty_users_def)
  have ok: "argon2_ok (sv_lib demo_auth)" by (auto simp: argon2_ok_def pad_lib_def demo_auth_def min_def)
  have cfg: "wf_config (sv_argon demo_auth)" by (simp add: wf_config_def DefaultConfig_def demo_auth_def)
  have repo: "sv_repo demo_auth = table_repo (calm 0 (\<lambda>_ _. None))" by (simp add: demo_auth_def)
  obtain t' where t': "RegisterAdmin demo_auth ?user empty_users = (None, t')"
    by (simp add: RegisterAdmin_def demo_auth_def HashPassword_def generateRandomBytes_def table_repo_def
        CreateAdmin_def CreateAdminUser_def calm_def Let_def)
  have "\<exists>e. FindUser (calm 0 (\<lambda>_ _. None)) (rr_Email ?user) empty_users = Inl e"
    by (simp add: FindUser_calm empty_users_def)
  then obtain e where e: "FindUser (calm 0 (\<lambda>_ _. None)) (rr_Email ?user) empty_users = Inl e" ..
  obtain u where "Role u = RoleTypeAdmin"
    "Login demo_auth \<lparr>lr_Identity = rr_Email ?user, lr_Password = rr_Password ?user\<rparr> t' = issueTokens demo_auth u"
    using Register_then_Login [OF wf t' repo e ok cfg,
        of "replicate (SaltLength DefaultConfig) (CHR ''s'')"] by (auto simp: demo_auth_def)
  with t' show ?thesis by auto
qed

text \<open>
  C40. A registration that fails stores no user, and its error tells a conflict apart exactly when the
  database reported a unique violation; everything else is a 500 without detail.
\<close>

theorem RegisterAdmin_failures:
  assumes "sv_repo s = table_repo env" and "RegisterAdmin s user t = (Some err, t')"
  shows "ut_rows t' = ut_rows t \<and>
         (err = NewConflictError ''a user with this identity already exists'' \<or>
          err = NewInternalError ''could not register user'') \<and>
         (\<forall>e enc. HashPassword (sv_lib s) (sv_rnd s) (sv_argon s) (rr_Password user) = Inr enc \<longrightarrow>
            fst (CreateAdmin env (user\<lparr>rr_Password := enc\<rparr>) t) = Some e \<longrightarrow> plain_error e \<longrightarrow>
            (err = NewConflictError ''a user with this identity already exists'' \<longleftrightarrow>
               \<not> errors_is e PgxErrNoRows \<and> as_pg e = Some ''23505''))"
proof -
  have distinct: "NewConflictError m \<noteq> NewInternalError m'" for m m'
    by (simp add: NewConflictError_def NewInternalError_def pk_New_def mk_problem_def)
  have rows: "ut_rows (snd (CreateAdmin env r t)) = ut_rows t" if "fst (CreateAdmin env r t) = Some e" for r e
    using that by (auto simp: CreateAdmin_def CreateAdminUser_def Let_def split: option.splits)
  have exists: "IsAlreadyExistsError (wrapped e) \<longleftrightarrow> \<not> errors_is e PgxErrNoRows \<and> as_pg e = Some ''23505''"
    if "plain_error e" for e
    using WrapDBError_classes(2) [OF that] by (simp add: wrapped_def WrapDBError_def)
  show ?thesis
  proof (cases "HashPassword (sv_lib s) (sv_rnd s) (sv_argon s) (rr_Password user)")
    case (Inl e)
    with assms show ?thesis by (simp add: RegisterAdmin_def)
  next
    case (Inr enc)
    let ?u = "user\<lparr>rr_Password := enc\<rparr>"
    from assms Inr obtain e where e: "fst (CreateAdmin env ?u t) = Some e" "snd (CreateAdmin env ?u t) = t'"
      and err: "err = (if IsAlreadyExistsError (wrapped e)
          then NewConflictError ''a user with this identity already exists''
          else NewInternalError ''could not register user'')"
      by (auto simp: RegisterAdmin_def table_repo_def split: option.splits prod.splits)
    show ?thesis
    proof (cases "IsAlreadyExistsError (wrapped e)")
      case True
      with err e Inr rows [OF e(1)] exists [of e] show ?thesis by simp
    next
      case False
      with err e Inr rows [OF e(1)] exists [of e] show ?thesis by (auto simp: distinct [symmetric])
    qed
  qed
qed

theorem RegisterAdmin_failures_witness:
  "\<exists>t'. RegisterAdmin (demo_auth\<lparr>sv_repo := table_repo (calm 0 (\<lambda>_ _. Some (EPg ''23505'')))\<rparr>)
       \<lparr>rr_Email = ''a@x'', rr_Password = ''secret pw''\<rparr> empty_users =
     (Some (NewConflictError ''a user with this identity already exists''), t') \<and> ut_rows t' = []"
proof -
  let ?s = "demo_auth\<lparr>sv_repo := table_repo (calm 0 (\<lambda>_ _. Some (EPg ''23505'')))\<rparr>"
  let ?user = "\<lparr>rr_Email = ''a@x'', rr_Password = ''secret pw''\<rparr>"
  have w: "IsAlreadyExistsError (wrapped (EPg ''23505''))"
    by (simp add: wrapped_def WrapDBError_def IsAlreadyExistsError_def as_pg_def)
  obtain t' where r: "RegisterAdmin ?s ?user empty_users =
      (Some (NewConflictError ''a user with this identity already exists''), t')"
    using w by (simp add: RegisterAdmin_def demo_auth_def HashPassword_def generateRandomBytes_def table_repo_def
        CreateAdmin_def CreateAdminUser_def calm_def Let_def)
  have "ut_rows t' = ut_rows empty_users"
    using RegisterAdmin_failures [OF _ r, of "calm 0 (\<lambda>_ _. Some (EPg ''23505''))"] by simp
  with r show ?thesis by (simp add: empty_users_def)
qed

text \<open>
  Password hashes never leave the service: two databases that differ only in the stored
  passwords give the same answer to \<open>GET /me\<close>, reply or error.
\<close>

theorem Me_independent_of_passwords:
  assumes "map (\<lambda>u. u\<lparr>Password := []\<rparr>) (ut_rows t) = map (\<lambda>u. u\<lparr>Password := []\<rparr>) (ut_rows t')"
    and "sv_repo s = table_repo env"
  shows "handle_Me s ctx t = (handle_Me s ctx t' :: go_error + 't Reply)"
proof -
  have find: "rel_option (\<lambda>u v. userResponse u = userResponse v)
      (List.find (\<lambda>u. Email u = i) xs) (List.find (\<lambda>u. Email u = i) ys)"
    if "map (\<lambda>u. u\<lparr>Password := []\<rparr>) xs = map (\<lambda>u. u\<lparr>Password := []\<rparr>) ys" for i xs ys
    using that
  proof (induction xs arbitrary: ys)
    case (Cons u us)
    then obtain v vs where ys: "ys = v # vs" "u\<lparr>Password := []\<rparr> = v\<lparr>Password := []\<rparr>"
      "map (\<lambda>u. u\<lparr>Password := []\<rparr>) us = map (\<lambda>u. u\<lparr>Password := []\<rparr>) vs" by (cases ys) auto
    moreover from ys(2) have "Email u = Email v" "userResponse u = userResponse v"
      by (cases u; cases v; simp add: userResponse_def)+
    ultimately show ?case using Cons.IH by simp
  qed simp
  have details: "map_sum id userResponse (GetUserDetails env i t) = map_sum id userResponse (GetUserDetails env i t')" for i
    using find [OF assms(1), of i]
    by (auto simp: GetUserDetails_def sqlc_GetUserDetails_def select_email_def rel_option_iff
        split: option.splits)
  have same: "map_sum id userResponse (Me s i t) = map_sum id userResponse (Me s i t')" for i
  proof (cases "GetUserDetails env i t")
    case (Inl e)
    with details [of i] have "GetUserDetails env i t' = Inl e" by (cases "GetUserDetails env i t'") simp_all
    with Inl show ?thesis unfolding Me_def assms(2) table_repo_def by simp
  next
    case (Inr u)
    with details [of i] obtain v where "GetUserDetails env i t' = Inr v" "userResponse u = userResponse v"
      by (cases "GetUserDetails env i t'") simp_all
    with Inr show ?thesis unfolding Me_def assms(2) table_repo_def by simp
  qed
  have "(case Me s i t of Inl e \<Rightarrow> Inl e | Inr u \<Rightarrow> Inr (f (userResponse u))) =
      (case Me s i t' of Inl e \<Rightarrow> Inl e | Inr u \<Rightarrow> Inr (f (userResponse u)))"
    for i and f :: "UserResponse \<Rightarrow> 't Reply"
    using same [of i] by (cases "Me s i t"; cases "Me s i t'") simp_all
  from this [where f = "\<lambda>u. OK ''User details fetched successfully'' (reflect_user u)"]
  show ?thesis
    by (cases "ParseClaimsCtx ctx") (simp_all add: handle_Me_def split_beta)
qed

definition one_user :: "string \<Rightarrow> user_table" where
  "one_user pw = \<lparr>ut_rows = [\<lparr>ID = 1, Email = ''a@x'', EmailVerified = False, Phone = [], PhoneVerified = False,
       Password = pw, Role = RoleTypeAdmin, CreatedAt = 0, UpdatedAt = 0\<rparr>], ut_next = 2\<rparr>"

definition demo_session :: req_ctx where
  "demo_session = \<lparr>auth_user = Some \<lparr>cl_ID = ''1'', cl_Issuer = [], cl_Subject = ''a@x'', cl_IssuedAt = None,
     cl_NotBefore = None, cl_ExpiresAt = None, cl_Role = RoleTypeAdmin\<rparr>\<rparr>"

theorem Me_independent_of_passwords_witness:
  "one_user ''one'' \<noteq> one_user ''two'' \<and>
   handle_Me demo_auth demo_session (one_user ''one'') =
     (handle_Me demo_auth demo_session (one_user ''two'') :: go_error + nat Reply)"
  using Me_independent_of_passwords [of "one_user ''one''" "one_user ''two''" demo_auth "calm 0 (\<lambda>_ _. None)"
      "demo_session"]
  by (simp add: one_user_def demo_auth_def)

end
