(* ===== verification/Enums.thy ===== *)
theory Enums
  imports Problem Go_Reflect "HOL-Library.List_Lexorder" "HOL-Library.Char_ord"
begin

text \<open>
  The enum registry of \<^verbatim>\<open>internal/httpx/enum.go\<close> and the enum validators of
  \<^verbatim>\<open>internal/httpx/request.go\<close>. The type-directed compiler with its node cache is the validator it
  compiles to, by recursion on the type; the segment stack of a path is a list.
\<close>

subsection \<open>The registry\<close>

record enum_registry =
  er_values :: "(gtype \<times> string list) list"
  er_version :: nat

definition registeredEnumValues :: "enum_registry \<Rightarrow> gtype \<Rightarrow> string list option" where
  "registeredEnumValues reg t = map_of (er_values reg) t"

text \<open>\<open>None\<close> is the panic of a conflicting registration.\<close>

definition RegisterEnum :: "gtype \<Rightarrow> string list \<Rightarrow> enum_registry \<Rightarrow> enum_registry option" where
  "RegisterEnum t strs reg =
     (case registeredEnumValues reg t of
        Some existing \<Rightarrow> if existing = strs then Some reg else None
      | None \<Rightarrow> Some \<lparr>er_values = (t, strs) # er_values reg, er_version = er_version reg + 1\<rparr>)"

definition enumRegistryVersion :: "enum_registry \<Rightarrow> nat" where
  "enumRegistryVersion reg = er_version reg"

definition has_enum :: "enum_registry \<Rightarrow> gtype \<Rightarrow> bool" where
  "has_enum reg t \<longleftrightarrow> (case registeredEnumValues reg t of None \<Rightarrow> False | Some vs \<Rightarrow> vs \<noteq> [])"


subsection \<open>Paths\<close>

datatype enumSegment = SegName string | SegIndex nat

type_synonym enumPath = "enumSegment list"

definition path_field :: "enumPath \<Rightarrow> string \<Rightarrow> enumPath" where
  "path_field p name = (if name = [] then p else p @ [SegName name])"

definition path_index :: "enumPath \<Rightarrow> nat \<Rightarrow> enumPath" where
  "path_index p i = p @ [SegIndex i]"

fun render_from :: "string \<Rightarrow> enumPath \<Rightarrow> string" where
  "render_from b [] = b"
| "render_from b (SegIndex i # p) = render_from (b @ ''['' @ show_nat i @ '']'') p"
| "render_from b (SegName n # p) = render_from ((if b \<noteq> [] then b @ ''.'' else b) @ n) p"

definition path_String :: "enumPath \<Rightarrow> string" where
  "path_String p = render_from [] p"

definition enumErrorPath :: "enumPath \<Rightarrow> string" where
  "enumErrorPath p = (if path_String p \<noteq> [] then path_String p else ''body'')"


subsection \<open>Field options\<close>

record enumFieldConfig =
  omitZero :: bool

fun until_dive :: "string list \<Rightarrow> string list" where
  "until_dive [] = []"
| "until_dive (t # ts) = (let n = fst (cut (trim_space t) (CHR ''='')) in if n = ''dive'' then [] else n # until_dive ts)"

definition enumFieldOptions :: "sfield \<Rightarrow> enumFieldConfig" where
  "enumFieldOptions f =
     \<lparr>omitZero =
        list_ex (\<lambda>n. n \<in> {''omitempty'', ''omitnil'', ''omitzero''})
          (until_dive (split_on (CHR '','') (tag_get f ''validate''))) \<or>
        (case tag_lookup f ''json'' of
           None \<Rightarrow> False
         | Some tag \<Rightarrow> list_ex (\<lambda>opt. opt \<in> {''omitempty'', ''omitzero''}) (tl (split_on (CHR '','') tag)))\<rparr>"

text \<open>The member name, or \<open>None\<close> where the field is left out.\<close>

definition enumJSONFieldName :: "sfield \<Rightarrow> string option" where
  "enumJSONFieldName f =
     (let plain = Some (if sf_Anonymous f then [] else sf_Name f)
      in case tag_lookup f ''json'' of
           None \<Rightarrow> plain
         | Some tag \<Rightarrow>
             (let name = fst (cut tag (CHR '',''))
              in if name = ''-'' then None else if name \<noteq> [] then Some name else plain))"

definition walked :: "sfield \<Rightarrow> bool" where
  "walked f \<longleftrightarrow> (exported f \<or> sf_Anonymous f) \<and> enumJSONFieldName f \<noteq> None"


subsection \<open>Which types carry enums\<close>

text \<open>\<open>typeCarriesRegisteredEnum\<close>, with the visited map threaded through as the code shares it.\<close>

fun typeCarriesRegisteredEnum :: "enum_registry \<Rightarrow> gtype \<Rightarrow> gtype list \<Rightarrow> bool \<times> gtype list"
  and fields_carry :: "enum_registry \<Rightarrow> sfield list \<Rightarrow> gtype list \<Rightarrow> bool \<times> gtype list" where
  "typeCarriesRegisteredEnum reg t visited =
     (if has_enum reg t then (True, visited)
      else if t \<in> set visited then (False, visited)
      else case t of
        TRawJSON _ \<Rightarrow> (False, t # visited)
      | TPtr e \<Rightarrow> typeCarriesRegisteredEnum reg e (t # visited)
      | TSlice _ e \<Rightarrow> typeCarriesRegisteredEnum reg e (t # visited)
      | TArray _ _ e \<Rightarrow> typeCarriesRegisteredEnum reg e (t # visited)
      | TMap _ k e \<Rightarrow>
          (case typeCarriesRegisteredEnum reg k (t # visited) of
             (True, vis) \<Rightarrow> (True, vis)
           | (False, vis) \<Rightarrow> typeCarriesRegisteredEnum reg e vis)
      | TStruct _ fs \<Rightarrow> fields_carry reg fs (t # visited)
      | _ \<Rightarrow> (False, t # visited))"
| "fields_carry reg [] visited = (False, visited)"
| "fields_carry reg (SField n p a tg t # fs) visited =
     (if walked (SField n p a tg t)
      then case typeCarriesRegisteredEnum reg t visited of
             (True, vis) \<Rightarrow> (True, vis)
           | (False, vis) \<Rightarrow> fields_carry reg fs vis
      else fields_carry reg fs visited)"


subsection \<open>The validators\<close>

text \<open>\<open>fmt.Sprint\<close> of a map key; only scalar keys are rendered.\<close>

fun sprint :: "gval \<Rightarrow> string" where
  "sprint (VString s) = s"
| "sprint (VInt i) = itoa i"
| "sprint (VUint n) = show_nat n"
| "sprint (VBool b) = (if b then ''true'' else ''false'')"
| "sprint _ = []"

text \<open>
  The errors a compiled validator appends, in order. A value that does not have the type's kind
  (an invalid value) gives none.
\<close>

definition enum_message :: "string list \<Rightarrow> enumPath \<Rightarrow> ValidationError" where
  "enum_message values path =
     \<lparr>ve_field = enumErrorPath path,
      ve_message = enumErrorPath path @ '' must be one of: '' @ join values '', ''\<rparr>"

definition check_string :: "enum_registry \<Rightarrow> gtype \<Rightarrow> gval \<Rightarrow> enumPath \<Rightarrow> ValidationError list" where
  "check_string reg t v path =
     (case registeredEnumValues reg t of
        None \<Rightarrow> []
      | Some values \<Rightarrow>
          if values = [] then []
          else case v of
            VString actual \<Rightarrow> if actual \<in> set values then [] else [enum_message values path]
          | _ \<Rightarrow> [])"

fun check_elements :: "(gval \<Rightarrow> enumPath \<Rightarrow> ValidationError list) \<Rightarrow> gval list \<Rightarrow> nat \<Rightarrow> enumPath \<Rightarrow> ValidationError list" where
  "check_elements check [] i path = []"
| "check_elements check (v # vs) i path = check v (path_index path i) @ check_elements check vs (Suc i) path"

definition gated :: "enumFieldConfig \<Rightarrow> (gval \<Rightarrow> enumPath \<Rightarrow> ValidationError list) \<Rightarrow> gval \<Rightarrow> enumPath \<Rightarrow> ValidationError list" where
  "gated config check v path = (if omitZero config \<and> is_zero v then [] else check v path)"

fun enum_check :: "enum_registry \<Rightarrow> gtype \<Rightarrow> gval \<Rightarrow> enumPath \<Rightarrow> ValidationError list"
  and enum_check_fields :: "enum_registry \<Rightarrow> sfield list \<Rightarrow> gval list \<Rightarrow> enumPath \<Rightarrow> ValidationError list" where
  "enum_check reg t v path =
     (case t of
        TPtr e \<Rightarrow> (case v of VPtr (Some x) \<Rightarrow> enum_check reg e x path | _ \<Rightarrow> [])
      | TString _ \<Rightarrow> check_string reg t v path
      | TSlice _ e \<Rightarrow> (case v of VSlice (Some vs) \<Rightarrow> check_elements (enum_check reg e) vs 0 path | _ \<Rightarrow> [])
      | TArray _ _ e \<Rightarrow> (case v of VArray vs \<Rightarrow> check_elements (enum_check reg e) vs 0 path | _ \<Rightarrow> [])
      | TMap _ k e \<Rightarrow>
          (case v of
             VMap (Some entries) \<Rightarrow>
               concat (map (\<lambda>(key, x).
                   let keyPath = path_field path (sprint key)
                   in enum_check reg k key keyPath @ enum_check reg e x keyPath)
                 (sort_key (\<lambda>e. sprint (fst e)) entries))
           | _ \<Rightarrow> [])
      | TStruct _ fs \<Rightarrow> (case v of VStruct _ vs \<Rightarrow> enum_check_fields reg fs vs path | _ \<Rightarrow> [])
      | _ \<Rightarrow> [])"
| "enum_check_fields reg [] vs path = []"
| "enum_check_fields reg (SField n p a tg t # fs) vs path =
     (case vs of
        [] \<Rightarrow> []
      | v # vs' \<Rightarrow>
          (case enumJSONFieldName (SField n p a tg t) of
             Some name \<Rightarrow>
               (if (exported (SField n p a tg t) \<or> a) \<and> fst (typeCarriesRegisteredEnum reg t [])
                then gated (enumFieldOptions (SField n p a tg t)) (enum_check reg t) v (path_field path name)
                else [])
           | None \<Rightarrow> []) @ enum_check_fields reg fs vs' path)"

definition compileEnumValidator ::
  "enum_registry \<Rightarrow> gtype \<Rightarrow> enumFieldConfig \<Rightarrow> (gval \<Rightarrow> enumPath \<Rightarrow> ValidationError list) option" where
  "compileEnumValidator reg t config =
     (if \<not> fst (typeCarriesRegisteredEnum reg t []) then None
      else Some (gated config (enum_check reg t)))"

declare typeCarriesRegisteredEnum.simps [simp del] enum_check.simps [simp del]


subsection \<open>Pruning is sound\<close>

text \<open>What carrying an enum means, without the visited map.\<close>

fun carries :: "enum_registry \<Rightarrow> gtype \<Rightarrow> bool" and carries_fields :: "enum_registry \<Rightarrow> sfield list \<Rightarrow> bool" where
  "carries reg (TPtr e) = (has_enum reg (TPtr e) \<or> carries reg e)"
| "carries reg (TSlice n e) = (has_enum reg (TSlice n e) \<or> carries reg e)"
| "carries reg (TArray n k e) = (has_enum reg (TArray n k e) \<or> carries reg e)"
| "carries reg (TMap n k e) = (has_enum reg (TMap n k e) \<or> carries reg k \<or> carries reg e)"
| "carries reg (TStruct n fs) = (has_enum reg (TStruct n fs) \<or> carries_fields reg fs)"
| "carries reg t = has_enum reg t"
| "carries_fields reg [] = False"
| "carries_fields reg (SField n p a tg t # fs) =
     ((walked (SField n p a tg t) \<and> carries reg t) \<or> carries_fields reg fs)"

definition settled_types :: "enum_registry \<Rightarrow> nat \<Rightarrow> gtype list \<Rightarrow> bool" where
  "settled_types reg n vis \<longleftrightarrow> (\<forall>u\<in>set vis. \<not> carries reg u \<or> n < size u)"

lemma settled_types_Cons [simp]:
  "settled_types reg n (u # vis) \<longleftrightarrow> (\<not> carries reg u \<or> n < size u) \<and> settled_types reg n vis"
  by (auto simp: settled_types_def)

lemma settled_types_le: "settled_types reg n vis \<Longrightarrow> m \<le> n \<Longrightarrow> settled_types reg m vis"
  by (fastforce simp: settled_types_def)

lemma settled_types_extend:
  "settled_types reg n vis \<Longrightarrow> \<forall>u\<in>set vis'. u \<in> set vis \<or> \<not> carries reg u \<Longrightarrow> settled_types reg n vis'"
  by (auto simp: settled_types_def)

definition answers :: "enum_registry \<Rightarrow> bool \<Rightarrow> gtype list \<Rightarrow> bool \<times> gtype list \<Rightarrow> bool" where
  "answers reg b vis r \<longleftrightarrow> fst r = b \<and> (\<not> b \<longrightarrow> (\<forall>u\<in>set (snd r). u \<in> set vis \<or> \<not> carries reg u))"

lemma answers_pass:
  assumes "settled_types reg n (t # vis) \<longrightarrow> answers reg b (t # vis) r" and "n < size t" and "carries reg t = b"
    and "typeCarriesRegisteredEnum reg t vis = r"
  shows "settled_types reg (size t) vis \<longrightarrow> answers reg (carries reg t) vis (typeCarriesRegisteredEnum reg t vis)"
  using assms settled_types_le [of reg "size t" vis n] by (auto simp: answers_def)

lemma carries_visited:
  "(settled_types reg (size t) vis \<longrightarrow> answers reg (carries reg t) vis (typeCarriesRegisteredEnum reg t vis))"
  "(settled_types reg (size_list size fs) vis \<longrightarrow> answers reg (carries_fields reg fs) vis (fields_carry reg fs vis))"
proof (induction reg t vis and reg fs vis rule: typeCarriesRegisteredEnum_fields_carry.induct)
  case (1 reg t vis)
  show ?case
  proof (cases "has_enum reg t \<or> t \<in> set vis")
    case True
    then show ?thesis
      by (subst typeCarriesRegisteredEnum.simps) (cases t; auto simp: answers_def settled_types_def)
  next
    case new: False
    show ?thesis
    proof (cases "\<exists>n k e. t = TMap n k e")
      case True
      then obtain n k e where t: "t = TMap n k e" by blast
      obtain b1 v1 where r1: "typeCarriesRegisteredEnum reg k (t # vis) = (b1, v1)" by force
      show ?thesis
      proof
        assume s: "settled_types reg (size t) vis"
        then have "settled_types reg (size k) (t # vis)" by (auto simp: t intro: settled_types_le)
        with 1(4) [OF _ _ t] new r1 have k: "answers reg (carries reg k) (t # vis) (b1, v1)" by auto
        have e: "answers reg (carries reg e) v1 (typeCarriesRegisteredEnum reg e v1)" if "\<not> b1"
        proof -
          have "settled_types reg (size e) (t # vis)" using s by (auto simp: t intro: settled_types_le)
          moreover have "\<forall>u\<in>set v1. u \<in> set (t # vis) \<or> \<not> carries reg u" using k that by (auto simp: answers_def)
          ultimately have "settled_types reg (size e) v1" by (rule settled_types_extend)
          with 1(5) [OF _ _ t r1 [symmetric]] new that show ?thesis by auto
        qed
        show "answers reg (carries reg t) vis (typeCarriesRegisteredEnum reg t vis)"
        proof (cases b1)
          case True
          with k new r1 show ?thesis by (subst typeCarriesRegisteredEnum.simps) (auto simp: t answers_def)
        next
          case False
          with new r1 have "typeCarriesRegisteredEnum reg t vis = typeCarriesRegisteredEnum reg e v1"
            by (subst typeCarriesRegisteredEnum.simps) (simp add: t)
          moreover from k False new have "carries reg t \<longleftrightarrow> carries reg e" by (simp add: t answers_def)
          ultimately show ?thesis using e [OF False] k False by (auto simp: answers_def)
        qed
      qed
    next
      case False
      note step = typeCarriesRegisteredEnum.simps [of reg t vis]
      show ?thesis
      proof (cases t)
        case (TPtr e)
        with 1(1) [OF _ _ TPtr] new step show ?thesis by (intro answers_pass [of reg _ t vis]) auto
      next
        case (TSlice n e)
        with 1(2) [OF _ _ TSlice] new step show ?thesis by (intro answers_pass [of reg _ t vis]) auto
      next
        case (TArray n k e)
        with 1(3) [OF _ _ TArray] new step show ?thesis by (intro answers_pass [of reg _ t vis]) auto
      next
        case (TStruct n fs)
        with 1(6) [OF _ _ TStruct] new step show ?thesis by (intro answers_pass [of reg _ t vis]) auto
      qed (use new step False in \<open>auto simp: answers_def\<close>)
    qed
  qed
next
  case (3 reg n p a tg t fs vis)
  show ?case
  proof
    assume s: "settled_types reg (size_list size (SField n p a tg t # fs)) vis"
    obtain b1 v1 where r1: "typeCarriesRegisteredEnum reg t vis = (b1, v1)" by force
    show "answers reg (carries_fields reg (SField n p a tg t # fs)) vis (fields_carry reg (SField n p a tg t # fs) vis)"
    proof (cases "walked (SField n p a tg t)")
      case walked: True
      from s have "settled_types reg (size t) vis" by (auto intro: settled_types_le)
      with 3(1) [OF walked] r1 have t: "answers reg (carries reg t) vis (b1, v1)" by simp
      show ?thesis
      proof (cases b1)
        case True
        with t r1 walked show ?thesis by (auto simp: answers_def)
      next
        case False
        have "settled_types reg (size_list size fs) v1"
          using s t False by (auto simp: answers_def intro: settled_types_le settled_types_extend)
        with 3(2) [OF walked r1 [symmetric]] False
        have "answers reg (carries_fields reg fs) v1 (fields_carry reg fs v1)" by simp
        with t r1 walked False show ?thesis by (fastforce simp: answers_def)
      qed
    next
      case False
      with 3(3) s show ?thesis by (auto simp: answers_def intro: settled_types_le)
    qed
  qed
qed (simp add: answers_def)

corollary typeCarries_iff: "fst (typeCarriesRegisteredEnum reg t []) \<longleftrightarrow> carries reg t"
  using carries_visited(1) [of reg t "[]"] by (simp add: answers_def settled_types_def)


subsection \<open>What the validators check\<close>

text \<open>
  A value conforms to its type when every string of a registered enum type it holds, through the
  fields the walk visits and except behind a gate that omits a zero value, is one of the declared
  values. Only named string types can be registered.
\<close>

definition wf_registry :: "enum_registry \<Rightarrow> bool" where
  "wf_registry reg \<longleftrightarrow> (\<forall>t\<in>fst ` set (er_values reg). \<exists>n. t = TString n)"

definition allowed_string :: "enum_registry \<Rightarrow> gtype \<Rightarrow> gval \<Rightarrow> bool" where
  "allowed_string reg t v \<longleftrightarrow>
     (\<forall>values s. registeredEnumValues reg t = Some values \<longrightarrow> values \<noteq> [] \<longrightarrow> v = VString s \<longrightarrow> s \<in> set values)"

fun conforms :: "enum_registry \<Rightarrow> gtype \<Rightarrow> gval \<Rightarrow> bool"
  and conform_fields :: "enum_registry \<Rightarrow> sfield list \<Rightarrow> gval list \<Rightarrow> bool" where
  "conforms reg (TPtr e) v = (case v of VPtr (Some x) \<Rightarrow> conforms reg e x | _ \<Rightarrow> True)"
| "conforms reg (TString n) v = allowed_string reg (TString n) v"
| "conforms reg (TSlice n e) v = (case v of VSlice (Some vs) \<Rightarrow> list_all (conforms reg e) vs | _ \<Rightarrow> True)"
| "conforms reg (TArray n k e) v = (case v of VArray vs \<Rightarrow> list_all (conforms reg e) vs | _ \<Rightarrow> True)"
| "conforms reg (TMap n k e) v =
     (case v of VMap (Some es) \<Rightarrow> list_all (\<lambda>x. conforms reg k (fst x) \<and> conforms reg e (snd x)) es | _ \<Rightarrow> True)"
| "conforms reg (TStruct n fs) v = (case v of VStruct _ vs \<Rightarrow> conform_fields reg fs vs | _ \<Rightarrow> True)"
| "conforms reg t v = True"
| "conform_fields reg [] vs = True"
| "conform_fields reg (SField n p a tg t # fs) vs =
     (case vs of
        [] \<Rightarrow> True
      | v # vs' \<Rightarrow>
          (walked (SField n p a tg t) \<longrightarrow>
             (omitZero (enumFieldOptions (SField n p a tg t)) \<and> is_zero v) \<or> conforms reg t v) \<and>
          conform_fields reg fs vs')"

lemma has_enum_string: "wf_registry reg \<Longrightarrow> has_enum reg t \<Longrightarrow> \<exists>n. t = TString n"
  by (auto simp: wf_registry_def has_enum_def registeredEnumValues_def dest!: map_of_SomeD split: option.splits)

lemma carries_not_conforms:
  "wf_registry reg \<Longrightarrow> \<not> carries reg t \<Longrightarrow> conforms reg t v"
  "wf_registry reg \<Longrightarrow> \<not> carries_fields reg fs \<Longrightarrow> conform_fields reg fs vs"
  by (induction reg t v and reg fs vs rule: conforms_conform_fields.induct)
    (auto simp: has_enum_def allowed_string_def list_all_iff split: gval.splits option.splits list.splits)

lemma check_elements_Nil:
  "check_elements check vs i path = [] \<longleftrightarrow> (\<forall>j<length vs. check (vs ! j) (path_index path (i + j)) = [])"
  by (induction vs arbitrary: i) (auto simp: nth_Cons less_Suc_eq_0_disj split: nat.splits)

lemma check_elements_all:
  assumes "\<And>x p. x \<in> set vs \<Longrightarrow> (check x p = [] \<longleftrightarrow> Q x)"
  shows "check_elements check vs i path = [] \<longleftrightarrow> list_all Q vs"
  using assms by (induction vs arbitrary: i) auto

lemma check_string_Nil: "check_string reg t v path = [] \<longleftrightarrow> allowed_string reg t v"
  by (auto simp: check_string_def allowed_string_def split: option.splits gval.splits)

lemma enum_check_conforms:
  "wf_registry reg \<Longrightarrow> enum_check reg t v path = [] \<longleftrightarrow> conforms reg t v"
  "wf_registry reg \<Longrightarrow> enum_check_fields reg fs vs path = [] \<longleftrightarrow> conform_fields reg fs vs"
proof (induction reg t v and reg fs vs arbitrary: path and path rule: conforms_conform_fields.induct)
  case (3 reg n e v)
  then show ?case
    by (subst enum_check.simps) (auto split: gval.splits option.splits intro!: check_elements_all)
next
  case (4 reg n k e v)
  then show ?case
    by (subst enum_check.simps) (auto split: gval.splits option.splits intro!: check_elements_all)
next
  case (5 reg n k e v)
  then show ?case
    by (subst enum_check.simps) (auto simp: Let_def list_all_iff split: gval.splits option.splits)
next
  case (9 reg n p a tg t fs vs)
  show ?case
    using 9 carries_not_conforms(1) [of reg t]
    by (auto simp: enum_check.simps gated_def walked_def typeCarries_iff split: list.splits option.splits)
next
  case (8 reg vs)
  show ?case by (simp add: enum_check.simps)
qed (subst enum_check.simps; auto simp: check_string_Nil split: gval.splits option.splits)+

text \<open>Registration keeps the registry well formed and never changes what is registered.\<close>

lemma RegisterEnum_keeps:
  assumes "wf_registry reg" and "RegisterEnum (TString n) vs reg = Some reg'"
  shows "wf_registry reg'" and "registeredEnumValues reg' (TString n) = Some vs"
    and "registeredEnumValues reg t = Some ws \<Longrightarrow> registeredEnumValues reg' t = Some ws"
  using assms
  by (auto simp: RegisterEnum_def wf_registry_def registeredEnumValues_def split: option.splits if_splits)

text \<open>
  Compiled enum validation is exact. With registrations of named string types, the validator
  compiled for a type, or its absence where the compiler prunes the type, accepts exactly the
  values in which every string of a registered enum type, at any depth, is one of the declared
  values; a zero value behind an omission gate passes.
\<close>

theorem enum_validation_exact:
  assumes "wf_registry reg"
  shows "(case compileEnumValidator reg t config of None \<Rightarrow> True | Some check \<Rightarrow> check v path = []) \<longleftrightarrow>
           (omitZero config \<and> is_zero v) \<or> conforms reg t v"
  using enum_check_conforms(1) [OF assms] carries_not_conforms(1) [OF assms, of t v]
  by (auto simp: compileEnumValidator_def gated_def typeCarries_iff)

definition demo_enums :: enum_registry where
  "demo_enums = \<lparr>er_values = [(TString ''sqlc.RoleType'', [''admin'', ''customer''])], er_version = 1\<rparr>"

theorem enum_validation_exact_witness:
  "wf_registry demo_enums \<and>
   (case compileEnumValidator demo_enums (TSlice [] (TString ''sqlc.RoleType'')) \<lparr>omitZero = False\<rparr> of
      None \<Rightarrow> True
    | Some check \<Rightarrow> check (VSlice (Some [VString ''admin'', VString ''root''])) [] = []) =
     conforms demo_enums (TSlice [] (TString ''sqlc.RoleType'')) (VSlice (Some [VString ''admin'', VString ''root''])) \<and>
   \<not> conforms demo_enums (TSlice [] (TString ''sqlc.RoleType'')) (VSlice (Some [VString ''admin'', VString ''root'']))"
proof -
  have "wf_registry demo_enums" by (simp add: wf_registry_def demo_enums_def)
  from this enum_validation_exact [OF this, where t = "TSlice [] (TString ''sqlc.RoleType'')" and config = "\<lparr>omitZero = False\<rparr>"
      and v = "VSlice (Some [VString ''admin'', VString ''root''])" and path = "[]"]
  show ?thesis by (simp add: allowed_string_def registeredEnumValues_def demo_enums_def)
qed

end
