(* ===== verification/Request.thy ===== *)
theory Request
  imports Enums
begin

text \<open>
  \<^verbatim>\<open>internal/httpx/request.go\<close> and \<^verbatim>\<open>internal/httpx/raw.go\<close>: compiling a request type into a plan and
  binding a request with it. The conversions of the standard library that concern floats, times
  and JSON, the unmarshalers a struct type brings, the known-type registry and the struct
  validator are fields of \<open>bind_env\<close>. Violations carry the arguments of their messages; the
  wording is not modelled, except the details that reach the client.
\<close>

subsection \<open>Sources and tags\<close>

definition srcPath :: string where "srcPath = ''path''"
definition srcQuery :: string where "srcQuery = ''query''"
definition srcHeader :: string where "srcHeader = ''header''"
definition srcCookie :: string where "srcCookie = ''cookie''"
definition tagBody :: string where "tagBody = ''body''"

lemmas source_defs = srcPath_def srcQuery_def srcHeader_def srcCookie_def tagBody_def

definition parameterSources :: "string list" where
  "parameterSources = [srcPath, srcQuery, srcHeader, srcCookie]"

definition maxBodyBytes :: nat where "maxBodyBytes = 2 ^ 20"

definition rawJSONBodyLimit :: nat where "rawJSONBodyLimit = 2 ^ 20"


subsection \<open>What the binder takes from outside\<close>

text \<open>
  A read through \<open>http.MaxBytesReader\<close>, and the facts \<open>decodeJSONBody\<close> asks of a decode error.
\<close>

datatype body_read = ReadAll string | ReadTooLarge | ReadFailed

definition read_limited :: "nat \<Rightarrow> body_stream \<Rightarrow> body_read" where
  "read_limited n b =
     (case b of
        BodyBytes s \<Rightarrow> if length s \<le> n then ReadAll s else ReadTooLarge
      | BodyBroken \<Rightarrow> ReadFailed)"

record json_error =
  je_text :: string
  je_max_bytes :: bool
  je_syntactic :: "int option"
  je_unexpected_eof :: bool
  je_unknown_name :: bool
  je_semantic :: "string option"
  je_eof :: bool

record bind_env =
  ParseFloat :: "string \<Rightarrow> gval option"
  ParseTime :: "string \<Rightarrow> gval option"
  UnmarshalText :: "gtype \<Rightarrow> (gval \<Rightarrow> string \<Rightarrow> gval option) option"
  UnmarshalJSON :: "gtype \<Rightarrow> (gval \<Rightarrow> string \<Rightarrow> gval option) option"
  knownTypeRegistered :: "gtype \<Rightarrow> bool"
  UnmarshalRead :: "gtype \<Rightarrow> body_read \<Rightarrow> gval \<Rightarrow> json_error + gval"
  LenientUnmarshal :: "gtype \<Rightarrow> string \<Rightarrow> gval \<Rightarrow> json_error option \<times> gval"
  quote :: "string \<Rightarrow> string"
  validate_Struct :: "gval \<Rightarrow> go_error option"


subsection \<open>Reading raw values\<close>

datatype raw_value = RawString string | RawStrings "string list"

definition rawString :: "raw_value \<Rightarrow> string option" where
  "rawString raw = (case raw of RawString s \<Rightarrow> Some s | RawStrings _ \<Rightarrow> None)"

definition compileLookup ::
  "string \<Rightarrow> string \<Rightarrow> 'c http_request \<Rightarrow> (string \<rightharpoonup> string) \<Rightarrow> (string \<Rightarrow> string list) \<Rightarrow> raw_value option" where
  "compileLookup source name r params query =
     (if source = srcPath then
        (case params name of None \<Rightarrow> None | Some v \<Rightarrow> if v \<noteq> [] then Some (RawString v) else None)
      else if source = srcQuery then
        (case query name of [] \<Rightarrow> None | [v] \<Rightarrow> Some (RawString v) | vs \<Rightarrow> Some (RawStrings vs))
      else if source = srcHeader then
        (let hv = header_get (rq_header r) name in if hv \<noteq> [] then Some (RawString hv) else None)
      else
        (case map_of (rq_cookies r) name of
           None \<Rightarrow> None
         | Some v \<Rightarrow> if v \<noteq> [] then Some (RawString v) else None))"


subsection \<open>Setters\<close>

type_synonym setter = "gval \<Rightarrow> raw_value \<Rightarrow> gval option"

definition scalar :: "gval \<Rightarrow> (string \<Rightarrow> gval option) \<Rightarrow> setter" where
  "scalar zero parse v raw =
     (case rawString raw of
        None \<Rightarrow> None
      | Some str \<Rightarrow> if str = [] then Some zero else parse str)"

definition set_pointer :: "gtype \<Rightarrow> setter \<Rightarrow> setter" where
  "set_pointer elem elemSet v raw =
     (if raw = RawString [] then Some (VPtr None)
      else case elemSet (case v of VPtr (Some x) \<Rightarrow> x | _ \<Rightarrow> zero_value elem) raw of
        None \<Rightarrow> None
      | Some x \<Rightarrow> Some (VPtr (Some x)))"

definition set_slice :: "gtype \<Rightarrow> setter \<Rightarrow> setter" where
  "set_slice elem elemSet v raw =
     (let values = (case raw of RawString s \<Rightarrow> [s] | RawStrings ss \<Rightarrow> ss)
      in case those (map (\<lambda>val. elemSet (zero_value elem) (RawString val)) values) of
           None \<Rightarrow> None
         | Some xs \<Rightarrow> Some (VSlice (Some xs)))"

definition set_text :: "(gval \<Rightarrow> string \<Rightarrow> gval option) \<Rightarrow> setter" where
  "set_text unmarshal v raw = (case rawString raw of None \<Rightarrow> None | Some str \<Rightarrow> unmarshal v str)"

definition set_json :: "(gval \<Rightarrow> string \<Rightarrow> gval option) \<Rightarrow> setter" where
  "set_json unmarshal v raw =
     (case rawString raw of
        None \<Rightarrow> None
      | Some str \<Rightarrow>
          if str = [] then Some v
          else case json_quote str of None \<Rightarrow> None | Some lit \<Rightarrow> unmarshal v lit)"

text \<open>\<open>None\<close> is a type with no parameter conversion.\<close>

fun compileSetter :: "bind_env \<Rightarrow> gtype \<Rightarrow> setter option" where
  "compileSetter env (TPtr e) = map_option (set_pointer e) (compileSetter env e)"
| "compileSetter env (TSlice n e) = map_option (set_slice e) (compileSetter env e)"
| "compileSetter env (TString n) = Some (\<lambda>v raw. map_option VString (rawString raw))"
| "compileSetter env (TBool n) = Some (scalar (VBool False) (\<lambda>s. map_option VBool (parse_bool s)))"
| "compileSetter env (TInt n bits) = Some (scalar (VInt 0) (\<lambda>s. map_option VInt (parse_int bits s)))"
| "compileSetter env (TUint n bits) = Some (scalar (VUint 0) (\<lambda>s. map_option VUint (parse_uint bits s)))"
| "compileSetter env (TFloat n bits) = Some (scalar (VOpaque []) (ParseFloat env))"
| "compileSetter env TTime = Some (scalar (VOpaque []) (ParseTime env))"
| "compileSetter env (TStruct n fs) =
     (case UnmarshalText env (TStruct n fs) of
        Some unmarshal \<Rightarrow> Some (set_text unmarshal)
      | None \<Rightarrow>
          (case UnmarshalJSON env (TStruct n fs) of
             Some unmarshal \<Rightarrow> if knownTypeRegistered env (TStruct n fs) then Some (set_json unmarshal) else None
           | None \<Rightarrow> None))"
| "compileSetter env (TRawJSON t) = None"
| "compileSetter env (TArray n k t) = None"
| "compileSetter env (TMap n k t) = None"
| "compileSetter env (TIface n) = None"
| "compileSetter env (TOther n) = None"


subsection \<open>Plans\<close>

record fieldBinder =
  fb_index :: nat
  fb_source :: string
  fb_name :: string
  fb_assign :: setter
  fb_validateEnums :: "(gval \<Rightarrow> enumPath \<Rightarrow> ValidationError list) option"
  fb_bindDetail :: string

record bodyPlan =
  bp_index :: nat
  bp_typ :: gtype
  bp_required :: bool
  bp_raw :: bool
  bp_rejectRawNull :: bool
  bp_validateEnums :: "(gval \<Rightarrow> enumPath \<Rightarrow> ValidationError list) option"

record requestPlan =
  pl_typ :: gtype
  pl_fields :: "fieldBinder list"
  pl_body :: "bodyPlan option"
  pl_hasQuery :: bool
  pl_noInput :: bool
  pl_canFailValidation :: bool
  pl_canFailBind :: bool
  pl_pathParams :: "string list"


subsection \<open>Binding the body\<close>

definition BodyPresent :: "'c http_request \<Rightarrow> bool" where
  "BodyPresent r \<longleftrightarrow> rq_body r \<noteq> None \<and> rq_content_length r \<noteq> 0"

definition checkJSONMediaType :: "'c http_request \<Rightarrow> go_error option" where
  "checkJSONMediaType r =
     (let ct = header_get (rq_header r) ''Content-Type'';
          mediaType = to_lower (trim_space (hd (split_on (CHR '';'') ct)))
      in if mediaType \<noteq> ''application/json''
         then Some (EProblem (pk_New UnsupportedMediaType ''Content-Type header must be application/json''))
         else None)"

text \<open>\<open>leadingByteReader\<close>: the first byte that is not JSON white space.\<close>

definition json_space :: "char \<Rightarrow> bool" where
  "json_space c \<longleftrightarrow> c \<in> {CHR '' '', CHR 0x09, CHR 0x0D, CHR 0x0A}"

definition leading_byte :: "string \<Rightarrow> char option" where
  "leading_byte s = List.find (\<lambda>c. \<not> json_space c) s"

definition bad_request :: "string \<Rightarrow> go_error" where
  "bad_request detail = EProblem (pk_New BadRequest detail)"

definition decode_failure :: "bind_env \<Rightarrow> json_error \<Rightarrow> go_error" where
  "decode_failure env e =
     (if je_max_bytes e \<or> contains ''http: request body too large'' (je_text e) then
        EProblem (pk_New PayloadTooLarge (''body must not be larger than '' @ show_nat maxBodyBytes @ '' bytes''))
      else case je_syntactic e of
        Some offset \<Rightarrow> bad_request (''Invalid request: malformed JSON at character '' @ itoa offset)
      | None \<Rightarrow>
          if je_unexpected_eof e then bad_request ''Invalid request: malformed JSON''
          else if je_unknown_name e then
            (case je_semantic e of
               Some (c # ptr) \<Rightarrow> bad_request (''Invalid request: unknown field '' @ quote env (trim_prefix (c # ptr) ''/''))
             | _ \<Rightarrow> bad_request (''Invalid request: unknown field '' @ trim_prefix (je_text e) ''json: unknown field ''))
          else case je_semantic e of
            Some ptr \<Rightarrow> bad_request (''Invalid request: incorrect JSON type for field '' @ quote env ptr)
          | None \<Rightarrow>
              if je_eof e then bad_request ''Invalid request: body must not be empty''
              else bad_request (''Invalid request: '' @ je_text e))"

definition decodeJSONBody :: "bind_env \<Rightarrow> gtype \<Rightarrow> body_stream \<Rightarrow> gval \<Rightarrow> go_error + gval" where
  "decodeJSONBody env t body dst =
     (let stream = read_limited maxBodyBytes body
      in case UnmarshalRead env t stream dst of
           Inl e \<Rightarrow> Inl (decode_failure env e)
         | Inr v \<Rightarrow>
             if (case stream of ReadAll s \<Rightarrow> leading_byte s = Some (CHR ''n'') | _ \<Rightarrow> False)
             then Inl (bad_request ''Invalid request: body must not be null'')
             else Inr v)"

text \<open>\<open>bindRawBody\<close>: the captured bytes, the leniently decoded value and the decode error.\<close>

definition bindRawBody :: "bind_env \<Rightarrow> gtype \<Rightarrow> 'c http_request \<Rightarrow> bool \<Rightarrow> gval \<Rightarrow> go_error + string \<times> gval" where
  "bindRawBody env payload r rejectNull v =
     (let body = (case rq_body r of None \<Rightarrow> BodyBytes [] | Some b \<Rightarrow> b)
      in case read_limited rawJSONBodyLimit body of
           ReadTooLarge \<Rightarrow> Inl (EProblem (pk_New PayloadTooLarge ''request body is too large''))
         | ReadFailed \<Rightarrow> Inl (bad_request ''failed to read request body'')
         | ReadAll raw \<Rightarrow>
             (case LenientUnmarshal env payload raw (get_field v 1) of
                (err, value) \<Rightarrow>
                  let failed = (case err of
                        Some e \<Rightarrow> Some (VString (je_text e))
                      | None \<Rightarrow> if rejectNull \<and> trim_space raw = ''null''
                               then Some (VString ''request body must not be null'') else None)
                  in Inr (raw, VStruct ''httpx.RawJSON'' [VOpaque raw, value, VIface failed])))"

definition RawJSONElem :: "gtype \<Rightarrow> gtype option" where
  "RawJSONElem t = (case t of TRawJSON p \<Rightarrow> Some p | _ \<Rightarrow> None)"

definition isRawJSONType :: "gtype \<Rightarrow> bool" where
  "isRawJSONType t \<longleftrightarrow> RawJSONElem t \<noteq> None"

definition bindBody :: "bind_env \<Rightarrow> bodyPlan \<Rightarrow> 'c http_request \<Rightarrow> gval \<Rightarrow> go_error + gval" where
  "bindBody env bp r v =
     (let present = BodyPresent r
      in case (if present then checkJSONMediaType r else None) of
           Some e \<Rightarrow> Inl e
         | None \<Rightarrow>
             if bp_raw bp then
               (if \<not> present \<and> bp_required bp then Inl (bad_request ''request body required'')
                else case bindRawBody env (case RawJSONElem (bp_typ bp) of Some p \<Rightarrow> p | None \<Rightarrow> bp_typ bp) r
                            (bp_rejectRawNull bp) (get_field v (bp_index bp)) of
                  Inl e \<Rightarrow> Inl e
                | Inr (raw, x) \<Rightarrow>
                    if bp_required bp \<and> length raw = 0 then Inl (bad_request ''request body required'')
                    else Inr (set_field v (bp_index bp) x))
             else if \<not> present then
               (if bp_required bp then Inl (bad_request ''request body required'') else Inr v)
             else case rq_body r of
               None \<Rightarrow> Inr v
             | Some body \<Rightarrow>
                 (case decodeJSONBody env (bp_typ bp) body (get_field v (bp_index bp)) of
                    Inl e \<Rightarrow> Inl e
                  | Inr x \<Rightarrow> Inr (set_field v (bp_index bp) x)))"


subsection \<open>Binding a request\<close>

fun bind_fields ::
  "fieldBinder list \<Rightarrow> 'c http_request \<Rightarrow> (string \<rightharpoonup> string) \<Rightarrow> (string \<Rightarrow> string list) \<Rightarrow> gval \<Rightarrow> go_error + gval" where
  "bind_fields [] r params query v = Inr v"
| "bind_fields (f # fs) r params query v =
     (case compileLookup (fb_source f) (fb_name f) r params query of
        None \<Rightarrow> bind_fields fs r params query v
      | Some raw \<Rightarrow>
          (case fb_assign f (get_field v (fb_index f)) raw of
             None \<Rightarrow> Inl (bad_request (fb_bindDetail f))
           | Some x \<Rightarrow> bind_fields fs r params query (set_field v (fb_index f) x)))"

definition validateEnumValues :: "requestPlan \<Rightarrow> gval \<Rightarrow> go_error option" where
  "validateEnumValues p v =
     (let errors =
        concat (map (\<lambda>f. case fb_validateEnums f of
              None \<Rightarrow> []
            | Some check \<Rightarrow> check (get_field v (fb_index f)) (path_field [] (fb_name f))) (pl_fields p)) @
        (case pl_body p of
           None \<Rightarrow> []
         | Some bp \<Rightarrow> (case bp_validateEnums bp of None \<Rightarrow> [] | Some check \<Rightarrow> check (get_field v (bp_index bp)) []))
      in if errors = [] then None
         else Some (EProblem (case pk_New UnprocessableEntity ''One or more fields are invalid'' of
             ProblemDetails ty ti st de ins _ err k \<Rightarrow>
               ProblemDetails ty ti st de ins [(''errors'', ExtErrors errors)] err k)))"

definition bind :: "bind_env \<Rightarrow> requestPlan \<Rightarrow> 'c http_request \<Rightarrow> (string \<rightharpoonup> string) \<Rightarrow> gval \<Rightarrow> go_error + gval" where
  "bind env p r params dst =
     (case (case pl_body p of None \<Rightarrow> Inr dst | Some bp \<Rightarrow> bindBody env bp r dst) of
        Inl e \<Rightarrow> Inl e
      | Inr v \<Rightarrow>
          (case bind_fields (pl_fields p) r params (if pl_hasQuery p then rq_query r else (\<lambda>_. [])) v of
             Inl e \<Rightarrow> Inl e
           | Inr v' \<Rightarrow>
               (case validate_Struct env v' of
                  Some e \<Rightarrow> Inl e
                | None \<Rightarrow>
                    (case validateEnumValues p v' of
                       Some e \<Rightarrow> Inl e
                     | None \<Rightarrow> Inr v'))))"

end
