(* ===== verification/Request_Compile.thy ===== *)
theory Request_Compile
  imports Request
begin

text \<open>
  The compile side of \<^verbatim>\<open>internal/httpx/request.go\<close>, with the walks over validate tags of
  \<^verbatim>\<open>validation.go\<close>, \<^verbatim>\<open>schema.go\<close> and \<^verbatim>\<open>openapi.go\<close> it calls. A violation is a constructor with the
  arguments of its message. What the struct validator says about a tag or a sample is a field of
  \<open>compile_env\<close>.
\<close>

datatype req_violation =
    NotAStruct gtype
  | RetiredSourceTag string
  | NoBindingTag string
  | MultipleSources string "string list"
  | TagOnUnexported string
  | EmptyTagName string string
  | DuplicateBinding string string string
  | UnenforceableRequired string string string
  | UnsupportedParameter string gtype
  | BindsNothing string
  | InvalidValidateTags string
  | DiveOnScalar string string gkind
  | CrossFieldBoundary string string string
  | NestedBindingTags "string list"
  | SecondBody string
  | BodyTagValue string string
  | BodyOnMethod string string
  | RawJSONPointer string
  | RequiredBodyPointer string
  | OptionalBodyValue string
  | AnonymousBody string

record compile_env = bind_env +
  var_rejects :: "gtype \<Rightarrow> string \<Rightarrow> bool option"
  init_error :: "string option"
  filtered_panic :: "gtype \<Rightarrow> string option"
  struct_panic :: "gval \<Rightarrow> string option"
  known_null :: "gtype \<Rightarrow> bool option"
  type_String :: "gtype \<Rightarrow> string"
  enums :: enum_registry


subsection \<open>Validate tags\<close>

definition tokens :: "string \<Rightarrow> string list" where
  "tokens tag = map trim_space (split_on (CHR '','') tag)"

fun requires_token :: "string list \<Rightarrow> bool" where
  "requires_token [] = False"
| "requires_token (t # ts) = (if t = ''dive'' then False else if t = ''required'' then True else requires_token ts)"

definition validateRequiresField :: "string \<Rightarrow> bool" where
  "validateRequiresField tag = requires_token (tokens tag)"

definition hasDiveTag :: "string \<Rightarrow> bool" where
  "hasDiveTag tag \<longleftrightarrow> tag \<noteq> [] \<and> ''dive'' \<in> set (tokens tag)"

definition omission_gate :: "string \<Rightarrow> bool" where
  "omission_gate name \<longleftrightarrow> name \<in> {''-'', ''omitempty'', ''omitnil'', ''omitzero''} \<or> has_prefix name ''required_''"

definition requiredByReflectTags :: "sfield \<Rightarrow> bool" where
  "requiredByReflectTags f =
     (let tag = tag_get f ''validate''
      in if tag \<noteq> [] \<and> validateRequiresField tag then True
         else if tag \<noteq> [] \<and> list_ex omission_gate (until_dive (split_on (CHR '','') tag)) then False
         else if type_kind (sf_Type f) = KPointer then False
         else case tag_lookup f ''json'' of
           None \<Rightarrow> True
         | Some json \<Rightarrow> \<not> list_ex (\<lambda>opt. opt \<in> {''omitempty'', ''omitzero''}) (tl (split_on (CHR '','') json)))"

definition inertValidateTokens :: "string list" where
  "inertValidateTokens = [''-'', ''omitempty'', ''omitnil'', ''omitzero'', ''dive'', ''keys'', ''endkeys'',
     ''structonly'', ''nostructlevel'']"

definition validateTagCanFail :: "string \<Rightarrow> bool" where
  "validateTagCanFail tag =
     list_ex (\<lambda>token. let name = fst (cut (trim_space token) (CHR ''='')) in name \<noteq> [] \<and> name \<notin> set inertValidateTokens)
       (concat (map (split_on (CHR ''|'')) (split_on (CHR '','') (trim_space tag))))"

fun typeDeclaresFallibleValidateTag :: "gtype \<Rightarrow> gtype list \<Rightarrow> bool \<times> gtype list"
  and fields_fallible :: "sfield list \<Rightarrow> gtype list \<Rightarrow> bool \<times> gtype list" where
  "typeDeclaresFallibleValidateTag t visited =
     (case t of
        TPtr e \<Rightarrow> typeDeclaresFallibleValidateTag e visited
      | TSlice _ e \<Rightarrow> typeDeclaresFallibleValidateTag e visited
      | TArray _ _ e \<Rightarrow> typeDeclaresFallibleValidateTag e visited
      | TMap _ k e \<Rightarrow> typeDeclaresFallibleValidateTag e visited
      | TStruct _ fs \<Rightarrow> if t \<in> set visited then (False, visited) else fields_fallible fs (t # visited)
      | TTime \<Rightarrow> (False, t # visited)
      | TRawJSON _ \<Rightarrow> (False, t # visited)
      | _ \<Rightarrow> (False, visited))"
| "fields_fallible [] visited = (False, visited)"
| "fields_fallible (SField n p a tg t # fs) visited =
     (if p \<noteq> [] \<and> \<not> a then fields_fallible fs visited
      else if validateTagCanFail (tag_get (SField n p a tg t) ''validate'') then (True, visited)
      else case typeDeclaresFallibleValidateTag t visited of
        (True, vis) \<Rightarrow> (True, vis)
      | (False, vis) \<Rightarrow> fields_fallible fs vis)"

definition requestCarriesValidation :: "gtype \<Rightarrow> bool" where
  "requestCarriesValidation t = fst (typeDeclaresFallibleValidateTag t [])"

fun collectValidationStructs :: "gtype \<Rightarrow> gtype list \<Rightarrow> gtype list \<times> gtype list"
  and collect_fields :: "sfield list \<Rightarrow> gtype list \<Rightarrow> gtype list \<times> gtype list" where
  "collectValidationStructs t visited =
     (case t of
        TPtr e \<Rightarrow> collectValidationStructs e visited
      | TSlice _ e \<Rightarrow> collectValidationStructs e visited
      | TArray _ _ e \<Rightarrow> collectValidationStructs e visited
      | TMap _ k e \<Rightarrow>
          (case collectValidationStructs k visited of
             (out, vis) \<Rightarrow> (case collectValidationStructs e vis of (out', vis') \<Rightarrow> (out @ out', vis')))
      | TStruct _ fs \<Rightarrow>
          if t \<in> set visited then ([], visited)
          else (case collect_fields fs (t # visited) of (out, vis) \<Rightarrow> (t # out, vis))
      | TTime \<Rightarrow> if t \<in> set visited then ([], visited) else ([t], t # visited)
      | _ \<Rightarrow> ([], visited))"
| "collect_fields [] visited = ([], visited)"
| "collect_fields (SField n p a tg t # fs) visited =
     (if p \<noteq> [] \<and> \<not> a then collect_fields fs visited
      else case collectValidationStructs t visited of
        (out, vis) \<Rightarrow> (case collect_fields fs vis of (out', vis') \<Rightarrow> (out @ out', vis')))"

text \<open>\<open>populatedValidationValue\<close>; a field is settable exactly when it is exported.\<close>

fun populatedValidationValue :: "gtype \<Rightarrow> nat \<Rightarrow> gtype list \<Rightarrow> gval"
  and populated_fields :: "sfield list \<Rightarrow> nat \<Rightarrow> gtype list \<Rightarrow> gval list" where
  "populatedValidationValue t depth stack =
     (if depth \<ge> 8 \<or> t \<in> set stack then zero_value t
      else case t of
        TPtr e \<Rightarrow> VPtr (Some (populatedValidationValue e (depth + 1) (t # stack)))
      | TString _ \<Rightarrow> VString ''x''
      | TBool _ \<Rightarrow> VBool True
      | TInt _ _ \<Rightarrow> VInt 1
      | TUint _ _ \<Rightarrow> VUint 1
      | TFloat _ _ \<Rightarrow> VOpaque ''1''
      | TSlice _ e \<Rightarrow> VSlice (Some [populatedValidationValue e (depth + 1) (t # stack)])
      | TArray _ n e \<Rightarrow>
          VArray (if n > 0 then populatedValidationValue e (depth + 1) (t # stack) # replicate (n - 1) (zero_value e) else [])
      | TMap _ k e \<Rightarrow>
          VMap (Some [(populatedValidationValue k (depth + 1) (t # stack), populatedValidationValue e (depth + 1) (t # stack))])
      | TStruct n fs \<Rightarrow> VStruct n (populated_fields fs (depth + 1) (t # stack))
      | _ \<Rightarrow> zero_value t)"
| "populated_fields [] depth stack = []"
| "populated_fields (SField n p a tg t # fs) depth stack =
     (if p = [] then populatedValidationValue t depth stack else zero_value t) # populated_fields fs depth stack"

fun find_after :: "string \<Rightarrow> string \<Rightarrow> string option" where
  "find_after sub [] = (if sub = [] then Some [] else None)"
| "find_after sub (c # cs) = (if has_prefix (c # cs) sub then Some (drop (length sub) (c # cs)) else find_after sub cs)"

definition formatValidationCompilePanic :: "'x compile_env_scheme \<Rightarrow> gtype \<Rightarrow> string \<Rightarrow> string" where
  "formatValidationCompilePanic env t message =
     (let generic = type_String env t @ '': validator rejected a validate tag: '' @ message
      in case find_after (''Undefined validation function '' @ [CHR 0x27]) message of
           None \<Rightarrow> generic
         | Some rest \<Rightarrow>
             (case cut rest (CHR 0x27) of
                (name, _, True) \<Rightarrow> type_String env t @ '': validate tag '' @ quote env name @
                  '' has no schema mapping and is not a registered validation''
              | _ \<Rightarrow> generic))"

definition compileValidationTags :: "'x compile_env_scheme \<Rightarrow> gtype \<Rightarrow> string list" where
  "compileValidationTags env t =
     (case init_error env of
        Some e \<Rightarrow> [''validator initialization failed: '' @ e]
      | None \<Rightarrow>
          remdups (List.map_filter (\<lambda>st.
              case filtered_panic env st of
                Some p \<Rightarrow> Some (formatValidationCompilePanic env st p)
              | None \<Rightarrow> map_option (formatValidationCompilePanic env st)
                          (struct_panic env (populatedValidationValue st 0 [])))
            (fst (collectValidationStructs t []))))"

definition validateTagRejectsZero :: "'x compile_env_scheme \<Rightarrow> sfield \<Rightarrow> bool" where
  "validateTagRejectsZero env f =
     (let tag = trim_space (tag_get f ''validate'')
      in if tag = [] \<or> tag = ''-'' then False
         else case var_rejects env (sf_Type f) tag of None \<Rightarrow> True | Some rejects \<Rightarrow> rejects)"

definition unenforceableRequiredParam :: "'x compile_env_scheme \<Rightarrow> sfield \<Rightarrow> string \<Rightarrow> bool" where
  "unenforceableRequiredParam env f source \<longleftrightarrow>
     \<not> (source = srcPath \<or> \<not> requiredByReflectTags f \<or> validateTagRejectsZero env f)"


subsection \<open>Shape checks\<close>

fun bindingTagsInside :: "gtype \<Rightarrow> gtype list \<Rightarrow> string list \<times> gtype list"
  and tags_inside_fields :: "string \<Rightarrow> sfield list \<Rightarrow> gtype list \<Rightarrow> string list \<times> gtype list" where
  "bindingTagsInside t visited =
     (case t of
        TPtr e \<Rightarrow> bindingTagsInside e visited
      | TSlice _ e \<Rightarrow> bindingTagsInside e visited
      | TArray _ _ e \<Rightarrow> bindingTagsInside e visited
      | TStruct n fs \<Rightarrow> if t \<in> set visited then ([], visited) else tags_inside_fields n fs (t # visited)
      | TRawJSON p \<Rightarrow> if t \<in> set visited then ([], visited) else bindingTagsInside p (t # visited)
      | _ \<Rightarrow> ([], visited))"
| "tags_inside_fields owner [] visited = ([], visited)"
| "tags_inside_fields owner (SField n p a tg t # fs) visited =
     (case bindingTagsInside t visited of
        (inner, vis) \<Rightarrow>
          (case tags_inside_fields owner fs vis of
             (rest, vis') \<Rightarrow>
               ((if list_ex (\<lambda>key. tag_lookup (SField n p a tg t) key \<noteq> None) parameterSources
                 then [owner @ ''.'' @ n] else []) @ inner @ rest, vis')))"

fun deref :: "gtype \<Rightarrow> gtype" where
  "deref (TPtr e) = deref e"
| "deref t = t"

fun validateDiveTargets :: "gtype \<Rightarrow> gtype list \<Rightarrow> req_violation list \<times> gtype list"
  and dive_fields :: "string \<Rightarrow> sfield list \<Rightarrow> gtype list \<Rightarrow> req_violation list \<times> gtype list" where
  "validateDiveTargets t visited =
     (case t of
        TPtr e \<Rightarrow> validateDiveTargets e visited
      | TStruct n fs \<Rightarrow> if t \<in> set visited then ([], visited) else dive_fields n fs (t # visited)
      | TRawJSON p \<Rightarrow> if t \<in> set visited then ([], visited) else validateDiveTargets p (t # visited)
      | _ \<Rightarrow> ([], visited))"
| "dive_fields owner [] visited = ([], visited)"
| "dive_fields owner (SField n p a tg t # fs) visited =
     (case validateDiveTargets t visited of
        (inner, vis) \<Rightarrow>
          (case dive_fields owner fs vis of
             (rest, vis') \<Rightarrow>
               ((if hasDiveTag (tag_get (SField n p a tg t) ''validate'') \<and>
                    type_kind (deref t) \<notin> {KSlice, KArray, KMap}
                 then [DiveOnScalar owner n (type_kind (deref t))] else []) @ inner @ rest, vis')))"

text \<open>\<open>strings.Fields\<close>; each round consumes a byte, so the length of the string is enough rounds.\<close>

fun fields_from :: "nat \<Rightarrow> string \<Rightarrow> string \<Rightarrow> string list" where
  "fields_from 0 acc s = (if acc = [] then [] else [acc])"
| "fields_from (Suc n) acc s =
     (case s of
        [] \<Rightarrow> if acc = [] then [] else [acc]
      | c # cs \<Rightarrow>
          (case List.find (\<lambda>w. has_prefix s w) space_seqs of
             Some w \<Rightarrow> (if acc = [] then [] else [acc]) @ fields_from n [] (drop (length w) s)
           | None \<Rightarrow> fields_from n (acc @ [c]) cs))"

definition str_fields :: "string \<Rightarrow> string list" where
  "str_fields s = fields_from (length s) [] s"

definition crossFieldPairTags :: "string list" where
  "crossFieldPairTags = [''required_if'', ''required_unless'', ''excluded_if'', ''excluded_unless'', ''skip_unless'']"

definition crossFieldListTags :: "string list" where
  "crossFieldListTags = [''required_with'', ''required_with_all'', ''required_without'', ''required_without_all'',
     ''excluded_with'', ''excluded_with_all'', ''excluded_without'', ''excluded_without_all'']"

definition crossFieldSingleTags :: "string list" where
  "crossFieldSingleTags = [''eqfield'', ''nefield'', ''gtfield'', ''gtefield'', ''ltfield'', ''ltefield'',
     ''fieldcontains'', ''fieldexcludes'', ''eqcsfield'', ''necsfield'', ''gtcsfield'', ''gtecsfield'',
     ''ltcsfield'', ''ltecsfield'']"

definition firstPathSegment :: "string \<Rightarrow> string" where
  "firstPathSegment ref = fst (cut ref (CHR ''.''))"

fun every_other :: "'a list \<Rightarrow> 'a list" where
  "every_other [] = []"
| "every_other [x] = [x]"
| "every_other (x # y # zs) = x # every_other zs"

definition alternative_targets :: "string \<Rightarrow> string list" where
  "alternative_targets alt =
     (case cut (trim_space alt) (CHR ''='') of
        (name, param, hasParam) \<Rightarrow>
          if \<not> hasParam \<or> param = [] then []
          else if name \<in> set crossFieldPairTags then map firstPathSegment (every_other (str_fields param))
          else if name \<in> set crossFieldListTags then map firstPathSegment (str_fields param)
          else if name \<in> set crossFieldSingleTags then [firstPathSegment param]
          else [])"

definition crossFieldTargets :: "string \<Rightarrow> string list" where
  "crossFieldTargets tag =
     (if tag = [] then []
      else concat (map alternative_targets (concat (map (split_on (CHR ''|'')) (split_on (CHR '','') tag)))))"

definition cross_check :: "string list \<Rightarrow> string list \<Rightarrow> string \<Rightarrow> sfield \<Rightarrow> req_violation list" where
  "cross_check siblings other side f =
     map (CrossFieldBoundary side (sf_Name f))
       (filter (\<lambda>target. target \<notin> set siblings \<and> target \<in> set other) (crossFieldTargets (tag_get f ''validate'')))"

definition validateCrossFieldBoundary :: "sfield list \<Rightarrow> sfield \<Rightarrow> req_violation list" where
  "validateCrossFieldBoundary reqFields bodyField =
     (let bodyType = deref (sf_Type bodyField)
      in if type_kind bodyType \<noteq> KStruct then []
         else let params = filter (\<lambda>f. sf_Name f \<noteq> sf_Name bodyField) reqFields;
                  paramNames = map sf_Name params;
                  bodyNames = map sf_Name (type_fields bodyType)
              in concat (map (cross_check paramNames bodyNames ''param'') params) @
                 concat (map (cross_check bodyNames paramNames ''body'') (type_fields bodyType)))"


subsection \<open>Compiling fields\<close>

fun unwrap_pointers_slices :: "gtype \<Rightarrow> gtype" where
  "unwrap_pointers_slices (TPtr e) = unwrap_pointers_slices e"
| "unwrap_pointers_slices (TSlice n e) = unwrap_pointers_slices e"
| "unwrap_pointers_slices t = t"

definition parameterTypeCanFailBinding :: "string \<Rightarrow> gtype \<Rightarrow> bool" where
  "parameterTypeCanFailBinding source t =
     (if source = srcQuery \<and> type_kind t \<noteq> KSlice then True
      else type_kind (unwrap_pointers_slices t) \<noteq> KString)"

definition declaresJSONName :: "sfield \<Rightarrow> bool" where
  "declaresJSONName f =
     (case tag_lookup f ''json'' of
        None \<Rightarrow> False
      | Some tag \<Rightarrow> (let name = fst (cut tag (CHR '','')) in name \<noteq> [] \<and> name \<noteq> ''-''))"

definition compiledBindDetail :: "string \<Rightarrow> string \<Rightarrow> sfield \<Rightarrow> string" where
  "compiledBindDetail source name f =
     (if source = srcPath \<and> \<not> declaresJSONName f \<and> type_kind (deref (sf_Type f)) \<in> {KInt, KUint}
      then ''url param '' @ name @ '' must be a valid integer''
      else ''Invalid request: invalid value for parameter '' @ name)"

definition rawJSONPayloadAllowsNull :: "'x compile_env_scheme \<Rightarrow> gtype \<Rightarrow> bool" where
  "rawJSONPayloadAllowsNull env t =
     (if type_kind t = KInterface then True
      else case known_null env t of
        Some b \<Rightarrow> b
      | None \<Rightarrow> type_kind t = KPointer)"

text \<open>The type whose component name the body schema needs.\<close>

fun unwrap_lists :: "gtype \<Rightarrow> gtype" where
  "unwrap_lists (TSlice n e) = unwrap_lists e"
| "unwrap_lists (TArray n k e) = unwrap_lists e"
| "unwrap_lists t = t"

definition named_payload :: "gtype \<Rightarrow> gtype" where
  "named_payload t = (case RawJSONElem (unwrap_lists t) of Some e \<Rightarrow> e | None \<Rightarrow> unwrap_lists t)"

definition compileBodyField ::
  "'x compile_env_scheme \<Rightarrow> sfield \<Rightarrow> nat \<Rightarrow> string \<Rightarrow> string \<Rightarrow> requestPlan \<Rightarrow> requestPlan \<times> req_violation list" where
  "compileBodyField env f index tagValue method plan =
     (let required = (tagValue = ''required''); t = sf_Type f
      in if pl_body plan \<noteq> None then (plan, [SecondBody (sf_Name f)])
         else if tagValue \<noteq> ''required'' \<and> tagValue \<noteq> ''optional'' then (plan, [BodyTagValue (sf_Name f) tagValue])
         else if method = ''GET'' \<or> method = ''HEAD'' then (plan, [BodyOnMethod (sf_Name f) method])
         else
           (case (case t of
                    TRawJSON payload \<Rightarrow> Inr (t, True, \<not> rawJSONPayloadAllowsNull env payload)
                  | TPtr e \<Rightarrow>
                      if isRawJSONType e then Inl (RawJSONPointer (sf_Name f))
                      else if required then Inl (RequiredBodyPointer (sf_Name f))
                      else Inr (e, False, False)
                  | _ \<Rightarrow> if \<not> required then Inl (OptionalBodyValue (sf_Name f)) else Inr (t, False, False)) of
              Inl violation \<Rightarrow> (plan, [violation])
            | Inr (bodyType, raw, rejectRawNull) \<Rightarrow>
                if type_kind (named_payload bodyType) = KStruct \<and> struct_name (named_payload bodyType) = []
                then (plan, [AnonymousBody (sf_Name f)])
                else (plan\<lparr>pl_body := Some \<lparr>bp_index = index, bp_typ = t, bp_required = required, bp_raw = raw,
                          bp_rejectRawNull = rejectRawNull,
                          bp_validateEnums = compileEnumValidator (enums env) t (enumFieldOptions f)\<rparr>,
                        pl_canFailBind := True\<rparr>, [])))"


subsection \<open>Compiling a request type\<close>

definition parameter_tags :: "sfield \<Rightarrow> (string \<times> string) list" where
  "parameter_tags f = List.map_filter (\<lambda>key. map_option (\<lambda>v. (key, v)) (tag_lookup f key)) parameterSources"

text \<open>
  One turn of the loop over the fields: the plan, the \<open>(source, name)\<close> pairs seen and the violations
  so far. Of several source tags the last one names the source, but then the field is refused.
\<close>

definition compile_parameter ::
  "'x compile_env_scheme \<Rightarrow> nat \<Rightarrow> sfield \<Rightarrow> string \<Rightarrow> string \<Rightarrow> requestPlan \<Rightarrow> requestPlan \<times> req_violation list" where
  "compile_parameter env i f source name plan =
     (let plan1 = plan\<lparr>pl_pathParams := (if source = srcPath then pl_pathParams plan @ [name] else pl_pathParams plan),
                      pl_hasQuery := pl_hasQuery plan \<or> source = srcQuery\<rparr>;
          required = (if unenforceableRequiredParam env f source
                      then [UnenforceableRequired (sf_Name f) source name] else [])
      in case compileSetter (bind_env.truncate env) (sf_Type f) of
           None \<Rightarrow> (plan1, required @ [UnsupportedParameter (sf_Name f) (sf_Type f)])
         | Some assign \<Rightarrow>
             (plan1\<lparr>pl_fields := pl_fields plan1 @
                 [\<lparr>fb_index = i, fb_source = source, fb_name = name, fb_assign = assign,
                   fb_validateEnums = compileEnumValidator (enums env) (sf_Type f) (enumFieldOptions f),
                   fb_bindDetail = compiledBindDetail source name f\<rparr>],
                pl_canFailBind := pl_canFailBind plan1 \<or> parameterTypeCanFailBinding source (sf_Type f)\<rparr>, required))"

fun compile_fields ::
  "'x compile_env_scheme \<Rightarrow> string \<Rightarrow> nat \<Rightarrow> sfield list \<Rightarrow> (string \<times> string) list \<Rightarrow> requestPlan
     \<Rightarrow> requestPlan \<times> req_violation list" where
  "compile_fields env method i [] seen plan = (plan, [])"
| "compile_fields env method i (f # fs) seen plan =
     (let stop = (\<lambda>vs. case compile_fields env method (Suc i) fs seen plan of (p, ws) \<Rightarrow> (p, vs @ ws));
          params = parameter_tags f;
          body = tag_lookup f tagBody;
          tags = map fst params @ (if body \<noteq> None then [tagBody] else [])
      in if tag_lookup f ''source'' \<noteq> None then stop [RetiredSourceTag (sf_Name f)]
         else if tags = [] then stop (if exported f then [NoBindingTag (sf_Name f)] else [])
         else if length tags > 1 then stop [MultipleSources (sf_Name f) tags]
         else if \<not> exported f then stop [TagOnUnexported (sf_Name f)]
         else case body of
           Some tagValue \<Rightarrow>
             (case compileBodyField env f i tagValue method plan of
                (plan1, vs) \<Rightarrow> (case compile_fields env method (Suc i) fs seen plan1 of (p, ws) \<Rightarrow> (p, vs @ ws)))
         | None \<Rightarrow>
             (case hd params of
                (source, name) \<Rightarrow>
                  if name = [] then stop [EmptyTagName (sf_Name f) source]
                  else if (source, name) \<in> set seen then stop [DuplicateBinding source name (sf_Name f)]
                  else (case compile_parameter env i f source name plan of
                          (plan1, vs) \<Rightarrow>
                            (case compile_fields env method (Suc i) fs ((source, name) # seen) plan1 of
                               (p, ws) \<Rightarrow> (p, vs @ ws)))))"

definition requestCarriesEnumValidation :: "requestPlan \<Rightarrow> bool" where
  "requestCarriesEnumValidation plan \<longleftrightarrow>
     list_ex (\<lambda>f. fb_validateEnums f \<noteq> None) (pl_fields plan) \<or>
     (case pl_body plan of None \<Rightarrow> False | Some bp \<Rightarrow> bp_validateEnums bp \<noteq> None)"

definition empty_plan :: "gtype \<Rightarrow> requestPlan" where
  "empty_plan t = \<lparr>pl_typ = t, pl_fields = [], pl_body = None, pl_hasQuery = False, pl_noInput = False,
     pl_canFailValidation = False, pl_canFailBind = False, pl_pathParams = []\<rparr>"

definition compileRequest ::
  "'x compile_env_scheme \<Rightarrow> gtype \<Rightarrow> string \<Rightarrow> requestPlan option \<times> req_violation list" where
  "compileRequest env t method =
     (if type_kind t \<noteq> KStruct then (None, [NotAStruct t])
      else case compile_fields env method 0 (type_fields t) [] (empty_plan t) of
        (plan, vs) \<Rightarrow>
          let nothing = (pl_fields plan = [] \<and> pl_body plan = None);
              plan1 = plan\<lparr>pl_noInput := nothing \<and> type_fields t = [],
                pl_canFailValidation := requestCarriesValidation t \<or> requestCarriesEnumValidation plan\<rparr>;
              idle = (if nothing \<and> type_fields t \<noteq> [] \<and> vs = [] then [BindsNothing (struct_name t)] else []);
              boundary = (case pl_body plan of
                  None \<Rightarrow> []
                | Some bp \<Rightarrow>
                    (let bodyField = type_fields t ! bp_index bp;
                         nested = fst (bindingTagsInside (sf_Type bodyField) [])
                     in validateCrossFieldBoundary (type_fields t) bodyField @
                        (if nested \<noteq> [] then [NestedBindingTags nested] else [])))
          in (Some plan1, vs @ idle @ map InvalidValidateTags (compileValidationTags env t) @
                fst (validateDiveTargets t []) @ boundary))"

end
