(* ===== verification/Request_Bind.thy ===== *)
theory Request_Bind
  imports Request_Compile
begin

text \<open>
  What binding a request with a compiled plan gives: a value of the request type whose parameters
  come from their own sources only, or one of the failures the plan announces.
\<close>

subsection \<open>Compiled plans\<close>

text \<open>The shape of a plan after the first \<open>n\<close> fields of the request type were compiled.\<close>

definition binder_ok :: "'x compile_env_scheme \<Rightarrow> sfield list \<Rightarrow> nat \<Rightarrow> requestPlan \<Rightarrow> fieldBinder \<Rightarrow> bool" where
  "binder_ok env fs n plan f \<longleftrightarrow>
     fb_index f < n \<and> fb_source f \<in> set parameterSources \<and>
     compileSetter (bind_env.truncate env) (sf_Type (fs ! fb_index f)) = Some (fb_assign f) \<and>
     fb_validateEnums f = compileEnumValidator (enums env) (sf_Type (fs ! fb_index f)) (enumFieldOptions (fs ! fb_index f)) \<and>
     (parameterTypeCanFailBinding (fb_source f) (sf_Type (fs ! fb_index f)) \<longrightarrow> pl_canFailBind plan) \<and>
     (fb_source f = srcQuery \<longrightarrow> pl_hasQuery plan)"

definition body_ok :: "'x compile_env_scheme \<Rightarrow> sfield list \<Rightarrow> nat \<Rightarrow> requestPlan \<Rightarrow> bodyPlan \<Rightarrow> bool" where
  "body_ok env fs n plan bp \<longleftrightarrow>
     bp_index bp < n \<and> bp_typ bp = sf_Type (fs ! bp_index bp) \<and> pl_canFailBind plan \<and>
     bp_validateEnums bp = compileEnumValidator (enums env) (bp_typ bp) (enumFieldOptions (fs ! bp_index bp)) \<and>
     (bp_raw bp \<longleftrightarrow> isRawJSONType (bp_typ bp))"

definition plan_indices :: "requestPlan \<Rightarrow> nat list" where
  "plan_indices plan = map fb_index (pl_fields plan) @ (case pl_body plan of None \<Rightarrow> [] | Some bp \<Rightarrow> [bp_index bp])"

definition plan_ok :: "'x compile_env_scheme \<Rightarrow> sfield list \<Rightarrow> nat \<Rightarrow> requestPlan \<Rightarrow> bool" where
  "plan_ok env fs n plan \<longleftrightarrow>
     (\<forall>f\<in>set (pl_fields plan). binder_ok env fs n plan f) \<and>
     (\<forall>bp. pl_body plan = Some bp \<longrightarrow> body_ok env fs n plan bp) \<and>
     distinct (plan_indices plan)"

lemma plan_ok_Suc: "plan_ok env fs n plan \<Longrightarrow> plan_ok env fs (Suc n) plan"
  by (auto simp: plan_ok_def binder_ok_def body_ok_def)

lemma plan_ok_indices: "plan_ok env fs n plan \<Longrightarrow> i \<in> set (plan_indices plan) \<Longrightarrow> i < n"
  by (auto simp: plan_ok_def binder_ok_def body_ok_def plan_indices_def split: option.splits)

text \<open>Later turns only raise flags and append one binder or set the body.\<close>

definition wider :: "requestPlan \<Rightarrow> requestPlan \<Rightarrow> bool" where
  "wider plan plan' \<longleftrightarrow> (pl_canFailBind plan \<longrightarrow> pl_canFailBind plan') \<and> (pl_hasQuery plan \<longrightarrow> pl_hasQuery plan')"

lemma binder_ok_wider: "binder_ok env fs n plan f \<Longrightarrow> wider plan plan' \<Longrightarrow> binder_ok env fs (Suc n) plan' f"
  by (simp add: binder_ok_def wider_def)

lemma body_ok_wider: "body_ok env fs n plan bp \<Longrightarrow> wider plan plan' \<Longrightarrow> body_ok env fs (Suc n) plan' bp"
  by (simp add: body_ok_def wider_def)

lemma plan_ok_same:
  "plan_ok env fs n plan \<Longrightarrow> wider plan plan' \<Longrightarrow> pl_fields plan' = pl_fields plan \<Longrightarrow> pl_body plan' = pl_body plan \<Longrightarrow>
     plan_ok env fs (Suc n) plan'"
  by (auto simp: plan_ok_def plan_indices_def intro: binder_ok_wider body_ok_wider)

lemma plan_ok_binder:
  assumes "plan_ok env fs n plan" "wider plan plan'" "pl_fields plan' = pl_fields plan @ [f]"
    "pl_body plan' = pl_body plan" "binder_ok env fs (Suc n) plan' f" "fb_index f = n"
  shows "plan_ok env fs (Suc n) plan'"
proof -
  have "n \<notin> set (plan_indices plan)" using plan_ok_indices [OF assms(1), of n] by auto
  then have "distinct (plan_indices plan')" using assms by (auto simp: plan_ok_def plan_indices_def)
  with assms show ?thesis by (auto simp: plan_ok_def intro: binder_ok_wider body_ok_wider)
qed

lemma plan_ok_body:
  assumes "plan_ok env fs n plan" "wider plan plan'" "pl_fields plan' = pl_fields plan"
    "pl_body plan = None" "pl_body plan' = Some bp" "body_ok env fs (Suc n) plan' bp" "bp_index bp = n"
  shows "plan_ok env fs (Suc n) plan'"
proof -
  have "n \<notin> set (plan_indices plan)" using plan_ok_indices [OF assms(1), of n] by auto
  then have "distinct (plan_indices plan')" using assms by (auto simp: plan_ok_def plan_indices_def)
  with assms show ?thesis by (auto simp: plan_ok_def intro: binder_ok_wider)
qed

lemma compile_parameter_ok:
  assumes "plan_ok env fs n plan" and "source \<in> set parameterSources"
    and "compile_parameter env n (fs ! n) source name plan = (plan', vs)"
  shows "plan_ok env fs (Suc n) plan'"
proof (cases "compileSetter (bind_env.truncate env) (sf_Type (fs ! n))")
  case None
  with assms(3) show ?thesis
    by (intro plan_ok_same [OF assms(1)]) (auto simp: compile_parameter_def Let_def wider_def)
next
  case (Some assign)
  with assms(2,3) show ?thesis
    by (intro plan_ok_binder [OF assms(1), where f = "last (pl_fields plan')"])
      (auto simp: compile_parameter_def Let_def wider_def binder_ok_def)
qed

lemma compileBodyField_body:
  assumes "compileBodyField env f n tag method plan = (plan', vs)"
  shows "plan' = plan \<or>
    (\<exists>bp. plan' = plan\<lparr>pl_body := Some bp, pl_canFailBind := True\<rparr> \<and> pl_body plan = None \<and> bp_index bp = n \<and>
       bp_typ bp = sf_Type f \<and> (bp_raw bp \<longleftrightarrow> isRawJSONType (sf_Type f)) \<and>
       bp_validateEnums bp = compileEnumValidator (enums env) (sf_Type f) (enumFieldOptions f))"
  using assms unfolding compileBodyField_def Let_def
  by (cases "sf_Type f") (auto simp: isRawJSONType_def RawJSONElem_def split: if_splits)

lemma compileBodyField_ok:
  assumes "plan_ok env fs n plan" and "compileBodyField env (fs ! n) n tag method plan = (plan', vs)"
  shows "plan_ok env fs (Suc n) plan'"
proof (cases "plan' = plan")
  case True
  with assms(1) show ?thesis by (simp add: plan_ok_Suc)
next
  case False
  with compileBodyField_body [OF assms(2)] show ?thesis
    by (elim disjE exE conjE)
      (simp, rule plan_ok_body [OF assms(1)], auto simp: wider_def body_ok_def)
qed

lemma parameter_tags_source: "(source, name) \<in> set (parameter_tags f) \<Longrightarrow> source \<in> set parameterSources"
  by (auto simp: parameter_tags_def List.map_filter_def)

lemma compile_fields_ok:
  assumes "compile_fields env method n (drop n fs) seen plan = (plan', vs)" and "plan_ok env fs n plan"
    and "n \<le> length fs"
  shows "plan_ok env fs (length fs) plan'"
  using assms
proof (induction "length fs - n" arbitrary: n seen plan plan' vs)
  case 0
  then show ?case by simp
next
  case (Suc k)
  then have d: "drop n fs = (fs ! n) # drop (Suc n) fs" by (simp add: Cons_nth_drop_Suc)
  have IH: "plan_ok env fs (length fs) plan2"
    if "compile_fields env method (Suc n) (drop (Suc n) fs) seen' plan1 = (plan2, ws)" "plan_ok env fs (Suc n) plan1"
    for seen' plan1 plan2 ws
    using Suc(1) [OF _ that] Suc(2) by simp
  note here = plan_ok_Suc [OF Suc(4)] compile_parameter_ok [OF Suc(4)] compileBodyField_ok [OF Suc(4)]
  show ?case
  proof (cases "tag_lookup (fs ! n) tagBody")
    case (Some tag)
    obtain plan1 ws where b: "compileBodyField env (fs ! n) n tag method plan = (plan1, ws)" by force
    with Suc(3) Some show ?thesis
      unfolding d by (auto simp: Let_def split: prod.splits if_splits intro: IH here)
  next
    case None
    show ?thesis
    proof (cases "parameter_tags (fs ! n)")
      case Nil
      with Suc(3) None show ?thesis
        unfolding d by (auto simp: Let_def split: prod.splits if_splits intro: IH here)
    next
      case (Cons st rest)
      obtain source name where st: "st = (source, name)" by force
      have src: "source \<in> set parameterSources"
        using parameter_tags_source [of source name "fs ! n"] Cons st by simp
      obtain plan1 ws where b: "compile_parameter env n (fs ! n) source name plan = (plan1, ws)" by force
      with Suc(3) None Cons st src show ?thesis
        unfolding d by (auto simp: Let_def split: prod.splits if_splits intro: IH here)
    qed
  qed
qed

lemma compileRequest_ok:
  assumes "compileRequest env (TStruct n fs) method = (Some plan, vs)"
  shows "plan_ok env fs (length fs) plan" and "requestCarriesEnumValidation plan \<Longrightarrow> pl_canFailValidation plan"
    and "requestCarriesValidation (TStruct n fs) \<Longrightarrow> pl_canFailValidation plan"
proof -
  obtain plan0 ws where c: "compile_fields env method 0 fs [] (empty_plan (TStruct n fs)) = (plan0, ws)" by force
  have "plan_ok env fs 0 (empty_plan (TStruct n fs))"
    by (simp add: plan_ok_def empty_plan_def plan_indices_def)
  with c have ok: "plan_ok env fs (length fs) plan0"
    using compile_fields_ok [of env "method" 0 fs "[]" "empty_plan (TStruct n fs)"] by simp
  from assms c have plan: "plan = plan0\<lparr>pl_noInput := pl_fields plan0 = [] \<and> pl_body plan0 = None \<and> fs = [],
      pl_canFailValidation := requestCarriesValidation (TStruct n fs) \<or> requestCarriesEnumValidation plan0\<rparr>"
    by (auto simp: compileRequest_def Let_def)
  with ok show "plan_ok env fs (length fs) plan"
    by (simp add: plan_ok_def binder_ok_def body_ok_def plan_indices_def)
  show "requestCarriesEnumValidation plan \<Longrightarrow> pl_canFailValidation plan"
    "requestCarriesValidation (TStruct n fs) \<Longrightarrow> pl_canFailValidation plan"
    by (auto simp: plan requestCarriesEnumValidation_def)
qed


subsection \<open>Setters\<close>

text \<open>The conversions taken from outside produce values of the type they convert to.\<close>

definition keeps_type :: "gtype \<Rightarrow> (gval \<Rightarrow> string \<Rightarrow> gval option) \<Rightarrow> bool" where
  "keeps_type t u \<longleftrightarrow> (\<forall>v s x. has_type t v \<longrightarrow> u v s = Some x \<longrightarrow> has_type t x)"

definition opaque :: "gval \<Rightarrow> bool" where
  "opaque v = (case v of VOpaque _ \<Rightarrow> True | _ \<Rightarrow> False)"

definition env_typed :: "bind_env \<Rightarrow> bool" where
  "env_typed env \<longleftrightarrow>
     (\<forall>s x. ParseFloat env s = Some x \<longrightarrow> opaque x) \<and>
     (\<forall>s x. ParseTime env s = Some x \<longrightarrow> opaque x) \<and>
     (\<forall>t u. UnmarshalText env t = Some u \<longrightarrow> keeps_type t u) \<and>
     (\<forall>t u. UnmarshalJSON env t = Some u \<longrightarrow> keeps_type t u) \<and>
     (\<forall>t b v x. has_type t v \<longrightarrow> UnmarshalRead env t b v = Inr x \<longrightarrow> has_type t x) \<and>
     (\<forall>t b v. has_type t v \<longrightarrow> has_type t (snd (LenientUnmarshal env t b v)))"

lemma keeps_typeD: "keeps_type t u \<Longrightarrow> has_type t v \<Longrightarrow> u v s = Some x \<Longrightarrow> has_type t x"
  unfolding keeps_type_def by blast

lemma env_typedD:
  "env_typed env \<Longrightarrow> UnmarshalText env t = Some u \<Longrightarrow> keeps_type t u"
  "env_typed env \<Longrightarrow> UnmarshalJSON env t = Some u \<Longrightarrow> keeps_type t u"
  "env_typed env \<Longrightarrow> has_type t v \<Longrightarrow> UnmarshalRead env t b v = Inr x \<Longrightarrow> has_type t x"
  "env_typed env \<Longrightarrow> has_type t v \<Longrightarrow> has_type t (snd (LenientUnmarshal env t str v))"
  "env_typed env \<Longrightarrow> ParseFloat env str = Some x \<Longrightarrow> opaque x"
  "env_typed env \<Longrightarrow> ParseTime env str = Some x \<Longrightarrow> opaque x"
  unfolding env_typed_def by blast+

lemma parse_uint_bounds: "parse_uint bits s = Some u \<Longrightarrow> u < 2 ^ bits"
  by (auto simp: parse_uint_def split: if_splits)

lemma those_Some_iff: "those xs = Some ys \<longleftrightarrow> xs = map Some ys"
  by (induction xs arbitrary: ys) (auto split: option.splits)

lemma set_slice_total:
  "(\<And>v s. st v (RawString s) \<noteq> None) \<Longrightarrow> set_slice e st v raw \<noteq> None"
proof -
  assume *: "\<And>v s. st v (RawString s) \<noteq> None"
  have "those (map (\<lambda>val. st (zero_value e) (RawString val)) vals) \<noteq> None" for vals
    using * by (induction vals) (auto split: option.splits)
  then show ?thesis by (auto simp: set_slice_def Let_def split: option.splits)
qed

lemma set_slice_typed:
  assumes "\<And>v raw x. has_type e v \<Longrightarrow> st v raw = Some x \<Longrightarrow> has_type e x" and "set_slice e st v raw = Some x"
  shows "has_type (TSlice n e) x"
proof -
  obtain xs vals where x: "x = VSlice (Some xs)" "map (\<lambda>val. st (zero_value e) (RawString val)) vals = map Some xs"
    using assms(2) by (auto simp: set_slice_def Let_def those_Some_iff split: option.splits)
  have "has_type e y" if y: "y \<in> set xs" for y
  proof -
    from y have "Some y \<in> set (map (\<lambda>val. st (zero_value e) (RawString val)) vals)" by (simp add: x(2))
    then obtain val where "st (zero_value e) (RawString val) = Some y" by auto
    then show ?thesis using assms(1) zero_value_typed(1) by blast
  qed
  with x(1) show ?thesis by (simp add: list_all_iff)
qed

lemma compileSetter_typed:
  "compileSetter env t = Some st \<Longrightarrow> env_typed env \<Longrightarrow> has_type t v \<Longrightarrow> st v raw = Some x \<Longrightarrow> has_type t x"
proof (induction env t arbitrary: st v raw x rule: compileSetter.induct)
  case (1 env e)
  then obtain elem where e: "compileSetter env e = Some elem" "st = set_pointer e elem" by auto
  define w where "w = (case v of VPtr (Some y) \<Rightarrow> y | _ \<Rightarrow> zero_value e)"
  have w: "has_type e w" using 1(4) zero_value_typed(1) [of e] by (auto simp: w_def split: gval.splits option.splits)
  show ?case
  proof (cases "raw = RawString []")
    case True
    with 1(5) show ?thesis by (auto simp: e(2) set_pointer_def)
  next
    case False
    with 1(5) obtain y where "elem w raw = Some y" "x = VPtr (Some y)"
      by (auto simp: e(2) set_pointer_def w_def split: option.splits)
    with 1(1) [OF e(1) 1(3) w] show ?thesis by simp
  qed
next
  case (2 env n e)
  then obtain elem where e: "compileSetter env e = Some elem" "st = set_slice e elem" by auto
  with 2(1) [OF e(1) 2(3)] 2(5) show ?case by (intro set_slice_typed [where st = elem]) auto
next
  case (7 env n bits)
  then show ?case using env_typedD(5) [of env] by (auto simp: scalar_def opaque_def split: option.splits if_splits)
next
  case (8 env)
  then show ?case using env_typedD(6) [of env] by (auto simp: scalar_def opaque_def split: option.splits if_splits)
next
  case (9 env n fs)
  let ?t = "TStruct n fs"
  show ?case
  proof (cases "UnmarshalText env ?t")
    case (Some u)
    with 9(1,4) obtain str where "u v str = Some x" by (auto simp: set_text_def split: option.splits)
    with env_typedD(1) [OF 9(2) Some] 9(3) show ?thesis by (rule keeps_typeD)
  next
    case None
    with 9(1) obtain u where u: "UnmarshalJSON env ?t = Some u" "st = set_json u" by (auto split: option.splits if_splits)
    with 9(4) have "x = v \<or> (\<exists>lit. u v lit = Some x)" by (auto simp: set_json_def split: option.splits if_splits)
    with keeps_typeD [OF env_typedD(2) [OF 9(2) u(1)] 9(3)] 9(3) show ?thesis by blast
  qed
qed (auto simp: scalar_def split: option.splits if_splits dest!: parse_int_bounds parse_uint_bounds)

text \<open>A parameter the compiler calls infallible is: its setter accepts every raw value of its source.\<close>

definition raw_of_source :: "string \<Rightarrow> raw_value \<Rightarrow> bool" where
  "raw_of_source source raw \<longleftrightarrow> source = srcQuery \<or> (\<exists>s. raw = RawString s)"

lemma compileLookup_raw: "compileLookup source name r params query = Some raw \<Longrightarrow> raw_of_source source raw"
  by (auto simp: compileLookup_def raw_of_source_def Let_def split: if_splits option.splits)

lemma string_setter_total:
  "type_kind (unwrap_pointers_slices t) = KString \<Longrightarrow>
     \<exists>st. compileSetter env t = Some st \<and> (\<forall>v s. st v (RawString s) \<noteq> None)"
proof (induction t rule: unwrap_pointers_slices.induct)
  case (1 e)
  then obtain elem where e: "compileSetter env e = Some elem" "\<And>v s. elem v (RawString s) \<noteq> None" by auto
  have "set_pointer e elem v (RawString s) \<noteq> None" for v s
    by (auto simp: set_pointer_def e(2) split: option.splits)
  with e(1) show ?case by simp
next
  case (2 n e)
  then obtain elem where e: "compileSetter env e = Some elem" "\<And>v s. elem v (RawString s) \<noteq> None" by auto
  with set_slice_total [of elem] show ?case by simp
qed (auto simp: rawString_def)

lemma infallible_setter:
  assumes "\<not> parameterTypeCanFailBinding source t" and "raw_of_source source raw" and "compileSetter env t = Some st"
  shows "st v raw \<noteq> None"
proof -
  have k: "type_kind (unwrap_pointers_slices t) = KString" and q: "source = srcQuery \<longrightarrow> type_kind t = KSlice"
    using assms(1) by (auto simp: parameterTypeCanFailBinding_def split: if_splits)
  show ?thesis
  proof (cases "\<exists>s. raw = RawString s")
    case True
    with string_setter_total [OF k, of env] assms(3) show ?thesis by auto
  next
    case False
    with assms(2) q obtain n e where t: "t = TSlice n e" by (cases t) (auto simp: raw_of_source_def)
    with k obtain es where es: "compileSetter env e = Some es" "\<And>v s. es v (RawString s) \<noteq> None"
      using string_setter_total [of e env] by auto
    with t assms(3) show ?thesis using set_slice_total [of es] by auto
  qed
qed


subsection \<open>Binding\<close>

definition bound_as ::
  "'c http_request \<Rightarrow> (string \<rightharpoonup> string) \<Rightarrow> (string \<Rightarrow> string list) \<Rightarrow> fieldBinder \<Rightarrow> gval \<Rightarrow> gval \<Rightarrow> bool" where
  "bound_as r params query f old new \<longleftrightarrow>
     (case compileLookup (fb_source f) (fb_name f) r params query of
        None \<Rightarrow> new = old
      | Some raw \<Rightarrow> fb_assign f old raw = Some new)"

lemma get_set_other [simp]: "i \<noteq> j \<Longrightarrow> get_field (set_field v i x) j = get_field v j"
  by (cases v) auto

fun arity :: "gval \<Rightarrow> nat" where
  "arity (VStruct n vs) = length vs"
| "arity v = 0"

lemma arity_set_field [simp]: "arity (set_field v i x) = arity v"
  by (cases v) auto

lemma get_set_field: "i < arity v \<Longrightarrow> get_field (set_field v i x) i = x"
  by (cases v) auto

lemma bind_fields_bound:
  assumes "bind_fields bs r params query v = Inr v'" and "distinct (map fb_index bs)"
    and "\<forall>f\<in>set bs. fb_index f < arity v"
  shows "(\<forall>f\<in>set bs. bound_as r params query f (get_field v (fb_index f)) (get_field v' (fb_index f))) \<and>
         (\<forall>i. i \<notin> fb_index ` set bs \<longrightarrow> get_field v' i = get_field v i)"
  using assms
proof (induction bs arbitrary: v)
  case (Cons f bs)
  define v1 where "v1 = (case compileLookup (fb_source f) (fb_name f) r params query of
      None \<Rightarrow> v | Some raw \<Rightarrow> (case fb_assign f (get_field v (fb_index f)) raw of
        None \<Rightarrow> v | Some x \<Rightarrow> set_field v (fb_index f) x))"
  have step: "bind_fields bs r params query v1 = Inr v'"
    and now: "bound_as r params query f (get_field v (fb_index f)) (get_field v1 (fb_index f))"
    and others: "\<And>i. i \<noteq> fb_index f \<Longrightarrow> get_field v1 i = get_field v i" "arity v1 = arity v"
    using Cons.prems by (auto simp: v1_def bound_as_def get_set_field split: option.splits)
  have keep: "fb_index f \<notin> fb_index ` set bs" using Cons.prems(2) by simp
  have rest: "(\<forall>g\<in>set bs. bound_as r params query g (get_field v1 (fb_index g)) (get_field v' (fb_index g))) \<and>
      (\<forall>i. i \<notin> fb_index ` set bs \<longrightarrow> get_field v' i = get_field v1 i)"
    using Cons.IH [OF step] Cons.prems(2,3) others(2) by simp
  have "bound_as r params query g (get_field v (fb_index g)) (get_field v' (fb_index g))" if "g \<in> set (f # bs)" for g
  proof (cases "g = f")
    case True
    with rest keep now show ?thesis by simp
  next
    case False
    with that keep have g: "g \<in> set bs" "fb_index g \<noteq> fb_index f" by (auto simp: image_iff)
    with rest others(1) [OF g(2)] show ?thesis by auto
  qed
  with rest others show ?case by auto
qed simp

lemma bind_fields_failure:
  "bind_fields bs r params query v = Inl e \<Longrightarrow>
     \<exists>f\<in>set bs. e = bad_request (fb_bindDetail f) \<and>
       (\<exists>raw old. compileLookup (fb_source f) (fb_name f) r params query = Some raw \<and> fb_assign f old raw = None)"
  by (induction bs arbitrary: v) (auto split: option.splits)

lemma bind_fields_typed:
  assumes "bind_fields bs r params query (VStruct n vs) = Inr v'" and "have_types fs vs" and "env_typed env"
    and "\<forall>f\<in>set bs. fb_index f < length fs \<and> compileSetter env (sf_Type (fs ! fb_index f)) = Some (fb_assign f)"
  shows "\<exists>ws. v' = VStruct n ws \<and> have_types fs ws"
  using assms
proof (induction bs arbitrary: vs)
  case (Cons f bs)
  let ?i = "fb_index f"
  have i: "?i < length vs" "has_type (sf_Type (fs ! ?i)) (vs ! ?i)"
    using Cons.prems(2,4) by (auto simp: have_types_iff list_all2_conv_all_nth)
  show ?case
  proof (cases "compileLookup (fb_source f) (fb_name f) r params query")
    case None
    with Cons show ?thesis by simp
  next
    case (Some raw)
    with Cons.prems(1) i(1) obtain x where x: "fb_assign f (vs ! ?i) raw = Some x"
      "bind_fields bs r params query (VStruct n (vs[?i := x])) = Inr v'" by (auto split: option.splits)
    have "has_type (sf_Type (fs ! ?i)) x"
      using compileSetter_typed [where st = "fb_assign f", OF _ Cons.prems(3) i(2) x(1)] Cons.prems(4) by simp
    then have "have_types fs (vs[?i := x])"
      using Cons.prems(2) i(1) by (auto simp: have_types_iff list_all2_conv_all_nth nth_list_update)
    with Cons.IH [OF x(2)] Cons.prems(3,4) show ?thesis by simp
  qed
qed auto

lemma bindBody_field:
  "bindBody env bp r v = Inr v' \<Longrightarrow> v' = v \<or> (\<exists>x. v' = set_field v (bp_index bp) x)"
  unfolding bindBody_def Let_def by (auto split: if_splits option.splits sum.splits prod.splits)

lemma has_type_RawJSON:
  assumes "has_type (TRawJSON p) v"
  obtains r x e where "v = VStruct ''httpx.RawJSON'' [VOpaque r, x, VIface e]" and "has_type p x"
proof -
  obtain n vs where v: "v = VStruct n vs" using assms by (cases v) auto
  with assms obtain a x c where vs: "vs = [a, x, c]"
    by (cases vs rule: remdups_adj.cases; cases "tl (tl vs)"; cases "tl (tl (tl vs))") (auto split: gval.splits)
  with assms v have "\<exists>r e. a = VOpaque r \<and> c = VIface e \<and> n = ''httpx.RawJSON'' \<and> has_type p x"
    by (cases a; cases c) auto
  with v vs that show thesis by blast
qed

lemma bindRawBody_typed:
  assumes "bindRawBody env p r rejectNull old = Inr (raw, x)" and "env_typed env" and "has_type (TRawJSON p) old"
  shows "has_type (TRawJSON p) x"
proof -
  have old: "has_type p (get_field old 1)"
    using has_type_RawJSON [OF assms(3)] by fastforce
  obtain err val where l: "LenientUnmarshal env p raw (get_field old 1) = (err, val)" by force
  with assms(1) have "\<exists>failed. x = VStruct ''httpx.RawJSON'' [VOpaque raw, val, VIface failed]"
    by (auto simp: bindRawBody_def Let_def split: body_read.splits prod.splits)
  then show ?thesis using env_typedD(4) [OF assms(2) old, of raw] l by auto
qed

lemma bindBody_typed:
  assumes "bindBody env bp r (VStruct n vs) = Inr v'" and "have_types fs vs" and "env_typed env"
    and "bp_index bp < length fs" and "bp_typ bp = sf_Type (fs ! bp_index bp)" and "bp_raw bp \<longleftrightarrow> isRawJSONType (bp_typ bp)"
  shows "\<exists>ws. v' = VStruct n ws \<and> have_types fs ws"
proof -
  let ?i = "bp_index bp"
  have i: "?i < length vs" "has_type (bp_typ bp) (vs ! ?i)"
    using assms(2,4,5) by (auto simp: have_types_iff list_all2_conv_all_nth)
  have upd: "have_types fs (vs[?i := x])" if "has_type (bp_typ bp) x" for x
    using assms(2,4,5) that by (auto simp: have_types_iff list_all2_conv_all_nth nth_list_update)
  consider "v' = VStruct n vs"
    | raw x p where "v' = VStruct n (vs[?i := x])" "bp_typ bp = TRawJSON p"
        "bindRawBody env p r (bp_rejectRawNull bp) (vs ! ?i) = Inr (raw, x)"
    | x body where "v' = VStruct n (vs[?i := x])" "UnmarshalRead env (bp_typ bp) body (vs ! ?i) = Inr x"
    using assms(1,6) i(1) unfolding bindBody_def Let_def decodeJSONBody_def isRawJSONType_def RawJSONElem_def
    by (auto split: if_splits option.splits sum.splits prod.splits gtype.splits)
  then show ?thesis
  proof cases
    case 1
    with assms(2) show ?thesis by simp
  next
    case (2 raw x p)
    with bindRawBody_typed [OF 2(3) assms(3)] i(2) upd show ?thesis by auto
  next
    case (3 x body)
    with env_typedD(3) [OF assms(3) i(2)] upd show ?thesis by auto
  qed
qed

text \<open>The kinds of problem the adapter answers with; none of them wraps another error.\<close>

definition problem_of_kind :: "problemKindID set \<Rightarrow> go_error \<Rightarrow> bool" where
  "problem_of_kind ks e \<longleftrightarrow> (\<exists>p. e = EProblem p \<and> pd_kind p \<in> ks \<and> pd_err p = None)"

lemma problem_of_kind_New [simp]:
  "i \<noteq> problemKindInvalid \<Longrightarrow> problem_of_kind ks (EProblem (pk_New (kind_of i) d)) \<longleftrightarrow> i \<in> ks"
  by (cases i) (simp_all add: problem_of_kind_def pk_New_def kind_of_def mk_problem_def)

lemma bad_request_kind [simp]: "problem_of_kind ks (bad_request d) \<longleftrightarrow> problemKindBadRequest \<in> ks"
  by (simp add: bad_request_def BadRequest_def)

lemma decode_failure_kind: "problem_of_kind {problemKindBadRequest, problemKindPayloadTooLarge} (decode_failure env e)"
  by (simp add: decode_failure_def PayloadTooLarge_def split: option.split list.split)

lemma problem_of_kind_mono: "problem_of_kind ks e \<Longrightarrow> ks \<subseteq> ks' \<Longrightarrow> problem_of_kind ks' e"
  by (auto simp: problem_of_kind_def)

abbreviation body_kinds :: "problemKindID set" where
  "body_kinds \<equiv> {problemKindBadRequest, problemKindPayloadTooLarge, problemKindUnsupportedMediaType}"

lemma decodeJSONBody_failure: "decodeJSONBody env t body v = Inl e \<Longrightarrow> problem_of_kind body_kinds e"
  using problem_of_kind_mono [OF decode_failure_kind, of body_kinds]
  by (auto simp: decodeJSONBody_def Let_def split: sum.splits if_splits)

lemma bindRawBody_failure: "bindRawBody env t r b v = Inl e \<Longrightarrow> problem_of_kind body_kinds e"
  by (auto simp: bindRawBody_def PayloadTooLarge_def Let_def split: body_read.splits prod.splits)

lemma bindBody_failure:
  assumes "bindBody env bp r v = Inl e"
  shows "problem_of_kind body_kinds e"
  using assms decodeJSONBody_failure bindRawBody_failure
  unfolding bindBody_def Let_def checkJSONMediaType_def UnsupportedMediaType_def
  by (auto split: if_splits option.splits sum.splits prod.splits)

text \<open>The stages of a bind that succeeds, and the one at which it fails.\<close>

definition bind_body_stage :: "bind_env \<Rightarrow> requestPlan \<Rightarrow> 'c http_request \<Rightarrow> gval \<Rightarrow> go_error + gval" where
  "bind_body_stage env p r dst = (case pl_body p of None \<Rightarrow> Inr dst | Some bp \<Rightarrow> bindBody env bp r dst)"

definition plan_query :: "requestPlan \<Rightarrow> 'c http_request \<Rightarrow> string \<Rightarrow> string list" where
  "plan_query p r = (if pl_hasQuery p then rq_query r else (\<lambda>_. []))"

lemma bind_Inr:
  assumes "bind env p r params dst = Inr v"
  obtains v1 where "bind_body_stage env p r dst = Inr v1" "bind_fields (pl_fields p) r params (plan_query p r) v1 = Inr v"
    "validate_Struct env v = None" "validateEnumValues p v = None"
  using assms by (auto simp: bind_def bind_body_stage_def plan_query_def split: sum.splits option.splits)

lemma bind_Inl:
  assumes "bind env p r params dst = Inl e"
  obtains "bind_body_stage env p r dst = Inl e"
    | v1 where "bind_fields (pl_fields p) r params (plan_query p r) v1 = Inl e"
    | v1 v where "bind_body_stage env p r dst = Inr v1" "bind_fields (pl_fields p) r params (plan_query p r) v1 = Inr v"
        "validate_Struct env v = Some e"
    | v where "validateEnumValues p v = Some e"
  using assms by (auto simp: bind_def bind_body_stage_def plan_query_def split: sum.splits option.splits)

lemma bind_body_stage_typed:
  assumes "plan_ok env fs (length fs) plan" and "env_typed (bind_env.truncate env)" and "have_types fs vs"
    and "bind_body_stage (bind_env.truncate env) plan r (VStruct n vs) = Inr v1"
  shows "\<exists>ws. v1 = VStruct n ws \<and> have_types fs ws"
proof (cases "pl_body plan")
  case None
  with assms(3,4) show ?thesis by (auto simp: bind_body_stage_def)
next
  case (Some bp)
  with assms(1) have "body_ok env fs (length fs) plan bp" by (simp add: plan_ok_def)
  with assms Some show ?thesis
    by (intro bindBody_typed [of "bind_env.truncate env" bp r n vs v1 fs]) (auto simp: body_ok_def bind_body_stage_def)
qed

lemma bind_body_stage_other:
  assumes "bind_body_stage env plan r dst = Inr v1" and "\<And>bp. pl_body plan = Some bp \<Longrightarrow> i \<noteq> bp_index bp"
  shows "get_field v1 i = get_field dst i \<and> arity v1 = arity dst"
proof (cases "pl_body plan")
  case None
  with assms(1) show ?thesis by (simp add: bind_body_stage_def)
next
  case (Some bp)
  with assms bindBody_field [of env bp r dst v1] show ?thesis by (auto simp: bind_body_stage_def)
qed

definition demo_env :: compile_env where
  "demo_env = \<lparr>ParseFloat = (\<lambda>_. None), ParseTime = (\<lambda>_. None), UnmarshalText = (\<lambda>_. None), UnmarshalJSON = (\<lambda>_. None),
     knownTypeRegistered = (\<lambda>_. False), UnmarshalRead = (\<lambda>_ _ v. Inr v), LenientUnmarshal = (\<lambda>_ _ v. (None, v)),
     quote = (\<lambda>s. s), validate_Struct = (\<lambda>_. None), var_rejects = (\<lambda>_ _. Some True), init_error = None,
     filtered_panic = (\<lambda>_. None), struct_panic = (\<lambda>_. None), known_null = (\<lambda>_. None), type_String = struct_name,
     enums = \<lparr>er_values = [], er_version = 0\<rparr>\<rparr>"

definition demo_fields :: "sfield list" where
  "demo_fields = [SField ''ID'' [] False [(''path'', ''id'')] (TInt [] 32)]"

definition demo_plan :: requestPlan where
  "demo_plan = the (fst (compileRequest demo_env (TStruct ''api.GetInput'' demo_fields) ''GET''))"

definition demo_get :: "unit http_request" where
  "demo_get = \<lparr>rq_method = ''GET'', rq_path = ''/users/42'', rq_header = (\<lambda>_. None), rq_query = (\<lambda>_. []), rq_cookies = [],
     rq_remote = [], rq_body = None, rq_content_length = 0, rq_ctx = ()\<rparr>"

lemma demo_compiles: "\<exists>vs. compileRequest demo_env (TStruct ''api.GetInput'' demo_fields) ''GET'' = (Some demo_plan, vs)"
  unfolding demo_plan_def
  by (simp add: compileRequest_def Let_def split: prod.splits)

lemma demo_env_typed: "env_typed (bind_env.truncate demo_env)"
  by (simp add: env_typed_def demo_env_def bind_env.truncate_def)

lemma demo_plan_fields: "\<exists>f. pl_fields demo_plan = [f] \<and> fb_index f = 0 \<and> fb_source f = srcPath \<and> fb_name f = ''id'' \<and>
    fb_assign f = scalar (VInt 0) (\<lambda>s. map_option VInt (parse_int 32 s)) \<and> fb_validateEnums f = None"
  "pl_body demo_plan = None"
  by (simp_all add: demo_plan_def compileRequest_def demo_fields_def Let_def parameter_tags_def parameterSources_def
      source_defs tag_lookup_def List.map_filter_def compile_parameter_def exported_def unenforceableRequiredParam_def
      empty_plan_def compileEnumValidator_def typeCarriesRegisteredEnum.simps has_enum_def registeredEnumValues_def
      demo_env_def)

lemma demo_bind: "bind (bind_env.truncate demo_env) demo_plan demo_get [''id'' \<mapsto> ''42''] (VStruct ''api.GetInput'' [VInt 0]) =
    Inr (VStruct ''api.GetInput'' [VInt 42])"
proof -
  have p: "parse_int 32 ''42'' = Some 42" by code_simp
  obtain f where "pl_fields demo_plan = [f]" "fb_index f = 0" "fb_source f = srcPath" "fb_name f = ''id''"
    "fb_assign f = scalar (VInt 0) (\<lambda>s. map_option VInt (parse_int 32 s))" "fb_validateEnums f = None"
    using demo_plan_fields(1) by blast
  with p demo_plan_fields(2) show ?thesis
    by (simp add: bind_def compileLookup_def source_defs scalar_def rawString_def validateEnumValues_def
        demo_env_def bind_env.truncate_def)
qed

lemma bind_stages_typed:
  assumes "compileRequest env (TStruct n fs) method = (Some plan, vs)"
    and "env_typed (bind_env.truncate env)" and "has_type (TStruct n fs) dst"
    and "bind_body_stage (bind_env.truncate env) plan r dst = Inr v1"
    and "bind_fields (pl_fields plan) r params (plan_query plan r) v1 = Inr v"
  shows "has_type (TStruct n fs) v"
proof -
  note ok = compileRequest_ok(1) [OF assms(1)]
  obtain ds where dst: "dst = VStruct n ds" "have_types fs ds" using assms(3) by (cases dst) auto
  obtain ws where "v1 = VStruct n ws" "have_types fs ws"
    using bind_body_stage_typed [OF ok assms(2) dst(2)] assms(4) dst(1) by blast
  with assms(5) ok show ?thesis
    using bind_fields_typed [of "pl_fields plan" r params "plan_query plan r" n ws v fs "bind_env.truncate env"] assms(2)
    by (auto simp: plan_ok_def binder_ok_def)
qed

text \<open>
  C14. Binding is type safe: a request bound with the plan compiled for a struct type is a value of
  that type, whatever the request contains. In particular every integer is in the range of its
  width, so an identifier out of range is a failure and never a different record.
\<close>

theorem bind_typed:
  assumes "compileRequest env (TStruct n fs) method = (Some plan, vs)"
    and "env_typed (bind_env.truncate env)"
    and "has_type (TStruct n fs) dst"
    and "bind (bind_env.truncate env) plan r params dst = Inr v"
  shows "has_type (TStruct n fs) v"
  using assms(4) bind_stages_typed [OF assms(1-3)] by (blast elim: bind_Inr)

theorem bind_typed_witness: "has_type (TStruct ''api.GetInput'' demo_fields) (VStruct ''api.GetInput'' [VInt 42])"
proof -
  obtain vs where c: "compileRequest demo_env (TStruct ''api.GetInput'' demo_fields) ''GET'' = (Some demo_plan, vs)"
    using demo_compiles by blast
  show ?thesis by (rule bind_typed [OF c demo_env_typed _ demo_bind]) (simp add: demo_fields_def)
qed



lemma bind_failures:
  assumes "compileRequest env (TStruct n fs) method = (Some plan, vs)"
    and "bind (bind_env.truncate env) plan r params dst = Inl e"
  shows "(\<exists>v1 v. bind_body_stage (bind_env.truncate env) plan r dst = Inr v1 \<and>
            bind_fields (pl_fields plan) r params (plan_query plan r) v1 = Inr v \<and> validate_Struct (bind_env.truncate env) v = Some e) \<or>
         (pl_canFailBind plan \<and> problem_of_kind body_kinds e \<and>
            (pl_body plan = None \<longrightarrow> problem_of_kind {problemKindBadRequest} e)) \<or>
         (pl_canFailValidation plan \<and> problem_of_kind {problemKindUnprocessableEntity} e)"
proof -
  note ok = compileRequest_ok(1) [OF assms(1)]
  from assms(2) show ?thesis
  proof (cases rule: bind_Inl)
    case 1
    then obtain bp where bp: "pl_body plan = Some bp" "bindBody (bind_env.truncate env) bp r dst = Inl e"
      by (auto simp: bind_body_stage_def split: option.splits)
    with ok have "pl_canFailBind plan" by (simp add: plan_ok_def body_ok_def)
    with bp bindBody_failure [OF bp(2)] show ?thesis by simp
  next
    case (2 v1)
    then obtain f raw old where f: "f \<in> set (pl_fields plan)" "e = bad_request (fb_bindDetail f)"
      "compileLookup (fb_source f) (fb_name f) r params (plan_query plan r) = Some raw" "fb_assign f old raw = None"
      using bind_fields_failure by blast
    with ok have "binder_ok env fs (length fs) plan f" by (simp add: plan_ok_def)
    with f infallible_setter [OF _ compileLookup_raw [OF f(3)]] have "pl_canFailBind plan"
      unfolding binder_ok_def by blast
    with f(2) show ?thesis by simp
  next
    case (3 v1 v)
    then show ?thesis by blast
  next
    case (4 v)
    then have "requestCarriesEnumValidation plan"
      by (auto simp: validateEnumValues_def requestCarriesEnumValidation_def Let_def list_ex_iff
          split: if_splits option.splits)
    moreover from 4 have "problem_of_kind {problemKindUnprocessableEntity} e"
      by (auto simp: validateEnumValues_def Let_def problem_of_kind_def UnprocessableEntity_def pk_New_def kind_of_def
          mk_problem_def split: if_splits)
    ultimately show ?thesis using compileRequest_ok(2) [OF assms(1)] by blast
  qed
qed

text \<open>
  C29. The adapter fails only in announced ways. When a bind fails, either the struct validator
  rejected the bound value; or the answer is a 400, 413 or 415 problem and the plan says that
  binding can fail, the last two only for an operation with a body; or it is the 422 of a
  registered enum and the plan says that validation can fail.
\<close>

theorem bind_failures_announced:
  assumes "compileRequest env (TStruct n fs) method = (Some plan, vs)"
    and "bind (bind_env.truncate env) plan r params dst = Inl e"
  shows "(\<exists>v. validate_Struct (bind_env.truncate env) v = Some e) \<or>
         (pl_canFailBind plan \<and> problem_of_kind body_kinds e \<and>
            (pl_body plan = None \<longrightarrow> problem_of_kind {problemKindBadRequest} e)) \<or>
         (pl_canFailValidation plan \<and> problem_of_kind {problemKindUnprocessableEntity} e)"
  using bind_failures [OF assms] by blast

theorem bind_failures_announced_witness:
  "\<exists>e. bind (bind_env.truncate demo_env) demo_plan demo_get [''id'' \<mapsto> ''x''] (VStruct ''api.GetInput'' [VInt 0]) = Inl e \<and>
     pl_canFailBind demo_plan \<and> problem_of_kind {problemKindBadRequest} e"
proof -
  obtain vs where c: "compileRequest demo_env (TStruct ''api.GetInput'' demo_fields) ''GET'' = (Some demo_plan, vs)"
    using demo_compiles by blast
  obtain f where f: "pl_fields demo_plan = [f]" "fb_index f = 0" "fb_source f = srcPath" "fb_name f = ''id''"
    "fb_assign f = scalar (VInt 0) (\<lambda>s. map_option VInt (parse_int 32 s))"
    using demo_plan_fields(1) by blast
  have "parse_int 32 ''x'' = None" by code_simp
  with f demo_plan_fields(2) have b: "bind (bind_env.truncate demo_env) demo_plan demo_get [''id'' \<mapsto> ''x'']
      (VStruct ''api.GetInput'' [VInt 0]) = Inl (bad_request (fb_bindDetail f))"
    by (simp add: bind_def compileLookup_def source_defs scalar_def rawString_def)
  have "validate_Struct (bind_env.truncate demo_env) v = None" for v
    by (simp add: demo_env_def bind_env.truncate_def)
  with bind_failures_announced [OF c b] b show ?thesis by auto
qed

end
