(* ===== verification/Routing.thy ===== *)
theory Routing
  imports Go_Prelude
begin

text \<open>
  The path functions of \<^verbatim>\<open>internal/httpx/compile.go\<close> and \<^verbatim>\<open>openapi.go\<close>: joining and normalising
  patterns, placeholders, overlap of mounts, and generated operation ids.
\<close>

subsection \<open>Patterns\<close>

definition joinPattern :: "string \<Rightarrow> string \<Rightarrow> string" where
  "joinPattern base pattern =
     (if base = [] then pattern
      else if pattern = [] \<or> pattern = ''/'' then base
      else trim_suffix base ''/'' @ pattern)"

definition placeholder_segment :: "string \<Rightarrow> bool" where
  "placeholder_segment s \<longleftrightarrow> has_prefix s ''{'' \<and> has_suffix s ''}''"

definition normalizePath :: "string \<Rightarrow> string" where
  "normalizePath path =
     (let joined = join (map (\<lambda>s. if placeholder_segment s then ''{}'' else s) (split_on (CHR ''/'') path)) ''/'';
          trimmed = (if length joined > 1 then trim_suffix joined ''/'' else joined)
      in if trimmed = [] then ''/'' else trimmed)"

definition prefixLabel :: "string \<Rightarrow> string" where
  "prefixLabel pre = (if pre = [] then ''/'' else pre)"

text \<open>The matches of \<open>\{([^}]+)\}\<close>, leftmost first.\<close>

function brace_groups :: "string \<Rightarrow> string list" where
  "brace_groups [] = []"
| "brace_groups (c # cs) =
     (let inner = takeWhile (\<lambda>x. x \<noteq> CHR ''}'') cs; rest = dropWhile (\<lambda>x. x \<noteq> CHR ''}'') cs
      in if c = CHR ''{'' \<and> inner \<noteq> [] \<and> rest \<noteq> [] then inner # brace_groups (tl rest) else brace_groups cs)"
  by pat_completeness auto
termination
  by (relation "measure length")
    (auto, metis diff_le_self le_imp_less_Suc le_trans length_dropWhile_le)

definition pathPlaceholders :: "string \<Rightarrow> string list" where
  "pathPlaceholders path = map (\<lambda>m. fst (cut m (CHR '':''))) (brace_groups path)"

datatype placeholder_violation = PlaceholderUnbound string | PathFieldUnused string

text \<open>The violations are sorted by their text with all the others at the end of the build.\<close>

definition crossCheckPlaceholders :: "string \<Rightarrow> string list \<Rightarrow> placeholder_violation list" where
  "crossCheckPlaceholders path pathParams =
     map PlaceholderUnbound (filter (\<lambda>ph. ph \<notin> set pathParams) (remdups (pathPlaceholders path))) @
     map PathFieldUnused (filter (\<lambda>name. name \<notin> set (pathPlaceholders path)) (remdups pathParams))"


subsection \<open>Overlap of mounts\<close>

definition routingSegments :: "string \<Rightarrow> string list" where
  "routingSegments pattern =
     (let trimmed = trim_set pattern ''/'' in if trimmed = [] then [] else split_on (CHR ''/'') trimmed)"

definition dynamicRoutingSegment :: "string \<Rightarrow> bool" where
  "dynamicRoutingSegment segment \<longleftrightarrow> segment = ''*'' \<or> placeholder_segment segment"

fun segments_contain :: "string list \<Rightarrow> string list \<Rightarrow> bool" where
  "segments_contain [] route = True"
| "segments_contain (m # ms) [] = False"
| "segments_contain (m # ms) (r # rs) =
     ((m = r \<or> dynamicRoutingSegment m \<or> dynamicRoutingSegment r) \<and> segments_contain ms rs)"

definition mountContainsRoutePattern :: "string \<Rightarrow> string \<Rightarrow> bool" where
  "mountContainsRoutePattern mount route =
     (let ms = routingSegments mount; rs = routingSegments route
      in if length ms > length rs then False else segments_contain ms rs)"

definition mountPatternsOverlap :: "string \<Rightarrow> string \<Rightarrow> bool" where
  "mountPatternsOverlap left right \<longleftrightarrow> mountContainsRoutePattern left right \<or> mountContainsRoutePattern right left"


subsection \<open>Operation ids\<close>

definition convertRouteToOpenAPIPath :: "string \<Rightarrow> string" where
  "convertRouteToOpenAPIPath route =
     (let convert = (\<lambda>part.
            if placeholder_segment part
            then (case cut (trim_set part ''{}'') (CHR '':'') of
                    (before, _, True) \<Rightarrow> ''{'' @ before @ ''}''
                  | _ \<Rightarrow> part)
            else part);
          path = join (map convert (split_on (CHR ''/'') route)) ''/'';
          trimmed = (if length path > 1 then trim_suffix path ''/'' else path)
      in if path = [] then ''/'' else if trimmed = [] then ''/'' else trimmed)"

text \<open>\<open>unicode.IsLetter\<close> and \<open>unicode.IsDigit\<close> on ASCII; other characters separate words.\<close>

definition word_char :: "char \<Rightarrow> bool" where
  "word_char c \<longleftrightarrow> is_digit c \<or> (let n = (of_char c :: nat) in 97 \<le> n \<and> n \<le> 122 \<or> 65 \<le> n \<and> n \<le> 90)"

fun words_from :: "string \<Rightarrow> string \<Rightarrow> string list" where
  "words_from current [] = (if current = [] then [] else [current])"
| "words_from current (c # cs) =
     (if word_char c then words_from (current @ [c]) cs
      else (if current = [] then [] else [current]) @ words_from [] cs)"

definition splitIdentifierWords :: "string \<Rightarrow> string list" where
  "splitIdentifierWords s = words_from [] s"

definition capital :: "string \<Rightarrow> string" where
  "capital word = (case to_lower word of [] \<Rightarrow> [] | c # cs \<Rightarrow> upper_char c # cs)"

definition toPascalIdentifier :: "string \<Rightarrow> string" where
  "toPascalIdentifier segment =
     (let token = concat (map capital (splitIdentifierWords segment))
      in case token of [] \<Rightarrow> [] | c # cs \<Rightarrow> if is_digit c then ''N'' @ token else token)"

definition id_part :: "string \<Rightarrow> string" where
  "id_part segment =
     (if placeholder_segment segment
      then (let name = fst (cut (trim_suffix (trim_prefix segment ''{'') ''}'') (CHR '':''));
                token = toPascalIdentifier name
            in ''By'' @ (if token = [] then ''Param'' else token))
      else toPascalIdentifier segment)"

definition generateOperationID :: "string \<Rightarrow> string \<Rightarrow> string" where
  "generateOperationID method route =
     (let segments = split_on (CHR ''/'') (trim_set (convertRouteToOpenAPIPath route) ''/'');
          parts = filter (\<lambda>p. p \<noteq> []) (map id_part (filter (\<lambda>s. s \<noteq> []) segments))
      in to_lower method @ concat (if parts = [] then [''Root''] else parts))"


subsection \<open>Facts\<close>

lemma crossCheckPlaceholders_Nil:
  "crossCheckPlaceholders path pathParams = [] \<longleftrightarrow> set (pathPlaceholders path) = set pathParams"
  by (auto simp: crossCheckPlaceholders_def filter_empty_conv)

lemma segments_contain_iff:
  "segments_contain ms rs \<longleftrightarrow>
     length ms \<le> length rs \<and>
     (\<forall>i<length ms. ms ! i = rs ! i \<or> dynamicRoutingSegment (ms ! i) \<or> dynamicRoutingSegment (rs ! i))"
proof (induction ms rs rule: segments_contain.induct)
  case (3 m ms r rs)
  then show ?case by (auto simp: less_Suc_eq_0_disj)
qed simp_all

lemma mountContainsRoutePattern_iff:
  "mountContainsRoutePattern mount route \<longleftrightarrow> segments_contain (routingSegments mount) (routingSegments route)"
  by (auto simp: mountContainsRoutePattern_def segments_contain_iff Let_def)

lemma mountPatternsOverlap_sym: "mountPatternsOverlap a b = mountPatternsOverlap b a"
  by (auto simp: mountPatternsOverlap_def)

lemma mountPatternsOverlap_refl [simp]: "mountPatternsOverlap a a"
  by (simp add: mountPatternsOverlap_def mountContainsRoutePattern_iff segments_contain_iff)

text \<open>
  The overlap test errs only on the safe side. However the router matches segments, as long as a
  segment that is neither a placeholder nor a star matches only itself: when some request path is
  matched segment by segment by a route and also lies at or below a mount, the test reports that
  the mount contains the route.
\<close>

theorem mountContainsRoutePattern_conservative:
  assumes "\<And>p s. seg_match p s \<Longrightarrow> dynamicRoutingSegment p \<or> p = s"
    and "list_all2 seg_match (routingSegments route) path"
    and "list_all2 seg_match (routingSegments mount) (take (length (routingSegments mount)) path)"
  shows "mountContainsRoutePattern mount route"
proof -
  let ?ms = "routingSegments mount" and ?rs = "routingSegments route"
  have len: "length ?rs = length path" "length ?ms \<le> length path"
    using assms(2,3) by (auto dest: list_all2_lengthD)
  have "?ms ! i = ?rs ! i \<or> dynamicRoutingSegment (?ms ! i) \<or> dynamicRoutingSegment (?rs ! i)" if "i < length ?ms" for i
    using assms(1) [of "?ms ! i" "path ! i"] assms(1) [of "?rs ! i" "path ! i"] list_all2_nthD [OF assms(3) that]
      list_all2_nthD [OF assms(2), of i] that len by auto
  then show ?thesis using len by (simp add: mountContainsRoutePattern_iff segments_contain_iff)
qed

theorem mountContainsRoutePattern_conservative_witness:
  "mountContainsRoutePattern ''/users/{id}'' ''/users/{id}/posts''"
proof (rule mountContainsRoutePattern_conservative
    [where seg_match = "\<lambda>p s. dynamicRoutingSegment p \<or> p = s" and path = "[''users'', ''7'', ''posts'']"])
  show "list_all2 (\<lambda>p s. dynamicRoutingSegment p \<or> p = s) (routingSegments ''/users/{id}/posts'') [''users'', ''7'', ''posts'']"
    "list_all2 (\<lambda>p s. dynamicRoutingSegment p \<or> p = s) (routingSegments ''/users/{id}'')
       (take (length (routingSegments ''/users/{id}'')) [''users'', ''7'', ''posts''])"
    by (code_simp)+
qed blast

text \<open>
  A catch-all is the gap: \<open>/a/*\<close> serves paths at \<open>/{x}/b/c\<close>, but the test compares only as many
  segments as the shorter pattern writes down.
\<close>

lemma catch_all_not_contained:
  "\<not> mountContainsRoutePattern ''/{x}/b/c'' ''/a/*''"
  by code_simp

end
