(* ===== verification/Declaration.thy ===== *)
theory Declaration
  imports Routing Request_Bind Guard Response
begin

text \<open>
  \<^verbatim>\<open>internal/httpx/declaration.go\<close>: operation declarations, their validation, and the handler an
  operation is compiled to. A declaration's \<open>prepare\<close> closure is the constructor it was made with
  and the values it closed over. A violation is a constructor with the arguments of its message.
\<close>

subsection \<open>Declarations\<close>

record Defaults =
  df_Tags :: "string list"

record DocParam =
  dp_Name :: string
  dp_In :: string
  dp_Description :: string
  dp_Required :: bool
  dp_Type :: "gtype option"

record RawResponse =
  rr_Status :: int
  rr_Description :: string
  rr_Type :: "gtype option"
  rr_NoBody :: bool
  rr_Unwrapped :: bool

record RawDoc =
  rd_Request :: "gtype option"
  rd_Response :: "gtype option"
  rd_NoBody :: bool
  rd_Params :: "DocParam list"
  rd_Status :: int
  rd_Produces :: string
  rd_Unwrapped :: bool
  rd_BodyDescription :: string
  rd_SuccessDescription :: string
  rd_Problems :: "ProblemKind list"
  rd_Responses :: "RawResponse list"

text \<open>
  A typed handler gets the request's context and the bound request, and returns a reply, an error
  or both, and the program state.
\<close>

type_synonym ('s, 'c, 't) typed_handler = "'c \<Rightarrow> gval \<Rightarrow> 's \<Rightarrow> ('t Reply option \<times> go_error option) \<times> 's"

datatype ('s, 'c, 't) prepare =
    PrepareTyped (pt_req: gtype) (pt_res: gtype) (pt_handler: "('s, 'c, 't) typed_handler option")
  | PrepareRaw (pr_doc: RawDoc) (pr_handler: "('s, 'c) handler option")

record ('s, 'c, 't) endpointDecl =
  ed_method :: string
  ed_path :: string
  ed_raw :: bool
  ed_id :: string
  ed_summary :: string
  ed_description :: string
  ed_tags :: "string list"
  ed_bodyDescription :: string
  ed_successDescription :: string
  ed_success :: SuccessMode
  ed_problems :: "ProblemKind list"
  ed_guards :: "'c Guard list"
  ed_security :: RequirementSet
  ed_responseCookies :: "string list"
  ed_prepare :: "('s, 'c, 't) prepare"

record ('s, 'c, 't) Operation =
  op_ID :: string
  op_Method :: string
  op_Path :: string
  op_Summary :: string
  op_Description :: string
  op_Tags :: "string list"
  op_BodyDescription :: string
  op_SuccessDescription :: string
  op_Success :: SuccessMode
  op_Problems :: "ProblemKind list"
  op_Guards :: "'c Guard list"
  op_ResponseCookies :: "string list"
  op_Security :: RequirementSet
  op_Handler :: "('s, 'c, 't) typed_handler option"

record ('s, 'c) RawOperation =
  ro_ID :: string
  ro_Method :: string
  ro_Path :: string
  ro_Summary :: string
  ro_Description :: string
  ro_Tags :: "string list"
  ro_Guards :: "'c Guard list"
  ro_Security :: RequirementSet
  ro_Handler :: "('s, 'c) handler option"
  ro_Doc :: RawDoc

definition typed_decl :: "gtype \<Rightarrow> gtype \<Rightarrow> ('s, 'c, 't) Operation \<Rightarrow> ('s, 'c, 't) endpointDecl" where
  "typed_decl req res op =
     \<lparr>ed_method = op_Method op, ed_path = op_Path op, ed_raw = False, ed_id = op_ID op, ed_summary = op_Summary op,
      ed_description = op_Description op, ed_tags = op_Tags op, ed_bodyDescription = op_BodyDescription op,
      ed_successDescription = op_SuccessDescription op, ed_success = op_Success op, ed_problems = op_Problems op,
      ed_guards = op_Guards op, ed_security = cloneRequirementSet (op_Security op),
      ed_responseCookies = op_ResponseCookies op, ed_prepare = PrepareTyped req res (op_Handler op)\<rparr>"

definition raw_defaults :: "RawDoc \<Rightarrow> RawDoc" where
  "raw_defaults doc =
     doc\<lparr>rd_Status := (if rd_Status doc = 0 then 200 else rd_Status doc),
         rd_Produces := (if rd_Produces doc = [] then ''application/json'' else rd_Produces doc),
         rd_SuccessDescription := (if rd_SuccessDescription doc = [] then ''Success'' else rd_SuccessDescription doc)\<rparr>"

definition raw_decl :: "('s, 'c) RawOperation \<Rightarrow> ('s, 'c, 't) endpointDecl" where
  "raw_decl op =
     (let doc = raw_defaults (ro_Doc op)
      in \<lparr>ed_method = ro_Method op, ed_path = ro_Path op, ed_raw = True, ed_id = ro_ID op, ed_summary = ro_Summary op,
          ed_description = ro_Description op, ed_tags = ro_Tags op, ed_bodyDescription = rd_BodyDescription doc,
          ed_successDescription = rd_SuccessDescription doc, ed_success = \<lparr>sm_mode = modeUnset, sm_status = 0\<rparr>,
          ed_problems = rd_Problems doc, ed_guards = ro_Guards op, ed_security = cloneRequirementSet (ro_Security op),
          ed_responseCookies = [], ed_prepare = PrepareRaw doc (ro_Handler op)\<rparr>)"


subsection \<open>Violations\<close>

datatype decl_violation =
    SuccessModeRequired
  | RedirectStatus int
  | RedirectPayload gtype
  | SuccessStatus int
  | MessagePayload gtype
  | PageNotSlice gtype
  | InterfacePayload gtype
  | AnonymousPayload
  | BodyOnNoContent int responseMode
  | NilHandler
  | InvalidResponseTags string
  | RequestShape req_violation
  | PlaceholderMismatch placeholder_violation
  | RawStatus int
  | RawMediaType string
  | RawRequestBody string
  | RawBodyForbidden int
  | RawBodyContradiction
  | RawNoResponse
  | ParamName nat
  | ParamIn nat string
  | ParamDuplicate nat
  | ParamNoType nat
  | ParamType nat gtype
  | ParamOptionalPath nat
  | PlaceholderUndocumented string
  | DocParamUnused string
  | ExtraStatus nat int
  | ExtraDuplicate nat int
  | ExtraDescription nat
  | ExtraBodyForbidden nat int
  | ExtraContradiction nat
  | ExtraNoType nat


subsection \<open>Success modes\<close>

definition noBodyType :: gtype where
  "noBodyType = TStruct ''httpx.NoBody'' []"

definition isRedirectStatus :: "int \<Rightarrow> bool" where
  "isRedirectStatus status \<longleftrightarrow> status \<in> {300, 301, 302, 303, 307, 308}"

definition rawStatusForbidsBody :: "int \<Rightarrow> bool" where
  "rawStatusForbidsBody status \<longleftrightarrow> status = 204 \<or> status = 205 \<or> status = 304"

fun payload_core :: "gtype \<Rightarrow> gtype" where
  "payload_core (TPtr e) = payload_core e"
| "payload_core (TSlice n e) = payload_core e"
| "payload_core (TArray n k e) = payload_core e"
| "payload_core t = t"

definition validatePayloadType :: "gtype \<Rightarrow> decl_violation list" where
  "validatePayloadType t =
     (let u = payload_core t
      in (if type_kind u = KInterface then [InterfacePayload t] else []) @
         (if type_kind u = KStruct \<and> struct_name u = [] then [AnonymousPayload] else []))"

definition two_xx :: "int \<Rightarrow> decl_violation list" where
  "two_xx status = (if status < 200 \<or> status > 299 then [SuccessStatus status] else [])"

definition validateSuccessMode :: "SuccessMode \<Rightarrow> gtype \<Rightarrow> decl_violation list" where
  "validateSuccessMode mode resType =
     (if sm_mode mode = modeUnset then [SuccessModeRequired]
      else (case sm_mode mode of
              modeRedirect \<Rightarrow>
                (if \<not> isRedirectStatus (sm_status mode) then [RedirectStatus (sm_status mode)] else []) @
                (if resType \<noteq> noBodyType then [RedirectPayload resType] else [])
            | modeMessage \<Rightarrow> two_xx (sm_status mode) @ (if resType \<noteq> noBodyType then [MessagePayload resType] else [])
            | modePage \<Rightarrow> two_xx (sm_status mode) @
                (if type_kind resType \<noteq> KSlice then [PageNotSlice resType] else validatePayloadType resType)
            | modeEnveloped \<Rightarrow> two_xx (sm_status mode) @ validatePayloadType resType
            | modeUnset \<Rightarrow> []) @
           (if rawStatusForbidsBody (sm_status mode) \<and> sm_mode mode \<noteq> modeMessage
            then [BodyOnNoContent (sm_status mode) (sm_mode mode)] else []))"


subsection \<open>Raw documents\<close>

text \<open>
  The environment of a build: the request environment, \<open>mime.ParseMediaType\<close>, the encoders of the
  writer, the route parameters of a request, and what the router panics with on a pattern.
\<close>

record ('c, 't) build_env = compile_env +
  ParseMediaType :: "string \<Rightarrow> string option"
  enc_value :: "gval \<Rightarrow> json"
  enc_time :: "'t \<Rightarrow> json"
  url_params :: "'c \<Rightarrow> (string \<times> string) list"
  chi_endpoint :: "string \<Rightarrow> string option"
  chi_mount :: "string \<Rightarrow> string option"

definition validateRawMediaType :: "('c, 't) build_env \<Rightarrow> string \<Rightarrow> bool" where
  "validateRawMediaType env val \<longleftrightarrow>
     trim_space val = val \<and>
     (case ParseMediaType env val of None \<Rightarrow> False | Some mediaType \<Rightarrow> CHR ''/'' \<in> set mediaType)"

definition body_claims :: "bool \<Rightarrow> bool \<Rightarrow> bool \<Rightarrow> 'v \<Rightarrow> 'v \<Rightarrow> 'v \<Rightarrow> 'v list" where
  "body_claims forbidden hasType noBody onForbidden onBoth onNeither =
     (if forbidden \<and> hasType then [onForbidden]
      else if forbidden \<and> \<not> noBody then []
      else if noBody \<and> hasType then [onBoth]
      else if \<not> noBody \<and> \<not> hasType then [onNeither]
      else [])"

definition param_key :: "DocParam \<Rightarrow> string \<times> string" where
  "param_key p = (dp_In p, if dp_In p = srcHeader then to_lower (dp_Name p) else dp_Name p)"

definition validate_param :: "bind_env \<Rightarrow> nat \<Rightarrow> (string \<times> string) list \<Rightarrow> DocParam \<Rightarrow> decl_violation list" where
  "validate_param env i seen p =
     (if trim_space (dp_Name p) = [] then [ParamName i] else []) @
     (if dp_In p \<notin> {srcPath, srcQuery, srcHeader, srcCookie} then [ParamIn i (dp_In p)] else []) @
     (if param_key p \<in> set seen then [ParamDuplicate i] else []) @
     (case dp_Type p of
        None \<Rightarrow> [ParamNoType i]
      | Some t \<Rightarrow> (case compileSetter env t of None \<Rightarrow> [ParamType i t] | Some _ \<Rightarrow> [])) @
     (if dp_In p = srcPath \<and> \<not> dp_Required p then [ParamOptionalPath i] else [])"

fun validate_params :: "bind_env \<Rightarrow> nat \<Rightarrow> (string \<times> string) list \<Rightarrow> DocParam list \<Rightarrow> decl_violation list" where
  "validate_params env i seen [] = []"
| "validate_params env i seen (p # ps) = validate_param env i seen p @ validate_params env (Suc i) (param_key p # seen) ps"

definition validateRawParams :: "bind_env \<Rightarrow> DocParam list \<Rightarrow> string \<Rightarrow> decl_violation list" where
  "validateRawParams env params path =
     (let pathParams = map dp_Name (filter (\<lambda>p. dp_In p = srcPath) params); placeholders = pathPlaceholders path
      in validate_params env 0 [] params @
         map PlaceholderUndocumented (filter (\<lambda>n. n \<notin> set pathParams) placeholders) @
         map DocParamUnused (filter (\<lambda>n. n \<notin> set placeholders) (remdups pathParams)))"

fun validate_responses :: "nat \<Rightarrow> int list \<Rightarrow> RawResponse list \<Rightarrow> decl_violation list" where
  "validate_responses i seen [] = []"
| "validate_responses i seen (r # rs) =
     (if rr_Status r < 200 \<or> rr_Status r > 399 then [ExtraStatus i (rr_Status r)] else []) @
     (if rr_Status r \<in> set seen then [ExtraDuplicate i (rr_Status r)] else []) @
     (if trim_space (rr_Description r) = [] then [ExtraDescription i] else []) @
     body_claims (rawStatusForbidsBody (rr_Status r)) (rr_Type r \<noteq> None) (rr_NoBody r)
       (ExtraBodyForbidden i (rr_Status r)) (ExtraContradiction i) (ExtraNoType i) @
     validate_responses (Suc i) (rr_Status r # seen) rs"

definition validateRawDoc :: "('c, 't) build_env \<Rightarrow> RawDoc \<Rightarrow> string \<Rightarrow> string \<Rightarrow> decl_violation list" where
  "validateRawDoc env doc method path =
     (if rd_Status doc < 200 \<or> rd_Status doc > 399 then [RawStatus (rd_Status doc)] else []) @
     (if \<not> validateRawMediaType env (rd_Produces doc) then [RawMediaType (rd_Produces doc)] else []) @
     (if (method = ''GET'' \<or> method = ''HEAD'') \<and> rd_Request doc \<noteq> None then [RawRequestBody method] else []) @
     body_claims (rawStatusForbidsBody (rd_Status doc)) (rd_Response doc \<noteq> None) (rd_NoBody doc)
       (RawBodyForbidden (rd_Status doc)) RawBodyContradiction RawNoResponse @
     validateRawParams (bind_env.truncate env) (rd_Params doc) path @
     validate_responses 0 [rd_Status doc] (rd_Responses doc)"


subsection \<open>Operations and their handlers\<close>

record ('s, 'c) operationModel =
  om_method :: string
  om_path :: string
  om_raw :: bool
  om_id :: string
  om_summary :: string
  om_description :: string
  om_tags :: "string list"
  om_bodyDescription :: string
  om_successDescription :: string
  om_produces :: string
  om_response :: "writePlan option"
  om_problems :: "ProblemKind list"
  om_security :: RequirementSet
  om_guards :: "'c Guard list"
  om_routeGuards :: "'c Guard list"
  om_reqType :: "gtype option"
  om_resType :: "gtype option"
  om_reqPlan :: "requestPlan option"
  om_doc :: "RawDoc option"
  om_handler :: "('s, 'c) handler option"

definition op_label :: "string \<Rightarrow> string \<Rightarrow> string" where
  "op_label method path = method @ '' '' @ path"

definition compileProblemPlan :: "string \<Rightarrow> ProblemKind list \<Rightarrow> problemPlan" where
  "compileProblemPlan label problems = foldl allow (allow (newProblemPlan label) Internal) problems"

text \<open>Forward iteration with overwrite: the last value of a key wins.\<close>

definition chiParams :: "('c, 't) build_env \<Rightarrow> 'c http_request \<Rightarrow> string \<rightharpoonup> string" where
  "chiParams env r = map_of (rev (url_params env (rq_ctx r)))"

definition bound_handler ::
  "('c, 't) build_env \<Rightarrow> gtype \<Rightarrow> requestPlan \<Rightarrow> problemPlan \<Rightarrow> writePlan \<Rightarrow> ('s, 'c, 't) typed_handler \<Rightarrow> ('s, 'c) handler" where
  "bound_handler env reqType plan pp wp h r ws =
     (case ws of (w, s) \<Rightarrow>
        (case (if pl_noInput plan then Inr (zero_value reqType)
               else bind (bind_env.truncate env) plan r (chiParams env r) (zero_value reqType)) of
           Inl e \<Rightarrow> (dispatchAdapterError w (Some r) (Some e), s)
         | Inr req \<Rightarrow>
             (case h (rq_ctx r) req s of
                ((reply, err), s') \<Rightarrow>
                  (case err of
                     Some e \<Rightarrow> (dispatchError w (Some r) (Some e) (Some pp), s')
                   | None \<Rightarrow>
                       (case reply of
                          None \<Rightarrow> (nilReply w, s')
                        | Some rp \<Rightarrow> (commit (enc_value env) (enc_time env) (Some rp) w (Some r) wp, s'))))))"

definition response_validator :: "('c, 't) build_env \<Rightarrow> gtype \<Rightarrow> (gval \<Rightarrow> go_error option) option" where
  "response_validator env t =
     compileResponseValidator (requestCarriesValidation t) (validate_Struct env)
       (map_option (\<lambda>check v. check v (path_field [] ''data'')) (compileEnumValidator (enums env) t \<lparr>omitZero = False\<rparr>))"

definition prepare_typed ::
  "('c, 't) build_env \<Rightarrow> SuccessMode \<Rightarrow> string list \<Rightarrow> gtype \<Rightarrow> gtype \<Rightarrow> ('s, 'c, 't) typed_handler option
     \<Rightarrow> ('s, 'c) operationModel \<Rightarrow> decl_violation list \<times> ('s, 'c) operationModel" where
  "prepare_typed env success cookies reqType resType handler m =
     (let label = op_label (om_method m) (om_path m);
          tagged = (if sm_mode success = modeEnveloped \<or> sm_mode success = modePage
                    then map InvalidResponseTags (compileValidationTags env resType) else [])
      in case compileRequest env reqType (om_method m) of
           (plan, errs) \<Rightarrow>
             let crossed = (case plan of
                     None \<Rightarrow> []
                   | Some p \<Rightarrow> map PlaceholderMismatch (crossCheckPlaceholders (om_path m) (pl_pathParams p)));
                 violations = validateSuccessMode success resType @ (if handler = None then [NilHandler] else []) @
                   tagged @ map RequestShape errs @ crossed;
                 m1 = m\<lparr>om_reqType := Some reqType, om_resType := Some resType, om_reqPlan := plan\<rparr>
             in case (violations, plan, handler) of
                  ([], Some p, Some h) \<Rightarrow>
                    (let wp = withResponseValidation (compileWritePlan success label cookies) (response_validator env resType);
                         pp = compileProblemPlan label (om_problems m)
                     in ([], m1\<lparr>om_response := Some wp,
                            om_handler := Some (wrapRouteGuards (bound_handler env reqType p pp wp h) (om_routeGuards m))\<rparr>))
                | _ \<Rightarrow> (violations, m1))"

definition prepare_raw ::
  "('c, 't) build_env \<Rightarrow> RawDoc \<Rightarrow> ('s, 'c) handler option \<Rightarrow> ('s, 'c) operationModel
     \<Rightarrow> decl_violation list \<times> ('s, 'c) operationModel" where
  "prepare_raw env doc handler m =
     (let violations = (if handler = None then [NilHandler] else []) @ validateRawDoc env doc (om_method m) (om_path m);
          m1 = m\<lparr>om_doc := Some doc\<rparr>
      in case (violations, handler) of
           ([], Some h) \<Rightarrow> ([], m1\<lparr>om_handler := Some (wrapRouteGuards h (om_routeGuards m))\<rparr>)
         | _ \<Rightarrow> (violations, m1))"

definition run_prepare ::
  "('c, 't) build_env \<Rightarrow> ('s, 'c, 't) endpointDecl \<Rightarrow> ('s, 'c) operationModel
     \<Rightarrow> decl_violation list \<times> ('s, 'c) operationModel" where
  "run_prepare env ep m =
     (case ed_prepare ep of
        PrepareTyped req res h \<Rightarrow> prepare_typed env (ed_success ep) (ed_responseCookies ep) req res h m
      | PrepareRaw doc h \<Rightarrow> prepare_raw env doc h m)"

end
