(* ===== verification/Build.thy ===== *)
theory Build
  imports Declaration "HOL-Library.Product_Lexorder"
begin

text \<open>
  The declaration tree of \<^verbatim>\<open>internal/httpx/declaration.go\<close> and the two-pass compiler of
  \<^verbatim>\<open>internal/httpx/compile.go\<close>. Groups are mutable objects shared by reference (a group may be mounted
  at several places, even inside itself), so they live in a heap, a list indexed by pointers.
  The router library is the parameter \<open>bp_chi_panic\<close>, the documentation pass is \<open>bp_spec\<close>, and the
  text of a violation is \<open>bp_render\<close>; the router calls of the second pass are recorded as a tree.
\<close>

subsection \<open>Groups\<close>

record groupChild =
  gc_pattern :: string
  gc_node :: "nat option"

record ('s, 'c) infraDecl =
  id_method :: string
  id_path :: string
  id_handler :: "('s, 'c) handler option"

record ('s, 'c, 't) Group =
  g_defaults :: Defaults
  g_guards :: "'c Guard list"
  g_children :: "groupChild list"
  g_endpoints :: "('s, 'c, 't) endpointDecl list"
  g_infra :: "('s, 'c) infraDecl list"
  g_attached :: bool

type_synonym ('s, 'c, 't) group_heap = "('s, 'c, 't) Group list"

definition new_group :: "Defaults \<Rightarrow> bool \<Rightarrow> ('s, 'c, 't) Group" where
  "new_group d attached =
     \<lparr>g_defaults = d, g_guards = [], g_children = [], g_endpoints = [], g_infra = [], g_attached = attached\<rparr>"

definition update_group :: "nat \<Rightarrow> (('s, 'c, 't) Group \<Rightarrow> ('s, 'c, 't) Group) \<Rightarrow> ('s, 'c, 't) group_heap \<Rightarrow> ('s, 'c, 't) group_heap" where
  "update_group g f gs = gs[g := f (gs ! g)]"

definition NewGroup :: "Defaults \<Rightarrow> ('s, 'c, 't) group_heap \<Rightarrow> nat \<times> ('s, 'c, 't) group_heap" where
  "NewGroup d gs = (length gs, gs @ [new_group d False])"

definition Group_Guard :: "nat \<Rightarrow> 'c Guard list \<Rightarrow> ('s, 'c, 't) group_heap \<Rightarrow> ('s, 'c, 't) group_heap" where
  "Group_Guard g guards gs = update_group g (\<lambda>x. x\<lparr>g_guards := g_guards x @ guards\<rparr>) gs"

definition group_child :: "nat \<Rightarrow> string \<Rightarrow> Defaults \<Rightarrow> ('s, 'c, 't) group_heap \<Rightarrow> nat \<times> ('s, 'c, 't) group_heap" where
  "group_child g pattern d gs =
     (let c = length gs
      in (c, update_group g (\<lambda>x. x\<lparr>g_children := g_children x @ [\<lparr>gc_pattern = pattern, gc_node = Some c\<rparr>]\<rparr>)
               (gs @ [new_group d True])))"

definition Sub :: "nat \<Rightarrow> string \<Rightarrow> ('s, 'c, 't) group_heap \<Rightarrow> nat \<times> ('s, 'c, 't) group_heap" where
  "Sub g pattern gs = group_child g pattern (g_defaults (gs ! g)) gs"

definition SubWith :: "nat \<Rightarrow> string \<Rightarrow> Defaults \<Rightarrow> ('s, 'c, 't) group_heap \<Rightarrow> nat \<times> ('s, 'c, 't) group_heap" where
  "SubWith g pattern d gs = group_child g pattern d gs"

definition Mount :: "nat \<Rightarrow> string \<Rightarrow> nat option \<Rightarrow> ('s, 'c, 't) group_heap \<Rightarrow> ('s, 'c, 't) group_heap" where
  "Mount g pattern child gs =
     update_group g (\<lambda>x. x\<lparr>g_children := g_children x @ [\<lparr>gc_pattern = pattern, gc_node = child\<rparr>]\<rparr>)
       (case child of None \<Rightarrow> gs | Some c \<Rightarrow> update_group c (\<lambda>x. x\<lparr>g_attached := True\<rparr>) gs)"

definition HandleInfra :: "nat \<Rightarrow> string \<Rightarrow> string \<Rightarrow> ('s, 'c) handler option \<Rightarrow> ('s, 'c, 't) group_heap \<Rightarrow> ('s, 'c, 't) group_heap" where
  "HandleInfra g method path h gs =
     update_group g (\<lambda>x. x\<lparr>g_infra := g_infra x @ [\<lparr>id_method = method, id_path = path, id_handler = h\<rparr>]\<rparr>) gs"

definition Register :: "nat \<Rightarrow> gtype \<Rightarrow> gtype \<Rightarrow> ('s, 'c, 't) Operation \<Rightarrow> ('s, 'c, 't) group_heap \<Rightarrow> ('s, 'c, 't) group_heap" where
  "Register g req res op gs = update_group g (\<lambda>x. x\<lparr>g_endpoints := g_endpoints x @ [typed_decl req res op]\<rparr>) gs"

definition RegisterRaw :: "nat \<Rightarrow> ('s, 'c) RawOperation \<Rightarrow> ('s, 'c, 't) group_heap \<Rightarrow> ('s, 'c, 't) group_heap" where
  "RegisterRaw g op gs = update_group g (\<lambda>x. x\<lparr>g_endpoints := g_endpoints x @ [raw_decl op]\<rparr>) gs"


subsection \<open>Violations and compiler state\<close>

datatype build_violation =
    NilMountedGroup string
  | MountCycle string
  | ZeroGroupGuard string
  | ChildPatternSlash string string
  | ChildPatternInvalid string string string
  | DuplicateSiblingMount string string
  | OverlappingSiblingMounts string string string
  | RouteBelowMount string string bool string
  | UnsupportedMethod string string
  | PatternSlash string string
  | PatternInvalid string string
  | ZeroRouteGuard string
  | UnknownProblem string
  | ProblemStatus string string int
  | DuplicateProblem string string
  | SecurityViolation requirement_error
  | CookieName string string
  | DuplicateCookie string string
  | DeclViolation string decl_violation
  | InfraNilHandler string
  | DuplicateOperationID string string string
  | DuplicateRegistration string string string string
  | SpecViolation string
  | MaterializationFailed string

record ('s, 'c) compiler =
  cp_ops :: "('s, 'c) operationModel list"
  cp_violations :: "build_violation list"
  cp_seen :: "(string \<times> string) list"
  cp_opIDs :: "(string \<times> string) list"

definition complain :: "build_violation list \<Rightarrow> ('s, 'c) compiler \<Rightarrow> ('s, 'c) compiler" where
  "complain vs c = c\<lparr>cp_violations := cp_violations c @ vs\<rparr>"

record ('s, 'c) matEndpoint =
  me_method :: string
  me_path :: string
  me_handler :: "('s, 'c) handler"

datatype ('s, 'c) matNode = MatNode
  (mn_guards: "'c Guard list")
  (mn_endpoints: "('s, 'c) matEndpoint list")
  (mn_children: "(string \<times> ('s, 'c) matNode) list")

definition httpMethods :: "string list" where
  "httpMethods = [''GET'', ''POST'', ''PUT'', ''PATCH'', ''DELETE'', ''HEAD'', ''OPTIONS'']"


subsection \<open>One endpoint\<close>

definition claimRoute :: "string \<Rightarrow> string \<Rightarrow> string \<Rightarrow> ('s, 'c) compiler \<Rightarrow> ('s, 'c) compiler" where
  "claimRoute method fullPath label c =
     (let key = op_label method (normalizePath fullPath)
      in case map_of (cp_seen c) key of
           Some first \<Rightarrow> complain [DuplicateRegistration label method first key] c
         | None \<Rightarrow> c\<lparr>cp_seen := (key, fullPath) # cp_seen c\<rparr>)"

definition pattern_check :: "('c, 't) build_env \<Rightarrow> string \<Rightarrow> string \<Rightarrow> string \<Rightarrow> string \<Rightarrow> build_violation list" where
  "pattern_check env label method path fullPath =
     (if method \<notin> set httpMethods then [UnsupportedMethod label method] else []) @
     (if \<not> has_prefix path ''/'' then [PatternSlash label path]
      else case chi_endpoint env fullPath of Some err \<Rightarrow> [PatternInvalid label err] | None \<Rightarrow> [])"

fun problem_check :: "string \<Rightarrow> problemKindID list \<Rightarrow> ProblemKind list \<Rightarrow> build_violation list" where
  "problem_check label seen [] = []"
| "problem_check label seen (p # ps) =
     (if \<not> pk_valid p then UnknownProblem label # problem_check label seen ps
      else (if pk_Status p < 400 \<or> pk_Status p > 599 then [ProblemStatus label (pk_Code p) (pk_Status p)] else []) @
           (if pk_id p \<in> set seen then [DuplicateProblem label (pk_Code p)] else []) @
           problem_check label (pk_id p # seen) ps)"

definition cookie_name_valid :: "string \<Rightarrow> bool" where
  "cookie_name_valid name \<longleftrightarrow> is_token name"

fun cookie_check :: "string \<Rightarrow> string list \<Rightarrow> string list \<Rightarrow> build_violation list" where
  "cookie_check label seen [] = []"
| "cookie_check label seen (n # ns) =
     (if \<not> cookie_name_valid n then CookieName label n # cookie_check label seen ns
      else if n \<in> set seen then DuplicateCookie label n # cookie_check label seen ns
      else cookie_check label (n # seen) ns)"

definition guard_check_list :: "string \<Rightarrow> 'c Guard list \<Rightarrow> build_violation list" where
  "guard_check_list label guards = map (\<lambda>_. ZeroRouteGuard label) (filter (\<lambda>g. \<not> guard_valid g) guards)"

definition initial_model ::
  "('s, 'c, 't) endpointDecl \<Rightarrow> string \<Rightarrow> 'c Guard list \<Rightarrow> Defaults \<Rightarrow> ('s, 'c) operationModel" where
  "initial_model ep fullPath chain d =
     (let routeGuards = filter guard_valid (ed_guards ep)
      in \<lparr>om_method = ed_method ep, om_path = fullPath, om_raw = ed_raw ep, om_id = ed_id ep, om_summary = ed_summary ep,
          om_description = ed_description ep, om_tags = (if ed_tags ep = [] then df_Tags d else ed_tags ep),
          om_bodyDescription = ed_bodyDescription ep,
          om_successDescription = (if ed_successDescription ep = [] then ''Success'' else ed_successDescription ep),
          om_produces = ''application/json'', om_response = None, om_problems = ed_problems ep,
          om_security = cloneRequirementSet (ed_security ep), om_guards = chain @ routeGuards, om_routeGuards = routeGuards,
          om_reqType = None, om_resType = None, om_reqPlan = None, om_doc = None, om_handler = None\<rparr>)"

definition claimID :: "string \<Rightarrow> string \<Rightarrow> ('s, 'c) compiler \<Rightarrow> ('s, 'c) compiler" where
  "claimID label i c =
     (case map_of (cp_opIDs c) i of
        Some first \<Rightarrow> complain [DuplicateOperationID label i first] c
      | None \<Rightarrow> c\<lparr>cp_opIDs := (i, label) # cp_opIDs c\<rparr>)"

definition endpoint ::
  "('c, 't) build_env \<Rightarrow> ('s, 'c, 't) endpointDecl \<Rightarrow> string \<Rightarrow> 'c Guard list \<Rightarrow> Defaults \<Rightarrow> ('s, 'c) compiler
     \<Rightarrow> ('s, 'c) operationModel option \<times> ('s, 'c) compiler" where
  "endpoint env ep pre chain d c =
     (let fullPath = joinPattern pre (ed_path ep);
          label = op_label (ed_method ep) fullPath;
          c1 = complain
            (pattern_check env label (ed_method ep) (ed_path ep) fullPath @
             guard_check_list label (ed_guards ep) @
             problem_check label [] (ed_problems ep) @
             (case validateRequirementSet label (ed_security ep) of Some e \<Rightarrow> [SecurityViolation e] | None \<Rightarrow> []) @
             cookie_check label [] (ed_responseCookies ep)) c
      in case run_prepare env ep (initial_model ep fullPath chain d) of
           (vs, m) \<Rightarrow>
             let m' = (if om_id m = [] then m\<lparr>om_id := generateOperationID (om_method m) (om_path m)\<rparr> else m);
                 c2 = claimRoute (ed_method ep) fullPath label (claimID label (om_id m') (complain (map (DeclViolation label) vs) c1))
             in if length (cp_violations c2) > length (cp_violations c) \<or> om_handler m' = None then (None, c2)
                else (Some m', c2\<lparr>cp_ops := cp_ops c2 @ [m']\<rparr>))"

definition infrastructure ::
  "('c, 't) build_env \<Rightarrow> ('s, 'c) infraDecl \<Rightarrow> string \<Rightarrow> ('s, 'c) compiler
     \<Rightarrow> ('s, 'c) matEndpoint option \<times> ('s, 'c) compiler" where
  "infrastructure env decl pre c =
     (let fullPath = joinPattern pre (id_path decl);
          label = op_label (id_method decl) fullPath @ '' (infrastructure)'';
          c1 = complain (pattern_check env label (id_method decl) (id_path decl) fullPath @
                 (if id_handler decl = None then [InfraNilHandler label] else [])) c;
          c2 = claimRoute (id_method decl) fullPath label c1
      in if length (cp_violations c2) > length (cp_violations c) then (None, c2)
         else case id_handler decl of
           None \<Rightarrow> (None, c2)
         | Some h \<Rightarrow> (Some \<lparr>me_method = id_method decl, me_path = id_path decl, me_handler = h\<rparr>, c2))"


subsection \<open>Topology\<close>

record topologyMount =
  tm_pattern :: string
  tm_node :: "nat option"
  tm_owner :: int

record topologyRoute =
  tr_method :: string
  tr_path :: string
  tr_owner :: int
  tr_infrastructure :: bool

definition group_routes :: "('s, 'c, 't) Group \<Rightarrow> int \<Rightarrow> topologyRoute list" where
  "group_routes g owner =
     map (\<lambda>e. \<lparr>tr_method = ed_method e, tr_path = ed_path e, tr_owner = owner, tr_infrastructure = False\<rparr>) (g_endpoints g) @
     map (\<lambda>i. \<lparr>tr_method = id_method i, tr_path = id_path i, tr_owner = owner, tr_infrastructure = True\<rparr>) (g_infra g)"

definition child_mount :: "groupChild \<Rightarrow> int \<Rightarrow> topologyMount" where
  "child_mount c owner = \<lparr>tm_pattern = gc_pattern c, tm_node = gc_node c, tm_owner = owner\<rparr>"

lemma groups_left: "i < n \<Longrightarrow> i \<notin> A \<Longrightarrow> 0 < card ({..<n :: nat} - A)"
  by (auto simp: card_gt_0_iff)

lemma groups_left_pred:
  "\<not> n \<le> i \<Longrightarrow> i \<notin> A \<Longrightarrow> card ({..<n :: nat} - A) - Suc 0 < card ({..<n} - A)"
  using groups_left [of i n A] by simp

text \<open>The groups on the way from the root are in \<open>seen\<close>, so each level uses up a group of the heap.\<close>

function collectInlineTopologyClaims ::
  "('s, 'c, 't) group_heap \<Rightarrow> nat option \<Rightarrow> int \<Rightarrow> nat list \<Rightarrow> topologyRoute list \<times> topologyMount list" where
  "collectInlineTopologyClaims gs p owner seen =
     (case p of
        None \<Rightarrow> ([], [])
      | Some i \<Rightarrow>
          if i \<ge> length gs \<or> i \<in> set seen then ([], [])
          else let below = map (\<lambda>c. if gc_pattern c = [] then collectInlineTopologyClaims gs (gc_node c) owner (i # seen)
                                   else ([], [child_mount c owner])) (g_children (gs ! i))
               in (group_routes (gs ! i) owner @ concat (map fst below), concat (map snd below)))"
  by pat_completeness auto
termination
proof (relation "measure (\<lambda>(gs, p, owner, seen). card ({..<length gs} - set seen))")
qed (auto intro: groups_left_pred)

definition enumerate_from :: "int \<Rightarrow> 'a list \<Rightarrow> (int \<times> 'a) list" where
  "enumerate_from n xs = zip (map (\<lambda>i. n + int i) [0..<length xs]) xs"

definition collectTopologyClaims :: "('s, 'c, 't) group_heap \<Rightarrow> nat \<Rightarrow> topologyRoute list \<times> topologyMount list" where
  "collectTopologyClaims gs g =
     (let below = map (\<lambda>(owner, c). if gc_pattern c = [] then collectInlineTopologyClaims gs (gc_node c) owner [g]
                                   else ([], [child_mount c owner])) (enumerate_from 0 (g_children (gs ! g)))
      in (group_routes (gs ! g) (-1) @ concat (map fst below), concat (map snd below)))"

definition mountable :: "('c, 't) build_env \<Rightarrow> topologyMount \<Rightarrow> bool" where
  "mountable env m \<longleftrightarrow>
     tm_pattern m \<noteq> [] \<and> has_prefix (tm_pattern m) ''/'' \<and> tm_node m \<noteq> None \<and> chi_mount env (tm_pattern m) = None"

definition mount_conflicts ::
  "('c, 't) build_env \<Rightarrow> string \<Rightarrow> topologyMount list \<Rightarrow> topologyRoute list \<Rightarrow> topologyMount \<Rightarrow> build_violation list" where
  "mount_conflicts env pre earlier routes m =
     (if \<not> mountable env m then []
      else map (\<lambda>e. if normalizePath (tm_pattern e) = normalizePath (tm_pattern m)
                   then DuplicateSiblingMount (joinPattern pre (tm_pattern m)) (joinPattern pre (tm_pattern e))
                   else OverlappingSiblingMounts (prefixLabel pre) (tm_pattern e) (tm_pattern m))
             (filter (\<lambda>e. mountable env e \<and> mountPatternsOverlap (tm_pattern e) (tm_pattern m)) earlier) @
           map (\<lambda>r. RouteBelowMount (tr_method r) (joinPattern pre (tr_path r)) (tr_infrastructure r)
                     (joinPattern pre (tm_pattern m)))
             (filter (\<lambda>r. tr_owner r \<noteq> tm_owner m \<and> has_prefix (tr_path r) ''/'' \<and>
                mountContainsRoutePattern (tm_pattern m) (tr_path r)) routes))"

fun all_conflicts ::
  "('c, 't) build_env \<Rightarrow> string \<Rightarrow> topologyRoute list \<Rightarrow> topologyMount list \<Rightarrow> topologyMount list \<Rightarrow> (int \<times> build_violation list) list" where
  "all_conflicts env pre routes earlier [] = []"
| "all_conflicts env pre routes earlier (m # ms) =
     (tm_owner m, mount_conflicts env pre earlier routes m) # all_conflicts env pre routes (earlier @ [m]) ms"

definition validateChildTopology ::
  "('c, 't) build_env \<Rightarrow> ('s, 'c, 't) group_heap \<Rightarrow> nat \<Rightarrow> string \<Rightarrow> build_violation list \<times> bool list" where
  "validateChildTopology env gs g pre =
     (case collectTopologyClaims gs g of
        (routes, mounts) \<Rightarrow>
          let conflicts = all_conflicts env pre routes [] mounts
          in (concat (map snd conflicts),
              map (\<lambda>(i, c). gc_node c \<noteq> None \<and> list_all (\<lambda>(owner, vs). owner = i \<longrightarrow> vs = []) conflicts)
                (enumerate_from 0 (g_children (gs ! g)))))"


subsection \<open>The first pass\<close>

fun endpoints ::
  "('c, 't) build_env \<Rightarrow> ('s, 'c, 't) endpointDecl list \<Rightarrow> string \<Rightarrow> 'c Guard list \<Rightarrow> Defaults \<Rightarrow> ('s, 'c) compiler
     \<Rightarrow> ('s, 'c) matEndpoint list \<times> ('s, 'c) compiler" where
  "endpoints env [] pre chain d c = ([], c)"
| "endpoints env (ep # eps) pre chain d c =
     (case endpoint env ep pre chain d c of
        (m, c1) \<Rightarrow>
          (case endpoints env eps pre chain d c1 of
             (rest, c2) \<Rightarrow>
               ((case m of
                   Some m' \<Rightarrow> (case om_handler m' of
                       Some h \<Rightarrow> [\<lparr>me_method = ed_method ep, me_path = ed_path ep, me_handler = h\<rparr>]
                     | None \<Rightarrow> [])
                 | None \<Rightarrow> []) @ rest, c2)))"

fun infrastructures ::
  "('c, 't) build_env \<Rightarrow> ('s, 'c) infraDecl list \<Rightarrow> string \<Rightarrow> ('s, 'c) compiler
     \<Rightarrow> ('s, 'c) matEndpoint list \<times> ('s, 'c) compiler" where
  "infrastructures env [] pre c = ([], c)"
| "infrastructures env (i # is) pre c =
     (case infrastructure env i pre c of
        (e, c1) \<Rightarrow> (case infrastructures env is pre c1 of
           (rest, c2) \<Rightarrow> ((case e of Some e' \<Rightarrow> [e'] | None \<Rightarrow> []) @ rest, c2)))"

definition child_pattern_check :: "('c, 't) build_env \<Rightarrow> string \<Rightarrow> string \<Rightarrow> build_violation list" where
  "child_pattern_check env pre pattern =
     (if pattern \<noteq> [] \<and> \<not> has_prefix pattern ''/'' then [ChildPatternSlash (prefixLabel pre) pattern]
      else if pattern \<noteq> [] then
        (case chi_mount env pattern of Some err \<Rightarrow> [ChildPatternInvalid (prefixLabel pre) pattern err] | None \<Rightarrow> [])
      else [])"

text \<open>
  \<open>compiler.node\<close>; \<open>active\<close> holds the groups being compiled, \<open>nodes\<close> is the loop over the children. Each
  level of nesting uses up a group of the heap.
\<close>

function (sequential) node ::
    "('c, 't) build_env \<Rightarrow> ('s, 'c, 't) group_heap \<Rightarrow> nat option \<Rightarrow> string \<Rightarrow> 'c Guard list \<Rightarrow> nat list \<Rightarrow> ('s, 'c) compiler
       \<Rightarrow> ('s, 'c) matNode \<times> ('s, 'c) compiler"
  and nodes ::
    "('c, 't) build_env \<Rightarrow> ('s, 'c, 't) group_heap \<Rightarrow> (groupChild \<times> bool) list \<Rightarrow> string \<Rightarrow> 'c Guard list \<Rightarrow> nat list
       \<Rightarrow> ('s, 'c) compiler \<Rightarrow> (string \<times> ('s, 'c) matNode) list \<times> ('s, 'c) compiler" where
  "node env gs None pre chain active c = (MatNode [] [] [], complain [NilMountedGroup (prefixLabel pre)] c)"
| "node env gs (Some i) pre chain active c =
     (if i \<ge> length gs then (MatNode [] [] [], complain [NilMountedGroup (prefixLabel pre)] c)
      else if i \<in> set active then (MatNode [] [] [], complain [MountCycle (prefixLabel pre)] c)
      else
        (let g = gs ! i;
             good = filter guard_valid (g_guards g);
             chain' = chain @ good;
             c0 = complain (map (\<lambda>_. ZeroGroupGuard (prefixLabel pre)) (filter (\<lambda>x. \<not> guard_valid x) (g_guards g))) c
         in case endpoints env (g_endpoints g) pre chain' (g_defaults g) c0 of
              (eps, c1) \<Rightarrow>
                (case infrastructures env (g_infra g) pre c1 of
                   (infra, c2) \<Rightarrow>
                     (case validateChildTopology env gs i pre of
                        (conflicts, materializable) \<Rightarrow>
                          (case nodes env gs (zip (g_children g) materializable) pre chain' (i # active) (complain conflicts c2) of
                             (kids, c3) \<Rightarrow> (MatNode good (eps @ infra) kids, c3))))))"
| "nodes env gs [] pre chain active c = ([], c)"
| "nodes env gs ((link, keep) # links) pre chain active c =
     (let bad = child_pattern_check env pre (gc_pattern link);
          childPrefix = (if gc_pattern link \<noteq> [] then joinPattern pre (gc_pattern link) else pre)
      in case node env gs (gc_node link) childPrefix chain active (complain bad c) of
           (childNode, c1) \<Rightarrow>
             (case nodes env gs links pre chain active c1 of
                (rest, c2) \<Rightarrow> ((if keep \<and> bad = [] then [(gc_pattern link, childNode)] else []) @ rest, c2)))"
  by pat_completeness auto
termination
proof (relation "measures
    [\<lambda>x. case x of Inl (env, gs, p, pre, chain, active, c) \<Rightarrow> card ({..<length gs} - set active)
               | Inr (env, gs, links, pre, chain, active, c) \<Rightarrow> card ({..<length gs} - set active),
     \<lambda>x. case x of Inl _ \<Rightarrow> 0 | Inr (env, gs, links, pre, chain, active, c) \<Rightarrow> Suc (length links)]")
qed (auto intro: groups_left_pred)

declare collectInlineTopologyClaims.simps [simp del] node.simps [simp del] nodes.simps [simp del]


subsection \<open>The second pass\<close>

text \<open>The calls on the router, in order; a sub-router and an inline group hold the calls made on them.\<close>

datatype ('s, 'c) chi_call =
    ChiUse "'c Guard"
  | ChiMethod string string "('s, 'c) handler"
  | ChiGroup "('s, 'c) chi_call list"
  | ChiRoute string "('s, 'c) chi_call list"

fun materialize :: "('s, 'c) matNode \<Rightarrow> ('s, 'c) chi_call list" where
  "materialize (MatNode guards eps kids) =
     map ChiUse guards @ map (\<lambda>e. ChiMethod (me_method e) (me_path e) (me_handler e)) eps @
     map (\<lambda>(pattern, kid). if pattern = [] then ChiGroup (materialize kid) else ChiRoute pattern (materialize kid)) kids"

record ('s, 'c) Application =
  ap_router :: "('s, 'c) chi_call list"
  ap_ops :: "('s, 'c) operationModel list"

definition empty_compiler :: "('s, 'c) compiler" where
  "empty_compiler = \<lparr>cp_ops = [], cp_violations = [], cp_seen = [], cp_opIDs = []\<rparr>"

definition op_order :: "('s, 'c) operationModel \<Rightarrow> string \<times> string" where
  "op_order m = (om_method m, om_path m)"

record ('s, 'c) build_params =
  bp_spec :: "('s, 'c) operationModel list \<Rightarrow> string list"
  bp_render :: "build_violation \<Rightarrow> string"
  bp_chi_panic :: "('s, 'c) chi_call list \<Rightarrow> string option"

definition buildWithStableRegistries ::
  "('c, 't) build_env \<Rightarrow> ('s, 'c) build_params \<Rightarrow> ('s, 'c, 't) group_heap \<Rightarrow> nat
     \<Rightarrow> build_violation list + ('s, 'c) Application" where
  "buildWithStableRegistries env P gs g =
     (case node env gs (Some g) [] [] [] empty_compiler of
        (root, c) \<Rightarrow>
          let ops = sort_key op_order (cp_ops c);
              violations = cp_violations c @ (if cp_violations c = [] then map SpecViolation (bp_spec P ops) else [])
          in if violations \<noteq> [] then Inl (sort_key (bp_render P) violations)
             else case bp_chi_panic P (materialize root) of
               Some err \<Rightarrow> Inl [MaterializationFailed err]
             | None \<Rightarrow> Inr \<lparr>ap_router = materialize root, ap_ops = ops\<rparr>)"

text \<open>
  \<open>BuildWith\<close> compiles again while a registration came in during an attempt. \<open>before k\<close> and \<open>after k\<close>
  are the versions of the two registries around attempt \<open>k\<close>, \<open>attempt k\<close> is its result. The outer
  \<open>None\<close> is a loop that never ends, the inner one the error on an attached group.
\<close>

partial_function (option) build_attempts ::
  "(nat \<Rightarrow> nat \<times> nat) \<Rightarrow> (nat \<Rightarrow> nat \<times> nat) \<Rightarrow> (nat \<Rightarrow> 'r) \<Rightarrow> nat \<Rightarrow> 'r option" where
  "build_attempts before after attempt k =
     (if before k = after k then Some (attempt k) else build_attempts before after attempt (Suc k))"

definition BuildWith ::
  "(nat \<Rightarrow> nat \<times> nat) \<Rightarrow> (nat \<Rightarrow> nat \<times> nat) \<Rightarrow> (nat \<Rightarrow> ('c, 't) build_env) \<Rightarrow> ('s, 'c) build_params
     \<Rightarrow> ('s, 'c, 't) group_heap \<Rightarrow> nat \<Rightarrow> (build_violation list + ('s, 'c) Application) option option" where
  "BuildWith before after env P gs g =
     (if g_attached (gs ! g) then Some None
      else map_option Some (build_attempts before after (\<lambda>k. buildWithStableRegistries (env k) P gs g) 0))"

record OperationDescriptor =
  od_Method :: string
  od_Path :: string
  od_OperationID :: string
  od_Summary :: string
  od_Description :: string
  od_Tags :: "string list"
  od_Raw :: bool
  od_Status :: int
  od_Problems :: "ProblemKind list"
  od_Request :: "gtype option"
  od_Response :: "gtype option"
  od_GuardIDs :: "string list"

definition describe :: "('s, 'c) operationModel \<Rightarrow> OperationDescriptor" where
  "describe m =
     \<lparr>od_Method = om_method m, od_Path = om_path m, od_OperationID = om_id m, od_Summary = om_summary m,
      od_Description = om_description m, od_Tags = om_tags m, od_Raw = om_raw m,
      od_Status = (case (om_raw m, om_doc m) of
          (True, Some doc) \<Rightarrow> if rd_Status doc = 0 then 200 else rd_Status doc
        | _ \<Rightarrow> (case om_response m of Some wp \<Rightarrow> wp_status wp | None \<Rightarrow> 0)),
      od_Problems = om_problems m, od_Request = om_reqType m, od_Response = om_resType m,
      od_GuardIDs = map gd_id (om_guards m)\<rparr>"

definition Operations :: "('s, 'c) Application \<Rightarrow> OperationDescriptor list" where
  "Operations app = map describe (ap_ops app)"

end
