(* ===== verification/Build_Facts.thy ===== *)
theory Build_Facts
  imports Build "HOL-Library.Multiset"
begin

text \<open>
  What a build that succeeds guarantees. The invariants of the first pass are proved once for the
  recursion over the declaration tree, in the locale \<open>compiler_invariant\<close>, and interpreted for the
  catalog's identities and for the checks on each operation.
\<close>

subsection \<open>The recursion keeps what its steps keep\<close>

lemma snd_endpoints [simp]:
  "snd (endpoints env [] pre chain d c) = c"
  "snd (endpoints env (ep # eps) pre chain d c) = snd (endpoints env eps pre chain d (snd (endpoint env ep pre chain d c)))"
  by (simp_all add: case_prod_beta)

lemma snd_infrastructures [simp]:
  "snd (infrastructures env [] pre c) = c"
  "snd (infrastructures env (i # ds) pre c) = snd (infrastructures env ds pre (snd (infrastructure env i pre c)))"
  by (simp_all add: case_prod_beta)

text \<open>The compiler state in which the children of a group are compiled.\<close>

definition good_guards :: "('s, 'c, 't) Group \<Rightarrow> 'c Guard list" where
  "good_guards g = filter guard_valid (g_guards g)"

definition zero_guards :: "string \<Rightarrow> ('s, 'c, 't) Group \<Rightarrow> build_violation list" where
  "zero_guards pre g = map (\<lambda>_. ZeroGroupGuard (prefixLabel pre)) (filter (\<lambda>x. \<not> guard_valid x) (g_guards g))"

definition own_routes ::
  "('c, 't) build_env \<Rightarrow> ('s, 'c, 't) Group \<Rightarrow> string \<Rightarrow> 'c Guard list \<Rightarrow> ('s, 'c) compiler
     \<Rightarrow> ('s, 'c) matEndpoint list \<times> ('s, 'c) compiler" where
  "own_routes env g pre chain c =
     (case endpoints env (g_endpoints g) pre chain (g_defaults g) (complain (zero_guards pre g) c) of
        (eps, c1) \<Rightarrow> (case infrastructures env (g_infra g) pre c1 of (infra, c2) \<Rightarrow> (eps @ infra, c2)))"

lemma node_None [simp]:
  "node env gs None pre chain active c = (MatNode [] [] [], complain [NilMountedGroup (prefixLabel pre)] c)"
  by (simp add: node.simps)

lemma node_Some:
  "node env gs (Some i) pre chain active c =
     (if i \<ge> length gs then (MatNode [] [] [], complain [NilMountedGroup (prefixLabel pre)] c)
      else if i \<in> set active then (MatNode [] [] [], complain [MountCycle (prefixLabel pre)] c)
      else let g = gs ! i; chain' = chain @ good_guards g; own = own_routes env g pre chain' c;
               topo = validateChildTopology env gs i pre;
               below = nodes env gs (zip (g_children g) (snd topo)) pre chain' (i # active) (complain (fst topo) (snd own))
           in (MatNode (good_guards g) (fst own) (fst below), snd below))"
  by (simp add: node.simps good_guards_def zero_guards_def own_routes_def Let_def case_prod_beta)

lemma nodes_simps [simp]:
  "nodes env gs [] pre chain active c = ([], c)"
  by (simp add: nodes.simps)

definition child_prefix :: "string \<Rightarrow> groupChild \<Rightarrow> string" where
  "child_prefix pre link = (if gc_pattern link \<noteq> [] then joinPattern pre (gc_pattern link) else pre)"

lemma nodes_Cons:
  "nodes env gs ((link, keep) # links) pre chain active c =
     (let bad = child_pattern_check env pre (gc_pattern link);
          kid = node env gs (gc_node link) (child_prefix pre link) chain active (complain bad c);
          rest = nodes env gs links pre chain active (snd kid)
      in ((if keep \<and> bad = [] then [(gc_pattern link, fst kid)] else []) @ fst rest, snd rest))"
  by (simp add: nodes.simps child_prefix_def Let_def case_prod_beta)

lemma guard_valid_good [simp]: "list_all guard_valid (good_guards g)"
  by (simp add: good_guards_def list_all_iff)

text \<open>The induction the proofs about the first pass use: one environment, one heap, no intermediate pairs.\<close>

lemma compile_induct:
  assumes no_group: "\<And>p pre chain active c. \<forall>i. p = Some i \<longrightarrow> length gs \<le> i \<or> i \<in> set active \<Longrightarrow> P p pre chain active c"
    and group: "\<And>i pre chain active c. i < length gs \<Longrightarrow> i \<notin> set active \<Longrightarrow>
        R (zip (g_children (gs ! i)) (snd (validateChildTopology env gs i pre))) pre (chain @ good_guards (gs ! i)) (i # active)
          (complain (fst (validateChildTopology env gs i pre)) (snd (own_routes env (gs ! i) pre (chain @ good_guards (gs ! i)) c)))
        \<Longrightarrow> P (Some i) pre chain active c"
    and no_child: "\<And>pre chain active c. R [] pre chain active c"
    and child: "\<And>link keep links pre chain active c.
        P (gc_node link) (child_prefix pre link) chain active (complain (child_pattern_check env pre (gc_pattern link)) c) \<Longrightarrow>
        R links pre chain active (snd (node env gs (gc_node link) (child_prefix pre link) chain active
          (complain (child_pattern_check env pre (gc_pattern link)) c))) \<Longrightarrow>
        R ((link, keep) # links) pre chain active c"
  shows "P p pre chain active c" and "R links pre chain active c"
proof -
  have "e = env \<Longrightarrow> hs = gs \<Longrightarrow> P p pre chain active c" "e = env \<Longrightarrow> hs = gs \<Longrightarrow> R links pre chain active c" for e hs
  proof (induction e hs p pre chain active c and e hs links pre chain active c rule: node_nodes.induct)
    case (1 e hs pre chain active c)
    then show ?case by (simp add: no_group)
  next
    case (2 e hs i pre chain active c)
    show ?case
    proof (cases "length gs \<le> i \<or> i \<in> set active")
      case True
      then show ?thesis by (auto intro: no_group)
    next
      case False
      then show ?thesis
        using "2.IH" [OF _ _ refl refl refl refl prod.collapse prod.collapse prod.collapse] "2.prems"
        by (intro group) (simp_all add: good_guards_def zero_guards_def own_routes_def case_prod_beta)
    qed
  next
    case (3 e hs pre chain active c)
    show ?case by (rule no_child)
  next
    case (4 e hs link keep links pre chain active c)
    then show ?case
      using "4.IH"(2) [OF refl refl prod.collapse] by (intro child) (simp_all add: child_prefix_def)
  qed
  then show "P p pre chain active c" and "R links pre chain active c" by blast+
qed

lemma node_no_group:
  "\<forall>i. p = Some i \<longrightarrow> length gs \<le> i \<or> i \<in> set active \<Longrightarrow>
     fst (node env gs p pre chain active c) = MatNode [] [] [] \<and>
     (\<exists>v. snd (node env gs p pre chain active c) = complain [v] c)"
  by (cases p) (auto simp: node_Some)

locale compiler_invariant =
  fixes env :: "('c, 't) build_env"
    and Q :: "('s, 'c) compiler \<Rightarrow> bool"
  assumes complain: "Q c \<Longrightarrow> Q (complain vs c)"
    and endpoint: "list_all guard_valid chain \<Longrightarrow> Q c \<Longrightarrow> Q (snd (endpoint env ep pre chain d c))"
    and infrastructure: "Q c \<Longrightarrow> Q (snd (infrastructure env decl pre c))"
begin

lemma endpoints_keep:
  "list_all guard_valid chain \<Longrightarrow> Q c \<Longrightarrow> Q (snd (endpoints env eps pre chain d c))"
  by (induction eps arbitrary: c) (auto intro: endpoint simp del: endpoints.simps)

lemma infrastructures_keep: "Q c \<Longrightarrow> Q (snd (infrastructures env ds pre c))"
  by (induction ds arbitrary: c) (auto intro: infrastructure simp del: infrastructures.simps)

lemma own_routes_keep: "list_all guard_valid chain \<Longrightarrow> Q c \<Longrightarrow> Q (snd (own_routes env g pre chain c))"
  unfolding own_routes_def case_prod_beta snd_conv
  by (intro infrastructures_keep endpoints_keep complain)

lemma node_keeps:
  "list_all guard_valid chain \<Longrightarrow> Q c \<Longrightarrow> Q (snd (node env gs p pre chain active c))"
  "list_all guard_valid chain \<Longrightarrow> Q c \<Longrightarrow> Q (snd (nodes env gs links pre chain active c))"
proof (induction p pre chain active c and links pre chain active c rule: compile_induct [where env = env and gs = gs])
  case (1 p pre chain active c)
  then show ?case using node_no_group [of p gs active env pre chain c] by (auto simp: complain)
next
  case (2 i pre chain active c)
  then show ?case by (auto simp: node_Some Let_def complain own_routes_keep)
qed (simp_all add: nodes_Cons Let_def complain)

end


subsection \<open>What the checks of an endpoint establish\<close>

lemma problem_check_Nil:
  "problem_check label seen ps = [] \<longleftrightarrow>
     (\<forall>p\<in>set ps. pk_valid p \<and> 400 \<le> pk_Status p \<and> pk_Status p \<le> 599) \<and>
     distinct (map pk_id ps) \<and> set seen \<inter> pk_id ` set ps = {}"
  by (induction ps arbitrary: seen) auto

lemma cookie_check_Nil:
  "cookie_check label seen ns = [] \<longleftrightarrow> list_all cookie_name_valid ns \<and> distinct ns \<and> set seen \<inter> set ns = {}"
  by (induction ns arbitrary: seen) auto

lemma guard_check_list_Nil: "guard_check_list label gs = [] \<longleftrightarrow> list_all guard_valid gs"
  by (auto simp: guard_check_list_def filter_empty_conv list_all_iff)

lemma pattern_check_Nil:
  "pattern_check env label verb path full = [] \<longleftrightarrow> verb \<in> set httpMethods \<and> has_prefix path ''/'' \<and> chi_endpoint env full = None"
  by (auto simp: pattern_check_def split: option.splits)

lemma run_prepare_keeps:
  assumes "run_prepare env ep m = (vs, m')"
  shows "om_method m' = om_method m" "om_path m' = om_path m" "om_id m' = om_id m" "om_guards m' = om_guards m"
    "om_routeGuards m' = om_routeGuards m" "om_problems m' = om_problems m" "om_security m' = om_security m"
  using assms
  by (auto simp: run_prepare_def prepare_typed_def prepare_raw_def Let_def
      split: prepare.splits prod.splits list.splits option.splits)

text \<open>
  An operation of a catalog. A typed operation's handler is its bound handler behind the route's guards,
  and its path parameters are the placeholders of its path; a raw operation documents what it serves.
\<close>

definition typed_ok :: "('c, 't) build_env \<Rightarrow> ('s, 'c) operationModel \<Rightarrow> bool" where
  "typed_ok env m \<longleftrightarrow>
     (case (om_reqType m, om_reqPlan m) of
        (Some t, Some plan) \<Rightarrow>
          compileRequest env t (om_method m) = (Some plan, []) \<and> set (pathPlaceholders (om_path m)) = set (pl_pathParams plan)
      | _ \<Rightarrow> False)"

definition raw_ok :: "('c, 't) build_env \<Rightarrow> ('s, 'c) operationModel \<Rightarrow> bool" where
  "raw_ok env m \<longleftrightarrow>
     (case om_doc m of Some doc \<Rightarrow> validateRawDoc env doc (om_method m) (om_path m) = [] | None \<Rightarrow> False)"

definition operation_ok :: "('c, 't) build_env \<Rightarrow> ('s, 'c) operationModel \<Rightarrow> bool" where
  "operation_ok env m \<longleftrightarrow>
     om_method m \<in> set httpMethods \<and> chi_endpoint env (om_path m) = None \<and> om_handler m \<noteq> None \<and>
     list_all guard_valid (om_guards m) \<and>
     list_all (\<lambda>p. pk_valid p \<and> 400 \<le> pk_Status p \<and> pk_Status p \<le> 599) (om_problems m) \<and>
     distinct (map pk_id (om_problems m)) \<and> (typed_ok env m \<or> raw_ok env m)"

lemma operation_id_irrelevant [simp]:
  "typed_ok env (m\<lparr>om_id := i\<rparr>) = typed_ok env m" "raw_ok env (m\<lparr>om_id := i\<rparr>) = raw_ok env m"
  by (simp_all add: typed_ok_def raw_ok_def split: option.splits)

lemma run_prepare_ok:
  assumes "run_prepare env ep m = ([], m')" and "om_handler m = None" and "om_handler m' \<noteq> None"
  shows "typed_ok env m' \<or> raw_ok env m'"
  using assms
  by (auto simp: run_prepare_def prepare_typed_def prepare_raw_def typed_ok_def raw_ok_def Let_def crossCheckPlaceholders_Nil
      split: prepare.splits prod.splits list.splits option.splits)

subsection \<open>One endpoint, one infrastructure route\<close>

lemma complain_simps [simp]:
  "cp_ops (complain vs c) = cp_ops c" "cp_seen (complain vs c) = cp_seen c" "cp_opIDs (complain vs c) = cp_opIDs c"
  "cp_violations (complain vs c) = cp_violations c @ vs"
  by (simp_all add: complain_def)

lemma complain_Nil [simp]: "complain [] c = c"
  by (simp add: complain_def)

lemma claimID_simps [simp]:
  "cp_ops (claimID label i c) = cp_ops c" "cp_seen (claimID label i c) = cp_seen c"
  "cp_opIDs (claimID label i c) = (if map_of (cp_opIDs c) i = None then (i, label) # cp_opIDs c else cp_opIDs c)"
  "cp_violations (claimID label i c) =
     cp_violations c @ (case map_of (cp_opIDs c) i of Some first \<Rightarrow> [DuplicateOperationID label i first] | None \<Rightarrow> [])"
  by (auto simp: claimID_def split: option.splits)

definition route_key :: "string \<Rightarrow> string \<Rightarrow> string" where
  "route_key verb path = op_label verb (normalizePath path)"

lemma claimRoute_simps [simp]:
  "cp_ops (claimRoute verb full label c) = cp_ops c" "cp_opIDs (claimRoute verb full label c) = cp_opIDs c"
  "cp_seen (claimRoute verb full label c) =
     (if map_of (cp_seen c) (route_key verb full) = None then (route_key verb full, full) # cp_seen c else cp_seen c)"
  "cp_violations (claimRoute verb full label c) =
     cp_violations c @ (case map_of (cp_seen c) (route_key verb full) of
        Some first \<Rightarrow> [DuplicateRegistration label verb first (route_key verb full)] | None \<Rightarrow> [])"
  by (auto simp: claimRoute_def route_key_def Let_def split: option.splits)

lemma endpoint_None:
  assumes "endpoint env ep pre chain d c = (None, c')"
  shows "cp_ops c' = cp_ops c" "fst ` set (cp_opIDs c) \<subseteq> fst ` set (cp_opIDs c')"
    "fst ` set (cp_seen c) \<subseteq> fst ` set (cp_seen c')"
  using assms by (auto simp: endpoint_def Let_def split: prod.splits if_splits)

lemma endpoint_violations: "\<exists>vs. cp_violations (snd (endpoint env ep pre chain d c)) = cp_violations c @ vs"
  by (auto simp: endpoint_def Let_def split: prod.splits)

lemma endpoint_accepted:
  assumes "endpoint env ep pre chain d c = (Some m, c')" and full: "full = joinPattern pre (ed_path ep)"
  obtains m1 label where "run_prepare env ep (initial_model ep full chain d) = ([], m1)" "m = m1\<lparr>om_id := om_id m\<rparr>"
    "om_handler m1 \<noteq> None" "map_of (cp_opIDs c) (om_id m) = None" "map_of (cp_seen c) (route_key (ed_method ep) full) = None"
    "pattern_check env label (ed_method ep) (ed_path ep) full = []" "problem_check label [] (ed_problems ep) = []"
    "c' = c\<lparr>cp_seen := (route_key (ed_method ep) full, full) # cp_seen c, cp_opIDs := (om_id m, label) # cp_opIDs c,
            cp_ops := cp_ops c @ [m]\<rparr>"
proof -
  define label where "label = op_label (ed_method ep) full"
  obtain vs m1 where prep: "run_prepare env ep (initial_model ep full chain d) = (vs, m1)" by fastforce
  define i where "i = (if om_id m1 = [] then generateOperationID (om_method m1) (om_path m1) else om_id m1)"
  define early where "early =
     pattern_check env label (ed_method ep) (ed_path ep) full @ guard_check_list label (ed_guards ep) @
     problem_check label [] (ed_problems ep) @
     (case validateRequirementSet label (ed_security ep) of Some e \<Rightarrow> [SecurityViolation e] | None \<Rightarrow> []) @
     cookie_check label [] (ed_responseCookies ep)"
  define c2 where "c2 = claimRoute (ed_method ep) full label (claimID label i (complain (map (DeclViolation label) vs) (complain early c)))"
  have id: "(if om_id m1 = [] then m1\<lparr>om_id := generateOperationID (om_method m1) (om_path m1)\<rparr> else m1) = m1\<lparr>om_id := i\<rparr>"
    by (simp add: i_def)
  have "endpoint env ep pre chain d c =
      (if length (cp_violations c2) > length (cp_violations c) \<or> om_handler (m1\<lparr>om_id := i\<rparr>) = None then (None, c2)
       else (Some (m1\<lparr>om_id := i\<rparr>), c2\<lparr>cp_ops := cp_ops c2 @ [m1\<lparr>om_id := i\<rparr>]\<rparr>))"
    unfolding endpoint_def Let_def full [symmetric] label_def [symmetric] early_def [symmetric] prep prod.case id
    by (simp add: c2_def)
  with assms have "cp_violations c2 = cp_violations c @ []" and m: "m = m1\<lparr>om_id := i\<rparr>" and h: "om_handler m1 \<noteq> None"
    and c2: "c' = c2\<lparr>cp_ops := cp_ops c2 @ [m]\<rparr>"
    by (simp_all add: c2_def split: if_splits option.splits)
  then have early: "early = []" and vs: "vs = []"
    and ids: "map_of (cp_opIDs c) i = None" and seen: "map_of (cp_seen c) (route_key (ed_method ep) full) = None"
    unfolding c2_def by (simp_all split: option.splits)
  have pat: "pattern_check env label (ed_method ep) (ed_path ep) full = []" and probs: "problem_check label [] (ed_problems ep) = []"
    using early by (simp_all add: early_def)
  have c': "c' = c\<lparr>cp_seen := (route_key (ed_method ep) full, full) # cp_seen c, cp_opIDs := (i, label) # cp_opIDs c,
                    cp_ops := cp_ops c @ [m]\<rparr>"
    using ids seen by (simp add: c2 c2_def early vs claimRoute_def claimID_def route_key_def)
  from m have "m = m1\<lparr>om_id := om_id m\<rparr>" "om_id m = i" by simp_all
  with that [of m1 label] prep h ids seen pat probs c' vs show thesis by simp
qed

lemma endpoint_Some:
  assumes "endpoint env ep pre chain d c = (Some m, c')"
  shows "cp_ops c' = cp_ops c @ [m]" "cp_violations c' = cp_violations c"
    "map_of (cp_opIDs c) (om_id m) = None" "fst ` set (cp_opIDs c') = insert (om_id m) (fst ` set (cp_opIDs c))"
    "map_of (cp_seen c) (route_key (om_method m) (om_path m)) = None"
    "fst ` set (cp_seen c') = insert (route_key (om_method m) (om_path m)) (fst ` set (cp_seen c))"
    "om_method m = ed_method ep" "om_path m = joinPattern pre (ed_path ep)"
    "om_guards m = chain @ om_routeGuards m" "om_handler m \<noteq> None"
    "list_all guard_valid chain \<Longrightarrow> operation_ok env m"
proof -
  define full where "full = joinPattern pre (ed_path ep)"
  obtain m1 label where prep: "run_prepare env ep (initial_model ep full chain d) = ([], m1)" and m: "m = m1\<lparr>om_id := om_id m\<rparr>"
    and h: "om_handler m1 \<noteq> None" and ids: "map_of (cp_opIDs c) (om_id m) = None"
    and seen: "map_of (cp_seen c) (route_key (ed_method ep) full) = None"
    and checks: "pattern_check env label (ed_method ep) (ed_path ep) full = []" "problem_check label [] (ed_problems ep) = []"
    and c': "c' = c\<lparr>cp_seen := (route_key (ed_method ep) full, full) # cp_seen c, cp_opIDs := (om_id m, label) # cp_opIDs c,
            cp_ops := cp_ops c @ [m]\<rparr>"
    using endpoint_accepted [OF assms full_def] by metis
  note keeps = run_prepare_keeps [OF prep]
  have m0: "om_handler (initial_model ep full chain d) = None" by (simp add: initial_model_def Let_def)
  have model: "om_method m = ed_method ep" "om_path m = full" "om_routeGuards m = filter guard_valid (ed_guards ep)"
      "om_guards m = chain @ filter guard_valid (ed_guards ep)" "om_problems m = ed_problems ep" "om_handler m = om_handler m1"
    by (subst m; simp add: keeps; simp add: initial_model_def Let_def)+
  show "cp_ops c' = cp_ops c @ [m]" "cp_violations c' = cp_violations c" by (simp_all add: c')
  show "om_method m = ed_method ep" "om_path m = joinPattern pre (ed_path ep)"
    "om_guards m = chain @ om_routeGuards m" "om_handler m \<noteq> None"
    using h by (simp_all add: model full_def)
  show "map_of (cp_opIDs c) (om_id m) = None" "fst ` set (cp_opIDs c') = insert (om_id m) (fst ` set (cp_opIDs c))"
    using ids by (simp_all add: c')
  show "map_of (cp_seen c) (route_key (om_method m) (om_path m)) = None"
    "fst ` set (cp_seen c') = insert (route_key (om_method m) (om_path m)) (fst ` set (cp_seen c))"
    using seen by (simp_all add: c' model)
  assume chain: "list_all guard_valid chain"
  have "typed_ok env m \<or> raw_ok env m"
    using run_prepare_ok [OF prep m0 h] by (subst (1 2) m) simp
  then show "operation_ok env m"
    using h checks chain by (auto simp: operation_ok_def model pattern_check_Nil problem_check_Nil list_all_iff)
qed

lemma infrastructure_keeps:
  "cp_ops (snd (infrastructure env decl pre c)) = cp_ops c"
  "cp_opIDs (snd (infrastructure env decl pre c)) = cp_opIDs c"
  "fst ` set (cp_seen c) \<subseteq> fst ` set (cp_seen (snd (infrastructure env decl pre c)))"
  "\<exists>vs. cp_violations (snd (infrastructure env decl pre c)) = cp_violations c @ vs"
  by (auto simp: infrastructure_def Let_def split: option.splits)


subsection \<open>The invariants of the first pass\<close>

text \<open>
  \<open>registered\<close>: no two operations share an identity or a route, and every one of them has claimed its
  own; \<open>all_operations_ok\<close>: each has passed its checks; \<open>has_complaint\<close>: a violation is never taken back.
\<close>

definition op_key :: "('s, 'c) operationModel \<Rightarrow> string" where
  "op_key m = route_key (om_method m) (om_path m)"

definition registered :: "('s, 'c) compiler \<Rightarrow> bool" where
  "registered c \<longleftrightarrow>
     distinct (map om_id (cp_ops c)) \<and> om_id ` set (cp_ops c) \<subseteq> fst ` set (cp_opIDs c) \<and>
     distinct (map op_key (cp_ops c)) \<and> op_key ` set (cp_ops c) \<subseteq> fst ` set (cp_seen c)"

definition all_operations_ok :: "('c, 't) build_env \<Rightarrow> ('s, 'c) compiler \<Rightarrow> bool" where
  "all_operations_ok env c \<longleftrightarrow> list_all (operation_ok env) (cp_ops c)"

definition has_complaint :: "('s, 'c) compiler \<Rightarrow> bool" where
  "has_complaint c \<longleftrightarrow> cp_violations c \<noteq> []"

lemma registered_mono:
  "registered c \<Longrightarrow> cp_ops c' = cp_ops c \<Longrightarrow> fst ` set (cp_opIDs c) \<subseteq> fst ` set (cp_opIDs c') \<Longrightarrow>
     fst ` set (cp_seen c) \<subseteq> fst ` set (cp_seen c') \<Longrightarrow> registered c'"
  unfolding registered_def by (elim conjE, intro conjI; simp only:)

lemma registered_endpoint: "registered c \<Longrightarrow> registered (snd (endpoint env ep pre chain d c))"
proof (cases "endpoint env ep pre chain d c")
  case (Pair r c')
  assume c: "registered c"
  show ?thesis
  proof (cases r)
    case None
    with registered_mono [OF c endpoint_None] Pair show ?thesis by simp
  next
    case (Some m)
    from endpoint_Some [OF Pair [unfolded Some]] c show ?thesis
      by (auto simp: registered_def Pair op_key_def map_of_eq_None_iff)
  qed
qed

lemma endpoint_result_cases:
  obtains (dropped) c' where "x = (None, c')" | (kept) m c' where "x = (Some m, c')"
  by (cases x; cases "fst x") auto

lemma all_operations_ok_endpoint:
  "list_all guard_valid chain \<Longrightarrow> all_operations_ok env c \<Longrightarrow> all_operations_ok env (snd (endpoint env ep pre chain d c))"
  by (cases "endpoint env ep pre chain d c" rule: endpoint_result_cases)
    (simp_all add: all_operations_ok_def endpoint_None(1) endpoint_Some(1,11))

lemma registered_infrastructure: "registered c \<Longrightarrow> registered (snd (infrastructure env decl pre c))"
  by (erule registered_mono) (simp_all only: infrastructure_keeps subset_refl)

lemma has_complaint_steps:
  "has_complaint c \<Longrightarrow> has_complaint (snd (endpoint env ep pre chain d c))"
  "has_complaint c \<Longrightarrow> has_complaint (snd (infrastructure env decl pre c))"
  using endpoint_violations [of env ep pre chain d c] infrastructure_keeps(4) [of env decl pre c]
  by (auto simp: has_complaint_def)

interpretation identities: compiler_invariant env registered for env
  by unfold_locales (auto simp: registered_endpoint registered_infrastructure, auto simp: registered_def)

interpretation checks: compiler_invariant env "all_operations_ok env" for env
  by unfold_locales (auto simp: all_operations_ok_endpoint, auto simp: all_operations_ok_def infrastructure_keeps)

interpretation complaints: compiler_invariant env has_complaint for env
  by unfold_locales (auto simp: has_complaint_steps, auto simp: has_complaint_def)


subsection \<open>The routes the router serves\<close>

text \<open>
  The routes of a list of router calls: middleware covers the routes and routers declared after it and
  everything below them, an inline group stays at its place, a sub-router is below its pattern.
\<close>

fun chi_routes :: "string \<Rightarrow> 'c Guard list \<Rightarrow> ('s, 'c) chi_call list \<Rightarrow> (string \<times> string \<times> 'c Guard list \<times> ('s, 'c) handler) list" where
  "chi_routes pre chain [] = []"
| "chi_routes pre chain (ChiUse g # cs) = chi_routes pre (chain @ [g]) cs"
| "chi_routes pre chain (ChiMethod verb path h # cs) = (verb, joinPattern pre path, chain, h) # chi_routes pre chain cs"
| "chi_routes pre chain (ChiGroup ds # cs) = chi_routes pre chain ds @ chi_routes pre chain cs"
| "chi_routes pre chain (ChiRoute pattern ds # cs) = chi_routes (joinPattern pre pattern) chain ds @ chi_routes pre chain cs"

definition endpoint_routes ::
  "string \<Rightarrow> 'c Guard list \<Rightarrow> ('s, 'c) matEndpoint list \<Rightarrow> (string \<times> string \<times> 'c Guard list \<times> ('s, 'c) handler) list" where
  "endpoint_routes pre chain eps = map (\<lambda>e. (me_method e, joinPattern pre (me_path e), chain, me_handler e)) eps"

definition node_routes ::
  "string \<Rightarrow> 'c Guard list \<Rightarrow> ('s, 'c) matNode \<Rightarrow> (string \<times> string \<times> 'c Guard list \<times> ('s, 'c) handler) list" where
  "node_routes pre chain n = chi_routes pre chain (materialize n)"

definition kid_routes ::
  "string \<Rightarrow> 'c Guard list \<Rightarrow> (string \<times> ('s, 'c) matNode) list \<Rightarrow> (string \<times> string \<times> 'c Guard list \<times> ('s, 'c) handler) list" where
  "kid_routes pre chain kids =
     concat (map (\<lambda>(pattern, kid). node_routes (if pattern \<noteq> [] then joinPattern pre pattern else pre) chain kid) kids)"

lemma chi_routes_append_use [simp]: "chi_routes pre chain (map ChiUse gs @ cs) = chi_routes pre (chain @ gs) cs"
  by (induction gs arbitrary: chain) simp_all

lemma chi_routes_append_endpoints [simp]:
  "chi_routes pre chain (map (\<lambda>e. ChiMethod (me_method e) (me_path e) (me_handler e)) eps @ cs) =
     endpoint_routes pre chain eps @ chi_routes pre chain cs"
  by (induction eps) (simp_all add: endpoint_routes_def)

lemma chi_routes_kids [simp]:
  "chi_routes pre chain (map (\<lambda>(pattern, kid). if pattern = [] then ChiGroup (materialize kid) else ChiRoute pattern (materialize kid)) kids) =
     kid_routes pre chain kids"
  by (induction kids) (auto simp: kid_routes_def node_routes_def)

lemma node_routes_MatNode [simp]:
  "node_routes pre chain (MatNode gs eps kids) = endpoint_routes pre (chain @ gs) eps @ kid_routes pre (chain @ gs) kids"
  by (simp add: node_routes_def)

lemma kid_routes_simps [simp]:
  "kid_routes pre chain [] = []"
  "kid_routes pre chain ((pattern, kid) # kids) =
     node_routes (if pattern \<noteq> [] then joinPattern pre pattern else pre) chain kid @ kid_routes pre chain kids"
  by (simp_all add: kid_routes_def)

lemma endpoint_routes_append [simp]:
  "endpoint_routes pre chain (xs @ ys) = endpoint_routes pre chain xs @ endpoint_routes pre chain ys"
  "endpoint_routes pre chain [] = []"
  by (simp_all add: endpoint_routes_def)

text \<open>The route of an operation: the guards of its groups are the router's, its own are part of its handler.\<close>

definition group_guards :: "('s, 'c) operationModel \<Rightarrow> 'c Guard list" where
  "group_guards m = take (length (om_guards m) - length (om_routeGuards m)) (om_guards m)"

definition operation_route :: "('s, 'c) operationModel \<Rightarrow> string \<times> string \<times> 'c Guard list \<times> ('s, 'c) handler" where
  "operation_route m = (om_method m, om_path m, group_guards m, the (om_handler m))"

text \<open>The routes that a group of the heap declares outside the catalog, wherever the group is mounted.\<close>

definition infra_route :: "('s, 'c, 't) group_heap \<Rightarrow> string \<times> string \<times> 'c Guard list \<times> ('s, 'c) handler \<Rightarrow> bool" where
  "infra_route gs x \<longleftrightarrow>
     (case x of (verb, path, chain, h) \<Rightarrow>
        list_ex (\<lambda>g. list_ex (\<lambda>d. id_method d = verb \<and> id_handler d = Some h) (g_infra g)) gs)"

definition installed ::
  "('s, 'c, 't) group_heap \<Rightarrow> ('s, 'c) compiler \<Rightarrow> ('s, 'c) compiler
     \<Rightarrow> (string \<times> string \<times> 'c Guard list \<times> ('s, 'c) handler) list \<Rightarrow> bool" where
  "installed gs c c' routes \<longleftrightarrow>
     (\<exists>infra. list_all (infra_route gs) infra \<and>
        mset routes + mset (map operation_route (cp_ops c)) = mset (map operation_route (cp_ops c')) + mset infra)"

lemma installed_refl [simp]: "installed gs c c []"
  by (auto simp: installed_def intro: exI [of _ "[]"])

lemma installed_trans:
  assumes "installed gs c c' xs" and "installed gs c' c'' ys"
  shows "installed gs c c'' (xs @ ys)"
proof -
  from assms obtain i j where ij: "list_all (infra_route gs) i" "list_all (infra_route gs) j"
    and 1: "mset xs + mset (map operation_route (cp_ops c)) = mset (map operation_route (cp_ops c')) + mset i"
    and 2: "mset ys + mset (map operation_route (cp_ops c')) = mset (map operation_route (cp_ops c'')) + mset j"
    unfolding installed_def by blast
  have "mset (xs @ ys) + mset (map operation_route (cp_ops c)) = mset ys + (mset xs + mset (map operation_route (cp_ops c)))"
    by (simp add: ac_simps)
  also have "\<dots> = mset ys + mset (map operation_route (cp_ops c')) + mset i"
    by (simp only: 1 add.assoc)
  also have "\<dots> = mset (map operation_route (cp_ops c'')) + mset (i @ j)"
    unfolding 2 by (simp add: ac_simps)
  finally show ?thesis
    unfolding installed_def using ij by (intro exI [of _ "i @ j"]) simp
qed

lemma installed_complain [simp]:
  "installed gs (complain vs c) c' = installed gs c c'" "installed gs c (complain vs c') = installed gs c c'"
  by (simp_all add: installed_def fun_eq_iff)

lemma installed_endpoint:
  assumes "endpoint env ep pre chain d c = (r, c')"
  shows "installed gs c c' (case r of
      Some m \<Rightarrow> (case om_handler m of Some h \<Rightarrow> [(ed_method ep, joinPattern pre (ed_path ep), chain, h)] | None \<Rightarrow> [])
    | None \<Rightarrow> [])"
proof (cases r)
  case None
  then show ?thesis using endpoint_None(1) assms by (fastforce simp: installed_def intro: exI [of _ "[]"])
next
  case (Some m)
  note facts = endpoint_Some [OF assms [unfolded Some]]
  then have "operation_route m = (ed_method ep, joinPattern pre (ed_path ep), chain, the (om_handler m))"
    by (simp add: operation_route_def group_guards_def)
  then show ?thesis using facts(1,10) Some by (auto simp: installed_def intro: exI [of _ "[]"])
qed

lemma installed_endpoints:
  "endpoints env eps pre chain d c = (es, c') \<Longrightarrow> installed gs c c' (endpoint_routes pre chain es)"
proof (induction eps arbitrary: c es)
  case (Cons ep eps)
  obtain r c1 where r: "endpoint env ep pre chain d c = (r, c1)" by fastforce
  obtain es' where es: "endpoints env eps pre chain d c1 = (es', c')" using Cons.prems r by (auto split: prod.splits)
  then show ?case
    using installed_trans [OF installed_endpoint [OF r, of gs] Cons.IH [OF es]] Cons.prems r
    by (auto simp: endpoint_routes_def split: option.splits)
qed simp

lemma installed_infrastructure:
  assumes "infrastructure env decl pre c = (e, c')" and "decl \<in> set (g_infra g)" and "g \<in> set gs"
  shows "installed gs c c' (endpoint_routes pre chain (case e of Some e' \<Rightarrow> [e'] | None \<Rightarrow> []))"
  using assms
  unfolding installed_def
  by (intro exI [of _ "endpoint_routes pre chain (case e of Some e' \<Rightarrow> [e'] | None \<Rightarrow> [])"])
    (force simp: infrastructure_def Let_def endpoint_routes_def infra_route_def list_ex_iff split: if_splits option.splits)

lemma installed_infrastructures:
  "infrastructures env ds pre c = (es, c') \<Longrightarrow> set ds \<subseteq> set (g_infra g) \<Longrightarrow> g \<in> set gs \<Longrightarrow>
     installed gs c c' (endpoint_routes pre chain es)"
proof (induction ds arbitrary: c es)
  case (Cons d ds)
  obtain r c1 where r: "infrastructure env d pre c = (r, c1)" by fastforce
  obtain es' where es: "infrastructures env ds pre c1 = (es', c')" using Cons.prems r by (auto split: prod.splits)
  then show ?case
    using installed_trans [OF installed_infrastructure [OF r, of g gs chain] Cons.IH [OF es]] Cons.prems r by auto
qed simp

lemma installed_own_routes:
  "g \<in> set gs \<Longrightarrow> installed gs c (snd (own_routes env g pre chain c)) (endpoint_routes pre chain (fst (own_routes env g pre chain c)))"
proof -
  assume g: "g \<in> set gs"
  obtain eps c1 where eps: "endpoints env (g_endpoints g) pre chain (g_defaults g) (complain (zero_guards pre g) c) = (eps, c1)"
    by fastforce
  obtain infra c2 where infra: "infrastructures env (g_infra g) pre c1 = (infra, c2)" by fastforce
  show ?thesis
    using installed_trans [OF installed_endpoints [OF eps] installed_infrastructures [OF infra subset_refl g]]
    by (simp add: own_routes_def eps infra)
qed

lemma enumerate_from_length [simp]: "length (enumerate_from n xs) = length xs"
  by (simp add: enumerate_from_def)

lemma map_snd_enumerate_from [simp]: "map (\<lambda>(i, x). f x) (enumerate_from n xs) = map f xs"
  by (rule nth_equalityI) (simp_all add: enumerate_from_def)

lemma clean_topology:
  assumes "fst (validateChildTopology env gs i pre) = []"
  shows "snd (validateChildTopology env gs i pre) = map (\<lambda>c. gc_node c \<noteq> None) (g_children (gs ! i))"
proof -
  obtain routes mounts where cl: "collectTopologyClaims gs i = (routes, mounts)" by fastforce
  with assms have "list_all (\<lambda>(owner, vs). owner = j \<longrightarrow> vs = []) (all_conflicts env pre routes [] mounts)" for j
    by (force simp: validateChildTopology_def Let_def list_all_iff)
  then show ?thesis by (simp add: validateChildTopology_def cl Let_def)
qed

lemma zip_map_self: "zip xs (map f xs) = map (\<lambda>x. (x, f x)) xs"
  by (induction xs) simp_all

lemma no_complaint_before_nodes:
  "\<not> has_complaint (snd (nodes env gs links pre chain active c)) \<Longrightarrow> list_all guard_valid chain \<Longrightarrow> \<not> has_complaint c"
  using complaints.node_keeps(2) by blast

lemma no_complaint_before_node:
  "\<not> has_complaint (snd (node env gs p pre chain active c)) \<Longrightarrow> list_all guard_valid chain \<Longrightarrow> \<not> has_complaint c"
  using complaints.node_keeps(1) by blast

lemma has_complaint_complain [simp]: "has_complaint (complain vs c) \<longleftrightarrow> has_complaint c \<or> vs \<noteq> []"
  by (auto simp: has_complaint_def)

lemma installed_node:
  "\<not> has_complaint (snd (node env gs p pre chain active c)) \<Longrightarrow> list_all guard_valid chain \<Longrightarrow>
     installed gs c (snd (node env gs p pre chain active c)) (node_routes pre chain (fst (node env gs p pre chain active c)))"
  "\<not> has_complaint (snd (nodes env gs links pre chain active c)) \<Longrightarrow> list_all guard_valid chain \<Longrightarrow>
     list_all (\<lambda>(l, keep). gc_node l \<noteq> None \<longrightarrow> keep) links \<Longrightarrow>
     installed gs c (snd (nodes env gs links pre chain active c)) (kid_routes pre chain (fst (nodes env gs links pre chain active c)))"
proof (induction p pre chain active c and links pre chain active c rule: compile_induct [where env = env and gs = gs])
  case (1 p pre chain active c)
  then show ?case using node_no_group [of p gs active env pre chain c] by auto
next
  case (2 i pre chain active c)
  let ?chain = "chain @ good_guards (gs ! i)"
  let ?own = "own_routes env (gs ! i) pre ?chain c"
  let ?topo = "validateChildTopology env gs i pre"
  let ?below = "nodes env gs (zip (g_children (gs ! i)) (snd ?topo)) pre ?chain (i # active) (complain (fst ?topo) (snd ?own))"
  have node: "node env gs (Some i) pre chain active c = (MatNode (good_guards (gs ! i)) (fst ?own) (fst ?below), snd ?below)"
    using "2.hyps" by (simp add: node_Some Let_def)
  have valid: "list_all guard_valid ?chain" using "2.prems" by simp
  have clean: "\<not> has_complaint (snd ?below)" using "2.prems" by (simp add: node)
  then have "fst ?topo = []" using no_complaint_before_nodes [OF clean valid] by simp
  note flags = clean_topology [OF this]
  have "installed gs (snd ?own) (snd ?below) (kid_routes pre ?chain (fst ?below))"
    using "2.IH" [OF clean valid] by (simp add: flags zip_map_self list_all_iff)
  with installed_own_routes [of "gs ! i" gs c env pre ?chain] "2.hyps" show ?case
    by (auto simp: node intro: installed_trans)
next
  case (3 pre chain active c)
  then show ?case by simp
next
  case (4 link keep links pre chain active c)
  let ?bad = "child_pattern_check env pre (gc_pattern link)"
  let ?kid = "node env gs (gc_node link) (child_prefix pre link) chain active (complain ?bad c)"
  let ?rest = "nodes env gs links pre chain active (snd ?kid)"
  have rest: "\<not> has_complaint (snd ?rest)" using "4.prems" by (simp add: nodes_Cons Let_def)
  have kid: "\<not> has_complaint (snd ?kid)" by (rule no_complaint_before_nodes [OF rest "4.prems"(2)])
  have "?bad = []" using no_complaint_before_node [OF kid "4.prems"(2)] by simp
  moreover have "gc_node link \<noteq> None" using kid by (cases "gc_node link") (auto simp: has_complaint_def)
  ultimately show ?case
    using installed_trans [OF "4.IH"(1) [OF kid] "4.IH"(2) [OF rest]] "4.prems"(2,3)
    by (simp add: nodes_Cons Let_def child_prefix_def)
qed


subsection \<open>A build that succeeds\<close>

definition demo_build_env :: "(unit, unit) build_env" where
  "demo_build_env = compile_env.extend demo_env
     (build_env.fields (\<lambda>s. Some s) (\<lambda>_. JRaw None) (\<lambda>_. JRaw None) (\<lambda>_. []) (\<lambda>_. None) (\<lambda>_. None))"

definition demo_params :: "(unit, unit) build_params" where
  "demo_params = \<lparr>bp_spec = (\<lambda>_. []), bp_render = (\<lambda>_. []), bp_chi_panic = (\<lambda>_. None)\<rparr>"

definition demo_guard :: "unit Guard" where
  "demo_guard = \<lparr>gd_id = ''bearer'', gd_check = Some (\<lambda>r. (Some r, None)), gd_credentials = \<lparr>Alternatives = []\<rparr>, gd_problems = [],
     gd_permissions = [], gd_permissionMode = [], gd_note = [], gd_fallbackNote = [], gd_challenge = False\<rparr>"

definition demo_operation :: "(unit, unit, unit) Operation" where
  "demo_operation = \<lparr>op_ID = [], op_Method = ''GET'', op_Path = ''/{id}'', op_Summary = [], op_Description = [], op_Tags = [],
     op_BodyDescription = [], op_SuccessDescription = [], op_Success = Message 200, op_Problems = [],
     op_Guards = [], op_ResponseCookies = [], op_Security = \<lparr>Alternatives = []\<rparr>, op_Handler = Some (\<lambda>_ _ s. ((None, None), s))\<rparr>"

text \<open>A guarded sub-tree with one typed operation, beside a liveness probe.\<close>

definition demo_heap :: "(unit, unit, unit) group_heap" where
  "demo_heap =
     Register 1 (TStruct ''api.GetInput'' demo_fields) noBodyType demo_operation
       (Group_Guard 1 [demo_guard]
         (snd (Sub 0 ''/users''
           (HandleInfra 0 ''GET'' ''/livez'' (Some (\<lambda>r ws. ws))
             (snd (NewGroup \<lparr>df_Tags = []\<rparr> []))))))"

lemma demo_heap_builds:
  "case buildWithStableRegistries demo_build_env demo_params demo_heap 0 of
     Inl vs \<Rightarrow> False
   | Inr app \<Rightarrow> map om_id (ap_ops app) = [''getUsersById''] \<and> map (length \<circ> om_guards) (ap_ops app) = [1]"
  by code_simp

lemma demo_build:
  "\<exists>app. buildWithStableRegistries demo_build_env demo_params demo_heap 0 = Inr app \<and>
     map om_id (ap_ops app) = [''getUsersById''] \<and> map (length \<circ> om_guards) (ap_ops app) = [1]"
  using demo_heap_builds by (auto split: sum.splits)


subsection \<open>Properties\<close>

lemma build_Inr:
  assumes "buildWithStableRegistries env P gs g = Inr app"
  obtains root c where "node env gs (Some g) [] [] [] empty_compiler = (root, c)" "cp_violations c = []"
    "ap_ops app = sort_key op_order (cp_ops c)" "ap_router app = materialize root"
proof -
  obtain root c where "node env gs (Some g) [] [] [] empty_compiler = (root, c)" by fastforce
  with that assms show thesis
    by (auto simp: buildWithStableRegistries_def Let_def split: if_splits option.splits)
qed

lemma empty_compiler_simps [simp]:
  "cp_ops empty_compiler = []" "cp_violations empty_compiler = []" "registered empty_compiler" "all_operations_ok env empty_compiler"
  by (simp_all add: empty_compiler_def registered_def all_operations_ok_def)

lemma distinct_map_sort_key: "distinct (map f (sort_key k xs)) \<longleftrightarrow> distinct (map f xs)"
  by (metis (no_types) mset_map mset_sort mset_eq_imp_distinct_iff)

lemma build_checked:
  assumes "buildWithStableRegistries env P gs g = Inr app"
  shows "distinct (map om_id (ap_ops app)) \<and> distinct (map op_key (ap_ops app)) \<and>
     sorted (map op_order (ap_ops app)) \<and> list_all (operation_ok env) (ap_ops app)"
proof -
  obtain root c where n: "node env gs (Some g) [] [] [] empty_compiler = (root, c)"
    and ops: "ap_ops app = sort_key op_order (cp_ops c)"
    using build_Inr [OF assms] by metis
  have "registered c" "all_operations_ok env c"
    using identities.node_keeps(1) [of "[]" empty_compiler env gs "Some g" "[]" "[]"]
      checks.node_keeps(1) [of "[]" env empty_compiler gs "Some g" "[]" "[]"] n by simp_all
  then show ?thesis
    by (simp add: ops distinct_map_sort_key registered_def all_operations_ok_def list_all_iff)
qed

text \<open>
  C3. A build that succeeds has a catalog without contradictions: no two operations share an operation
  id, none answer the same method and path up to the names of placeholders, the list is in order, and
  each operation passed its checks (supported method, valid path, valid guards, known and distinct
  problems, and a request whose path parameters are the placeholders of the path).
\<close>

theorem build_sound:
  assumes "buildWithStableRegistries env P gs g = Inr app"
  shows "distinct (map om_id (ap_ops app)) \<and> distinct (map op_key (ap_ops app)) \<and>
     sorted (map op_order (ap_ops app)) \<and> list_all (operation_ok env) (ap_ops app)"
  by (rule build_checked [OF assms])

theorem build_sound_witness:
  "\<exists>app. buildWithStableRegistries demo_build_env demo_params demo_heap 0 = Inr app \<and>
     map om_id (ap_ops app) = [''getUsersById''] \<and> list_all (operation_ok demo_build_env) (ap_ops app)"
proof -
  obtain app where "buildWithStableRegistries demo_build_env demo_params demo_heap 0 = Inr app"
    "map om_id (ap_ops app) = [''getUsersById'']" by (rule exE [OF demo_build]) (elim conjE)
  with build_sound [of demo_build_env demo_params demo_heap 0 app] show ?thesis by simp
qed



lemma build_attempts_first:
  "before n = after n \<Longrightarrow> k \<le> n \<Longrightarrow>
     \<exists>j\<ge>k. j \<le> n \<and> before j = after j \<and> (\<forall>i. k \<le> i \<and> i < j \<longrightarrow> before i \<noteq> after i) \<and>
       build_attempts before after attempt k = Some (attempt j)"
proof (induction "n - k" arbitrary: k)
  case 0
  then show ?case by (auto simp: build_attempts.simps intro: exI [of _ k])
next
  case (Suc d)
  show ?case
  proof (cases "before k = after k")
    case True
    then show ?thesis using Suc.prems by (auto simp: build_attempts.simps intro: exI [of _ k])
  next
    case False
    with Suc obtain j where "j \<ge> Suc k" "j \<le> n" "before j = after j" "\<forall>i. Suc k \<le> i \<and> i < j \<longrightarrow> before i \<noteq> after i"
      "build_attempts before after attempt (Suc k) = Some (attempt j)"
      by (metis Suc_diff_Suc Suc_leI diff_Suc_1 le_neq_implies_less zero_less_Suc zero_less_diff)
    with False show ?thesis
      by (intro exI [of _ j] conjI allI impI) (auto simp: build_attempts.simps [of before after attempt k] dest: le_neq_implies_less)
  qed
qed

text \<open>
  C39. A build ends and is never stale: as soon as some attempt sees no registration come in, \<open>BuildWith\<close>
  returns, and what it returns is the result of the first such attempt.
\<close>

theorem BuildWith_returns:
  assumes "before n = after n" and "\<not> g_attached (gs ! g)"
  shows "\<exists>k\<le>n. before k = after k \<and> (\<forall>i<k. before i \<noteq> after i) \<and>
     BuildWith before after env P gs g = Some (Some (buildWithStableRegistries (env k) P gs g))"
  using build_attempts_first [of before n after 0 "\<lambda>k. buildWithStableRegistries (env k) P gs g"] assms
  by (auto simp: BuildWith_def)

theorem BuildWith_returns_witness:
  "\<exists>app. BuildWith (\<lambda>k. (min k 2, 0)) (\<lambda>k. (min (Suc k) 2, 0)) (\<lambda>_. demo_build_env) demo_params demo_heap 0 = Some (Some (Inr app)) \<and>
     map om_id (ap_ops app) = [''getUsersById'']"
proof -
  have "\<not> g_attached (demo_heap ! 0)" by code_simp
  from BuildWith_returns [of "\<lambda>k. (min k 2, 0)" 2 "\<lambda>k. (min (Suc k) 2, 0)" demo_heap 0 "\<lambda>_. demo_build_env" demo_params, OF _ this]
    demo_build show ?thesis by auto
qed

end
