(* ===== verification/Net_Ip.thy ===== *)
theory Net_Ip
  imports Go_Prelude "HOL-Library.Word"
begin

text \<open>
  What the program uses of the packages \<open>net/netip\<close> and \<open>net\<close> of the standard library: addresses,
  prefixes, their text, and the split of a host and a port. A zone is empty where there is none.
\<close>

unbundle bit_operations_syntax

subsection \<open>Addresses\<close>

datatype Addr = AddrZero | Addr4 "32 word" | Addr6 "128 word" string

fun BitLen :: "Addr \<Rightarrow> nat" where
  "BitLen AddrZero = 0"
| "BitLen (Addr4 _) = 32"
| "BitLen (Addr6 _ _) = 128"

definition Is4In6 :: "Addr \<Rightarrow> bool" where
  "Is4In6 a \<longleftrightarrow> (case a of Addr6 w _ \<Rightarrow> drop_bit 32 w = 0xFFFF | _ \<Rightarrow> False)"

definition Unmap :: "Addr \<Rightarrow> Addr" where
  "Unmap a = (case a of Addr6 w _ \<Rightarrow> if Is4In6 a then Addr4 (ucast w) else a | _ \<Rightarrow> a)"

definition WithZone :: "Addr \<Rightarrow> string \<Rightarrow> Addr" where
  "WithZone a zone = (case a of Addr6 w _ \<Rightarrow> Addr6 w zone | _ \<Rightarrow> a)"

definition zone_of :: "Addr \<Rightarrow> string" where
  "zone_of a = (case a of Addr6 _ z \<Rightarrow> z | _ \<Rightarrow> [])"

definition Is6 :: "Addr \<Rightarrow> bool" where
  "Is6 a \<longleftrightarrow> (case a of Addr6 _ _ \<Rightarrow> True | _ \<Rightarrow> False)"


subsection \<open>Prefixes\<close>

text \<open>The number of bits is \<open>None\<close> in an invalid prefix.\<close>

record Prefix =
  px_addr :: Addr
  px_bits :: "nat option"

definition PrefixFrom :: "Addr \<Rightarrow> nat \<Rightarrow> Prefix" where
  "PrefixFrom a bits =
     \<lparr>px_addr = WithZone a [], px_bits = (if a \<noteq> AddrZero \<and> bits \<le> BitLen a then Some bits else None)\<rparr>"

definition IsValid :: "Prefix \<Rightarrow> bool" where
  "IsValid p \<longleftrightarrow> px_bits p \<noteq> None"

definition top_mask :: "nat \<Rightarrow> 'a::len word" where
  "top_mask n = push_bit (LENGTH('a) - n) (mask n)"

definition mask_addr :: "nat \<Rightarrow> Addr \<Rightarrow> Addr" where
  "mask_addr n a =
     (case a of AddrZero \<Rightarrow> AddrZero | Addr4 w \<Rightarrow> Addr4 (w AND top_mask n) | Addr6 w z \<Rightarrow> Addr6 (w AND top_mask n) z)"

definition Masked :: "Prefix \<Rightarrow> Prefix" where
  "Masked p =
     (case px_bits p of
        Some n \<Rightarrow> if px_addr p \<noteq> AddrZero \<and> n \<le> BitLen (px_addr p) then PrefixFrom (mask_addr n (px_addr p)) n
                  else \<lparr>px_addr = AddrZero, px_bits = None\<rparr>
      | None \<Rightarrow> \<lparr>px_addr = AddrZero, px_bits = None\<rparr>)"

definition Contains :: "Prefix \<Rightarrow> Addr \<Rightarrow> bool" where
  "Contains p a \<longleftrightarrow>
     (case (px_bits p, px_addr p, a) of
        (Some n, Addr4 v, Addr4 w) \<Rightarrow> drop_bit (32 - n) (w XOR v) = 0
      | (Some n, Addr6 v _, Addr6 w z) \<Rightarrow> z = [] \<and> (w XOR v) AND top_mask n = 0
      | _ \<Rightarrow> False)"


subsection \<open>Text\<close>

definition hex_val :: "char \<Rightarrow> nat option" where
  "hex_val c =
     (if is_digit c then Some (digit_val c)
      else if CHR ''a'' \<le> c \<and> c \<le> CHR ''f'' then Some (10 + (of_char c - of_char CHR ''a''))
      else if CHR ''A'' \<le> c \<and> c \<le> CHR ''F'' then Some (10 + (of_char c - of_char CHR ''A''))
      else None)"

definition parse_octet :: "string \<Rightarrow> nat option" where
  "parse_octet s =
     (if s = [] \<or> \<not> list_all is_digit s \<or> (length s > 1 \<and> hd s = CHR ''0'') \<or> read_digits s > 255 then None
      else Some (read_digits s))"

text \<open>The four fields of a dotted address.\<close>

definition parseIPv4Fields :: "string \<Rightarrow> (nat \<times> nat \<times> nat \<times> nat) option" where
  "parseIPv4Fields s =
     (case map parse_octet (split_on (CHR ''.'') s) of
        [Some a, Some b, Some c, Some d] \<Rightarrow> Some (a, b, c, d)
      | _ \<Rightarrow> None)"

definition parseIPv4 :: "string \<Rightarrow> Addr option" where
  "parseIPv4 s =
     map_option (\<lambda>(a, b, c, d). Addr4 (((of_nat a * 256 + of_nat b) * 256 + of_nat c) * 256 + of_nat d)) (parseIPv4Fields s)"

text \<open>
  The loop of \<open>parseIPv6\<close>: the 16-bit groups read so far, where the ellipsis is, and the rest of the
  text. The first argument is the number of groups that still fit.
\<close>

fun v6_groups :: "nat \<Rightarrow> string \<Rightarrow> 16 word list \<Rightarrow> nat option \<Rightarrow> (16 word list \<times> nat option \<times> string) option" where
  "v6_groups 0 s groups ell = Some (groups, ell, s)"
| "v6_groups (Suc k) s groups ell =
     (let hex = takeWhile (\<lambda>c. hex_val c \<noteq> None) s;
          rest = dropWhile (\<lambda>c. hex_val c \<noteq> None) s;
          groups' = groups @ [foldl (\<lambda>acc c. acc * 16 + of_nat (the (hex_val c))) 0 hex]
      in if hex = [] \<or> length hex > 4 then None
         else case rest of
           [] \<Rightarrow> Some (groups', ell, [])
         | c # cs \<Rightarrow>
             if c = CHR ''.'' then
               (if (ell = None \<and> length groups \<noteq> 6) \<or> length groups > 6 then None
                else case parseIPv4Fields s of
                  None \<Rightarrow> None
                | Some (w, x, y, z) \<Rightarrow> Some (groups @ [of_nat w * 256 + of_nat x, of_nat y * 256 + of_nat z], ell, []))
             else if c \<noteq> CHR '':'' \<or> cs = [] then None
             else if hd cs = CHR '':'' then
               (if ell \<noteq> None then None
                else if tl cs = [] then Some (groups', Some (length groups'), [])
                else v6_groups k (tl cs) groups' (Some (length groups')))
             else v6_groups k cs groups' ell)"

definition expand_groups :: "16 word list \<Rightarrow> nat option \<Rightarrow> 16 word list option" where
  "expand_groups groups ell =
     (case ell of
        None \<Rightarrow> if length groups = 8 then Some groups else None
      | Some e \<Rightarrow> if length groups < 8 then Some (take e groups @ replicate (8 - length groups) 0 @ drop e groups) else None)"

definition join_groups :: "16 word list \<Rightarrow> 128 word" where
  "join_groups groups = foldl (\<lambda>w g. w * 65536 + ucast g) 0 groups"

definition parseIPv6 :: "string \<Rightarrow> Addr option" where
  "parseIPv6 input =
     (case cut input (CHR ''%'') of
        (s, zone, zoned) \<Rightarrow>
          if zoned \<and> zone = [] then None
          else if s = ''::'' then Some (Addr6 0 zone)
          else let lead = has_prefix s ''::'' in
            case v6_groups 8 (if lead then drop 2 s else s) [] (if lead then Some 0 else None) of
              Some (groups, ell, []) \<Rightarrow> map_option (\<lambda>gs. Addr6 (join_groups gs) zone) (expand_groups groups ell)
            | _ \<Rightarrow> None)"

definition ParseAddr :: "string \<Rightarrow> Addr option" where
  "ParseAddr s =
     (case dropWhile (\<lambda>c. c \<noteq> CHR ''.'' \<and> c \<noteq> CHR '':'' \<and> c \<noteq> CHR ''%'') s of
        [] \<Rightarrow> None
      | c # _ \<Rightarrow> if c = CHR ''.'' then parseIPv4 s else if c = CHR '':'' then parseIPv6 s else None)"

definition ParsePrefix :: "string \<Rightarrow> Prefix option" where
  "ParsePrefix s =
     (case cut_last (CHR ''/'') s of
        None \<Rightarrow> None
      | Some (ip, bits) \<Rightarrow>
          (case ParseAddr ip of
             None \<Rightarrow> None
           | Some a \<Rightarrow>
               if zone_of a \<noteq> [] \<or> (length bits > 1 \<and> (hd bits < CHR ''1'' \<or> CHR ''9'' < hd bits)) then None
               else case parse_int 64 bits of
                 None \<Rightarrow> None
               | Some n \<Rightarrow> if n < 0 \<or> n > int (BitLen a) then None else Some (PrefixFrom a (nat n))))"

definition ParseAddrPort :: "string \<Rightarrow> Addr option" where
  "ParseAddrPort s =
     (case cut_last (CHR '':'') s of
        None \<Rightarrow> None
      | Some (ip, port) \<Rightarrow>
          let bracket = (ip \<noteq> [] \<and> hd ip = CHR ''['') in
          if ip = [] \<or> port = [] \<or> (bracket \<and> (length ip < 2 \<or> last ip \<noteq> CHR '']'')) \<or> parse_uint 16 port = None then None
          else case ParseAddr (if bracket then butlast (tl ip) else ip) of
            None \<Rightarrow> None
          | Some a \<Rightarrow> if bracket = Is6 a then Some a else None)"

text \<open>\<open>net.SplitHostPort\<close>; only the host is used.\<close>

definition SplitHost :: "string \<Rightarrow> string option" where
  "SplitHost s =
     (case cut_last (CHR '':'') s of
        None \<Rightarrow> None
      | Some (host, port) \<Rightarrow>
          if hd s = CHR ''['' then
            (let inner = takeWhile (\<lambda>c. c \<noteq> CHR '']'') (tl s); closed = dropWhile (\<lambda>c. c \<noteq> CHR '']'') (tl s)
             in if closed = '']:'' @ port \<and> CHR ''['' \<notin> set inner \<and> CHR ''['' \<notin> set port \<and> CHR '']'' \<notin> set port
                then Some inner else None)
          else if CHR '':'' \<in> set host \<or> CHR ''['' \<in> set s \<or> CHR '']'' \<in> set s then None
          else Some host)"

definition hex_digit :: "nat \<Rightarrow> char" where
  "hex_digit n = ''0123456789abcdef'' ! n"

fun show_hex :: "nat \<Rightarrow> string" where
  "show_hex n = (if n < 16 then [hex_digit n] else show_hex (n div 16) @ [hex_digit (n mod 16)])"

declare show_hex.simps [simp del]

definition show_ipv4 :: "32 word \<Rightarrow> string" where
  "show_ipv4 w =
     join (map (\<lambda>k. show_nat (unat (drop_bit k w AND 255))) [24, 16, 8, 0]) ''.''"

definition groups_of :: "128 word \<Rightarrow> 16 word list" where
  "groups_of w = map (\<lambda>k. ucast (drop_bit k w)) [112, 96, 80, 64, 48, 32, 16, 0]"

text \<open>The first longest run of at least two zero groups: its start and its end.\<close>

definition zero_run :: "16 word list \<Rightarrow> nat \<times> nat" where
  "zero_run gs =
     foldl (\<lambda>(start, end') i.
         let j = i + length (takeWhile (\<lambda>g. g = 0) (drop i gs))
         in if j - i \<ge> 2 \<and> j - i > end' - start then (i, j) else (start, end')) (255, 255) [0..<length gs]"

definition show_ipv6 :: "128 word \<Rightarrow> string" where
  "show_ipv6 w =
     (let gs = groups_of w; hex = (\<lambda>xs. join (map (\<lambda>g. show_hex (unat g)) xs) '':'') in
      case zero_run gs of
        (start, end') \<Rightarrow> if start < 8 then hex (take start gs) @ ''::'' @ hex (drop end' gs) else hex gs)"

definition Addr_String :: "Addr \<Rightarrow> string" where
  "Addr_String a =
     (case a of
        AddrZero \<Rightarrow> ''invalid IP''
      | Addr4 w \<Rightarrow> show_ipv4 w
      | Addr6 w zone \<Rightarrow>
          (if Is4In6 a then ''::ffff:'' @ show_ipv4 (ucast w) else show_ipv6 w) @
          (if zone = [] then [] else CHR ''%'' # zone))"

end
