(* ===== verification/Client_Ip.thy ===== *)
theory Client_Ip
  imports Net_Ip Jwt
begin

text \<open>
  \<^verbatim>\<open>pkg/clientip\<close>: which address a request is attributed to. The headers that forward an address are
  believed only of a peer that is a configured proxy, and then only up to the first hop that is not.
\<close>

subsection \<open>The resolver\<close>

record Resolver =
  rs_trusted :: "Prefix list"

definition normalize :: "Addr \<Rightarrow> Addr" where
  "normalize a = WithZone (Unmap a) []"

definition parseAddr :: "string \<Rightarrow> Addr option" where
  "parseAddr s =
     (let trimmed = trim_space s in
      if trimmed = [] then None
      else case ParseAddr trimmed of
        Some a \<Rightarrow> Some (normalize a)
      | None \<Rightarrow>
          (case ParseAddrPort trimmed of
             Some a \<Rightarrow> Some (normalize a)
           | None \<Rightarrow>
               (case SplitHost trimmed of
                  Some host \<Rightarrow> map_option normalize (ParseAddr (trim_space host))
                | None \<Rightarrow> None)))"

definition NewResolver :: "Prefix list \<Rightarrow> Resolver" where
  "NewResolver trusted = \<lparr>rs_trusted = map Masked (filter IsValid trusted)\<rparr>"

definition parse_entry :: "string \<Rightarrow> Prefix option" where
  "parse_entry entry =
     (let trimmed = trim_space entry in
      if trimmed = [] then None
      else case ParsePrefix trimmed of
        Some p \<Rightarrow> Some (Masked p)
      | None \<Rightarrow> map_option (\<lambda>a. PrefixFrom (normalize a) (BitLen (normalize a))) (ParseAddr trimmed))"

definition ParsePrefixes :: "string list \<Rightarrow> Prefix list" where
  "ParsePrefixes entries = List.map_filter parse_entry entries"

definition IsTrusted :: "Resolver \<Rightarrow> Addr \<Rightarrow> bool" where
  "IsTrusted rs a \<longleftrightarrow> list_ex (\<lambda>p. Contains p (normalize a)) (rs_trusted rs)"

definition forwardedForHeader :: string where
  "forwardedForHeader = ''X-Forwarded-For''"

definition realIPHeader :: string where
  "realIPHeader = ''X-Real-IP''"

definition trueClientIPHeader :: string where
  "trueClientIPHeader = ''True-Client-IP''"

text \<open>The hops, nearest first.\<close>

fun first_untrusted :: "Resolver \<Rightarrow> string list \<Rightarrow> Addr option" where
  "first_untrusted rs [] = None"
| "first_untrusted rs (hop # hops) =
     (case parseAddr hop of
        None \<Rightarrow> None
      | Some a \<Rightarrow> if \<not> IsTrusted rs a then Some a else first_untrusted rs hops)"

definition forwarded_entries :: "string list \<Rightarrow> string list" where
  "forwarded_entries vals = concat (map (split_on (CHR '','')) vals)"

definition fromForwardedFor :: "Resolver \<Rightarrow> string list \<Rightarrow> Addr option" where
  "fromForwardedFor rs vals = first_untrusted rs (rev (forwarded_entries vals))"

definition Resolve :: "Resolver \<Rightarrow> 'c http_request option \<Rightarrow> Addr option" where
  "Resolve rs req =
     (case req of
        None \<Rightarrow> None
      | Some r \<Rightarrow>
          (case parseAddr (rq_remote r) of
             None \<Rightarrow> None
           | Some peer \<Rightarrow>
               if \<not> IsTrusted rs peer then Some peer
               else case fromForwardedFor rs (header_values (rq_header r) forwardedForHeader) of
                 Some a \<Rightarrow> Some a
               | None \<Rightarrow>
                   (case parseAddr (header_get (rq_header r) realIPHeader) of
                      Some a \<Rightarrow> Some a
                    | None \<Rightarrow> Some peer)))"


subsection \<open>The middleware\<close>

text \<open>The request context with the address the middleware publishes.\<close>

record client_ctx = req_ctx +
  ctx_client :: "Addr option"

text \<open>The handler behind it is called once, as the last step, so what it works on and returns stays open.\<close>

definition Middleware ::
  "Resolver \<Rightarrow> ('x client_ctx_scheme http_request \<Rightarrow> 'w \<Rightarrow> 'r) \<Rightarrow> 'x client_ctx_scheme http_request \<Rightarrow> 'w \<Rightarrow> 'r" where
  "Middleware rs next r ws =
     (let r1 = r\<lparr>rq_header := header_del (rq_header r) trueClientIPHeader\<rparr> in
      case Resolve rs (Some r1) of
        None \<Rightarrow> next r1 ws
      | Some a \<Rightarrow> next (r1\<lparr>rq_ctx := (rq_ctx r1)\<lparr>ctx_client := Some a\<rparr>, rq_remote := Addr_String a\<rparr>) ws)"

definition FromContext :: "'x client_ctx_scheme option \<Rightarrow> Addr option" where
  "FromContext ctx =
     (case ctx of
        None \<Rightarrow> None
      | Some c \<Rightarrow> (case ctx_client c of Some a \<Rightarrow> if a \<noteq> AddrZero then Some a else None | None \<Rightarrow> None))"

definition AddrFromRequest :: "'x client_ctx_scheme http_request option \<Rightarrow> Addr option" where
  "AddrFromRequest req =
     (case req of
        None \<Rightarrow> None
      | Some r \<Rightarrow> (case FromContext (Some (rq_ctx r)) of Some a \<Rightarrow> Some a | None \<Rightarrow> parseAddr (rq_remote r)))"

definition FromRequest :: "'x client_ctx_scheme http_request option \<Rightarrow> string" where
  "FromRequest req = (case AddrFromRequest req of Some a \<Rightarrow> Addr_String a | None \<Rightarrow> [])"


subsection \<open>Facts\<close>

lemma normalize_idem [simp]: "normalize (normalize a) = normalize a"
  by (auto simp: normalize_def Unmap_def WithZone_def Is4In6_def split: Addr.splits)

lemma normalize_zero [simp]: "normalize a = AddrZero \<longleftrightarrow> a = AddrZero"
  by (auto simp: normalize_def Unmap_def WithZone_def split: Addr.splits if_splits)

lemma ParseAddr_nonzero: "ParseAddr s = Some a \<Longrightarrow> a \<noteq> AddrZero"
  by (auto simp: ParseAddr_def parseIPv4_def parseIPv6_def Let_def split: list.splits if_splits prod.splits option.splits)

lemma ParseAddrPort_nonzero: "ParseAddrPort s = Some a \<Longrightarrow> a \<noteq> AddrZero"
  by (auto simp: ParseAddrPort_def Let_def dest: ParseAddr_nonzero split: option.splits prod.splits if_splits)

lemma parseAddr_nonzero: "parseAddr s = Some a \<Longrightarrow> a \<noteq> AddrZero"
  by (auto simp: parseAddr_def Let_def dest: ParseAddr_nonzero ParseAddrPort_nonzero split: option.splits if_splits)

lemma parseAddr_normal: "parseAddr s = Some a \<Longrightarrow> normalize a = a"
  by (auto simp: parseAddr_def Let_def split: option.splits if_splits)

text \<open>A prefix contains the addresses of its family that agree with it on its bits.\<close>

lemma bit_top_mask: "n \<le> LENGTH('a) \<Longrightarrow> bit (top_mask n :: 'a::len word) i \<longleftrightarrow> LENGTH('a) - n \<le> i \<and> i < LENGTH('a)"
  by (auto simp: top_mask_def bit_simps)

lemma drop_bit_eq_iff:
  "drop_bit k (v :: 'a::len word) = drop_bit k w \<longleftrightarrow> (\<forall>i. k \<le> i \<longrightarrow> i < LENGTH('a) \<longrightarrow> bit v i = bit w i)"
  (is "?l \<longleftrightarrow> ?r")
proof
  assume ?l
  show ?r
  proof (intro allI impI)
    fix i assume "k \<le> i"
    then show "bit v i = bit w i" using arg_cong [OF \<open>?l\<close>, of "\<lambda>x. bit x (i - k)"] by (simp add: bit_simps)
  qed
next
  assume ?r
  then have "bit v (k + i) = bit w (k + i)" for i
    using bit_imp_le_length [of v "k + i"] bit_imp_le_length [of w "k + i"] by (cases "k + i < LENGTH('a)") auto
  then show ?l by (simp add: bit_eq_iff bit_simps)
qed

lemma same_network:
  fixes v w :: "'a::len word"
  assumes "n \<le> LENGTH('a)"
  shows "drop_bit (LENGTH('a) - n) (w XOR (v AND top_mask n)) = 0 \<longleftrightarrow> drop_bit (LENGTH('a) - n) w = drop_bit (LENGTH('a) - n) v"
    and "(w XOR (v AND top_mask n)) AND top_mask n = 0 \<longleftrightarrow> drop_bit (LENGTH('a) - n) w = drop_bit (LENGTH('a) - n) v"
proof -
  show "drop_bit (LENGTH('a) - n) (w XOR (v AND top_mask n)) = 0 \<longleftrightarrow> drop_bit (LENGTH('a) - n) w = drop_bit (LENGTH('a) - n) v"
    using assms drop_bit_eq_iff [of "LENGTH('a) - n" "w XOR (v AND top_mask n)" 0]
    by (auto simp: drop_bit_eq_iff bit_simps bit_top_mask)
  show "(w XOR (v AND top_mask n)) AND top_mask n = 0 \<longleftrightarrow> drop_bit (LENGTH('a) - n) w = drop_bit (LENGTH('a) - n) v"
    using assms by (auto simp: drop_bit_eq_iff bit_eq_iff [of "_ AND _"] bit_simps bit_top_mask)
qed

lemma Contains_Masked:
  "n \<le> 32 \<Longrightarrow> Contains (Masked (PrefixFrom (Addr4 v) n)) (Addr4 w) \<longleftrightarrow> drop_bit (32 - n) w = drop_bit (32 - n) v"
  "n \<le> 128 \<Longrightarrow> Contains (Masked (PrefixFrom (Addr6 v' z) n)) (Addr6 w' []) \<longleftrightarrow> drop_bit (128 - n) w' = drop_bit (128 - n) v'"
  "\<not> Contains (Masked (PrefixFrom (Addr4 v) n)) (Addr6 w' y)" "\<not> Contains (Masked (PrefixFrom (Addr6 v' z) n)) (Addr4 w)"
  using same_network(1) [of n w v] same_network(2) [of n w' v']
  by (simp_all add: Contains_def Masked_def PrefixFrom_def mask_addr_def WithZone_def)

lemma header_values_del:
  "canonical_key k \<noteq> canonical_key k' \<Longrightarrow> header_values (header_del h k) k' = header_values h k'"
  by (simp add: header_values_def header_del_def)

lemma Resolve_nonzero: "Resolve rs (Some r) = Some a \<Longrightarrow> a \<noteq> AddrZero"
proof -
  have "first_untrusted rs hops = Some a \<Longrightarrow> a \<noteq> AddrZero" for hops
    by (induction hops) (auto dest: parseAddr_nonzero split: option.splits if_splits)
  then show "Resolve rs (Some r) = Some a \<Longrightarrow> a \<noteq> AddrZero"
    by (auto simp: Resolve_def fromForwardedFor_def dest: parseAddr_nonzero split: option.splits if_splits)
qed

lemma Resolve_del: "Resolve rs (Some (r\<lparr>rq_header := header_del (rq_header r) trueClientIPHeader\<rparr>)) = Resolve rs (Some r)"
proof -
  have "canonical_key trueClientIPHeader \<noteq> canonical_key forwardedForHeader"
    "canonical_key trueClientIPHeader \<noteq> canonical_key realIPHeader" by code_simp+
  then show ?thesis by (simp add: Resolve_def header_get_def header_values_del split: option.split)
qed

text \<open>What a handler behind the middleware is given.\<close>

lemma Middleware_address:
  assumes "Resolve rs (Some r) = Some a"
  obtains r' where "Middleware rs h r ws = h r' ws" "AddrFromRequest (Some r') = Some a"
    "header_get (rq_header r') trueClientIPHeader = []"
proof (rule that)
  let ?r = "r\<lparr>rq_header := header_del (rq_header r) trueClientIPHeader\<rparr>"
  let ?r' = "?r\<lparr>rq_ctx := (rq_ctx ?r)\<lparr>ctx_client := Some a\<rparr>, rq_remote := Addr_String a\<rparr>"
  show "Middleware rs h r ws = h ?r' ws"
    using assms unfolding Middleware_def Let_def Resolve_del by simp
  show "AddrFromRequest (Some ?r') = Some a"
    using Resolve_nonzero [OF assms] by (simp add: AddrFromRequest_def FromContext_def)
  show "header_get (rq_header ?r') trueClientIPHeader = []"
    by (simp add: header_get_def header_values_def header_del_def)
qed

text \<open>A hop as the resolver sees it.\<close>

definition trusted_hop :: "Resolver \<Rightarrow> string \<Rightarrow> bool" where
  "trusted_hop rs hop \<longleftrightarrow> (case parseAddr hop of Some a \<Rightarrow> IsTrusted rs a | None \<Rightarrow> False)"

lemma first_untrusted_hops:
  "list_all (trusted_hop rs) hops \<Longrightarrow> \<not> trusted_hop rs hop \<Longrightarrow> first_untrusted rs (hops @ hop # rest) = parseAddr hop"
  by (induction hops) (auto simp: trusted_hop_def split: option.splits)

lemma Resolve_forwarded:
  assumes "parseAddr (rq_remote r) = Some peer"
    and "forwarded_entries (header_values (rq_header r) forwardedForHeader) = forged @ hop # proxies"
    and "list_all (trusted_hop rs) proxies" and "\<not> trusted_hop rs hop"
  shows "Resolve rs (Some r) = Some
       (if \<not> IsTrusted rs peer then peer
        else case parseAddr hop of
          Some a \<Rightarrow> a
        | None \<Rightarrow> (case parseAddr (header_get (rq_header r) realIPHeader) of Some a \<Rightarrow> a | None \<Rightarrow> peer))"
proof -
  have "fromForwardedFor rs (header_values (rq_header r) forwardedForHeader) = parseAddr hop"
    using assms first_untrusted_hops [of rs "rev proxies" hop "rev forged"] by (simp add: fromForwardedFor_def list_all_iff)
  with assms(1) show ?thesis by (simp add: Resolve_def split: option.split)
qed


text \<open>Proxies and a forwarded request as in the tests of the package.\<close>

definition demo_resolver :: Resolver where
  "demo_resolver = NewResolver (ParsePrefixes [''127.0.0.0/8'', ''10.0.0.0/8'', ''garbage'', ''192.168.0.1''])"

definition demo_forwarded :: "client_ctx http_request" where
  "demo_forwarded = \<lparr>rq_method = ''GET'', rq_path = ''/'',
     rq_header = header_set Map.empty forwardedForHeader ''198.51.100.9, ::ffff:203.0.113.7, 10.1.2.3'',
     rq_query = (\<lambda>_. []), rq_cookies = [], rq_remote = ''127.0.0.1'', rq_body = None, rq_content_length = 0,
     rq_ctx = \<lparr>auth_user = None, ctx_client = None\<rparr>\<rparr>"

lemma demo_hops:
  "parseAddr (rq_remote demo_forwarded) = Some (Addr4 0x7F000001)" "IsTrusted demo_resolver (Addr4 0x7F000001)"
  "list_all (trusted_hop demo_resolver) ['' 10.1.2.3'']" "\<not> trusted_hop demo_resolver '' ::ffff:203.0.113.7''"
  "parseAddr '' ::ffff:203.0.113.7'' = Some (Addr4 0xCB007107)"
  "forwarded_entries [''198.51.100.9, ::ffff:203.0.113.7, 10.1.2.3''] = [''198.51.100.9''] @ '' ::ffff:203.0.113.7'' # ['' 10.1.2.3'']"
  by code_simp+

lemma demo_entries:
  "forwarded_entries (header_values (rq_header demo_forwarded) forwardedForHeader) =
     [''198.51.100.9''] @ '' ::ffff:203.0.113.7'' # ['' 10.1.2.3'']"
proof -
  have "header_values (rq_header demo_forwarded) forwardedForHeader = [''198.51.100.9, ::ffff:203.0.113.7, 10.1.2.3'']"
    by (simp add: demo_forwarded_def header_values_def header_set_def)
  then show ?thesis by (simp only: demo_hops(6))
qed


end
