(* ===== verification/Go_Map.thy ===== *)
theory Go_Map
  imports Go_Prelude "HOL-Library.Char_ord" "HOL-Library.List_Lexorder"
begin

text \<open>
  Go maps with string keys, as association lists sorted by key: two maps with the same entries are
  the same list, and a walk over the sorted keys is a walk over the list.
\<close>

type_synonym 'v gomap = "(string \<times> 'v) list"

definition wf_map :: "'v gomap \<Rightarrow> bool" where
  "wf_map m \<longleftrightarrow> sorted (map fst m) \<and> distinct (map fst m)"

fun put :: "string \<Rightarrow> 'v \<Rightarrow> 'v gomap \<Rightarrow> 'v gomap" where
  "put k v [] = [(k, v)]"
| "put k v ((x, w) # m) = (if k < x then (k, v) # (x, w) # m else if k = x then (k, v) # m else (x, w) # put k v m)"

definition get :: "'v gomap \<Rightarrow> string \<Rightarrow> 'v option" where
  "get m k = map_of m k"

definition remove :: "string \<Rightarrow> 'v gomap \<Rightarrow> 'v gomap" where
  "remove k m = filter (\<lambda>e. fst e \<noteq> k) m"

definition keys :: "'v gomap \<Rightarrow> string list" where
  "keys m = map fst m"

lemma keys_put [simp]: "set (keys (put k v m)) = insert k (set (keys m))"
  by (induction k v m rule: put.induct) (auto simp: keys_def)

lemma get_put [simp]: "wf_map m \<Longrightarrow> get (put k v m) = (get m)(k \<mapsto> v)"
proof (induction k v m rule: put.induct)
  case (2 k v x w m)
  then have "wf_map m" by (simp add: wf_map_def)
  with 2 show ?case by (auto simp: get_def fun_eq_iff wf_map_def)
qed (simp add: get_def fun_eq_iff)

lemma wf_put [simp]: "wf_map m \<Longrightarrow> wf_map (put k v m)"
proof (induction k v m rule: put.induct)
  case (2 k v x w m)
  moreover from this have "wf_map m" by (simp add: wf_map_def)
  moreover have "set (map fst (put k v m)) = insert k (set (map fst m))" using keys_put [of k v m] by (simp add: keys_def)
  ultimately show ?case by (auto simp: wf_map_def)
qed (simp add: wf_map_def)

lemma wf_remove [simp]: "wf_map m \<Longrightarrow> wf_map (remove k m)"
  by (auto simp: wf_map_def remove_def sorted_filter distinct_map_filter)

lemma get_remove [simp]: "get (remove k m) = (get m)(k := None)"
  by (induction m) (auto simp: get_def remove_def fun_eq_iff)

lemma wf_Nil [simp]: "wf_map []" "get [] = Map.empty" "keys [] = []"
  by (simp_all add: wf_map_def get_def keys_def fun_eq_iff)

lemma get_Some_keys: "get m k \<noteq> None \<longleftrightarrow> k \<in> set (keys m)"
  by (auto simp: get_def keys_def map_of_eq_None_iff)

text \<open>Equal contents, equal maps.\<close>

lemma map_of_entries: "distinct (map fst m) \<Longrightarrow> map (\<lambda>k. (k, the (map_of m k))) (map fst m) = m"
  unfolding map_map comp_def by (rule map_idI) auto

lemma wf_map_eqI:
  assumes "wf_map m" and "wf_map m'" and "get m = get m'"
  shows "m = m'"
proof -
  have same: "map_of m = map_of m'" using assms(3) by (simp add: get_def fun_eq_iff)
  have "fst ` set m = fst ` set m'" unfolding dom_map_of_conv_image_fst [symmetric] same ..
  then have "map fst m = map fst m'"
    using assms(1,2) by (intro sorted_distinct_set_unique) (auto simp: wf_map_def)
  then show ?thesis
    using map_of_entries [of m] map_of_entries [of m'] assms(1,2) by (simp add: same wf_map_def)
qed

definition map_values :: "('v \<Rightarrow> 'w) \<Rightarrow> 'v gomap \<Rightarrow> 'w gomap" where
  "map_values f m = map (\<lambda>(k, v). (k, f v)) m"

lemma map_values_simps [simp]:
  "wf_map (map_values f m) = wf_map m" "get (map_values f m) k = map_option f (get m k)" "keys (map_values f m) = keys m"
  by (simp_all add: wf_map_def map_values_def get_def keys_def comp_def case_prod_beta map_of_map)

end
