(* ===== verification/Schema.thy ===== *)
theory Schema
  imports Go_Map Go_Reflect
begin

text \<open>
  The schema document of \<^verbatim>\<open>internal/httpx/openapi.go\<close> and its utilities from \<^verbatim>\<open>schema.go\<close>. A schema
  is its keywords and its sub-schemas. Schemas are values here: the code hands out clones, so no two
  places share one. Floats are opaque values. The fields for XML, external documentation and
  discriminators, which no code sets, are left out.
\<close>

subsection \<open>Schemas\<close>

datatype any_value = AnyNil | AnyStr string | AnyBool bool | AnyFloat gval

datatype schema_type = NoType | OneType string | Types "string list" | AnyTypes "any_value list"

record schema_kw =
  k_Type :: schema_type
  k_Required :: "string list"
  k_Ref :: string
  k_Description :: string
  k_Format :: string
  k_Pattern :: string
  k_Minimum :: "gval option"
  k_Maximum :: "gval option"
  k_ExclusiveMinimum :: "gval option"
  k_ExclusiveMaximum :: "gval option"
  k_MultipleOf :: "gval option"
  k_MinLength :: "int option"
  k_MaxLength :: "int option"
  k_MinItems :: "int option"
  k_MaxItems :: "int option"
  k_MinProperties :: "int option"
  k_MaxProperties :: "int option"
  k_UniqueItems :: "bool option"
  k_ContentEncoding :: string
  k_ContentMediaType :: string
  k_Enum :: "any_value list"
  k_Const :: any_value
  k_Default :: any_value
  k_Example :: any_value
  k_Examples :: "any_value list"
  k_Title :: string
  k_Deprecated :: "bool option"
  k_ReadOnly :: "bool option"
  k_WriteOnly :: "bool option"

datatype 'a additional = AnyMember | Members bool | EachMember 'a

datatype Schema = Schema
  (sc_kw: schema_kw)
  (sc_Properties: "(string \<times> Schema) list")
  (sc_Items: "Schema option")
  (sc_Additional: "Schema additional")
  (sc_OneOf: "Schema list")
  (sc_AnyOf: "Schema list")
  (sc_AllOf: "Schema list")
  (sc_Not: "Schema option")

definition no_keywords :: schema_kw where
  "no_keywords =
     \<lparr>k_Type = NoType, k_Required = [], k_Ref = [], k_Description = [], k_Format = [], k_Pattern = [], k_Minimum = None,
      k_Maximum = None, k_ExclusiveMinimum = None, k_ExclusiveMaximum = None, k_MultipleOf = None, k_MinLength = None,
      k_MaxLength = None, k_MinItems = None, k_MaxItems = None, k_MinProperties = None, k_MaxProperties = None,
      k_UniqueItems = None, k_ContentEncoding = [], k_ContentMediaType = [], k_Enum = [], k_Const = AnyNil,
      k_Default = AnyNil, k_Example = AnyNil, k_Examples = [], k_Title = [], k_Deprecated = None, k_ReadOnly = None,
      k_WriteOnly = None\<rparr>"

definition leaf :: "schema_kw \<Rightarrow> Schema" where
  "leaf kw = Schema kw [] None AnyMember [] [] [] None"

definition typed :: "string \<Rightarrow> Schema" where
  "typed t = leaf (no_keywords\<lparr>k_Type := OneType t\<rparr>)"

definition formatted :: "string \<Rightarrow> string \<Rightarrow> Schema" where
  "formatted t f = leaf (no_keywords\<lparr>k_Type := OneType t, k_Format := f\<rparr>)"

definition ref_to :: "string \<Rightarrow> Schema" where
  "ref_to r = leaf (no_keywords\<lparr>k_Ref := r\<rparr>)"

definition array_of :: "Schema \<Rightarrow> Schema" where
  "array_of s = Schema (no_keywords\<lparr>k_Type := OneType ''array''\<rparr>) [] (Some s) AnyMember [] [] [] None"

definition map_of_values :: "Schema \<Rightarrow> Schema" where
  "map_of_values s = Schema (no_keywords\<lparr>k_Type := OneType ''object''\<rparr>) [] None (EachMember s) [] [] [] None"

definition object_of :: "(string \<times> Schema) list \<Rightarrow> string list \<Rightarrow> Schema" where
  "object_of props required =
     Schema (no_keywords\<lparr>k_Type := OneType ''object'', k_Required := required\<rparr>) props None AnyMember [] [] [] None"

definition with_kw :: "(schema_kw \<Rightarrow> schema_kw) \<Rightarrow> Schema \<Rightarrow> Schema" where
  "with_kw f s =
     Schema (f (sc_kw s)) (sc_Properties s) (sc_Items s) (sc_Additional s) (sc_OneOf s) (sc_AnyOf s) (sc_AllOf s) (sc_Not s)"

lemma with_kw_simps [simp]:
  "sc_kw (with_kw f s) = f (sc_kw s)" "sc_Properties (with_kw f s) = sc_Properties s" "sc_Items (with_kw f s) = sc_Items s"
  "sc_Additional (with_kw f s) = sc_Additional s" "sc_OneOf (with_kw f s) = sc_OneOf s" "sc_AnyOf (with_kw f s) = sc_AnyOf s"
  "sc_AllOf (with_kw f s) = sc_AllOf s" "sc_Not (with_kw f s) = sc_Not s"
  by (simp_all add: with_kw_def)

definition set_Items :: "Schema option \<Rightarrow> Schema \<Rightarrow> Schema" where
  "set_Items it s = Schema (sc_kw s) (sc_Properties s) it (sc_Additional s) (sc_OneOf s) (sc_AnyOf s) (sc_AllOf s) (sc_Not s)"

definition set_Not :: "Schema option \<Rightarrow> Schema \<Rightarrow> Schema" where
  "set_Not nt s = Schema (sc_kw s) (sc_Properties s) (sc_Items s) (sc_Additional s) (sc_OneOf s) (sc_AnyOf s) (sc_AllOf s) nt"

definition set_AnyOf :: "Schema list \<Rightarrow> Schema \<Rightarrow> Schema" where
  "set_AnyOf xs s = Schema (sc_kw s) (sc_Properties s) (sc_Items s) (sc_Additional s) (sc_OneOf s) xs (sc_AllOf s) (sc_Not s)"

definition set_AllOf :: "Schema list \<Rightarrow> Schema \<Rightarrow> Schema" where
  "set_AllOf xs s = Schema (sc_kw s) (sc_Properties s) (sc_Items s) (sc_Additional s) (sc_OneOf s) (sc_AnyOf s) xs (sc_Not s)"

definition set_Additional :: "Schema additional \<Rightarrow> Schema \<Rightarrow> Schema" where
  "set_Additional ad s = Schema (sc_kw s) (sc_Properties s) (sc_Items s) ad (sc_OneOf s) (sc_AnyOf s) (sc_AllOf s) (sc_Not s)"

abbreviation sc_Type :: "Schema \<Rightarrow> schema_type" where
  "sc_Type s \<equiv> k_Type (sc_kw s)"

abbreviation sc_Ref :: "Schema \<Rightarrow> string" where
  "sc_Ref s \<equiv> k_Ref (sc_kw s)"


subsection \<open>Types\<close>

definition hasType :: "Schema \<Rightarrow> string \<Rightarrow> bool" where
  "hasType s name =
     (case sc_Type s of
        NoType \<Rightarrow> False
      | OneType t \<Rightarrow> t = name
      | Types ts \<Rightarrow> name \<in> set ts
      | AnyTypes vs \<Rightarrow> AnyStr name \<in> set vs)"

definition schemaIsNumeric :: "Schema \<Rightarrow> bool" where
  "schemaIsNumeric s \<longleftrightarrow> hasType s ''integer'' \<or> hasType s ''number''"

definition schemaIsInt64String :: "Schema \<Rightarrow> bool" where
  "schemaIsInt64String s \<longleftrightarrow> hasType s ''string'' \<and> k_Format (sc_kw s) \<in> {''int64'', ''uint64''}"

definition schemaIsPlainString :: "Schema \<Rightarrow> bool" where
  "schemaIsPlainString s \<longleftrightarrow> hasType s ''string'' \<and> \<not> schemaIsInt64String s"


subsection \<open>Nullability\<close>

text \<open>What is left of a list of types without null.\<close>

definition strip_null :: "schema_type \<Rightarrow> schema_type" where
  "strip_null t =
     (case t of
        Types ts \<Rightarrow> (case filter (\<lambda>x. x \<noteq> ''null'') ts of [] \<Rightarrow> NoType | [x] \<Rightarrow> OneType x | xs \<Rightarrow> Types xs)
      | AnyTypes vs \<Rightarrow>
          (case filter (\<lambda>x. x \<noteq> AnyStr ''null'') vs of [] \<Rightarrow> NoType | [AnyStr x] \<Rightarrow> OneType x | xs \<Rightarrow> AnyTypes xs)
      | _ \<Rightarrow> t)"

definition drop_nullable_word :: "Schema \<Rightarrow> Schema" where
  "drop_nullable_word s =
     (if has_prefix (k_Description (sc_kw s)) ''Nullable '' then
        (case drop 9 (k_Description (sc_kw s)) of
           [] \<Rightarrow> with_kw (\<lambda>k. k\<lparr>k_Description := []\<rparr>) s
         | c # cs \<Rightarrow> with_kw (\<lambda>k. k\<lparr>k_Description := upper_char c # cs\<rparr>) s)
      else s)"

definition is_null :: "Schema \<Rightarrow> bool" where
  "is_null s \<longleftrightarrow> sc_Type s = OneType ''null''"

fun removeNullability :: "Schema \<Rightarrow> Schema" where
  "removeNullability (Schema kw ps it ad oo ao al nt) =
     (let kw' = kw\<lparr>k_Type := strip_null (k_Type kw)\<rparr>;
          kept = map removeNullability (filter (\<lambda>s. \<not> is_null s) ao)
      in drop_nullable_word
           (if ao = [] then Schema kw' ps it ad oo ao al nt
            else case kept of
              [only] \<Rightarrow> if k_Ref kw' = [] \<and> k_Type kw' = NoType \<and> ps = [] \<and> it = None then only
                        else Schema kw' ps it ad oo kept al nt
            | _ \<Rightarrow> Schema kw' ps it ad oo kept al nt))"

definition normalizeParameterSchema :: "string \<Rightarrow> Schema option \<Rightarrow> Schema option" where
  "normalizeParameterSchema loc s = map_option removeNullability s"


subsection \<open>References\<close>

definition schemaRefPrefix :: string where
  "schemaRefPrefix = ''#/components/schemas/''"

text \<open>
  \<open>map_refs f\<close> is the walk of \<open>updateSchemaRefs\<close> and of \<open>canonicalizeRefs\<close>, \<open>schema_refs\<close> the one of
  \<open>collectSchemaRefs\<close>.
\<close>

primrec map_refs :: "(string \<Rightarrow> string) \<Rightarrow> Schema \<Rightarrow> Schema" where
  "map_refs f (Schema kw ps it ad oo ao al nt) =
     Schema (if k_Ref kw \<noteq> [] then kw\<lparr>k_Ref := f (k_Ref kw)\<rparr> else kw)
       (map (map_prod id (map_refs f)) ps) (map_option (map_refs f) it) (map_additional (map_refs f) ad)
       (map (map_refs f) oo) (map (map_refs f) ao) (map (map_refs f) al) (map_option (map_refs f) nt)"

definition updateSchemaRefs :: "(string \<rightharpoonup> string) \<Rightarrow> Schema \<Rightarrow> Schema" where
  "updateSchemaRefs mapping s = map_refs (\<lambda>r. case mapping r of Some r' \<Rightarrow> r' | None \<Rightarrow> r) s"

definition canonicalizeRefs :: "(string \<Rightarrow> string) \<Rightarrow> Schema \<Rightarrow> Schema" where
  "canonicalizeRefs canonical s = map_refs canonical s"

definition from_option :: "'a list option \<Rightarrow> 'a list" where
  "from_option x = (case x of None \<Rightarrow> [] | Some xs \<Rightarrow> xs)"

definition from_additional :: "'a list additional \<Rightarrow> 'a list" where
  "from_additional x = (case x of EachMember xs \<Rightarrow> xs | _ \<Rightarrow> [])"

primrec schema_refs :: "Schema \<Rightarrow> string list" where
  "schema_refs (Schema kw ps it ad oo ao al nt) =
     (if k_Ref kw \<noteq> [] then [k_Ref kw] else []) @
     concat (map snd (map (map_prod id schema_refs) ps)) @ from_option (map_option schema_refs it) @
     concat (map schema_refs oo) @ concat (map schema_refs ao) @ concat (map schema_refs al) @
     from_option (map_option schema_refs nt) @ from_additional (map_additional schema_refs ad)"

definition collectSchemaRefs :: "Schema option \<Rightarrow> string list" where
  "collectSchemaRefs s = (case s of None \<Rightarrow> [] | Some x \<Rightarrow> map (\<lambda>r. trim_prefix r schemaRefPrefix) (schema_refs x))"

definition schemasEquivalent :: "Schema option \<Rightarrow> Schema option \<Rightarrow> (string \<Rightarrow> string) \<Rightarrow> bool" where
  "schemasEquivalent a b canonical =
     (case (a, b) of (Some x, Some y) \<Rightarrow> canonicalizeRefs canonical x = canonicalizeRefs canonical y | _ \<Rightarrow> False)"

definition envelopeSchema :: "Schema \<Rightarrow> Schema option \<Rightarrow> Schema" where
  "envelopeSchema dataSchema metaSchema =
     (let props = put ''data'' dataSchema [(''message'', typed ''string'')]
      in object_of (case metaSchema of None \<Rightarrow> props | Some m \<Rightarrow> put ''meta'' m props) [''message''])"


subsection \<open>Facts\<close>

lemma set_from_option [simp]: "set (from_option x) = (\<Union>xs\<in>set_option x. set xs)"
  by (cases x) (simp_all add: from_option_def)

lemma set_from_additional [simp]: "set (from_additional x) = (\<Union>xs\<in>set_additional x. set xs)"
  by (cases x) (simp_all add: from_additional_def)

text \<open>Proofs about the walks go over the immediate sub-schemas.\<close>

definition subschemas :: "Schema \<Rightarrow> Schema set" where
  "subschemas s =
     snd ` set (sc_Properties s) \<union> set_option (sc_Items s) \<union> set_additional (sc_Additional s) \<union> set (sc_OneOf s) \<union>
     set (sc_AnyOf s) \<union> set (sc_AllOf s) \<union> set_option (sc_Not s)"

lemma schema_induct:
  assumes "\<And>s. (\<And>x. x \<in> subschemas s \<Longrightarrow> P x) \<Longrightarrow> P s"
  shows "P s"
proof (induction s)
  case (Schema kw ps it ad oo ao al nt)
  have "P x" if "x \<in> subschemas (Schema kw ps it ad oo ao al nt)" for x
    using that Schema by (auto simp: subschemas_def)
  then show ?case by (rule assms)
qed

definition own_refs :: "Schema \<Rightarrow> string set" where
  "own_refs s = (if sc_Ref s \<noteq> [] then {sc_Ref s} else {})"

lemma refs_of_parts:
  "set (concat (map snd (map (map_prod id schema_refs) ps))) = (\<Union>x\<in>snd ` set ps. set (schema_refs x))"
  "set (concat (map schema_refs xs)) = (\<Union>x\<in>set xs. set (schema_refs x))"
  "set (from_option (map_option schema_refs it)) = (\<Union>x\<in>set_option it. set (schema_refs x))"
  "set (from_additional (map_additional schema_refs ad)) = (\<Union>x\<in>set_additional ad. set (schema_refs x))"
  by (simp_all add: option.set_map additional.set_map)

lemma set_schema_refs: "set (schema_refs s) = own_refs s \<union> (\<Union>x\<in>subschemas s. set (schema_refs x))"
proof (cases s)
  case (Schema kw ps it ad oo ao al nt)
  have own: "set (if k_Ref kw \<noteq> [] then [k_Ref kw] else []) = own_refs s" by (simp add: own_refs_def Schema)
  show ?thesis
    unfolding Schema schema_refs.simps set_append refs_of_parts own [unfolded Schema] subschemas_def Schema.sel UN_Un
    by (simp only: Un_assoc Un_commute Un_left_commute)
qed

lemma subschemas_map_refs [simp]: "subschemas (map_refs f s) = map_refs f ` subschemas s"
  by (cases s) (simp add: subschemas_def option.set_map additional.set_map image_Un image_image)

lemma own_map_refs: "own_refs (map_refs f s) = {r \<in> f ` own_refs s. r \<noteq> []}"
  by (cases s) (auto simp: own_refs_def)

lemma map_refs_refs: "set (schema_refs (map_refs f s)) = {r \<in> f ` set (schema_refs s). r \<noteq> []}"
proof (induction s rule: schema_induct)
  case (1 s)
  then show ?case by (subst (1 2) set_schema_refs) (auto simp: own_map_refs)
qed

lemma map_refs_eqI:
  "(sc_Ref s \<noteq> [] \<Longrightarrow> f (sc_Ref s) = g (sc_Ref s)) \<Longrightarrow> (\<And>x. x \<in> subschemas s \<Longrightarrow> map_refs f x = map_refs g x) \<Longrightarrow>
     map_refs f s = map_refs g s"
  by (cases s; auto simp: subschemas_def intro!: option.map_cong0 additional.map_cong0 prod.map_cong0)
    (metis image_eqI snd_conv)

lemma map_refs_cong: "(\<And>r. r \<in> set (schema_refs s) \<Longrightarrow> f r = g r) \<Longrightarrow> map_refs f s = map_refs g s"
proof (induction s rule: schema_induct)
  case (1 s)
  show ?case
  proof (rule map_refs_eqI)
    show "f (sc_Ref s) = g (sc_Ref s)" if "sc_Ref s \<noteq> []"
      using that by (intro "1.prems") (simp add: set_schema_refs [of s] own_refs_def)
    show "map_refs f x = map_refs g x" if "x \<in> subschemas s" for x
      using that by (intro "1.IH" "1.prems") (auto simp: set_schema_refs [of s])
  qed
qed

lemma map_refs_id: "(\<And>r. r \<in> set (schema_refs s) \<Longrightarrow> f r = r) \<Longrightarrow> map_refs f s = s"
proof -
  have "map_refs (\<lambda>r. r) s = s"
    by (induction s) (auto simp: map_idI prod.map_ident_strong additional.map_ident_strong split: option.splits intro!: option.map_ident_strong)
  moreover assume "\<And>r. r \<in> set (schema_refs s) \<Longrightarrow> f r = r"
  ultimately show ?thesis using map_refs_cong [of s f "\<lambda>r. r"] by simp
qed

end
