(* ===== verification/Schema_Tags.thy ===== *)
theory Schema_Tags
  imports Schema
begin

text \<open>
  The tag vocabulary of \<^verbatim>\<open>internal/httpx/schema.go\<close>: how the tags of a struct field constrain its schema.
  Each function returns the schema, the violations it reports, in order, and the note it leaves for the
  description. \<open>strconv.ParseFloat\<close>, the verb \<open>%q\<close> and the registered validations are parameters.
\<close>

subsection \<open>Parameters and violations\<close>

record Parameter =
  pa_Name :: string
  pa_In :: string
  pa_Description :: string
  pa_Required :: bool
  pa_Schema :: "Schema option"
  pa_Style :: string
  pa_Explode :: "bool option"
  pa_AllowEmptyValue :: bool

datatype schema_violation =
    Unregistered string
  | UnregisteredEnum string string
  | EmbeddedSerialization string string
  | RequestEmbeds string string
  | JsonOption string string string
  | MalformedEntry string string
  | UnknownOpenAPIKey string string
  | ParameterOnly string string
  | NonNumeric string string string
  | NonInteger string string string
  | NonBoolean string string string
  | NoMapping string string
  | NoValues string string
  | NonNumericParam string string string
  | NonIntegerParam string string string
  | UnownedComponent string
  | OwnerlessComponent string
  | InvalidComponentName string string
  | NameCollision string string string

type_synonym schema_mapping = "Schema \<Rightarrow> string \<Rightarrow> Schema \<times> string"

record tag_env =
  tg_ParseFloat :: "string \<Rightarrow> gval option"
  tg_quote :: "string \<Rightarrow> string"
  tg_custom :: "(string \<times> schema_mapping) list"

text \<open>Sixty-four bit addition on lengths.\<close>

definition wrap64 :: "int \<Rightarrow> int" where
  "wrap64 n = (n + 2 ^ 63) mod 2 ^ 64 - 2 ^ 63"


subsection \<open>Values\<close>

definition typedScalarValue :: "tag_env \<Rightarrow> Schema \<Rightarrow> string \<Rightarrow> any_value" where
  "typedScalarValue env s raw =
     (case (if schemaIsNumeric s then tg_ParseFloat env raw else None) of
        Some f \<Rightarrow> AnyFloat f
      | None \<Rightarrow>
          (case (if hasType s ''boolean'' then parse_bool raw else None) of
             Some b \<Rightarrow> AnyBool b
           | None \<Rightarrow> AnyStr raw))"

definition enumValuesForSchema :: "tag_env \<Rightarrow> Schema \<Rightarrow> string list \<Rightarrow> any_value list" where
  "enumValuesForSchema env target vals =
     map (\<lambda>v. case (if schemaIsNumeric target then tg_ParseFloat env v else None) of Some f \<Rightarrow> AnyFloat f | None \<Rightarrow> AnyStr v) vals"

definition appendValidationNotes :: "Schema \<Rightarrow> string list \<Rightarrow> Schema" where
  "appendValidationNotes s notes =
     (let joined = ''Validation: '' @ join notes ''; ''
      in with_kw (\<lambda>k. k\<lparr>k_Description :=
           (if k_Description k = [] then joined else k_Description k @ [CHR 0x0A, CHR 0x0A] @ joined)\<rparr>) s)"


subsection \<open>Bounds\<close>

datatype boundKind = boundGreaterThan | boundAtLeast | boundLessThan | boundAtMost

fun phrase :: "boundKind \<Rightarrow> string" where
  "phrase boundGreaterThan = ''must be greater than ''"
| "phrase boundAtLeast = ''must be greater than or equal to ''"
| "phrase boundLessThan = ''must be less than ''"
| "phrase boundAtMost = ''must be less than or equal to ''"

fun numeric_bound :: "boundKind \<Rightarrow> gval \<Rightarrow> schema_kw \<Rightarrow> schema_kw" where
  "numeric_bound boundGreaterThan f k = k\<lparr>k_ExclusiveMinimum := Some f\<rparr>"
| "numeric_bound boundAtLeast f k = k\<lparr>k_Minimum := Some f\<rparr>"
| "numeric_bound boundLessThan f k = k\<lparr>k_ExclusiveMaximum := Some f\<rparr>"
| "numeric_bound boundAtMost f k = k\<lparr>k_Maximum := Some f\<rparr>"

fun length_bound :: "boundKind \<Rightarrow> int \<Rightarrow> schema_kw \<Rightarrow> schema_kw" where
  "length_bound boundGreaterThan n k = k\<lparr>k_MinLength := Some (wrap64 (n + 1))\<rparr>"
| "length_bound boundAtLeast n k = k\<lparr>k_MinLength := Some n\<rparr>"
| "length_bound boundLessThan n k = k\<lparr>k_MaxLength := Some (wrap64 (n - 1))\<rparr>"
| "length_bound boundAtMost n k = k\<lparr>k_MaxLength := Some n\<rparr>"

fun items_bound :: "boundKind \<Rightarrow> int \<Rightarrow> schema_kw \<Rightarrow> schema_kw" where
  "items_bound boundGreaterThan n k = k\<lparr>k_MinItems := Some (wrap64 (n + 1))\<rparr>"
| "items_bound boundAtLeast n k = k\<lparr>k_MinItems := Some n\<rparr>"
| "items_bound boundLessThan n k = k\<lparr>k_MaxItems := Some (wrap64 (n - 1))\<rparr>"
| "items_bound boundAtMost n k = k\<lparr>k_MaxItems := Some n\<rparr>"

fun properties_bound :: "boundKind \<Rightarrow> int \<Rightarrow> schema_kw \<Rightarrow> schema_kw" where
  "properties_bound boundGreaterThan n k = k\<lparr>k_MinProperties := Some (wrap64 (n + 1))\<rparr>"
| "properties_bound boundAtLeast n k = k\<lparr>k_MinProperties := Some n\<rparr>"
| "properties_bound boundLessThan n k = k\<lparr>k_MaxProperties := Some (wrap64 (n - 1))\<rparr>"
| "properties_bound boundAtMost n k = k\<lparr>k_MaxProperties := Some n\<rparr>"

type_synonym token_result = "Schema \<times> schema_violation list \<times> string"

definition plain :: "Schema \<Rightarrow> token_result" where
  "plain s = (s, [], [])"

definition noted :: "Schema \<Rightarrow> string \<Rightarrow> token_result" where
  "noted s note = (s, [], note)"

definition applyBound :: "tag_env \<Rightarrow> Schema \<Rightarrow> string \<Rightarrow> string \<Rightarrow> string \<Rightarrow> boundKind \<Rightarrow> token_result" where
  "applyBound env target key param label kind =
     (if schemaIsNumeric target then
        (case tg_ParseFloat env param of
           None \<Rightarrow> (target, [NonNumericParam label key param], [])
         | Some f \<Rightarrow> plain (with_kw (numeric_bound kind f) target))
      else if schemaIsInt64String target then noted target (phrase kind @ param)
      else case parse_int 64 param of
        None \<Rightarrow> (target, [NonIntegerParam label key param], [])
      | Some n \<Rightarrow>
          if schemaIsPlainString target then plain (with_kw (length_bound kind n) target)
          else if hasType target ''array'' then plain (with_kw (items_bound kind n) target)
          else if hasType target ''object'' then plain (with_kw (properties_bound kind n) target)
          else noted target (phrase kind @ param))"

definition applyExactLength :: "Schema \<Rightarrow> string \<Rightarrow> string \<Rightarrow> token_result" where
  "applyExactLength target param label =
     (if schemaIsNumeric target \<or> schemaIsInt64String target then noted target (''must equal '' @ param)
      else case parse_int 64 param of
        None \<Rightarrow> (target, [NonIntegerParam label ''len'' param], [])
      | Some n \<Rightarrow>
          if schemaIsPlainString target then plain (with_kw (\<lambda>k. k\<lparr>k_MinLength := Some n, k_MaxLength := Some n\<rparr>) target)
          else if hasType target ''array'' then plain (with_kw (\<lambda>k. k\<lparr>k_MinItems := Some n, k_MaxItems := Some n\<rparr>) target)
          else if hasType target ''object'' then
            plain (with_kw (\<lambda>k. k\<lparr>k_MinProperties := Some n, k_MaxProperties := Some n\<rparr>) target)
          else noted target (''length must equal '' @ param))"


subsection \<open>Formats and patterns\<close>

definition applyFormat :: "Schema \<Rightarrow> string \<Rightarrow> string \<Rightarrow> token_result" where
  "applyFormat target format note =
     (if hasType target ''string'' then plain (with_kw (\<lambda>k. k\<lparr>k_Format := format\<rparr>) target) else noted target note)"

definition applyPattern :: "Schema \<Rightarrow> string \<Rightarrow> string \<Rightarrow> token_result" where
  "applyPattern target pattern note =
     (if \<not> hasType target ''string'' \<or> schemaIsInt64String target then noted target note
      else if k_Pattern (sc_kw target) \<noteq> [] \<and> k_Pattern (sc_kw target) \<noteq> pattern
      then noted target (note @ '' (pattern '' @ pattern @ '')'')
      else plain (with_kw (\<lambda>k. k\<lparr>k_Pattern := pattern\<rparr>) target))"

definition apply_code_pattern :: "Schema \<Rightarrow> string \<Rightarrow> string \<Rightarrow> int \<Rightarrow> token_result" where
  "apply_code_pattern target pattern note n =
     (case applyPattern target pattern note of
        (s, vs, note') \<Rightarrow>
          (if note' = [] then with_kw (\<lambda>k. k\<lparr>k_MinLength := Some n, k_MaxLength := Some n\<rparr>) s else s, vs, note'))"

definition float_lit :: "int \<Rightarrow> gval" where
  "float_lit n = VOpaque (itoa n)"

definition applyNumericRange :: "Schema \<Rightarrow> int \<Rightarrow> int \<Rightarrow> string \<Rightarrow> token_result" where
  "applyNumericRange target lo hi note =
     (if \<not> schemaIsNumeric target then noted target note
      else plain (with_kw (\<lambda>k. k\<lparr>k_Minimum := Some (float_lit lo), k_Maximum := Some (float_lit hi)\<rparr>) target))"

definition applyDatetime :: "tag_env \<Rightarrow> Schema \<Rightarrow> string \<Rightarrow> token_result" where
  "applyDatetime env target layout =
     (let note = ''formatted as Go time layout '' @ tg_quote env layout in
      if layout = [] then noted target ''must be a valid datetime''
      else if \<not> hasType target ''string'' \<or> schemaIsInt64String target then noted target note
      else if layout = ''2006-01-02'' then plain (with_kw (\<lambda>k. k\<lparr>k_Format := ''date''\<rparr>) target)
      else if contains ''15:04'' layout then plain (with_kw (\<lambda>k. k\<lparr>k_Format := ''date-time''\<rparr>) target)
      else noted target note)"

definition format_tokens :: "(string \<times> string \<times> string) list" where
  "format_tokens =
     [(''email'', ''email'', ''must be a valid email address''), (''uuid'', ''uuid'', ''must be a valid UUID''),
      (''uuid4'', ''uuid'', ''must be a valid UUID''), (''uri'', ''uri'', ''must be a valid URI''),
      (''url'', ''uri'', ''must be a valid URI''), (''ipv4'', ''ipv4'', ''must be a valid IPv4 address''),
      (''ipv6'', ''ipv6'', ''must be a valid IPv6 address''), (''hostname'', ''hostname'', ''must be a valid hostname'')]"

definition patternE164 :: string where
  "patternE164 = ''^'' @ [CHR 0x5C] @ ''+[1-9]'' @ [CHR 0x5C] @ ''d{1,14}$''"

definition pattern_tokens :: "(string \<times> string \<times> string) list" where
  "pattern_tokens =
     [(''e164'', patternE164, ''must be an E.164 phone number''), (''alpha'', ''^[a-zA-Z]+$'', ''must contain only letters''),
      (''alphanum'', ''^[a-zA-Z0-9]+$'', ''must contain only letters and digits''),
      (''hexadecimal'', ''^(0[xX])?[0-9a-fA-F]+$'', ''must be a hexadecimal string''),
      (''lowercase'', ''^[^A-Z]*$'', ''must be lowercase''), (''uppercase'', ''^[^a-z]*$'', ''must be uppercase'')]"

text \<open>The classes that mean nothing on a value that is not a genuine string.\<close>

definition string_pattern_tokens :: "(string \<times> string \<times> string) list" where
  "string_pattern_tokens =
     [(''number'', ''^[0-9]+$'', ''must contain only digits''),
      (''numeric'', ''^[-+]?[0-9]+(?:'' @ [CHR 0x5C] @ ''.[0-9]+)?$'', ''must be a numeric value''),
      (''boolean'', ''^(true|false|TRUE|FALSE|True|False|t|f|T|F|0|1)$'', ''must be a boolean value'')]"

definition cross_field_notes :: "(string \<times> string) list" where
  "cross_field_notes =
     [(''eqfield'', ''must equal field ''), (''eqcsfield'', ''must equal field ''), (''nefield'', ''must not equal field ''),
      (''necsfield'', ''must not equal field ''), (''gtfield'', ''must be greater than field ''),
      (''gtcsfield'', ''must be greater than field ''), (''gtefield'', ''must be greater than or equal to field ''),
      (''gtecsfield'', ''must be greater than or equal to field ''), (''ltfield'', ''must be less than field ''),
      (''ltcsfield'', ''must be less than field ''), (''ltefield'', ''must be less than or equal to field ''),
      (''ltecsfield'', ''must be less than or equal to field ''),
      (''postcode_iso3166_alpha2_field'', ''must be a valid postal code for the country code in field '')]"

definition bound_tokens :: "(string \<times> boundKind) list" where
  "bound_tokens =
     [(''gt'', boundGreaterThan), (''gte'', boundAtLeast), (''min'', boundAtLeast), (''lt'', boundLessThan),
      (''lte'', boundAtMost), (''max'', boundAtMost)]"

definition conditional_tokens :: "string list" where
  "conditional_tokens =
     [''required_if'', ''required_unless'', ''required_with'', ''required_with_all'', ''required_without'',
      ''required_without_all'']"


subsection \<open>One validate token\<close>

text \<open>\<open>strings.Fields\<close>.\<close>

fun fields_from :: "nat \<Rightarrow> string \<Rightarrow> string \<Rightarrow> string list" where
  "fields_from (Suc n) cur (c # cs) =
     (case List.find (\<lambda>w. has_prefix (c # cs) w) space_seqs of
        Some w \<Rightarrow> (if cur = [] then [] else [cur]) @ fields_from n [] (drop (length w) (c # cs))
      | None \<Rightarrow> fields_from n (cur @ [c]) cs)"
| "fields_from n cur cs = (if cur = [] then [] else [cur])"

definition fields :: "string \<Rightarrow> string list" where
  "fields s = fields_from (length s) [] s"

definition apply_ne :: "tag_env \<Rightarrow> Schema \<Rightarrow> string \<Rightarrow> string \<Rightarrow> token_result" where
  "apply_ne env target param label =
     (if schemaIsNumeric target then
        (case tg_ParseFloat env param of
           None \<Rightarrow> (target, [NonNumericParam label ''ne'' param], [])
         | Some f \<Rightarrow> plain (set_Not (Some (leaf (no_keywords\<lparr>k_Const := AnyFloat f\<rparr>))) target))
      else if schemaIsPlainString target then plain (set_Not (Some (leaf (no_keywords\<lparr>k_Const := AnyStr param\<rparr>))) target)
      else noted target (''must not equal '' @ param))"

definition apply_oneof :: "tag_env \<Rightarrow> Schema \<Rightarrow> string \<Rightarrow> string \<Rightarrow> token_result" where
  "apply_oneof env target param label =
     (let vals = fields param in
      if vals = [] then (target, [NoValues label ''oneof''], [])
      else if sc_Type target = NoType \<and> (sc_Ref target \<noteq> [] \<or> sc_AnyOf target \<noteq> [])
      then noted target (''must be one of: '' @ join vals '', '')
      else plain (with_kw (\<lambda>k. k\<lparr>k_Enum := enumValuesForSchema env target vals\<rparr>) target))"

definition apply_string_keyword :: "Schema \<Rightarrow> (schema_kw \<Rightarrow> schema_kw) \<Rightarrow> string \<Rightarrow> token_result" where
  "apply_string_keyword target f note = (if hasType target ''string'' then plain (with_kw f target) else noted target note)"

text \<open>\<open>None\<close> is a token without a mapping. The keys of the tables and of the tests are all different.\<close>

definition applyValidateToken :: "tag_env \<Rightarrow> Schema \<Rightarrow> string \<Rightarrow> string \<Rightarrow> string \<Rightarrow> token_result option" where
  "applyValidateToken env target key param label =
     (if key \<in> set [''required'', ''omitempty'', ''omitzero'', ''-''] then Some (plain target)
      else if key \<in> set conditional_tokens
      then Some (noted target (''conditionally required ('' @ key @ ''='' @ param @ '')''))
      else case map_of bound_tokens key of Some kind \<Rightarrow> Some (applyBound env target key param label kind) | None \<Rightarrow>
      if key = ''len'' then Some (applyExactLength target param label)
      else if key = ''ne'' then Some (apply_ne env target param label)
      else if key = ''oneof'' then Some (apply_oneof env target param label)
      else if key = ''unique'' then
        Some (if hasType target ''array'' then plain (with_kw (\<lambda>k. k\<lparr>k_UniqueItems := Some True\<rparr>) target)
              else noted target ''values must be unique'')
      else case map_of format_tokens key of Some (format, note) \<Rightarrow> Some (applyFormat target format note) | None \<Rightarrow>
      if key = ''ip'' then Some (noted target ''must be a valid IP address'')
      else if key = ''datetime'' then Some (applyDatetime env target param)
      else if key = ''base64'' then
        Some (apply_string_keyword target (\<lambda>k. k\<lparr>k_ContentEncoding := ''base64''\<rparr>) ''must be base64-encoded'')
      else if key = ''json'' then
        Some (apply_string_keyword target (\<lambda>k. k\<lparr>k_ContentMediaType := ''application/json''\<rparr>) ''must be a valid JSON document'')
      else case map_of pattern_tokens key of Some (pattern, note) \<Rightarrow> Some (applyPattern target pattern note) | None \<Rightarrow>
      case map_of string_pattern_tokens key of
        Some (pattern, note) \<Rightarrow> Some (if schemaIsPlainString target then applyPattern target pattern note else plain target)
      | None \<Rightarrow>
      if key = ''iso3166_1_alpha2''
      then Some (apply_code_pattern target ''^[A-Z]{2}$'' ''must be an ISO 3166-1 alpha-2 country code'' 2)
      else if key = ''iso4217'' then Some (apply_code_pattern target ''^[A-Z]{3}$'' ''must be an ISO 4217 currency code'' 3)
      else if key = ''latitude'' then Some (applyNumericRange target (-90) 90 ''must be a latitude between -90 and 90'')
      else if key = ''longitude'' then Some (applyNumericRange target (-180) 180 ''must be a longitude between -180 and 180'')
      else if key = ''timezone''
      then Some (noted target ''must be a valid IANA time zone name (e.g. UTC, America/New_York)'')
      else case map_of cross_field_notes key of Some note \<Rightarrow> Some (noted target (note @ tg_quote env param)) | None \<Rightarrow>
      (case map_of (tg_custom env) key of
         Some f \<Rightarrow> (case f target param of (s, note) \<Rightarrow> Some (s, [], note))
       | None \<Rightarrow> None))"


subsection \<open>The validate tag\<close>

text \<open>The schema below a number of item steps, read and replaced.\<close>

fun items_at :: "nat \<Rightarrow> Schema \<Rightarrow> Schema" where
  "items_at 0 s = s"
| "items_at (Suc n) s = (case sc_Items s of Some it \<Rightarrow> items_at n it | None \<Rightarrow> s)"

fun replace_at :: "nat \<Rightarrow> Schema \<Rightarrow> Schema \<Rightarrow> Schema" where
  "replace_at 0 new s = new"
| "replace_at (Suc n) new s = (case sc_Items s of Some it \<Rightarrow> set_Items (Some (replace_at n new it)) s | None \<Rightarrow> s)"

fun validate_tokens ::
  "tag_env \<Rightarrow> string \<Rightarrow> string list \<Rightarrow> nat \<Rightarrow> Schema \<Rightarrow> Schema \<times> schema_violation list \<times> string list" where
  "validate_tokens env label [] depth s = (s, [], [])"
| "validate_tokens env label (raw # raws) depth s =
     (let token = trim_space raw; target = items_at depth s in
      if token = [] then validate_tokens env label raws depth s
      else if token = ''dive'' then
        (if hasType target ''array'' \<and> sc_Items target \<noteq> None then validate_tokens env label raws (Suc depth) s
         else case validate_tokens env label raws depth s of
           (s', vs, notes) \<Rightarrow> (s', vs, ''elements are validated individually (dive)'' # notes))
      else case cut token (CHR ''='') of
        (key, param, _) \<Rightarrow>
          (case applyValidateToken env target key param label of
             None \<Rightarrow>
               (case validate_tokens env label raws depth s of (s', vs, notes) \<Rightarrow> (s', NoMapping label token # vs, notes))
           | Some (t, vs1, note) \<Rightarrow>
               (case validate_tokens env label raws depth (replace_at depth t s) of
                  (s', vs, notes) \<Rightarrow>
                    (s', vs1 @ vs,
                     (if note = [] then [] else [(if depth > 0 then ''each item: '' else []) @ note]) @ notes))))"

definition applyValidateTag :: "tag_env \<Rightarrow> Schema \<Rightarrow> string \<Rightarrow> string \<Rightarrow> Schema \<times> schema_violation list" where
  "applyValidateTag env s tag label =
     (case validate_tokens env label (split_on (CHR '','') tag) 0 s of
        (s', vs, notes) \<Rightarrow> (if notes = [] then s' else appendValidationNotes s' notes, vs))"


subsection \<open>The openapi tag\<close>

definition float_keywords :: "(string \<times> (gval \<Rightarrow> schema_kw \<Rightarrow> schema_kw)) list" where
  "float_keywords =
     [(''minimum'', \<lambda>f k. k\<lparr>k_Minimum := Some f\<rparr>), (''maximum'', \<lambda>f k. k\<lparr>k_Maximum := Some f\<rparr>),
      (''exclusiveMinimum'', \<lambda>f k. k\<lparr>k_ExclusiveMinimum := Some f\<rparr>),
      (''exclusiveMaximum'', \<lambda>f k. k\<lparr>k_ExclusiveMaximum := Some f\<rparr>), (''multipleOf'', \<lambda>f k. k\<lparr>k_MultipleOf := Some f\<rparr>)]"

definition int_keywords :: "(string \<times> (int \<Rightarrow> schema_kw \<Rightarrow> schema_kw)) list" where
  "int_keywords =
     [(''minLength'', \<lambda>n k. k\<lparr>k_MinLength := Some n\<rparr>), (''maxLength'', \<lambda>n k. k\<lparr>k_MaxLength := Some n\<rparr>),
      (''minItems'', \<lambda>n k. k\<lparr>k_MinItems := Some n\<rparr>), (''maxItems'', \<lambda>n k. k\<lparr>k_MaxItems := Some n\<rparr>),
      (''minProperties'', \<lambda>n k. k\<lparr>k_MinProperties := Some n\<rparr>), (''maxProperties'', \<lambda>n k. k\<lparr>k_MaxProperties := Some n\<rparr>)]"

definition bool_keywords :: "(string \<times> (bool \<Rightarrow> schema_kw \<Rightarrow> schema_kw)) list" where
  "bool_keywords =
     [(''uniqueItems'', \<lambda>b k. k\<lparr>k_UniqueItems := Some b\<rparr>), (''readOnly'', \<lambda>b k. k\<lparr>k_ReadOnly := Some b\<rparr>),
      (''writeOnly'', \<lambda>b k. k\<lparr>k_WriteOnly := Some b\<rparr>), (''deprecated'', \<lambda>b k. k\<lparr>k_Deprecated := Some b\<rparr>)]"

definition text_keywords :: "tag_env \<Rightarrow> Schema \<Rightarrow> (string \<times> (string \<Rightarrow> schema_kw \<Rightarrow> schema_kw)) list" where
  "text_keywords env s =
     [(''type'', \<lambda>v k. k\<lparr>k_Type := OneType v\<rparr>), (''format'', \<lambda>v k. k\<lparr>k_Format := v\<rparr>), (''title'', \<lambda>v k. k\<lparr>k_Title := v\<rparr>),
      (''default'', \<lambda>v k. k\<lparr>k_Default := typedScalarValue env s v\<rparr>), (''const'', \<lambda>v k. k\<lparr>k_Const := typedScalarValue env s v\<rparr>),
      (''contentEncoding'', \<lambda>v k. k\<lparr>k_ContentEncoding := v\<rparr>), (''contentMediaType'', \<lambda>v k. k\<lparr>k_ContentMediaType := v\<rparr>)]"

definition applyParameterKeyword ::
  "Parameter option \<Rightarrow> string \<Rightarrow> string \<Rightarrow> string \<Rightarrow> Parameter option \<times> schema_violation list" where
  "applyParameterKeyword param key val label =
     (case param of
        None \<Rightarrow> (None, [ParameterOnly label key])
      | Some p \<Rightarrow>
          if key = ''style'' then (Some (p\<lparr>pa_Style := val\<rparr>), [])
          else case parse_bool val of
            None \<Rightarrow> (Some p, [NonBoolean label key val])
          | Some b \<Rightarrow> (Some (if key = ''explode'' then p\<lparr>pa_Explode := Some b\<rparr> else p\<lparr>pa_AllowEmptyValue := b\<rparr>), []))"

definition openapi_entry ::
  "tag_env \<Rightarrow> string \<Rightarrow> string \<Rightarrow> string \<Rightarrow> Schema \<times> Parameter option \<Rightarrow> (Schema \<times> Parameter option) \<times> schema_violation list" where
  "openapi_entry env label key val sp =
     (case sp of (s, param) \<Rightarrow>
      case map_of (text_keywords env s) key of Some f \<Rightarrow> ((with_kw (f val) s, param), []) | None \<Rightarrow>
      case map_of float_keywords key of
        Some f \<Rightarrow> (case tg_ParseFloat env val of Some x \<Rightarrow> ((with_kw (f x) s, param), []) | None \<Rightarrow> (sp, [NonNumeric label key val]))
      | None \<Rightarrow>
      case map_of int_keywords key of
        Some f \<Rightarrow> (case parse_int 64 val of Some x \<Rightarrow> ((with_kw (f x) s, param), []) | None \<Rightarrow> (sp, [NonInteger label key val]))
      | None \<Rightarrow>
      case map_of bool_keywords key of
        Some f \<Rightarrow> (case parse_bool val of Some x \<Rightarrow> ((with_kw (f x) s, param), []) | None \<Rightarrow> (sp, [NonBoolean label key val]))
      | None \<Rightarrow>
      if key \<in> set [''style'', ''explode'', ''allowEmptyValue'']
      then (case applyParameterKeyword param key val label of (p, vs) \<Rightarrow> ((s, p), vs))
      else (sp, [UnknownOpenAPIKey label key]))"

fun openapi_entries ::
  "tag_env \<Rightarrow> string \<Rightarrow> string list \<Rightarrow> Schema \<times> Parameter option \<Rightarrow> (Schema \<times> Parameter option) \<times> schema_violation list" where
  "openapi_entries env label [] sp = (sp, [])"
| "openapi_entries env label (raw # raws) sp =
     (let part = trim_space raw in
      if part = [] then openapi_entries env label raws sp
      else case cut part (CHR ''='') of
        (key, val, found) \<Rightarrow>
          (case (if found then openapi_entry env label (trim_space key) (trim_space val) sp else (sp, [MalformedEntry label part])) of
             (sp', vs) \<Rightarrow> (case openapi_entries env label raws sp' of (sp'', vs') \<Rightarrow> (sp'', vs @ vs'))))"

definition applyOpenAPITag ::
  "tag_env \<Rightarrow> Schema \<Rightarrow> Parameter option \<Rightarrow> string \<Rightarrow> string \<Rightarrow> (Schema \<times> Parameter option) \<times> schema_violation list" where
  "applyOpenAPITag env s param tag label = openapi_entries env label (split_on (CHR '','') tag) (s, param)"


subsection \<open>All tags of a field\<close>

definition apply_texts :: "sfield \<Rightarrow> Schema \<Rightarrow> Schema" where
  "apply_texts f s =
     (let s1 = (if tag_get f ''example'' \<noteq> [] then with_kw (\<lambda>k. k\<lparr>k_Example := AnyStr (tag_get f ''example'')\<rparr>) s else s)
      in if tag_get f ''pattern'' \<noteq> [] then with_kw (\<lambda>k. k\<lparr>k_Pattern := tag_get f ''pattern''\<rparr>) s1 else s1)"

definition applyEnhancedTags :: "tag_env \<Rightarrow> Schema \<Rightarrow> sfield \<Rightarrow> string \<Rightarrow> Schema \<times> schema_violation list" where
  "applyEnhancedTags env s f label =
     (let s1 = apply_texts f (if tag_get f ''doc'' \<noteq> [] then with_kw (\<lambda>k. k\<lparr>k_Description := tag_get f ''doc''\<rparr>) s else s);
          open_api = (if tag_get f ''openapi'' \<noteq> [] then applyOpenAPITag env s1 None (tag_get f ''openapi'') label else ((s1, None), []))
      in case open_api of
           ((s2, _), vs) \<Rightarrow>
             (case (if tag_get f ''validate'' \<noteq> [] then applyValidateTag env s2 (tag_get f ''validate'') label else (s2, [])) of
                (s3, vs') \<Rightarrow> (s3, vs @ vs')))"

definition applyEnhancedTagsToParameter ::
  "tag_env \<Rightarrow> Parameter \<Rightarrow> sfield \<Rightarrow> string \<Rightarrow> bool \<Rightarrow> Parameter \<times> schema_violation list" where
  "applyEnhancedTagsToParameter env p f label includeValidate =
     (let p1 = (if tag_get f ''doc'' \<noteq> [] then p\<lparr>pa_Description := tag_get f ''doc''\<rparr> else p);
          s1 = apply_texts f (case pa_Schema p of Some s \<Rightarrow> s | None \<Rightarrow> leaf no_keywords);
          open_api = (if tag_get f ''openapi'' \<noteq> [] then applyOpenAPITag env s1 (Some p1) (tag_get f ''openapi'') label
                      else ((s1, Some p1), []))
      in case open_api of
           ((s2, p2), vs) \<Rightarrow>
             (case (if includeValidate \<and> tag_get f ''validate'' \<noteq> [] then applyValidateTag env s2 (tag_get f ''validate'') label
                    else (s2, [])) of
                (s3, vs') \<Rightarrow> ((case p2 of Some q \<Rightarrow> q | None \<Rightarrow> p1)\<lparr>pa_Schema := Some s3\<rparr>, vs @ vs')))"

end
