(* ===== verification/Component_Names.thy ===== *)
theory Component_Names
  imports Routing
begin

text \<open>
  Names of schema components, from \<^verbatim>\<open>internal/httpx/schema.go\<close> and \<^verbatim>\<open>openapi.go\<close>: how the printed name of a
  type, with its type arguments, becomes a component name. Letters and digits are those of ASCII, and
  import paths are clean.
\<close>

definition capitalize :: "string \<Rightarrow> string" where
  "capitalize s = (case s of [] \<Rightarrow> [] | c # cs \<Rightarrow> upper_char c # cs)"

definition sanitizeComponentName :: "string \<Rightarrow> string" where
  "sanitizeComponentName name = filter word_char name"

definition isVersionSegment :: "string \<Rightarrow> bool" where
  "isVersionSegment s \<longleftrightarrow> length s \<ge> 2 \<and> hd s = CHR ''v'' \<and> list_all is_digit (tl s)"

definition path_base :: "string \<Rightarrow> string" where
  "path_base s =
     (if s = [] then ''.''
      else let t = rev (dropWhile (\<lambda>c. c = CHR ''/'') (rev s)) in
        if t = [] then ''/'' else (case cut_last (CHR ''/'') t of None \<Rightarrow> t | Some (_, after) \<Rightarrow> after))"

definition path_dir :: "string \<Rightarrow> string" where
  "path_dir s =
     (case cut_last (CHR ''/'') s of
        None \<Rightarrow> ''.''
      | Some (d, _) \<Rightarrow> if d = [] then ''/'' else d)"

definition shortPackageAlias :: "string \<Rightarrow> string" where
  "shortPackageAlias ref =
     (if CHR ''/'' \<notin> set ref then ref
      else let base = path_base ref in if isVersionSegment base then path_base (path_dir ref) else base)"

text \<open>
  The loop of \<open>splitTypeArgs\<close>: the nesting depth, the argument being read and the rest of the text. The
  last argument is trimmed and dropped when empty.
\<close>

fun split_args :: "int \<Rightarrow> string \<Rightarrow> string \<Rightarrow> string list" where
  "split_args depth cur [] = (let l = trim_space cur in if l = [] then [] else [l])"
| "split_args depth cur (c # cs) =
     (if c = CHR ''['' then split_args (depth + 1) (cur @ [c]) cs
      else if c = CHR '']'' then split_args (depth - 1) (cur @ [c]) cs
      else if c = CHR '','' \<and> depth = 0 then cur # split_args depth [] cs
      else split_args depth (cur @ [c]) cs)"

definition splitTypeArgs :: "string \<Rightarrow> string list" where
  "splitTypeArgs args = split_args 0 [] args"

lemma trim_seqs_length: "length (trim_seqs seqs n s) \<le> length s"
proof (induction seqs n s rule: trim_seqs.induct)
  case (2 seqs n s)
  then show ?case by (auto split: option.splits)
qed simp

lemma trim_space_length: "length (trim_space s) \<le> length s"
  using trim_seqs_length [of space_seqs "length s" s] trim_seqs_length
  by (simp add: trim_space_def Let_def) (metis (no_types) le_trans length_rev)

lemma split_args_length: "a \<in> set (split_args depth cur s) \<Longrightarrow> length a \<le> length cur + length s"
proof (induction depth cur s rule: split_args.induct)
  case (1 depth cur)
  then show ?case using trim_space_length [of cur] by (auto simp: Let_def split: if_splits)
next
  case (2 depth cur c cs)
  then show ?case by (auto split: if_splits)
qed

definition mangleNamedRef :: "(string \<Rightarrow> string \<Rightarrow> string) \<Rightarrow> string \<Rightarrow> string" where
  "mangleNamedRef name ref =
     (case cut_last (CHR ''.'') ref of
        None \<Rightarrow> capitalize (sanitizeComponentName ref)
      | Some (pkg, base) \<Rightarrow>
          let final = name (shortPackageAlias pkg) base
          in sanitizeComponentName (case cut_last (CHR ''.'') final of None \<Rightarrow> final | Some (_, n) \<Rightarrow> n))"

definition unstar :: "string \<Rightarrow> string" where
  "unstar s = dropWhile (\<lambda>c. c = CHR ''*'') (trim_space s)"

text \<open>The text inside the outermost brackets of a type argument.\<close>

definition bracket_inner :: "string \<Rightarrow> string" where
  "bracket_inner arg = butlast (tl (dropWhile (\<lambda>c. c \<noteq> CHR ''['') arg))"

lemma unstar_length: "length (unstar s) \<le> length s"
  using trim_space_length [of s] length_dropWhile_le [of "\<lambda>c. c = CHR ''*''" "trim_space s"] by (simp add: unstar_def)

lemma bracket_inner_length: "CHR ''['' \<in> set arg \<Longrightarrow> length (bracket_inner arg) < length arg"
  using length_dropWhile_le [of "\<lambda>c. c \<noteq> CHR ''[''" arg] by (cases arg) (auto simp: bracket_inner_def)

function mangleTypeArg :: "(string \<Rightarrow> string \<Rightarrow> string) \<Rightarrow> string \<Rightarrow> string"
  and mangleGenericName :: "(string \<Rightarrow> string \<Rightarrow> string) \<Rightarrow> string \<Rightarrow> string \<Rightarrow> string" where
  "mangleTypeArg name raw =
     (let arg = unstar raw in
      if has_prefix arg ''[]'' then mangleTypeArg name (drop 2 arg) @ ''List''
      else if CHR ''['' \<in> set arg then
        mangleNamedRef name (takeWhile (\<lambda>c. c \<noteq> CHR ''['') arg) @ mangleGenericName name [] (bracket_inner arg)
      else if CHR ''.'' \<in> set arg then mangleNamedRef name arg
      else capitalize arg)"
| "mangleGenericName name base args =
     sanitizeComponentName (base @ concat (map (mangleTypeArg name) (splitTypeArgs args)))"
  by pat_completeness auto
termination
proof (relation "measures
    [\<lambda>x. case x of Inl (name, raw) \<Rightarrow> length raw | Inr (name, base, args) \<Rightarrow> length args,
     \<lambda>x. case x of Inl _ \<Rightarrow> 0 | Inr _ \<Rightarrow> 1]", goal_cases)
  case (2 name raw arg)
  then show ?case using unstar_length [of raw] by (cases "unstar raw") auto
next
  case (3 name raw arg)
  then show ?case using unstar_length [of raw] bracket_inner_length [of "unstar raw"] by auto
next
  case (4 name base args x)
  then show ?case using split_args_length [of x 0 "[]" args] by (auto simp: splitTypeArgs_def)
qed simp

declare mangleTypeArg.simps [simp del] mangleGenericName.simps [simp del]

text \<open>The component name of a defined type from its printed name.\<close>

definition qualified_name :: "(string \<Rightarrow> string \<Rightarrow> string) \<Rightarrow> string \<Rightarrow> string" where
  "qualified_name name s =
     (if CHR ''['' \<notin> set s then s
      else case cut_last (CHR ''.'') (takeWhile (\<lambda>c. c \<noteq> CHR ''['') s) of
        None \<Rightarrow> sanitizeComponentName s
      | Some (pkg, base) \<Rightarrow> pkg @ ''.'' @ mangleGenericName name base (bracket_inner s))"

definition validComponentName :: "string \<Rightarrow> bool" where
  "validComponentName name \<longleftrightarrow> name \<noteq> [] \<and> list_all (\<lambda>c. word_char c \<or> c \<in> set ''._-'') name"

definition splitQualifiedName :: "string \<Rightarrow> string \<times> string" where
  "splitQualifiedName i = (case cut_last (CHR ''.'') i of None \<Rightarrow> ([], i) | Some p \<Rightarrow> p)"

end
