(* ===== verification/Schema_Derive.thy ===== *)
theory Schema_Derive
  imports Schema_Tags Request_Compile Component_Names
begin

text \<open>
  Go types to schemas, from \<^verbatim>\<open>internal/httpx/schema.go\<close>: the known-type registry and the generator with its
  component map. What reflection knows beyond the type trees is a parameter: whether a type has its own
  marshalling, which types alias another (a list of declarations), how a type prints, whether an integer
  type is \<open>int\<close> rather than \<open>int64\<close>, and whether the wire form of a zero value is null.
\<close>

subsection \<open>The known-type registry\<close>

text \<open>
  Entries are compared with \<open>reflect.DeepEqual\<close>, which tells a nil slice from an empty one. A registered
  schema is stored as a clone, and \<open>cloneSchema\<close> always makes the list of examples; the built-in entries
  are stored as written, with no such list.
\<close>

record known_schema =
  ks_schema :: Schema
  ks_cloned :: bool

record known_registry =
  kr_schemas :: "(gtype \<times> known_schema) list"
  kr_version :: nat

definition cloneSchema :: "Schema \<Rightarrow> known_schema" where
  "cloneSchema s = \<lparr>ks_schema = s, ks_cloned = True\<rparr>"

text \<open>The library types of the built-in entries are arguments.\<close>

definition defaultKnownTypes :: "gtype \<Rightarrow> gtype \<Rightarrow> gtype \<Rightarrow> (gtype \<times> known_schema) list" where
  "defaultKnownTypes uuid date addr =
     (let nullable = (\<lambda>f. leaf (no_keywords\<lparr>k_Type := Types [''string'', ''null''], k_Format := f\<rparr>))
      in map (\<lambda>(t, s). (t, \<lparr>ks_schema = s, ks_cloned = False\<rparr>))
           [(TTime, formatted ''string'' ''date-time''), (uuid, nullable ''uuid''), (date, nullable ''date''), (addr, typed ''string'')])"

text \<open>\<open>None\<close> is the panic of a missing schema or of a conflicting registration.\<close>

definition registerKnownType :: "gtype \<Rightarrow> Schema option \<Rightarrow> known_registry \<Rightarrow> known_registry option" where
  "registerKnownType t schema reg =
     (case schema of
        None \<Rightarrow> None
      | Some s \<Rightarrow>
          let incoming = cloneSchema s in
          (case map_of (kr_schemas reg) t of
             Some existing \<Rightarrow> if existing = incoming then Some reg else None
           | None \<Rightarrow> Some \<lparr>kr_schemas = (t, incoming) # kr_schemas reg, kr_version = kr_version reg + 1\<rparr>))"

definition RegisterKnownTypes :: "(gtype \<times> Schema option) list \<Rightarrow> known_registry \<Rightarrow> known_registry option" where
  "RegisterKnownTypes batch reg =
     (if list_ex (\<lambda>(t, s). s = None) batch then None
      else let clones = map (\<lambda>(t, s). (t, cloneSchema (the s))) batch in
        if list_ex (\<lambda>(t, s). case map_of (kr_schemas reg) t of Some existing \<Rightarrow> existing \<noteq> s | None \<Rightarrow> False) clones then None
        else let fresh = filter (\<lambda>(t, s). map_of (kr_schemas reg) t = None) clones in
          if fresh = [] then Some reg
          else Some \<lparr>kr_schemas = fresh @ kr_schemas reg, kr_version = kr_version reg + 1\<rparr>)"

text \<open>
  A batch is installed as a whole or not at all, and registering it again changes nothing. The built-in
  entries are the exception: registering one again, with the very same schema, is taken for a conflict.
\<close>

lemma RegisterKnownTypes_again:
  assumes "RegisterKnownTypes batch reg = Some reg'" and "distinct (map fst batch)"
  shows "RegisterKnownTypes batch reg' = Some reg'"
proof -
  define clones where "clones = map (\<lambda>(t, s). (t, cloneSchema (the s))) batch"
  define fresh where "fresh = filter (\<lambda>(t, s). map_of (kr_schemas reg) t = None) clones"
  have dist: "distinct (map fst clones)" using assms(2) by (simp add: clones_def comp_def case_prod_unfold)
  have ok: "\<not> list_ex (\<lambda>(t, s). s = None) batch"
    and agree: "\<And>t s. (t, s) \<in> set clones \<Longrightarrow> map_of (kr_schemas reg) t = None \<or> map_of (kr_schemas reg) t = Some s"
    and reg': "kr_schemas reg' = fresh @ kr_schemas reg" "fresh = [] \<Longrightarrow> reg' = reg"
    using assms(1) unfolding RegisterKnownTypes_def Let_def clones_def [symmetric] fresh_def [symmetric]
    by (auto simp: list_ex_iff split: if_splits option.splits)
  have "map_of (kr_schemas reg') t = Some s" if "(t, s) \<in> set clones" for t s
  proof (cases "map_of (kr_schemas reg) t")
    case None
    with that have "(t, s) \<in> set fresh" by (simp add: fresh_def)
    moreover have "distinct (map fst fresh)" using dist by (auto simp: fresh_def distinct_map intro: inj_on_subset)
    ultimately show ?thesis by (simp add: reg' map_add_Some_iff)
  next
    case (Some existing)
    then have "t \<notin> fst ` set fresh" by (auto simp: fresh_def)
    then show ?thesis using Some agree [OF that] by (simp add: reg' map_add_Some_iff map_of_eq_None_iff)
  qed
  then show ?thesis
    using ok unfolding RegisterKnownTypes_def Let_def clones_def [symmetric]
    by (auto simp: list_ex_iff filter_empty_conv split: option.splits)
qed

lemma registerKnownType_builtin:
  "registerKnownType TTime (Some (formatted ''string'' ''date-time''))
     \<lparr>kr_schemas = defaultKnownTypes uuid date addr, kr_version = 0\<rparr> = None"
  by (simp add: registerKnownType_def defaultKnownTypes_def cloneSchema_def)

definition snapshotKnownTypes :: "known_registry \<Rightarrow> (gtype \<times> Schema) list" where
  "snapshotKnownTypes reg = map (\<lambda>(t, k). (t, ks_schema k)) (kr_schemas reg)"

definition knownTypesVersion :: "known_registry \<Rightarrow> nat" where
  "knownTypesVersion reg = kr_version reg"


subsection \<open>Names of types\<close>

fun type_name :: "gtype \<Rightarrow> string" where
  "type_name (TBool n) = n"
| "type_name (TInt n _) = n"
| "type_name (TUint n _) = n"
| "type_name (TFloat n _) = n"
| "type_name (TString n) = n"
| "type_name (TPtr _) = []"
| "type_name (TSlice n _) = n"
| "type_name (TArray n _ _) = n"
| "type_name (TMap n _ _) = n"
| "type_name (TIface n) = n"
| "type_name (TStruct n _) = n"
| "type_name TTime = ''time.Time''"
| "type_name (TRawJSON _) = ''httpx.RawJSON''"
| "type_name (TOther n) = n"

text \<open>A defined type is qualified by its package; predeclared types are not.\<close>

definition defined_type :: "gtype \<Rightarrow> bool" where
  "defined_type t \<longleftrightarrow> CHR ''.'' \<in> set (type_name t)"

datatype SchemaContext = SchemaContextResponse | SchemaContextRequest

definition RequestVariantSuffix :: string where
  "RequestVariantSuffix = ''.Request''"

definition componentKey :: "SchemaContext \<Rightarrow> string \<Rightarrow> string" where
  "componentKey ctx name = (if ctx = SchemaContextRequest then name @ RequestVariantSuffix else name)"

definition closeObject :: "SchemaContext \<Rightarrow> Schema \<Rightarrow> Schema" where
  "closeObject ctx s = (if ctx = SchemaContextRequest then set_Additional (Members False) s else s)"


subsection \<open>The generator\<close>

record ModelIdentity =
  mi_Type :: "gtype option"
  mi_Package :: string
  mi_Name :: string

record schema_env = tag_env +
  sv_known :: "(gtype \<times> Schema) list"
  sv_enums :: enum_registry
  sv_marshals :: "gtype \<Rightarrow> bool"
  sv_aliases :: "(gtype \<times> gtype) list"
  sv_String :: "gtype \<Rightarrow> string"
  sv_nameFunc :: "ModelIdentity \<Rightarrow> string"
  sv_machine_int :: "gtype \<Rightarrow> bool"
  sv_zero_null :: "gtype \<Rightarrow> bool"

text \<open>A component that is reserved and not yet built has no schema.\<close>

record schemaGenerator =
  gn_schemas :: "Schema option gomap"
  gn_schemaOwner :: "gtype gomap"
  gn_componentIDs :: "(gtype \<times> string) list"
  gn_nextID :: nat
  gn_violations :: "schema_violation list"

definition newSchemaGenerator :: schemaGenerator where
  "newSchemaGenerator = \<lparr>gn_schemas = [], gn_schemaOwner = [], gn_componentIDs = [], gn_nextID = 0, gn_violations = []\<rparr>"

definition internal_id :: "nat \<Rightarrow> string" where
  "internal_id n = ''httpx.internal.'' @ replicate (6 - length (show_nat n)) (CHR ''0'') @ show_nat n"

definition componentID :: "gtype \<Rightarrow> schemaGenerator \<Rightarrow> string \<times> schemaGenerator" where
  "componentID t g =
     (case map_of (gn_componentIDs g) t of
        Some i \<Rightarrow> (i, g)
      | None \<Rightarrow>
          let n = gn_nextID g + 1; i = internal_id n
          in (i, g\<lparr>gn_nextID := n, gn_componentIDs := (t, i) # gn_componentIDs g\<rparr>))"

definition addViolation :: "schema_violation \<Rightarrow> schemaGenerator \<Rightarrow> schemaGenerator" where
  "addViolation v g = (if v \<in> set (gn_violations g) then g else g\<lparr>gn_violations := gn_violations g @ [v]\<rparr>)"

definition report :: "schema_violation list \<Rightarrow> schemaGenerator \<Rightarrow> schemaGenerator" where
  "report vs g = fold addViolation vs g"

definition reserve :: "string \<Rightarrow> gtype \<Rightarrow> schemaGenerator \<Rightarrow> schemaGenerator" where
  "reserve key t g = g\<lparr>gn_schemaOwner := put key t (gn_schemaOwner g), gn_schemas := put key None (gn_schemas g)\<rparr>"

definition fill :: "string \<Rightarrow> Schema \<Rightarrow> schemaGenerator \<Rightarrow> schemaGenerator" where
  "fill key s g = g\<lparr>gn_schemas := put key (Some s) (gn_schemas g)\<rparr>"

text \<open>A registered type is a component of its own, unless its schema is a reference.\<close>

definition note_known :: "gtype \<Rightarrow> Schema \<Rightarrow> schemaGenerator \<Rightarrow> schemaGenerator" where
  "note_known t s g =
     (case componentID t g of
        (key, g1) \<Rightarrow>
          if get (gn_schemas g1) key = None \<and> sc_Ref s = [] then fill key s (g1\<lparr>gn_schemaOwner := put key t (gn_schemaOwner g1)\<rparr>)
          else g1)"

definition componentSchemas :: "schemaGenerator \<Rightarrow> Schema gomap" where
  "componentSchemas g = List.map_filter (\<lambda>(k, s). map_option (\<lambda>x. (k, x)) s) (gn_schemas g)"


subsection \<open>Basic types\<close>

definition kind_name :: "schema_env \<Rightarrow> gtype \<Rightarrow> string" where
  "kind_name env t =
     (case t of
        TBool _ \<Rightarrow> ''bool''
      | TInt n bits \<Rightarrow> if n = ''int'' \<or> sv_machine_int env t then ''int'' else ''int'' @ show_nat bits
      | TUint n bits \<Rightarrow> if n = ''uint'' \<or> sv_machine_int env t then ''uint'' else ''uint'' @ show_nat bits
      | TFloat _ bits \<Rightarrow> ''float'' @ show_nat bits
      | TString _ \<Rightarrow> ''string''
      | _ \<Rightarrow> ''other'')"

definition mapGoTypeToOpenAPI :: "string \<Rightarrow> string \<times> string" where
  "mapGoTypeToOpenAPI name =
     (case map_of
        [(''int8'', (''integer'', ''int8'')), (''int16'', (''integer'', ''int16'')), (''int32'', (''integer'', ''int32'')),
         (''int64'', (''string'', ''int64'')), (''uint8'', (''integer'', ''uint32'')), (''byte'', (''integer'', ''uint32'')),
         (''uint16'', (''integer'', ''uint16'')), (''uint32'', (''integer'', ''uint32'')), (''rune'', (''integer'', ''uint32'')),
         (''uint64'', (''string'', ''uint64'')), (''int'', (''integer'', ''int'')), (''uint'', (''integer'', ''uint'')),
         (''float32'', (''number'', ''float'')), (''float64'', (''number'', ''double'')), (''bool'', (''boolean'', [])),
         (''string'', (''string'', []))] name of
        Some r \<Rightarrow> r | None \<Rightarrow> (''object'', []))"

definition basicKindSchema :: "schema_env \<Rightarrow> gtype \<Rightarrow> Schema" where
  "basicKindSchema env t = (case mapGoTypeToOpenAPI (kind_name env t) of (ty, fmt) \<Rightarrow> formatted ty fmt)"


subsection \<open>Struct fields\<close>

text \<open>The member name, whether it may be left out, is skipped, has an explicit name, and the violations.\<close>

definition jsonFieldName :: "sfield \<Rightarrow> string \<Rightarrow> (string \<times> bool \<times> bool \<times> bool) \<times> schema_violation list" where
  "jsonFieldName f qualified =
     (case tag_lookup f ''json'' of
        None \<Rightarrow> ((sf_Name f, False, False, False), [])
      | Some tag \<Rightarrow>
          let parts = split_on (CHR '','') tag; name = hd parts; opts = tl parts in
          if name = ''-'' \<and> opts = [] then (([], False, True, False), [])
          else ((if name \<noteq> [] then name else sf_Name f, list_ex (\<lambda>x. x = ''omitempty'' \<or> x = ''omitzero'') opts, False, name \<noteq> []),
                map (JsonOption qualified (sf_Name f)) (filter (\<lambda>x. x \<notin> {''omitempty'', ''omitzero'', []}) opts)))"

definition applyValidationPresenceSemantics :: "schema_env \<Rightarrow> Schema \<Rightarrow> sfield \<Rightarrow> Schema" where
  "applyValidationPresenceSemantics env s f =
     (if validateRequiresField (tag_get f ''validate'') \<and>
         type_kind (sf_Type f) \<notin> {KPointer, KSlice, KMap, KInterface, KOther} \<and> sv_zero_null env (sf_Type f)
      then set_AllOf (sc_AllOf s @ [set_Not (Some (typed ''null'')) (leaf no_keywords)]) s else s)"

definition embeddedNeedsRegistry :: "schema_env \<Rightarrow> gtype \<Rightarrow> bool" where
  "embeddedNeedsRegistry env t \<longleftrightarrow> map_of (sv_known env) t \<noteq> None \<or> sv_marshals env t"

record members =
  mb_allOf :: "Schema list"
  mb_properties :: "Schema gomap"
  mb_required :: "string list"

definition struct_schema :: "SchemaContext \<Rightarrow> members \<Rightarrow> Schema" where
  "struct_schema ctx m =
     (if mb_allOf m = [] then closeObject ctx (object_of (mb_properties m) (mb_required m))
      else set_AllOf (mb_allOf m @ (if mb_properties m \<noteq> [] then [object_of (mb_properties m) (mb_required m)] else []))
             (leaf no_keywords))"

definition add_member ::
  "schema_env \<Rightarrow> string \<Rightarrow> sfield \<Rightarrow> string \<Rightarrow> bool \<Rightarrow> Schema \<Rightarrow> members \<Rightarrow> members \<times> schema_violation list" where
  "add_member env qualified f name omitEmpty s m =
     (let tag = tag_get f ''validate'';
          validateRequired = validateRequiresField tag;
          required = (if tag \<noteq> [] then validateRequired else type_kind (sf_Type f) \<noteq> KPointer \<and> \<not> omitEmpty)
      in case applyEnhancedTags (tag_env.truncate env) (if validateRequired then removeNullability s else s) f (qualified @ ''.'' @ name) of
           (s1, vs) \<Rightarrow>
             (m\<lparr>mb_properties := put name (applyValidationPresenceSemantics env s1 f) (mb_properties m),
                mb_required := (if required then mb_required m @ [name] else mb_required m)\<rparr>, vs))"

definition embedded_struct :: "sfield \<Rightarrow> bool \<Rightarrow> gtype option" where
  "embedded_struct f explicit =
     (if sf_Anonymous f \<and> \<not> explicit then
        (let e = (case sf_Type f of TPtr x \<Rightarrow> x | x \<Rightarrow> x) in if type_kind e = KStruct then Some e else None)
      else None)"


subsection \<open>Derivation\<close>

definition reflectQualifiedName :: "schema_env \<Rightarrow> gtype \<Rightarrow> string" where
  "reflectQualifiedName env t =
     (if type_name t = ''httpx.Pagination'' then ''httpx.Meta''
      else qualified_name (\<lambda>pkg n. sv_nameFunc env \<lparr>mi_Type = None, mi_Package = pkg, mi_Name = n\<rparr>) (sv_String env t))"

definition deriveRegistryAny :: "schema_env \<Rightarrow> schemaGenerator \<Rightarrow> Schema \<times> schemaGenerator" where
  "deriveRegistryAny env g =
     (case map_of (sv_known env) (TIface []) of
        Some s \<Rightarrow> (s, note_known (TIface []) s g)
      | None \<Rightarrow> (typed ''object'', g))"

definition nullable :: "Schema \<Rightarrow> Schema" where
  "nullable s =
     (if sc_Ref s \<noteq> [] then set_AnyOf [s, typed ''null''] (leaf no_keywords)
      else case sc_Type s of OneType t \<Rightarrow> with_kw (\<lambda>k. k\<lparr>k_Type := Types [t, ''null'']\<rparr>) s | _ \<Rightarrow> s)"

definition enum_schema :: "schema_env \<Rightarrow> gtype \<Rightarrow> Schema \<times> schema_violation list" where
  "enum_schema env t =
     (case registeredEnumValues (sv_enums env) t of
        None \<Rightarrow> (typed ''string'', [UnregisteredEnum (reflectQualifiedName env t) (sv_String env t)])
      | Some vals \<Rightarrow>
          (if vals = [] then typed ''string''
           else leaf (no_keywords\<lparr>k_Type := OneType ''string'', k_Enum := map AnyStr vals\<rparr>), []))"

definition component_ref :: "string \<Rightarrow> Schema" where
  "component_ref key = ref_to (schemaRefPrefix @ key)"

definition alias_target :: "schema_env \<Rightarrow> gtype \<Rightarrow> gtype option" where
  "alias_target env t = (case map_of (sv_aliases env) t of Some u \<Rightarrow> if u = t then None else Some u | None \<Rightarrow> None)"

text \<open>Aliases that are not being followed; following one leaves fewer.\<close>

definition open_aliases :: "schema_env \<Rightarrow> gtype list \<Rightarrow> nat" where
  "open_aliases env stack = card (fst ` set (sv_aliases env) - set stack)"

lemma alias_closes:
  "(if t \<in> set stack then None else alias_target env t) = Some u \<Longrightarrow> open_aliases env (t # stack) < open_aliases env stack"
proof -
  assume "(if t \<in> set stack then None else alias_target env t) = Some u"
  then have "t \<in> fst ` set (sv_aliases env) - set stack"
    by (auto simp: alias_target_def split: if_splits option.splits dest!: map_of_SomeD intro: rev_image_eqI)
  then show ?thesis
    unfolding open_aliases_def by (intro psubset_card_mono) auto
qed

lemma size_field_type: "size (sf_Type f) < size (f :: sfield)"
  by (cases f) simp

lemma size_field_type_tail: "size (sf_Type f) < Suc (size f + n)"
  using size_field_type [of f] by simp

text \<open>
  The recursion of the code. \<open>deriveReflectType\<close> is the derivation in field position, \<open>deriveNamedType\<close> the
  one of a defined type, \<open>derive_body\<close> the body of its component, \<open>struct_members\<close> the loop over the fields of a
  struct. The types whose alias is being followed are in \<open>stack\<close>; their component is reserved, so the code
  never follows an alias twice, and the model stops there for the same reason.
\<close>

function deriveReflectType ::
    "schema_env \<Rightarrow> gtype list \<Rightarrow> SchemaContext \<Rightarrow> gtype \<Rightarrow> schemaGenerator \<Rightarrow> Schema \<times> schemaGenerator"
  and deriveNamedType ::
    "schema_env \<Rightarrow> gtype list \<Rightarrow> SchemaContext \<Rightarrow> gtype \<Rightarrow> schemaGenerator \<Rightarrow> Schema \<times> schemaGenerator"
  and derive_body ::
    "schema_env \<Rightarrow> gtype list \<Rightarrow> SchemaContext \<Rightarrow> gtype \<Rightarrow> schemaGenerator \<Rightarrow> Schema \<times> schemaGenerator"
  and struct_members ::
    "schema_env \<Rightarrow> gtype list \<Rightarrow> SchemaContext \<Rightarrow> string \<Rightarrow> sfield list \<Rightarrow> members \<Rightarrow> schemaGenerator \<Rightarrow> members \<times> schemaGenerator"
where
  "deriveReflectType env stack ctx t g =
     (if t = TInt [] 64 then (formatted ''string'' ''int64'', g)
      else if t = TUint [] 64 then (formatted ''string'' ''uint64'', g)
      else if defined_type t then deriveNamedType env stack ctx t g
      else case t of
        TPtr e \<Rightarrow>
          (case map_of (sv_known env) t of
             Some s \<Rightarrow> (s, g)
           | None \<Rightarrow> (case deriveReflectType env stack ctx e g of (s, g') \<Rightarrow> (nullable s, g')))
      | TSlice _ e \<Rightarrow> (case deriveReflectType env stack ctx e g of (s, g') \<Rightarrow> (array_of s, g'))
      | TArray _ _ e \<Rightarrow> (case deriveReflectType env stack ctx e g of (s, g') \<Rightarrow> (array_of s, g'))
      | TMap _ _ e \<Rightarrow> (case deriveReflectType env stack ctx e g of (s, g') \<Rightarrow> (map_of_values s, g'))
      | TIface n \<Rightarrow> if n = [] then deriveRegistryAny env g else (typed ''object'', g)
      | TStruct _ _ \<Rightarrow> (typed ''object'', g)
      | _ \<Rightarrow> (basicKindSchema env t, g))"
| "deriveNamedType env stack ctx t g =
     (case map_of (sv_known env) t of
        Some s \<Rightarrow> (s, note_known t s g)
      | None \<Rightarrow>
          if sv_marshals env t then (typed ''object'', report [Unregistered (reflectQualifiedName env t)] g)
          else case componentID t g of
            (i, g1) \<Rightarrow>
              let key = componentKey ctx i in
              if get (gn_schemaOwner g1) key \<noteq> None then (component_ref key, g1)
              else case derive_body env stack ctx t (reserve key t g1) of
                (body, g2) \<Rightarrow> (component_ref key, fill key body g2))"
| "derive_body env stack ctx t g =
     (case (if t \<in> set stack then None else alias_target env t) of
        Some u \<Rightarrow> deriveReflectType env (t # stack) ctx u g
      | None \<Rightarrow>
          (case t of
             TString _ \<Rightarrow> (case enum_schema env t of (s, vs) \<Rightarrow> (s, report vs g))
           | TStruct _ fs \<Rightarrow>
               (case struct_members env stack ctx (reflectQualifiedName env t) fs \<lparr>mb_allOf = [], mb_properties = [], mb_required = []\<rparr> g of
                  (m, g') \<Rightarrow> (struct_schema ctx m, g'))
           | TTime \<Rightarrow> (struct_schema ctx \<lparr>mb_allOf = [], mb_properties = [], mb_required = []\<rparr>, g)
           | TRawJSON _ \<Rightarrow> (struct_schema ctx \<lparr>mb_allOf = [], mb_properties = [], mb_required = []\<rparr>, g)
           | TSlice _ e \<Rightarrow> (case deriveReflectType env stack ctx e g of (s, g') \<Rightarrow> (array_of s, g'))
           | TArray _ _ e \<Rightarrow> (case deriveReflectType env stack ctx e g of (s, g') \<Rightarrow> (array_of s, g'))
           | TMap _ _ e \<Rightarrow> (case deriveReflectType env stack ctx e g of (s, g') \<Rightarrow> (map_of_values s, g'))
           | TIface _ \<Rightarrow> (typed ''object'', g)
           | _ \<Rightarrow>
               (if kind_name env t = ''int64'' then formatted ''integer'' ''int64''
                else if kind_name env t = ''uint64'' then formatted ''integer'' ''uint64''
                else basicKindSchema env t, g)))"
| "struct_members env stack ctx qualified fs m g =
     (case fs of
        [] \<Rightarrow> (m, g)
      | f # rest \<Rightarrow>
          (case jsonFieldName f qualified of
             ((name, omitEmpty, skip, explicit), vs) \<Rightarrow>
               let g1 = report vs g in
               if skip then struct_members env stack ctx qualified rest m g1
               else case embedded_struct f explicit of
                 Some e \<Rightarrow>
                   (if embeddedNeedsRegistry env e
                    then struct_members env stack ctx qualified rest m (report [EmbeddedSerialization qualified (sv_String env e)] g1)
                    else case deriveReflectType env stack ctx (sf_Type f)
                           (if ctx = SchemaContextRequest then report [RequestEmbeds qualified (sv_String env e)] g1 else g1) of
                      (s, g2) \<Rightarrow> struct_members env stack ctx qualified rest (m\<lparr>mb_allOf := mb_allOf m @ [s]\<rparr>) g2)
               | None \<Rightarrow>
                   if \<not> exported f then struct_members env stack ctx qualified rest m g1
                   else case deriveReflectType env stack ctx (sf_Type f) g1 of
                     (s, g2) \<Rightarrow>
                       (case add_member env qualified f name omitEmpty s m of
                          (m', vs') \<Rightarrow> struct_members env stack ctx qualified rest m' (report vs' g2))))"
  by pat_completeness auto
termination
proof (relation "measures
    [\<lambda>x. case x of Inl (Inl (env, stack, ctx, t, g)) \<Rightarrow> open_aliases env stack
               | Inl (Inr (env, stack, ctx, t, g)) \<Rightarrow> open_aliases env stack
               | Inr (Inl (env, stack, ctx, t, g)) \<Rightarrow> open_aliases env stack
               | Inr (Inr (env, stack, ctx, q, fs, m, g)) \<Rightarrow> open_aliases env stack,
     \<lambda>x. case x of Inl (Inl (env, stack, ctx, t, g)) \<Rightarrow> size t
               | Inl (Inr (env, stack, ctx, t, g)) \<Rightarrow> size t
               | Inr (Inl (env, stack, ctx, t, g)) \<Rightarrow> size t
               | Inr (Inr (env, stack, ctx, q, fs, m, g)) \<Rightarrow> size_list size fs,
     \<lambda>x. case x of Inl (Inl _) \<Rightarrow> 2 | Inl (Inr _) \<Rightarrow> 1 | Inr (Inl _) \<Rightarrow> 0 | Inr (Inr _) \<Rightarrow> 0]")
qed (auto dest: alias_closes simp: size_field_type_tail)

declare deriveReflectType.simps [simp del] deriveNamedType.simps [simp del] derive_body.simps [simp del] struct_members.simps [simp del]

end
