(* ===== verification/Openapi.thy ===== *)
theory Openapi
  imports Schema_Derive Build "HOL-Library.State_Monad"
begin

text \<open>
  The document of \<^verbatim>\<open>internal/httpx/openapi.go\<close>: its data model, and the pass that documents the compiled
  operations. The builder threads the schema generator through its calls, so a step of it is an action of
  the state monad over the generator. Fields of the document that no code sets (callbacks, webhooks, links,
  examples, servers of an operation) are left out.
\<close>

type_synonym 'a gen = "(schemaGenerator, 'a) state"

abbreviation yield :: "'a \<Rightarrow> 'a gen" where
  "yield x \<equiv> State_Monad.return x"

definition DeriveSchemaIn :: "schema_env \<Rightarrow> SchemaContext \<Rightarrow> gtype option \<Rightarrow> Schema gen" where
  "DeriveSchemaIn env ctx t =
     (case t of None \<Rightarrow> yield (typed ''object'') | Some u \<Rightarrow> State (\<lambda>g. deriveReflectType env [] ctx u g))"

definition DeriveSchema :: "schema_env \<Rightarrow> gtype option \<Rightarrow> Schema gen" where
  "DeriveSchema env t = DeriveSchemaIn env SchemaContextResponse t"

definition add_violations :: "schema_violation list \<Rightarrow> unit gen" where
  "add_violations vs = State (\<lambda>g. ((), report vs g))"


subsection \<open>The document model\<close>

record MediaTypeObject =
  mt_Schema :: "Schema option"

record RequestBody =
  rb_Description :: string
  rb_Content :: "MediaTypeObject gomap"
  rb_Required :: bool

record Header =
  hd_Description :: string
  hd_Required :: bool
  hd_Schema :: "Schema option"

record SpecResponse =
  rs_Description :: string
  rs_Headers :: "Header gomap"
  rs_Content :: "MediaTypeObject gomap"

type_synonym Responses = "SpecResponse gomap"

record PermissionClaimDoc =
  pc_Mode :: string
  pc_Slugs :: "string list"

text \<open>\<open>x-required-permissions\<close>: absent, one claim, or several.\<close>

datatype required_permissions = NoClaims | OneClaim PermissionClaimDoc | ManyClaims "PermissionClaimDoc list"

record SpecOperation =
  so_Tags :: "string list"
  so_Summary :: string
  so_Description :: string
  so_OperationID :: string
  so_Parameters :: "Parameter list"
  so_RequestBody :: "RequestBody option"
  so_Responses :: Responses
  so_Security :: "CredentialSet list"
  so_XRequiredPermissions :: required_permissions
  so_hasSummary :: bool
  so_hasTags :: bool
  so_routePattern :: string
  so_httpMethod :: string

record PathItem =
  pi_Get :: "SpecOperation option"
  pi_Put :: "SpecOperation option"
  pi_Post :: "SpecOperation option"
  pi_Delete :: "SpecOperation option"
  pi_Options :: "SpecOperation option"
  pi_Head :: "SpecOperation option"
  pi_Patch :: "SpecOperation option"
  pi_Trace :: "SpecOperation option"
  pi_Parameters :: "Parameter list"

definition empty_item :: PathItem where
  "empty_item = \<lparr>pi_Get = None, pi_Put = None, pi_Post = None, pi_Delete = None, pi_Options = None, pi_Head = None,
     pi_Patch = None, pi_Trace = None, pi_Parameters = []\<rparr>"

record SecurityScheme =
  ss_Type :: string
  ss_Name :: string
  ss_In :: string
  ss_Scheme :: string
  ss_BearerFormat :: string
  ss_Description :: string

record Tag =
  tag_Name :: string
  tag_Description :: string

record Contact =
  ct_Name :: string
  ct_URL :: string
  ct_Email :: string

record License =
  li_Name :: string
  li_Identifier :: string
  li_URL :: string

record SpecInfo =
  si_Title :: string
  si_Summary :: string
  si_Description :: string
  si_TermsOfService :: string
  si_Contact :: "Contact option"
  si_License :: "License option"
  si_Version :: string

record Server =
  sr_URL :: string
  sr_Description :: string

record Components =
  co_Schemas :: "Schema gomap"
  co_SecuritySchemes :: "SecurityScheme gomap"

record Spec =
  sp_OpenAPI :: string
  sp_Info :: SpecInfo
  sp_JSONSchemaDialect :: string
  sp_Servers :: "Server list"
  sp_Paths :: "PathItem gomap"
  sp_Components :: Components
  sp_Tags :: "Tag list"
  sp_Security :: "CredentialSet list"


subsection \<open>The types of the package that the document names\<close>

definition json_field :: "string \<Rightarrow> string \<Rightarrow> gtype \<Rightarrow> sfield" where
  "json_field name tag t = SField name [] False [(''json'', tag)] t"

definition ProblemDetails_type :: gtype where
  "ProblemDetails_type =
     TStruct ''httpx.ProblemDetails''
       [json_field ''Type'' ''type'' (TString []), json_field ''Title'' ''title'' (TString []),
        json_field ''Status'' ''status'' (TInt [] 32), json_field ''Detail'' ''detail,omitempty'' (TString []),
        json_field ''Instance'' ''instance,omitempty'' (TString []),
        json_field ''Extensions'' ''extensions,omitempty'' (TMap [] (TString []) (TIface [])),
        json_field ''Err'' ''-'' (TIface ''error''), SField ''kind'' ''httpx'' False [] (TUint ''httpx.problemKindID'' 8)]"

definition MessageResponse_type :: gtype where
  "MessageResponse_type = TStruct ''httpx.MessageResponse'' [json_field ''Message'' ''message'' (TString [])]"

definition Pagination_type :: gtype where
  "Pagination_type =
     TStruct ''httpx.Pagination''
       [json_field ''HasNext'' ''has_next'' (TBool []), json_field ''HasPrev'' ''has_prev'' (TBool []),
        json_field ''NextAfterID'' ''next_after_id,omitempty'' (TString []),
        json_field ''NextAfterCreatedAt'' ''next_after_created_at,omitzero'' TTime,
        json_field ''PrevBeforeID'' ''prev_before_id,omitempty'' (TString []),
        json_field ''PrevBeforeCreatedAt'' ''prev_before_created_at,omitzero'' TTime,
        json_field ''Limit'' ''limit'' (TInt [] 32), json_field ''Records'' ''records,omitzero'' (TInt [] 64)]"


subsection \<open>Skeleton\<close>

definition empty_info :: SpecInfo where
  "empty_info = \<lparr>si_Title = [], si_Summary = [], si_Description = [], si_TermsOfService = [], si_Contact = None,
     si_License = None, si_Version = []\<rparr>"

definition security_schemes :: "SecurityScheme gomap" where
  "security_schemes =
     put SecuritySchemeBearerAuth
       \<lparr>ss_Type = ''http'', ss_Name = [], ss_In = [], ss_Scheme = ''bearer'', ss_BearerFormat = ''JWT'',
        ss_Description = ''JWT token authentication''\<rparr>
     (put SecuritySchemeRefreshToken
       \<lparr>ss_Type = ''apiKey'', ss_Name = ''refresh_token'', ss_In = ''cookie'', ss_Scheme = [], ss_BearerFormat = [],
        ss_Description = ''Refresh token passed in HttpOnly cookie''\<rparr>
     (put SecuritySchemeBasicAuth
       \<lparr>ss_Type = ''http'', ss_Name = [], ss_In = [], ss_Scheme = ''basic'', ss_BearerFormat = [],
        ss_Description = ''HTTP Basic credentials for the operational endpoints''\<rparr> []))"

text \<open>The constant part of the document, and the reference of the problem component.\<close>

definition newSpecSkeleton :: "schema_env \<Rightarrow> (Spec \<times> string) gen" where
  "newSpecSkeleton env =
     do {
       s \<leftarrow> DeriveSchema env (Some ProblemDetails_type);
       yield (\<lparr>sp_OpenAPI = ''3.1.0'', sp_Info = empty_info,
               sp_JSONSchemaDialect = ''https://spec.openapis.org/oas/3.1/dialect/base'', sp_Servers = [], sp_Paths = [],
               sp_Components = \<lparr>co_Schemas = [], co_SecuritySchemes = security_schemes\<rparr>, sp_Tags = [], sp_Security = [[]]\<rparr>,
              sc_Ref s)
     }"


subsection \<open>Parameters\<close>

definition new_parameter :: "string \<Rightarrow> string \<Rightarrow> bool \<Rightarrow> Schema \<Rightarrow> Parameter" where
  "new_parameter name loc required s =
     \<lparr>pa_Name = name, pa_In = loc, pa_Description = [], pa_Required = required, pa_Schema = Some s, pa_Style = [],
      pa_Explode = None, pa_AllowEmptyValue = False\<rparr>"

definition placeholder_name :: "string \<Rightarrow> string" where
  "placeholder_name part = fst (cut (trim_set part ''{}'') (CHR '':''))"

definition extractPathParameters :: "string \<Rightarrow> Parameter list" where
  "extractPathParameters route =
     map (\<lambda>part. new_parameter (placeholder_name part) srcPath True (typed ''string''))
       (filter placeholder_segment (split_on (CHR ''/'') route))"

definition merge_parameter :: "Parameter \<Rightarrow> Parameter \<Rightarrow> Parameter" where
  "merge_parameter existing p =
     existing\<lparr>pa_Description := (if pa_Description p \<noteq> [] then pa_Description p else pa_Description existing),
       pa_Required := pa_Required p \<or> pa_Required existing,
       pa_Schema := (case pa_Schema p of None \<Rightarrow> pa_Schema existing | Some s \<Rightarrow> Some s),
       pa_Style := (if pa_Style p \<noteq> [] then pa_Style p else pa_Style existing),
       pa_Explode := (case pa_Explode p of None \<Rightarrow> pa_Explode existing | Some b \<Rightarrow> Some b),
       pa_AllowEmptyValue := pa_AllowEmptyValue p \<or> pa_AllowEmptyValue existing\<rparr>"

fun upsertParameter :: "Parameter list \<Rightarrow> Parameter \<Rightarrow> Parameter list" where
  "upsertParameter [] p = [p]"
| "upsertParameter (e # es) p =
     (if pa_Name e \<noteq> pa_Name p \<or> pa_In e \<noteq> pa_In p then e # upsertParameter es p else merge_parameter e p # es)"

definition parameterLocationRank :: "string \<Rightarrow> nat" where
  "parameterLocationRank location =
     (let l = to_lower (trim_space location)
      in if l = ''path'' then 0 else if l = ''query'' then 1 else if l = ''header'' then 2 else if l = ''cookie'' then 3 else 4)"

text \<open>Parameters that agree on all three keys keep their order here; the code leaves it open.\<close>

definition sortOperationParameters :: "Parameter list \<Rightarrow> Parameter list" where
  "sortOperationParameters params =
     sort_key (\<lambda>p. (parameterLocationRank (pa_In p), to_lower (trim_space (pa_Name p)), pa_Name p)) params"

fun raw_parameters :: "schema_env \<Rightarrow> DocParam list \<Rightarrow> Parameter list \<Rightarrow> Parameter list gen" where
  "raw_parameters env [] params = yield params"
| "raw_parameters env (dp # dps) params =
     do {
       s \<leftarrow> (case dp_Type dp of None \<Rightarrow> yield (typed ''string'') | Some t \<Rightarrow> DeriveSchema env (Some t));
       raw_parameters env dps (upsertParameter params
         ((new_parameter (dp_Name dp) (dp_In dp) (dp_Required dp \<or> dp_In dp = srcPath) s)
            \<lparr>pa_Description := dp_Description dp, pa_Schema := normalizeParameterSchema (dp_In dp) (Some s)\<rparr>))
     }"

text \<open>The four cases of the switch over the source of a field differ in whether the parameter is required.\<close>

definition field_parameter :: "schema_env \<Rightarrow> string \<Rightarrow> fieldBinder \<Rightarrow> sfield \<Rightarrow> Parameter gen" where
  "field_parameter env qualified fb f =
     do {
       s \<leftarrow> DeriveSchema env (Some (sf_Type f));
       let p = new_parameter (fb_name fb) (fb_source fb) (fb_source fb = srcPath \<or> requiredByReflectTags f) s;
       let r = applyEnhancedTagsToParameter (tag_env.truncate env) p f (qualified @ ''.'' @ fb_name fb) True;
       _ \<leftarrow> add_violations (snd r);
       yield ((fst r)\<lparr>pa_Schema := normalizeParameterSchema (fb_source fb)
         (map_option (\<lambda>x. applyValidationPresenceSemantics env x f) (pa_Schema (fst r)))\<rparr>)
     }"

fun field_parameters :: "schema_env \<Rightarrow> string \<Rightarrow> sfield list \<Rightarrow> fieldBinder list \<Rightarrow> Parameter list \<Rightarrow> Parameter list gen" where
  "field_parameters env qualified members [] params = yield params"
| "field_parameters env qualified members (fb # fbs) params =
     (if fb_source fb \<in> set parameterSources then
        do {
          p \<leftarrow> field_parameter env qualified fb (members ! fb_index fb);
          field_parameters env qualified members fbs (upsertParameter params p)
        }
      else field_parameters env qualified members fbs params)"

definition buildParameters :: "schema_env \<Rightarrow> ('s, 'c) operationModel \<Rightarrow> Parameter list gen" where
  "buildParameters env m =
     (let params = extractPathParameters (om_path m) in
      if om_raw m then (case om_doc m of None \<Rightarrow> yield params | Some doc \<Rightarrow> raw_parameters env (rd_Params doc) params)
      else case (om_reqPlan m, om_reqType m) of
        (Some plan, Some t) \<Rightarrow>
          if pl_noInput plan then yield params
          else field_parameters env (reflectQualifiedName env t) (type_fields t) (pl_fields plan) params
      | _ \<Rightarrow> yield params)"


subsection \<open>Request body\<close>

definition body_schema :: "schema_env \<Rightarrow> gtype \<Rightarrow> Schema gen" where
  "body_schema env t =
     (case RawJSONElem t of
        Some e \<Rightarrow> DeriveSchema env (Some e)
      | None \<Rightarrow>
          do {
            s \<leftarrow> DeriveSchema env (Some (case t of TPtr e \<Rightarrow> e | _ \<Rightarrow> t));
            yield (removeNullability s)
          })"

definition request_body :: "string \<Rightarrow> bool \<Rightarrow> Schema \<Rightarrow> RequestBody" where
  "request_body description required s =
     \<lparr>rb_Description = (if description = [] then ''Request body'' else description),
      rb_Content = [(''application/json'', \<lparr>mt_Schema = Some s\<rparr>)], rb_Required = required\<rparr>"

definition buildRequestBody :: "schema_env \<Rightarrow> ('s, 'c) operationModel \<Rightarrow> RequestBody option gen" where
  "buildRequestBody env m =
     (if om_raw m then
        (case om_doc m of
           None \<Rightarrow> yield None
         | Some doc \<Rightarrow>
             (case rd_Request doc of
                None \<Rightarrow> yield None
              | Some t \<Rightarrow> do { s \<leftarrow> DeriveSchema env (Some t); yield (Some (request_body (om_bodyDescription m) True s)) }))
      else case Option.bind (om_reqPlan m) pl_body of
        None \<Rightarrow> yield None
      | Some bp \<Rightarrow>
          do { s \<leftarrow> body_schema env (bp_typ bp); yield (Some (request_body (om_bodyDescription m) (bp_required bp) s)) })"


subsection \<open>Responses\<close>

definition derivedErrorDescription :: "string \<Rightarrow> string" where
  "derivedErrorDescription code =
     (case map_of [(''400'', ''Bad Request''), (''401'', ''Unauthorized''), (''403'', ''Forbidden''), (''413'', ''Payload Too Large''),
        (''415'', ''Unsupported Media Type''), (''422'', ''Validation Error''), (''500'', ''Internal Server Error'')] code of
        Some d \<Rightarrow> d | None \<Rightarrow> [])"

definition problemJSON :: "string \<Rightarrow> MediaTypeObject gomap" where
  "problemJSON problemRef = [(''application/problem+json'', \<lparr>mt_Schema = Some (ref_to problemRef)\<rparr>)]"

text \<open>A response is added unless its status is documented already.\<close>

definition add_response :: "string \<Rightarrow> SpecResponse \<Rightarrow> Responses \<Rightarrow> Responses" where
  "add_response code r rs = (if get rs code \<noteq> None then rs else put code r rs)"

definition successSchema :: "schema_env \<Rightarrow> ('s, 'c) operationModel \<Rightarrow> Schema gen" where
  "successSchema env m =
     (if om_raw m then
        (case om_doc m of
           None \<Rightarrow> yield (typed ''object'')
         | Some doc \<Rightarrow>
             (case rd_Response doc of
                None \<Rightarrow> yield (typed ''object'')
              | Some t \<Rightarrow> do { s \<leftarrow> DeriveSchema env (Some t); yield (if rd_Unwrapped doc then s else envelopeSchema s None) }))
      else case (case om_response m of Some wp \<Rightarrow> wp_mode wp | None \<Rightarrow> modeUnset) of
        modeMessage \<Rightarrow> DeriveSchema env (Some MessageResponse_type)
      | modeRedirect \<Rightarrow> yield (typed ''object'')
      | modePage \<Rightarrow>
          do {
            s \<leftarrow> DeriveSchema env (om_resType m);
            meta \<leftarrow> DeriveSchema env (Some Pagination_type);
            yield (envelopeSchema s (Some meta))
          }
      | _ \<Rightarrow> do { s \<leftarrow> DeriveSchema env (om_resType m); yield (envelopeSchema s None) })"

definition success_status :: "('s, 'c) operationModel \<Rightarrow> int" where
  "success_status m =
     (let status = (case (om_raw m, om_doc m) of
            (True, Some doc) \<Rightarrow> rd_Status doc
          | _ \<Rightarrow> (case om_response m of Some wp \<Rightarrow> wp_status wp | None \<Rightarrow> 0))
      in if status = 0 then 200 else status)"

definition success_produces :: "('s, 'c) operationModel \<Rightarrow> string" where
  "success_produces m =
     (let produces = (case (om_raw m, om_doc m) of
            (True, Some doc) \<Rightarrow> if rd_Produces doc \<noteq> [] then rd_Produces doc else om_produces m
          | _ \<Rightarrow> om_produces m)
      in if produces = [] then ''application/json'' else produces)"

definition success_has_body :: "('s, 'c) operationModel \<Rightarrow> bool" where
  "success_has_body m \<longleftrightarrow>
     \<not> (om_raw m \<and> (case om_doc m of Some doc \<Rightarrow> rd_NoBody doc \<or> rawStatusForbidsBody (success_status m) | None \<Rightarrow> False)) \<and>
     \<not> (\<not> om_raw m \<and> (case om_response m of Some wp \<Rightarrow> wp_bodiless wp \<or> wp_mode wp = modeRedirect | None \<Rightarrow> False))"

definition success_headers :: "('s, 'c) operationModel \<Rightarrow> Header gomap" where
  "success_headers m =
     (case (om_raw m, om_response m) of
        (False, Some wp) \<Rightarrow>
          (let redirect = (if wp_mode wp = modeRedirect
                 then [(''Location'', \<lparr>hd_Description = ''Redirect target'', hd_Required = True,
                          hd_Schema = Some (formatted ''string'' ''uri-reference'')\<rparr>)] else [])
           in if wp_responseCookies wp = [] then redirect
              else put ''Set-Cookie''
                \<lparr>hd_Description = ''Sets response cookie(s): '' @ join (wp_responseCookies wp) '', '', hd_Required = False,
                 hd_Schema = Some (typed ''string'')\<rparr> redirect)
      | _ \<Rightarrow> [])"

definition success_response :: "schema_env \<Rightarrow> ('s, 'c) operationModel \<Rightarrow> SpecResponse gen" where
  "success_response env m =
     (let bare = \<lparr>rs_Description = (if om_successDescription m = [] then ''Success'' else om_successDescription m),
                  rs_Headers = success_headers m, rs_Content = []\<rparr> in
      if success_has_body m
      then do {
        s \<leftarrow> successSchema env m;
        yield (bare\<lparr>rs_Content := [(success_produces m, \<lparr>mt_Schema = Some s\<rparr>)]\<rparr>)
      }
      else yield bare)"

fun extra_responses :: "schema_env \<Rightarrow> string \<Rightarrow> RawResponse list \<Rightarrow> Responses \<Rightarrow> Responses gen" where
  "extra_responses env produces [] rs = yield rs"
| "extra_responses env produces (x # xs) rs =
     (let code = itoa (rr_Status x); bare = \<lparr>rs_Description = rr_Description x, rs_Headers = [], rs_Content = []\<rparr> in
      if get rs code \<noteq> None then extra_responses env produces xs rs
      else case (rr_NoBody x, rr_Type x) of
        (False, Some t) \<Rightarrow>
          do {
            s \<leftarrow> DeriveSchema env (Some t);
            extra_responses env produces xs
              (put code (bare\<lparr>rs_Content := [(produces, \<lparr>mt_Schema = Some (if rr_Unwrapped x then s else envelopeSchema s None)\<rparr>)]\<rparr>) rs)
          }
      | _ \<Rightarrow> extra_responses env produces xs (put code bare rs))"

definition retry_after_header :: "Header gomap" where
  "retry_after_header =
     [(''Retry-After'', \<lparr>hd_Description = ''Delay in seconds before retrying'', hd_Required = False,
         hd_Schema = Some (leaf (no_keywords\<lparr>k_Type := OneType ''integer'', k_Minimum := Some (VOpaque ''0'')\<rparr>))\<rparr>)]"

definition declared_problem :: "string \<Rightarrow> ProblemKind \<Rightarrow> SpecResponse" where
  "declared_problem problemRef kind =
     \<lparr>rs_Description = (if pk_description kind \<noteq> [] then pk_description kind else pk_Title kind),
      rs_Headers = (if pk_same kind TooManyRequests then retry_after_header else []), rs_Content = problemJSON problemRef\<rparr>"

definition derived_codes :: "('s, 'c) operationModel \<Rightarrow> string list" where
  "derived_codes m =
     ''500'' #
     (case (om_raw m, om_reqPlan m) of
        (False, Some plan) \<Rightarrow>
          if \<not> pl_noInput plan \<and> (pl_fields plan \<noteq> [] \<or> pl_body plan \<noteq> None) then
            (if pl_canFailBind plan then [''400''] else []) @
            (if pl_body plan \<noteq> None then [''413'', ''415''] else []) @
            (if pl_canFailValidation plan then [''422''] else [])
          else []
      | _ \<Rightarrow> [])"

definition guard_problem :: "string \<Rightarrow> ProblemKind \<Rightarrow> SpecResponse" where
  "guard_problem problemRef kind =
     (let code = itoa (pk_Status kind) in
      \<lparr>rs_Description = (if pk_description kind \<noteq> [] then pk_description kind
         else if derivedErrorDescription code \<noteq> [] then derivedErrorDescription code else pk_Title kind),
       rs_Headers = [], rs_Content = problemJSON problemRef\<rparr>)"

definition challenge_response :: "Responses \<Rightarrow> Responses" where
  "challenge_response rs =
     (let resp = (case get rs ''401'' of
            Some r \<Rightarrow> r
          | None \<Rightarrow> \<lparr>rs_Description = derivedErrorDescription ''401'', rs_Headers = [], rs_Content = []\<rparr>)
      in put ''401'' (resp\<lparr>rs_Headers := put ''WWW-Authenticate''
           \<lparr>hd_Description = ''HTTP Basic authentication challenge'', hd_Required = False,
            hd_Schema = Some (typed ''string'')\<rparr> (rs_Headers resp)\<rparr>) rs)"

definition applyDerivedErrorResponses :: "string \<Rightarrow> Responses \<Rightarrow> ('s, 'c) operationModel \<Rightarrow> Responses" where
  "applyDerivedErrorResponses problemRef rs m =
     (let rs1 = fold (\<lambda>code. add_response code
                \<lparr>rs_Description = derivedErrorDescription code, rs_Headers = [], rs_Content = problemJSON problemRef\<rparr>)
                (derived_codes m) rs;
          rs2 = fold (\<lambda>kind. add_response (itoa (pk_Status kind)) (guard_problem problemRef kind))
                (concat (map gd_problems (om_guards m))) rs1
      in if list_ex gd_challenge (om_guards m) then challenge_response rs2 else rs2)"

definition buildResponses :: "schema_env \<Rightarrow> string \<Rightarrow> ('s, 'c) operationModel \<Rightarrow> Responses gen" where
  "buildResponses env problemRef m =
     do {
       success \<leftarrow> success_response env m;
       let rs = [(itoa (success_status m), success)];
       rs1 \<leftarrow> (case (om_raw m, om_doc m) of
               (True, Some doc) \<Rightarrow> extra_responses env (success_produces m) (rd_Responses doc) rs
             | _ \<Rightarrow> yield rs);
       let rs2 = fold (\<lambda>kind. add_response (itoa (pk_Status kind)) (declared_problem problemRef kind)) (om_problems m) rs1;
       yield (applyDerivedErrorResponses problemRef rs2 m)
     }"


subsection \<open>Security and access control\<close>

definition operationSecurity :: "('s, 'c) operationModel \<Rightarrow> CredentialSet list" where
  "operationSecurity m =
     (let required = And (foldl (\<lambda>r g. And r (gd_credentials g)) empty_requirement (om_guards m)) (om_security m)
      in if Unstated required then [] else Alternatives required)"

fun unique_from :: "string list \<Rightarrow> string list \<Rightarrow> string list" where
  "unique_from seen [] = []"
| "unique_from seen (v # vs) =
     (if v = [] \<or> v \<in> set seen then unique_from seen vs else v # unique_from (v # seen) vs)"

definition uniqueStrings :: "string list \<Rightarrow> string list" where
  "uniqueStrings vs = unique_from [] vs"

definition permission_lines :: "'c Guard \<Rightarrow> string list" where
  "permission_lines g =
     (let slugs = Strings (gd_permissions g) in
      if gd_permissions g = [] then []
      else if gd_permissionMode g = ModeAny then [''any('' @ join slugs '', '' @ '')'']
      else if gd_permissionMode g = ModeAll then [''all('' @ join slugs '', '' @ '')'']
      else slugs)"

definition accessControlLines :: "'c Guard list \<Rightarrow> string list" where
  "accessControlLines guards =
     (let claims = concat (map permission_lines guards);
          notes = (\<lambda>note. filter (\<lambda>n. n \<noteq> []) (map (\<lambda>g. trim_space (note g)) guards))
      in uniqueStrings ((if claims = [] then notes gd_fallbackNote else claims) @ notes gd_note))"

definition permissionClaims :: "'c Guard list \<Rightarrow> PermissionClaimDoc list" where
  "permissionClaims guards =
     map (\<lambda>g. \<lparr>pc_Mode = (if gd_permissionMode g = [] then ModeSingle else gd_permissionMode g), pc_Slugs = Strings (gd_permissions g)\<rparr>)
       (filter (\<lambda>g. gd_permissions g \<noteq> []) guards)"


subsection \<open>Operations\<close>

definition extractResourceFromRoute :: "string \<Rightarrow> string" where
  "extractResourceFromRoute route =
     (case List.find (\<lambda>part. part \<noteq> [] \<and> part \<noteq> ''api'' \<and> part \<noteq> ''v1'' \<and> CHR ''{'' \<notin> set part)
             (split_on (CHR ''/'') (trim_set route ''/'')) of
        Some part \<Rightarrow> part | None \<Rightarrow> ''default'')"

definition describe_access :: "string \<Rightarrow> string list \<Rightarrow> string" where
  "describe_access description perms =
     (if perms = [] then description
      else (if description \<noteq> [] then description else ''This endpoint requires authentication.'') @
        [CHR 0x0A, CHR 0x0A] @ ''Access control:'' @ [CHR 0x0A] @ ''- '' @ join perms ([CHR 0x0A] @ ''- ''))"

definition buildOperation :: "schema_env \<Rightarrow> string \<Rightarrow> ('s, 'c) operationModel \<Rightarrow> SpecOperation gen" where
  "buildOperation env problemRef m =
     do {
       responses \<leftarrow> buildResponses env problemRef m;
       params \<leftarrow> buildParameters env m;
       body \<leftarrow> buildRequestBody env m;
       yield \<lparr>so_Tags = (if om_tags m = [] then [extractResourceFromRoute (om_path m)] else om_tags m),
              so_Summary = om_summary m, so_Description = describe_access (om_description m) (accessControlLines (om_guards m)),
              so_OperationID = om_id m, so_Parameters = sortOperationParameters params, so_RequestBody = body,
              so_Responses = responses, so_Security = operationSecurity m,
              so_XRequiredPermissions = (case permissionClaims (om_guards m) of
                 [] \<Rightarrow> NoClaims | [c] \<Rightarrow> OneClaim c | cs \<Rightarrow> ManyClaims cs),
              so_hasSummary = trim_space (om_summary m) \<noteq> [], so_hasTags = om_tags m \<noteq> [],
              so_routePattern = om_path m, so_httpMethod = om_method m\<rparr>
     }"

definition item_operation :: "string \<Rightarrow> PathItem \<Rightarrow> SpecOperation option" where
  "item_operation verb item =
     (if verb = ''GET'' then pi_Get item else if verb = ''PUT'' then pi_Put item else if verb = ''POST'' then pi_Post item
      else if verb = ''DELETE'' then pi_Delete item else if verb = ''OPTIONS'' then pi_Options item
      else if verb = ''HEAD'' then pi_Head item else if verb = ''PATCH'' then pi_Patch item
      else if verb = ''TRACE'' then pi_Trace item else None)"

definition set_item_operation :: "string \<Rightarrow> SpecOperation \<Rightarrow> PathItem \<Rightarrow> PathItem" where
  "set_item_operation verb op item =
     (if verb = ''GET'' then item\<lparr>pi_Get := Some op\<rparr> else if verb = ''POST'' then item\<lparr>pi_Post := Some op\<rparr>
      else if verb = ''PUT'' then item\<lparr>pi_Put := Some op\<rparr> else if verb = ''DELETE'' then item\<lparr>pi_Delete := Some op\<rparr>
      else if verb = ''PATCH'' then item\<lparr>pi_Patch := Some op\<rparr> else if verb = ''HEAD'' then item\<lparr>pi_Head := Some op\<rparr>
      else if verb = ''OPTIONS'' then item\<lparr>pi_Options := Some op\<rparr> else item)"

definition add_operation :: "('s, 'c) operationModel \<Rightarrow> SpecOperation \<Rightarrow> PathItem gomap \<Rightarrow> PathItem gomap" where
  "add_operation m op paths =
     (let key = convertRouteToOpenAPIPath (om_path m)
      in put key (set_item_operation (om_method m) op (case get paths key of Some item \<Rightarrow> item | None \<Rightarrow> empty_item)) paths)"

fun build_operations ::
  "schema_env \<Rightarrow> string \<Rightarrow> ('s, 'c) operationModel list \<Rightarrow> PathItem gomap \<Rightarrow> string list \<Rightarrow> (PathItem gomap \<times> string list) gen" where
  "build_operations env problemRef [] paths tags = yield (paths, tags)"
| "build_operations env problemRef (m # ms) paths tags =
     do {
       op \<leftarrow> buildOperation env problemRef m;
       build_operations env problemRef ms (add_operation m op paths) (tags @ so_Tags op)
     }"

definition buildTags :: "string list \<Rightarrow> Tag list" where
  "buildTags names = map (\<lambda>name. \<lparr>tag_Name = name, tag_Description = capitalize name @ '' related operations''\<rparr>) (sort (remdups names))"

end
