(* ===== verification/Openapi_Components.thy ===== *)
theory Openapi_Components
  imports Openapi
begin

text \<open>
  The component passes of \<^verbatim>\<open>internal/httpx/openapi.go\<close>, over the whole document: request bodies are
  documented again in the request context, the two sets of components are reconciled, and the components
  that stay get their final names. The code walks maps in an unspecified order; the walks here go in the
  order of the keys.
\<close>

subsection \<open>Walks over the document\<close>

definition map_content :: "(Schema \<Rightarrow> Schema) \<Rightarrow> MediaTypeObject gomap \<Rightarrow> MediaTypeObject gomap" where
  "map_content f content = map_values (\<lambda>mt. mt\<lparr>mt_Schema := map_option f (mt_Schema mt)\<rparr>) content"

definition map_parameters :: "(Schema \<Rightarrow> Schema) \<Rightarrow> Parameter list \<Rightarrow> Parameter list" where
  "map_parameters f ps = map (\<lambda>p. p\<lparr>pa_Schema := map_option f (pa_Schema p)\<rparr>) ps"

definition updateOperationRefs :: "(string \<rightharpoonup> string) \<Rightarrow> SpecOperation \<Rightarrow> SpecOperation" where
  "updateOperationRefs mapping op =
     (let f = updateSchemaRefs mapping in
      op\<lparr>so_Parameters := map_parameters f (so_Parameters op),
         so_RequestBody := map_option (\<lambda>b. b\<lparr>rb_Content := map_content f (rb_Content b)\<rparr>) (so_RequestBody op),
         so_Responses := map_values (\<lambda>r. r\<lparr>rs_Content := map_content f (rs_Content r)\<rparr>) (so_Responses op)\<rparr>)"

definition map_item :: "(SpecOperation \<Rightarrow> SpecOperation) \<Rightarrow> PathItem \<Rightarrow> PathItem" where
  "map_item f item =
     item\<lparr>pi_Get := map_option f (pi_Get item), pi_Put := map_option f (pi_Put item), pi_Post := map_option f (pi_Post item),
       pi_Delete := map_option f (pi_Delete item), pi_Options := map_option f (pi_Options item),
       pi_Head := map_option f (pi_Head item), pi_Patch := map_option f (pi_Patch item), pi_Trace := map_option f (pi_Trace item)\<rparr>"

definition updatePathItemRefs :: "(string \<rightharpoonup> string) \<Rightarrow> PathItem \<Rightarrow> PathItem" where
  "updatePathItemRefs mapping item =
     (map_item (updateOperationRefs mapping) item)\<lparr>pi_Parameters := map_parameters (updateSchemaRefs mapping) (pi_Parameters item)\<rparr>"

definition updateRefs :: "(string \<rightharpoonup> string) \<Rightarrow> Spec \<Rightarrow> Spec" where
  "updateRefs mapping spec =
     spec\<lparr>sp_Components := (sp_Components spec)\<lparr>co_Schemas := map_values (updateSchemaRefs mapping) (co_Schemas (sp_Components spec))\<rparr>,
       sp_Paths := map_values (updatePathItemRefs mapping) (sp_Paths spec)\<rparr>"

definition item_operations :: "PathItem \<Rightarrow> SpecOperation list" where
  "item_operations item =
     List.map_filter id [pi_Get item, pi_Put item, pi_Post item, pi_Delete item, pi_Options item, pi_Head item, pi_Patch item, pi_Trace item]"

definition content_refs :: "MediaTypeObject gomap \<Rightarrow> string list" where
  "content_refs content = concat (map (\<lambda>e. collectSchemaRefs (mt_Schema (snd e))) content)"

definition parameter_refs :: "Parameter list \<Rightarrow> string list" where
  "parameter_refs ps = concat (map (\<lambda>p. collectSchemaRefs (pa_Schema p)) ps)"

definition collectOperationRefs :: "SpecOperation \<Rightarrow> string list" where
  "collectOperationRefs op =
     parameter_refs (so_Parameters op) @
     (case so_RequestBody op of None \<Rightarrow> [] | Some b \<Rightarrow> content_refs (rb_Content b)) @
     concat (map (\<lambda>e. content_refs (rs_Content (snd e))) (so_Responses op))"

definition collectPathItemRefs :: "PathItem \<Rightarrow> string list" where
  "collectPathItemRefs item = concat (map collectOperationRefs (item_operations item)) @ parameter_refs (pi_Parameters item)"

definition document_refs :: "Spec \<Rightarrow> string list" where
  "document_refs spec = concat (map (\<lambda>e. collectPathItemRefs (snd e)) (sp_Paths spec))"


subsection \<open>Reachable components\<close>

definition component_refs :: "Schema option gomap \<Rightarrow> string \<Rightarrow> string list" where
  "component_refs schemas i = (case get schemas i of None \<Rightarrow> [] | Some s \<Rightarrow> collectSchemaRefs s)"

text \<open>
  The visit of the code, depth first. The names still to visit are a work list; \<open>reached\<close> grows with every
  new name, and there are finitely many: those of the seeds and of the references in the components.
\<close>

definition mentioned :: "Schema option gomap \<Rightarrow> string set" where
  "mentioned schemas = (\<Union>i\<in>set (keys schemas). set (component_refs schemas i))"

lemma component_refs_mentioned: "set (component_refs schemas i) \<subseteq> mentioned schemas"
proof (cases "get schemas i")
  case (Some s)
  then have "i \<in> set (keys schemas)" using get_Some_keys [of schemas i] by simp
  then show ?thesis by (auto simp: mentioned_def)
qed (simp add: component_refs_def)

lemma finite_mentioned [simp]: "finite (mentioned schemas)"
  by (simp add: mentioned_def)

function visit_all :: "Schema option gomap \<Rightarrow> string list \<Rightarrow> string list \<Rightarrow> string list" where
  "visit_all schemas [] reached = reached"
| "visit_all schemas (i # work) reached =
     (if i \<in> set reached then visit_all schemas work reached
      else visit_all schemas (component_refs schemas i @ work) (i # reached))"
  by pat_completeness auto
termination
proof (relation "measures [\<lambda>(schemas, work, reached). card ((set work \<union> mentioned schemas) - set reached),
                           \<lambda>(schemas, work, reached). length work]")
  fix schemas i work and reached :: "string list"
  assume seen: "i \<in> set reached"
  have "(set (i # work) \<union> mentioned schemas) - set reached = (set work \<union> mentioned schemas) - set reached"
    using seen by auto
  then show "((schemas, work, reached), schemas, i # work, reached)
      \<in> measures [\<lambda>(schemas, work, reached). card ((set work \<union> mentioned schemas) - set reached),
                   \<lambda>(schemas, work, reached). length work]"
    by simp
next
  fix schemas i work and reached :: "string list"
  assume "i \<notin> set reached"
  then have "(set (component_refs schemas i @ work) \<union> mentioned schemas) - set (i # reached)
      \<subset> (set (i # work) \<union> mentioned schemas) - set reached"
    using component_refs_mentioned [of schemas i] by auto
  then have "card ((set (component_refs schemas i @ work) \<union> mentioned schemas) - set (i # reached))
      < card ((set (i # work) \<union> mentioned schemas) - set reached)"
    by (intro psubset_card_mono) auto
  then show "((schemas, component_refs schemas i @ work, i # reached), schemas, i # work, reached)
      \<in> measures [\<lambda>(schemas, work, reached). card ((set work \<union> mentioned schemas) - set reached),
                   \<lambda>(schemas, work, reached). length work]"
    by simp
qed simp

definition reachableComponents :: "Spec \<Rightarrow> Schema option gomap \<Rightarrow> string list" where
  "reachableComponents spec schemas = visit_all schemas (document_refs spec) []"


subsection \<open>Request contexts\<close>

primrec seq_list :: "'a gen list \<Rightarrow> 'a list gen" where
  "seq_list [] = yield []"
| "seq_list (x # xs) = do { y \<leftarrow> x; ys \<leftarrow> seq_list xs; yield (y # ys) }"

primrec seq_entries :: "('k \<times> 'a gen) list \<Rightarrow> ('k \<times> 'a) list gen" where
  "seq_entries [] = yield []"
| "seq_entries (e # es) = do { y \<leftarrow> snd e; ys \<leftarrow> seq_entries es; yield ((fst e, y) # ys) }"

definition seq_option :: "'a gen option \<Rightarrow> 'a option gen" where
  "seq_option x = (case x of None \<Rightarrow> yield None | Some m \<Rightarrow> do { y \<leftarrow> m; yield (Some y) })"

definition seq_additional :: "'a gen additional \<Rightarrow> 'a additional gen" where
  "seq_additional x =
     (case x of AnyMember \<Rightarrow> yield AnyMember | Members b \<Rightarrow> yield (Members b) | EachMember m \<Rightarrow> do { y \<leftarrow> m; yield (EachMember y) })"

definition requestVariant :: "schema_env \<Rightarrow> string \<Rightarrow> string option gen" where
  "requestVariant env i =
     (if has_suffix i RequestVariantSuffix then yield (Some i)
      else do {
        g \<leftarrow> State_Monad.get;
        case get (gn_schemaOwner g) i of
          None \<Rightarrow> do { _ \<leftarrow> add_violations [UnownedComponent i]; yield None }
        | Some owner \<Rightarrow>
            do {
              s \<leftarrow> DeriveSchemaIn env SchemaContextRequest (Some owner);
              yield (if sc_Ref s = [] then None else Some (trim_prefix (sc_Ref s) schemaRefPrefix))
            }
      })"

primrec pointAtRequestVariants :: "schema_env \<Rightarrow> Schema \<Rightarrow> Schema gen" where
  "pointAtRequestVariants env (Schema kw ps it ad oo ao al nt) =
     (if k_Ref kw \<noteq> [] then
        do {
          v \<leftarrow> requestVariant env (trim_prefix (k_Ref kw) schemaRefPrefix);
          yield (Schema (case v of Some variant \<Rightarrow> kw\<lparr>k_Ref := schemaRefPrefix @ variant\<rparr> | None \<Rightarrow> kw) ps it ad oo ao al nt)
        }
      else
        do {
          ps' \<leftarrow> seq_entries (map (map_prod id (pointAtRequestVariants env)) ps);
          it' \<leftarrow> seq_option (map_option (pointAtRequestVariants env) it);
          oo' \<leftarrow> seq_list (map (pointAtRequestVariants env) oo);
          ao' \<leftarrow> seq_list (map (pointAtRequestVariants env) ao);
          al' \<leftarrow> seq_list (map (pointAtRequestVariants env) al);
          nt' \<leftarrow> seq_option (map_option (pointAtRequestVariants env) nt);
          ad' \<leftarrow> seq_additional (map_additional (pointAtRequestVariants env) ad);
          yield (Schema kw ps' it' ad' oo' ao' al' nt')
        })"

definition requestContextSchema :: "schema_env \<Rightarrow> Schema option \<Rightarrow> Schema option gen" where
  "requestContextSchema env s = seq_option (map_option (pointAtRequestVariants env) s)"

definition specOperation :: "Spec \<Rightarrow> string \<Rightarrow> string \<Rightarrow> SpecOperation option" where
  "specOperation spec path verb =
     (case get (sp_Paths spec) path of None \<Rightarrow> None | Some item \<Rightarrow> item_operation (to_upper verb) item)"

text \<open>The operations are shared by reference: a change of one shows in the document.\<close>

definition put_operation :: "Spec \<Rightarrow> string \<Rightarrow> string \<Rightarrow> SpecOperation \<Rightarrow> Spec" where
  "put_operation spec path verb op =
     (case get (sp_Paths spec) path of
        None \<Rightarrow> spec
      | Some item \<Rightarrow> spec\<lparr>sp_Paths := put path (set_item_operation (to_upper verb) op item) (sp_Paths spec)\<rparr>)"

definition request_content :: "schema_env \<Rightarrow> MediaTypeObject gomap \<Rightarrow> MediaTypeObject gomap gen" where
  "request_content env content =
     seq_entries (map (\<lambda>(mediaType, mt). (mediaType,
       do { s \<leftarrow> requestContextSchema env (mt_Schema mt); yield (mt\<lparr>mt_Schema := s\<rparr>) })) content)"

definition standard_body :: "('s, 'c) operationModel \<Rightarrow> bool" where
  "standard_body m \<longleftrightarrow>
     \<not> om_raw m \<and> (case Option.bind (om_reqPlan m) pl_body of None \<Rightarrow> False | Some bp \<Rightarrow> \<not> bp_raw bp)"

fun request_contexts :: "schema_env \<Rightarrow> ('s, 'c) operationModel list \<Rightarrow> Spec \<Rightarrow> Spec gen" where
  "request_contexts env [] spec = yield spec"
| "request_contexts env (m # ms) spec =
     (let path = convertRouteToOpenAPIPath (om_path m) in
      case (standard_body m, specOperation spec path (om_method m)) of
        (True, Some op) \<Rightarrow>
          (case so_RequestBody op of
             None \<Rightarrow> request_contexts env ms spec
           | Some b \<Rightarrow>
               do {
                 content \<leftarrow> request_content env (rb_Content b);
                 request_contexts env ms (put_operation spec path (om_method m) (op\<lparr>so_RequestBody := Some (b\<lparr>rb_Content := content\<rparr>)\<rparr>))
               })
      | _ \<Rightarrow> request_contexts env ms spec)"


subsection \<open>Reconciliation\<close>

definition variant_base :: "string \<Rightarrow> string" where
  "variant_base v = trim_suffix v RequestVariantSuffix"

definition request_variants :: "schemaGenerator \<Rightarrow> string list" where
  "request_variants g = map fst (filter (\<lambda>(i, s). s \<noteq> None \<and> has_suffix i RequestVariantSuffix) (gn_schemas g))"

text \<open>\<open>canonical\<close> reads a reference to a renamed or collapsed variant as one to its base.\<close>

definition canonical :: "string list \<Rightarrow> string list \<Rightarrow> string \<Rightarrow> string" where
  "canonical rename collapse ref =
     (let i = trim_prefix ref schemaRefPrefix in
      if has_suffix i RequestVariantSuffix \<and> (i \<in> set rename \<or> i \<in> set collapse) then schemaRefPrefix @ variant_base i else ref)"

definition twins_agree :: "Schema option gomap \<Rightarrow> string list \<Rightarrow> string list \<Rightarrow> string \<Rightarrow> bool" where
  "twins_agree schemas rename collapse v =
     schemasEquivalent (Option.bind (get schemas v) id) (Option.bind (get schemas (variant_base v)) id) (canonical rename collapse)"

text \<open>One round over the shared variants: each one that differs from its twin leaves the set at once.\<close>

fun collapse_round :: "Schema option gomap \<Rightarrow> string list \<Rightarrow> string list \<Rightarrow> string list \<Rightarrow> string list" where
  "collapse_round schemas rename [] collapse = collapse"
| "collapse_round schemas rename (v # vs) collapse =
     collapse_round schemas rename vs
       (if v \<in> set collapse \<and> \<not> twins_agree schemas rename collapse v then filter (\<lambda>x. x \<noteq> v) collapse else collapse)"

lemma collapse_round_subset: "set (collapse_round schemas rename vs collapse) \<subseteq> set collapse"
proof (induction vs arbitrary: collapse)
  case (Cons v vs)
  show ?case using Cons [of "if v \<in> set collapse \<and> \<not> twins_agree schemas rename collapse v then filter (\<lambda>x. x \<noteq> v) collapse else collapse"]
    by (auto split: if_splits)
qed simp

lemma collapse_round_length: "length (collapse_round schemas rename vs collapse) \<le> length collapse"
proof (induction vs arbitrary: collapse)
  case (Cons v vs)
  let ?next = "if v \<in> set collapse \<and> \<not> twins_agree schemas rename collapse v then filter (\<lambda>x. x \<noteq> v) collapse else collapse"
  have "length (collapse_round schemas rename (v # vs) collapse) \<le> length ?next"
    using Cons [of ?next] by (simp only: collapse_round.simps)
  also have "\<dots> \<le> length collapse" by simp
  finally show ?case .
qed simp

lemma collapse_round_shrinks:
  "collapse_round schemas rename vs collapse \<noteq> collapse \<Longrightarrow> length (collapse_round schemas rename vs collapse) < length collapse"
proof (induction vs arbitrary: collapse)
  case (Cons v vs)
  show ?case
  proof (cases "v \<in> set collapse \<and> \<not> twins_agree schemas rename collapse v")
    case True
    then have "length (filter (\<lambda>x. x \<noteq> v) collapse) < length collapse" by (metis (mono_tags, lifting) length_filter_less)
    with True collapse_round_length [of schemas rename vs "filter (\<lambda>x. x \<noteq> v) collapse"] show ?thesis by simp
  next
    case False
    then have "collapse_round schemas rename (v # vs) collapse = collapse_round schemas rename vs collapse" by auto
    with Cons show ?thesis by simp
  qed
qed simp

text \<open>The rounds go on until one changes nothing.\<close>

function collapse_loop :: "Schema option gomap \<Rightarrow> string list \<Rightarrow> string list \<Rightarrow> string list \<Rightarrow> string list" where
  "collapse_loop schemas rename shared collapse =
     (let collapse' = collapse_round schemas rename shared collapse
      in if collapse' = collapse then collapse else collapse_loop schemas rename shared collapse')"
  by pat_completeness auto
termination
  by (relation "measure (\<lambda>(schemas, rename, shared, collapse). length collapse)") (auto dest: collapse_round_shrinks)

declare collapse_loop.simps [simp del]

definition move_component :: "string \<Rightarrow> schemaGenerator \<Rightarrow> schemaGenerator" where
  "move_component v g =
     (let base = variant_base v
      in g\<lparr>gn_schemas := remove v (put base (Option.bind (get (gn_schemas g) v) id) (gn_schemas g)),
           gn_schemaOwner := remove v (case get (gn_schemaOwner g) v of None \<Rightarrow> gn_schemaOwner g | Some t \<Rightarrow> put base t (gn_schemaOwner g))\<rparr>)"

definition drop_component :: "string \<Rightarrow> schemaGenerator \<Rightarrow> schemaGenerator" where
  "drop_component v g = g\<lparr>gn_schemas := remove v (gn_schemas g), gn_schemaOwner := remove v (gn_schemaOwner g)\<rparr>"

definition variant_mapping :: "string list \<Rightarrow> string \<rightharpoonup> string" where
  "variant_mapping vs = map_of (map (\<lambda>v. (schemaRefPrefix @ v, schemaRefPrefix @ variant_base v)) vs)"

definition reconcileSchemaContexts :: "Spec \<Rightarrow> schemaGenerator \<Rightarrow> Spec \<times> schemaGenerator" where
  "reconcileSchemaContexts spec g =
     (let variants = request_variants g;
          reachable = reachableComponents spec (gn_schemas g);
          alone = (\<lambda>v. get (gn_schemas g) (variant_base v) = None \<or> variant_base v \<notin> set reachable);
          rename = filter alone variants;
          shared = filter (\<lambda>v. \<not> alone v) variants;
          collapse = collapse_loop (gn_schemas g) rename shared shared;
          mapping = variant_mapping (rename @ collapse);
          g1 = fold drop_component collapse (fold move_component rename g)
      in if rename @ collapse = [] then (spec, g)
         else (updateRefs mapping spec, g1\<lparr>gn_schemas := map_values (map_option (updateSchemaRefs mapping)) (gn_schemas g1)\<rparr>))"

definition applyRequestSchemaContexts :: "schema_env \<Rightarrow> ('s, 'c) operationModel list \<Rightarrow> Spec \<Rightarrow> Spec gen" where
  "applyRequestSchemaContexts env ops spec =
     do {
       spec' \<leftarrow> request_contexts env ops spec;
       State (\<lambda>g. reconcileSchemaContexts spec' g)
     }"

end
