(* ===== verification/Openapi_Final.thy ===== *)
theory Openapi_Final
  imports Openapi_Components Build_Facts
begin

text \<open>
  The last passes of \<^verbatim>\<open>internal/httpx/openapi.go\<close>: final component names, the checks of the document that
  \<open>Build\<close> runs, and the projection that \<open>Application.OpenAPI\<close> serves. \<open>validateRefs\<close> looks for references in
  the encoded document; those are the references of its schemas.
\<close>

subsection \<open>Final names\<close>

fun fullTypeName :: "schema_env \<Rightarrow> gtype \<Rightarrow> string" where
  "fullTypeName env (TPtr e) = ''*'' @ fullTypeName env e"
| "fullTypeName env (TSlice n e) = ''[]'' @ fullTypeName env e"
| "fullTypeName env (TArray n k e) = ''['' @ show_nat k @ '']'' @ fullTypeName env e"
| "fullTypeName env (TMap n k e) = ''map['' @ fullTypeName env k @ '']'' @ fullTypeName env e"
| "fullTypeName env t = (if defined_type t then type_name t else sv_String env t)"

definition DefaultModelNameFunc :: "ModelIdentity \<Rightarrow> string" where
  "DefaultModelNameFunc model = (if mi_Package model = [] then mi_Name model else mi_Package model @ ''.'' @ mi_Name model)"

definition final_name :: "schema_env \<Rightarrow> string \<Rightarrow> gtype \<Rightarrow> string" where
  "final_name env i owner =
     (let qualified = (if owner = TIface [] then ''any'' else reflectQualifiedName env owner)
      in case splitQualifiedName qualified of
           (pkg, name) \<Rightarrow>
             sv_nameFunc env \<lparr>mi_Type = Some owner, mi_Package = pkg, mi_Name = name\<rparr> @
             (if has_suffix i RequestVariantSuffix then RequestVariantSuffix else []))"

definition owner_name :: "schema_env \<Rightarrow> string \<Rightarrow> gtype \<Rightarrow> string" where
  "owner_name env i owner = fullTypeName env owner @ (if has_suffix i RequestVariantSuffix then RequestVariantSuffix else [])"

text \<open>The loop over the sorted component ids: the final names, the names in use with their owners, the violations.\<close>

record naming =
  nm_nameMap :: "string gomap"
  nm_usedNames :: "string gomap"
  nm_violations :: "schema_violation list"

definition name_component :: "schema_env \<Rightarrow> schemaGenerator \<Rightarrow> string \<Rightarrow> naming \<Rightarrow> naming" where
  "name_component env g i n =
     (case get (gn_schemaOwner g) i of
        None \<Rightarrow> n\<lparr>nm_violations := nm_violations n @ [OwnerlessComponent i]\<rparr>
      | Some owner \<Rightarrow>
          let final = final_name env i owner;
              ownerName = owner_name env i owner;
              invalid = (if validComponentName final then [] else [InvalidComponentName (fullTypeName env owner) final]);
              taken = (case get (nm_usedNames n) final of Some first \<Rightarrow> if first \<noteq> ownerName then Some first else None | None \<Rightarrow> None)
          in n\<lparr>nm_nameMap := put i final (nm_nameMap n),
               nm_usedNames := (if taken = None then put final ownerName (nm_usedNames n) else nm_usedNames n),
               nm_violations := nm_violations n @ invalid @
                 (case taken of Some first \<Rightarrow> [NameCollision first ownerName final] | None \<Rightarrow> [])\<rparr>)"

definition name_components :: "schema_env \<Rightarrow> schemaGenerator \<Rightarrow> naming" where
  "name_components env g =
     fold (name_component env g) (keys (componentSchemas g)) \<lparr>nm_nameMap = [], nm_usedNames = [], nm_violations = []\<rparr>"

text \<open>A Go map lookup of a missing key is the empty name.\<close>

definition name_of :: "naming \<Rightarrow> string \<Rightarrow> string" where
  "name_of n i = (case get (nm_nameMap n) i of Some final \<Rightarrow> final | None \<Rightarrow> [])"

definition ref_mapping :: "naming \<Rightarrow> string \<rightharpoonup> string" where
  "ref_mapping n = map_of (map (\<lambda>(i, final). (schemaRefPrefix @ i, schemaRefPrefix @ final)) (nm_nameMap n))"

definition finalizeSchemas :: "schema_env \<Rightarrow> Spec \<Rightarrow> Spec gen" where
  "finalizeSchemas env spec =
     State (\<lambda>g.
       let schemas = componentSchemas g; n = name_components env g in
       if schemas = [] then (spec, g)
       else (updateRefs (ref_mapping n)
               (spec\<lparr>sp_Components := (sp_Components spec)
                  \<lparr>co_Schemas := fold (\<lambda>(i, s). put (name_of n i) s) schemas (co_Schemas (sp_Components spec))\<rparr>\<rparr>),
             report (nm_violations n) g))"

definition buildSpecSkeletonAndOperations :: "schema_env \<Rightarrow> ('s, 'c) operationModel list \<Rightarrow> Spec gen" where
  "buildSpecSkeletonAndOperations env ops =
     do {
       skeleton \<leftarrow> newSpecSkeleton env;
       built \<leftarrow> build_operations env (snd skeleton) ops (sp_Paths (fst skeleton)) [];
       let spec = (fst skeleton)\<lparr>sp_Paths := fst built, sp_Tags := buildTags (snd built)\<rparr>;
       spec' \<leftarrow> applyRequestSchemaContexts env ops spec;
       finalizeSchemas env spec'
     }"


subsection \<open>Checks of the document\<close>

datatype document_violation =
    SchemaViolation schema_violation
  | MissingSummary string
  | MissingTags string
  | MissingOperationID string
  | DuplicateID string "string list"
  | AmbiguousPaths string string
  | UnknownComponentType string
  | MissingComponent string

record operationEntry =
  oe_path :: string
  oe_method :: string
  oe_op :: SpecOperation

definition collectOperations :: "Spec \<Rightarrow> operationEntry list" where
  "collectOperations spec =
     concat (map (\<lambda>(path, item).
       List.map_filter (\<lambda>verb. map_option (\<lambda>op. \<lparr>oe_path = path, oe_method = verb, oe_op = op\<rparr>) (item_operation verb item))
         [''DELETE'', ''GET'', ''HEAD'', ''OPTIONS'', ''PATCH'', ''POST'', ''PUT'', ''TRACE'']) (sp_Paths spec))"

definition operationLabel :: "operationEntry \<Rightarrow> string" where
  "operationLabel e =
     (if so_httpMethod (oe_op e) \<noteq> [] \<and> so_routePattern (oe_op e) \<noteq> []
      then so_httpMethod (oe_op e) @ '' '' @ so_routePattern (oe_op e) else oe_method e @ '' '' @ oe_path e)"

definition validateAnnotations :: "Spec \<Rightarrow> document_violation list" where
  "validateAnnotations spec =
     concat (map (\<lambda>e.
       (if so_hasSummary (oe_op e) then [] else [MissingSummary (operationLabel e)]) @
       (if so_hasTags (oe_op e) then [] else [MissingTags (operationLabel e)])) (collectOperations spec))"

definition labels_of :: "string \<Rightarrow> operationEntry list \<Rightarrow> string list" where
  "labels_of i entries = map operationLabel (filter (\<lambda>e. trim_space (so_OperationID (oe_op e)) = i) entries)"

definition validateOperationIDs :: "Spec \<Rightarrow> document_violation list" where
  "validateOperationIDs spec =
     (let entries = collectOperations spec;
          named = filter (\<lambda>e. trim_space (so_OperationID (oe_op e)) \<noteq> []) entries;
          ids = sort (remdups (map (\<lambda>e. trim_space (so_OperationID (oe_op e))) named))
      in map (\<lambda>e. MissingOperationID (operationLabel e)) (filter (\<lambda>e. trim_space (so_OperationID (oe_op e)) = []) entries) @
         map (\<lambda>i. DuplicateID i (sort (labels_of i named))) (filter (\<lambda>i. length (labels_of i named) > 1) ids))"

definition splitPathSegments :: "string \<Rightarrow> string list" where
  "splitPathSegments path =
     (let trimmed = trim_set path ''/'' in if trimmed = [] then [] else split_on (CHR ''/'') trimmed)"

definition isTemplatedSegment :: "string \<Rightarrow> bool" where
  "isTemplatedSegment segment \<longleftrightarrow> has_prefix segment ''{'' \<and> has_suffix segment ''}''"

text \<open>The loop over the segments; \<open>diff\<close> says whether a parameterised difference was seen.\<close>

fun segments_ambiguous :: "string list \<Rightarrow> string list \<Rightarrow> bool \<Rightarrow> bool" where
  "segments_ambiguous (a # as) (b # bs) diff =
     (if a = b then segments_ambiguous as bs diff
      else if \<not> isTemplatedSegment a \<or> \<not> isTemplatedSegment b then False
      else segments_ambiguous as bs True)"
| "segments_ambiguous _ _ diff = diff"

definition pathsAreAmbiguous :: "string \<Rightarrow> string \<Rightarrow> bool" where
  "pathsAreAmbiguous left right =
     (let ls = splitPathSegments left; rs = splitPathSegments right
      in length ls = length rs \<and> segments_ambiguous ls rs False)"

fun ambiguous_pairs :: "string list \<Rightarrow> document_violation list" where
  "ambiguous_pairs [] = []"
| "ambiguous_pairs (p # ps) = map (AmbiguousPaths p) (filter (pathsAreAmbiguous p) ps) @ ambiguous_pairs ps"

definition validateAmbiguousPaths :: "Spec \<Rightarrow> document_violation list" where
  "validateAmbiguousPaths spec = ambiguous_pairs (keys (sp_Paths spec))"

definition componentTypes :: "string list" where
  "componentTypes = [''schemas'', ''responses'', ''parameters'', ''examples'', ''requestBodies'', ''headers'', ''securitySchemes'',
     ''links'', ''callbacks'', ''pathItems'']"

definition collectComponentMembers :: "Spec \<Rightarrow> string \<rightharpoonup> string list" where
  "collectComponentMembers spec ty =
     (if ty \<notin> set componentTypes then None
      else if ty = ''schemas'' then Some (keys (co_Schemas (sp_Components spec)))
      else if ty = ''securitySchemes'' then Some (keys (co_SecuritySchemes (sp_Components spec)))
      else Some [])"

definition parseComponentRef :: "string \<Rightarrow> (string \<times> string) option" where
  "parseComponentRef ref =
     (if \<not> has_prefix ref ''#/components/'' then None
      else case cut (trim_prefix ref ''#/components/'') (CHR ''/'') of
        (ty, name, found) \<Rightarrow>
          if \<not> found \<or> trim_space ty = [] \<or> trim_space name = [] then None else Some (trim_space ty, trim_space name))"

definition content_schemas :: "MediaTypeObject gomap \<Rightarrow> Schema list" where
  "content_schemas content = List.map_filter (\<lambda>e. mt_Schema (snd e)) content"

definition parameter_schemas :: "Parameter list \<Rightarrow> Schema list" where
  "parameter_schemas ps = List.map_filter pa_Schema ps"

definition response_schemas :: "SpecResponse \<Rightarrow> Schema list" where
  "response_schemas r = content_schemas (rs_Content r) @ List.map_filter (\<lambda>h. hd_Schema (snd h)) (rs_Headers r)"

definition body_schemas :: "RequestBody option \<Rightarrow> Schema list" where
  "body_schemas b = (case b of None \<Rightarrow> [] | Some x \<Rightarrow> content_schemas (rb_Content x))"

definition operation_schemas :: "SpecOperation \<Rightarrow> Schema list" where
  "operation_schemas op =
     parameter_schemas (so_Parameters op) @ body_schemas (so_RequestBody op) @
     concat (map (\<lambda>e. response_schemas (snd e)) (so_Responses op))"

definition item_schemas :: "PathItem \<Rightarrow> Schema list" where
  "item_schemas item = concat (map operation_schemas (item_operations item)) @ parameter_schemas (pi_Parameters item)"

definition document_schemas :: "Spec \<Rightarrow> Schema list" where
  "document_schemas spec =
     map snd (co_Schemas (sp_Components spec)) @ concat (map (\<lambda>e. item_schemas (snd e)) (sp_Paths spec))"

definition collectComponentRefs :: "Spec \<Rightarrow> string list" where
  "collectComponentRefs spec =
     sort (remdups (filter (\<lambda>r. has_prefix r ''#/components/'') (concat (map schema_refs (document_schemas spec)))))"

definition ref_violation :: "Spec \<Rightarrow> string \<Rightarrow> document_violation list" where
  "ref_violation spec ref =
     (case parseComponentRef ref of
        None \<Rightarrow> []
      | Some (ty, name) \<Rightarrow>
          (case collectComponentMembers spec ty of
             None \<Rightarrow> [UnknownComponentType ref]
           | Some members \<Rightarrow> if name \<in> set members then [] else [MissingComponent ref]))"

definition validateRefs :: "Spec \<Rightarrow> document_violation list" where
  "validateRefs spec = concat (map (ref_violation spec) (collectComponentRefs spec))"

text \<open>What \<open>Build\<close> collects from the document, before the final sort, and the document it keeps.\<close>

definition document_pass :: "schema_env \<Rightarrow> ('s, 'c) operationModel list \<Rightarrow> Spec \<times> document_violation list" where
  "document_pass env ops =
     (case run_state (buildSpecSkeletonAndOperations env ops) newSchemaGenerator of
        (spec, g) \<Rightarrow>
          (spec, map SchemaViolation (gn_violations g) @ validateOperationIDs spec @ validateAmbiguousPaths spec @
             validateAnnotations spec @ validateRefs spec))"


subsection \<open>Serving the document\<close>

record Info =
  in_Title :: string
  in_Summary :: string
  in_Description :: string
  in_Version :: string
  in_TermsOfService :: string
  in_Servers :: "string list"
  in_Contact :: "Contact option"
  in_License :: "License option"

definition specInfo :: "Info \<Rightarrow> SpecInfo" where
  "specInfo i =
     \<lparr>si_Title = in_Title i, si_Summary = in_Summary i, si_Description = in_Description i,
      si_TermsOfService = in_TermsOfService i, si_Contact = in_Contact i, si_License = in_License i, si_Version = in_Version i\<rparr>"

datatype openapi_error = Uncompiled | InfoViolations "string list" | MarshalFailed

text \<open>The encoder of the standard library is the parameter \<open>marshal\<close>.\<close>

definition OpenAPI :: "(Spec \<Rightarrow> string option) \<Rightarrow> Spec option \<Rightarrow> Info \<Rightarrow> openapi_error + string" where
  "OpenAPI marshal frozen info =
     (case frozen of
        None \<Rightarrow> Inl Uncompiled
      | Some compiled \<Rightarrow>
          let spec = compiled\<lparr>sp_Info := specInfo info,
                sp_Servers := map (\<lambda>url. \<lparr>sr_URL = url, sr_Description = ''API Server''\<rparr>) (in_Servers info)\<rparr>;
              violations = (if trim_space (in_Title info) = [] then [''OpenAPI info.title is required''] else []) @
                (if trim_space (in_Version info) = [] then [''OpenAPI info.version is required''] else [])
          in if violations \<noteq> [] then Inl (InfoViolations (sort violations))
             else case marshal spec of None \<Rightarrow> Inl MarshalFailed | Some out \<Rightarrow> Inr (out @ [CHR 0x0A]))"

text \<open>\<open>Responses.MarshalJSON\<close> writes its members in this order.\<close>

definition responseCodeSortParts :: "string \<Rightarrow> nat \<times> int \<times> string" where
  "responseCodeSortParts code =
     (let normalized = to_lower (trim_space code) in
      if normalized = ''default'' then (7, 0, ''default'')
      else case parse_int 64 normalized of
        Some n \<Rightarrow> if 100 \<le> n \<and> n \<le> 599 then (nat (n div 100), n, []) else (6, n, [])
      | None \<Rightarrow> (8, 0, normalized))"

definition response_order :: "Responses \<Rightarrow> string list" where
  "response_order rs = sort_key (\<lambda>k. (responseCodeSortParts k, k)) (keys rs)"

end
