(* ===== verification/Schema_Facts.thy ===== *)
theory Schema_Facts
  imports Schema_Derive
begin

text \<open>
  What derivation does to references. \<open>within R s\<close> says that every reference in a schema is one of \<open>R\<close>. The
  tags of a field never add one, and the derivation of a type refers only to components the generator has:
  the invariant \<open>gen_ok\<close> of the generator, kept by the whole recursion.
\<close>

subsection \<open>References within a set\<close>

definition within :: "string set \<Rightarrow> Schema \<Rightarrow> bool" where
  "within R s \<longleftrightarrow> set (schema_refs s) \<subseteq> R"

lemma within_iff: "within R s \<longleftrightarrow> own_refs s \<subseteq> R \<and> (\<forall>x\<in>subschemas s. within R x)"
  unfolding within_def by (subst set_schema_refs) auto

lemma within_mono: "within R s \<Longrightarrow> R \<subseteq> R' \<Longrightarrow> within R' s"
  by (auto simp: within_def)

lemma within_with_kw [simp]: "k_Ref (f (sc_kw s)) = k_Ref (sc_kw s) \<Longrightarrow> within R (with_kw f s) = within R s"
  by (subst (1 2) within_iff) (simp add: own_refs_def subschemas_def)

lemma within_leaf [simp]: "within R (leaf kw) \<longleftrightarrow> k_Ref kw = [] \<or> k_Ref kw \<in> R"
  by (subst within_iff) (auto simp: leaf_def own_refs_def subschemas_def)

lemma no_ref [simp]: "k_Ref no_keywords = []"
  by (simp add: no_keywords_def)

lemma within_typed [simp]: "within R (typed t)" "within R (formatted t f)"
  by (simp_all add: typed_def formatted_def)

lemma within_ref_to [simp]: "within R (ref_to r) \<longleftrightarrow> r = [] \<or> r \<in> R"
  by (simp add: ref_to_def)

lemma within_array_of [simp]: "within R (array_of s) = within R s"
  by (subst within_iff) (simp add: array_of_def own_refs_def subschemas_def)

lemma within_map_of_values [simp]: "within R (map_of_values s) = within R s"
  by (subst within_iff) (simp add: map_of_values_def own_refs_def subschemas_def)

lemma within_object_of [simp]: "within R (object_of props required) \<longleftrightarrow> (\<forall>x\<in>snd ` set props. within R x)"
  by (subst within_iff) (simp add: object_of_def own_refs_def subschemas_def)

lemma within_set_parts:
  "within R s \<Longrightarrow> within R x \<Longrightarrow> within R (set_Items (Some x) s)"
  "within R s \<Longrightarrow> within R x \<Longrightarrow> within R (set_Not (Some x) s)"
  "within R s \<Longrightarrow> \<forall>x\<in>set xs. within R x \<Longrightarrow> within R (set_AnyOf xs s)"
  "within R s \<Longrightarrow> \<forall>x\<in>set xs. within R x \<Longrightarrow> within R (set_AllOf xs s)"
  "within R s \<Longrightarrow> within R (set_Additional (Members b) s)"
  by (subst within_iff, subst (asm) within_iff [of R s],
      auto simp: set_Items_def set_Not_def set_AnyOf_def set_AllOf_def set_Additional_def own_refs_def subschemas_def split: if_splits)+

lemma within_parts:
  "within R s \<Longrightarrow> sc_Items s = Some x \<Longrightarrow> within R x"
  "within R s \<Longrightarrow> x \<in> set (sc_AllOf s) \<Longrightarrow> within R x"
  "within R s \<Longrightarrow> x \<in> set (sc_AnyOf s) \<Longrightarrow> within R x"
  by (auto simp: within_iff [of R s] subschemas_def)

lemma within_drop_nullable_word [simp]: "within R (drop_nullable_word s) = within R s"
  by (auto simp: drop_nullable_word_def split: list.splits)

lemma within_removeNullability: "within R s \<Longrightarrow> within R (removeNullability s)"
proof (induction s rule: removeNullability.induct)
  case (1 kw ps it ad oo ao al nt)
  define kept where "kept = map removeNullability (filter (\<lambda>s. \<not> is_null s) ao)"
  have parts: "own_refs (Schema kw ps it ad oo ao al nt) \<subseteq> R" "\<forall>x\<in>subschemas (Schema kw ps it ad oo ao al nt). within R x"
    using "1.prems" within_iff by blast+
  have kept: "\<forall>x\<in>set kept. within R x" using "1.IH" parts(2) by (auto simp: subschemas_def kept_def)
  have build: "within R (Schema (kw\<lparr>k_Type := ty\<rparr>) ps it ad oo xs al nt)" if "\<forall>x\<in>set xs. within R x" for xs ty
    using parts that by (subst within_iff) (auto simp: own_refs_def subschemas_def)
  show ?case
    using kept build [OF kept] build [of ao "strip_null (k_Type kw)"] parts(2)
    unfolding removeNullability.simps kept_def [symmetric] Let_def
    by (cases kept; cases "tl kept") (auto simp: subschemas_def)
qed

lemma within_envelope [simp]: "within R (envelopeSchema d None) = within R d"
  "within R (envelopeSchema d (Some meta)) \<longleftrightarrow> within R d \<and> within R meta"
  by (auto simp: envelopeSchema_def)

lemma within_map_refs:
  assumes "within R s" and "\<And>r. r \<in> R \<Longrightarrow> f r \<in> R'"
  shows "within R' (map_refs f s)"
  using assms by (auto simp: within_def map_refs_refs)

lemma within_updateSchemaRefs:
  assumes "within R s" and "\<And>r. r \<in> R \<Longrightarrow> (case mapping r of Some r' \<Rightarrow> r' | None \<Rightarrow> r) \<in> R'"
  shows "within R' (updateSchemaRefs mapping s)"
  using assms unfolding updateSchemaRefs_def by (rule within_map_refs)


subsection \<open>Tags\<close>

text \<open>
  What is asked of the registrations: a known type's schema has no reference, and a registered validation
  adds none.
\<close>

definition closed_mappings :: "(string \<times> schema_mapping) list \<Rightarrow> bool" where
  "closed_mappings customs \<longleftrightarrow> (\<forall>(n, f)\<in>set customs. \<forall>s p. set (schema_refs (fst (f s p))) \<subseteq> set (schema_refs s))"

definition token_within :: "string set \<Rightarrow> token_result option \<Rightarrow> bool" where
  "token_within R r \<longleftrightarrow> (case r of None \<Rightarrow> True | Some (s, _, _) \<Rightarrow> within R s)"

lemma token_withinI:
  "within R s \<Longrightarrow> token_within R (Some (s, vs, note))"
  "within R s \<Longrightarrow> token_within R (Some (plain s))"
  "within R s \<Longrightarrow> token_within R (Some (noted s note))"
  "token_within R None"
  by (simp_all add: token_within_def plain_def noted_def)

lemma token_within_splits:
  "token_within R x \<Longrightarrow> token_within R y \<Longrightarrow> token_within R (if b then x else y)"
  "token_within R (Some u) \<Longrightarrow> token_within R (Some v) \<Longrightarrow> token_within R (Some (if b then u else v))"
  "token_within R x \<Longrightarrow> (\<And>k. token_within R (f k)) \<Longrightarrow> token_within R (case opt of None \<Rightarrow> x | Some k \<Rightarrow> f k)"
  "token_within R (Some u) \<Longrightarrow> (\<And>k. token_within R (Some (h k))) \<Longrightarrow> token_within R (Some (case opt of None \<Rightarrow> u | Some k \<Rightarrow> h k))"
  "(\<And>a b. token_within R (g a b)) \<Longrightarrow> token_within R (case pr of (a, b) \<Rightarrow> g a b)"
  by (auto split: option.splits prod.splits)

lemma bound_keeps_ref [simp]:
  "k_Ref (numeric_bound kind f k) = k_Ref k" "k_Ref (length_bound kind n k) = k_Ref k"
  "k_Ref (items_bound kind n k) = k_Ref k" "k_Ref (properties_bound kind n k) = k_Ref k"
  by (cases kind; simp)+

lemma token_helpers_within:
  assumes "within R s"
  shows "token_within R (Some (applyBound env s key param label kind))"
    and "token_within R (Some (applyExactLength s param label))"
    and "token_within R (Some (applyFormat s format note))"
    and "token_within R (Some (applyPattern s pattern note))"
    and "token_within R (Some (apply_code_pattern s pattern note n))"
    and "token_within R (Some (applyNumericRange s lo hi note))"
    and "token_within R (Some (applyDatetime env s layout))"
    and "token_within R (Some (apply_ne env s param label))"
    and "token_within R (Some (apply_oneof env s param label))"
    and "k_Ref (h (sc_kw s)) = k_Ref (sc_kw s) \<Longrightarrow> token_within R (Some (apply_string_keyword s h note))"
  using assms
  by (auto simp: token_within_def plain_def noted_def applyBound_def applyExactLength_def applyFormat_def applyPattern_def
      apply_code_pattern_def applyNumericRange_def applyDatetime_def apply_ne_def apply_oneof_def apply_string_keyword_def Let_def
      intro!: within_set_parts split: option.splits)

lemma applyValidateToken_within:
  assumes closed: "closed_mappings (tg_custom env)" and s: "within R s"
  shows "token_within R (applyValidateToken env s key param label)"
proof -
  have custom: "within R (fst (f s param))" if "map_of (tg_custom env) key = Some f" for f
  proof -
    have "set (schema_refs (fst (f s param))) \<subseteq> set (schema_refs s)"
      using bspec [OF closed [unfolded closed_mappings_def] map_of_SomeD [OF that]] by simp
    with s show ?thesis by (auto simp: within_def)
  qed
  have last: "token_within R (case map_of (tg_custom env) key of Some f \<Rightarrow> (case f s param of (t, note) \<Rightarrow> Some (t, [], note)) | None \<Rightarrow> None)"
    using custom by (auto simp: token_within_def split: option.splits prod.splits)
  show ?thesis
    unfolding applyValidateToken_def
    by (intro token_within_splits token_withinI token_helpers_within last s) (use s in simp_all)
qed

lemma items_at_within: "within R s \<Longrightarrow> within R (items_at n s)"
  by (induction n s rule: items_at.induct) (auto split: option.splits dest: within_parts(1))

lemma replace_at_within: "within R s \<Longrightarrow> within R new \<Longrightarrow> within R (replace_at n new s)"
  by (induction n new s rule: replace_at.induct) (auto split: option.splits dest: within_parts(1) intro: within_set_parts(1))

lemma tokens_within_splits:
  "within R (fst x) \<Longrightarrow> within R (fst y) \<Longrightarrow> within R (fst (if b then x else y))"
  "within R (fst x) \<Longrightarrow> within R (fst (case x of (s, vs, notes) \<Rightarrow> (s, f vs notes, g vs notes)))"
  "(r = None \<Longrightarrow> within R (fst x)) \<Longrightarrow> (\<And>a b c. r = Some (a, b, c) \<Longrightarrow> within R (fst (h a b c))) \<Longrightarrow>
     within R (fst (case r of None \<Rightarrow> x | Some (a, b, c) \<Rightarrow> h a b c))"
  by (auto split: prod.splits option.splits)

lemma validate_tokens_within:
  assumes closed: "closed_mappings (tg_custom env)"
  shows "within R s \<Longrightarrow> within R (fst (validate_tokens env label raws depth s))"
proof (induction raws arbitrary: depth s)
  case (Cons raw raws)
  have replaced: "within R (replace_at depth t s)"
    if "applyValidateToken env (items_at depth s) key param label = Some (t, vs, msg)" for key param t vs msg
    using applyValidateToken_within [OF closed items_at_within [OF Cons.prems, of depth], of key param label] that Cons.prems
    by (intro replace_at_within) (simp_all add: token_within_def)
  obtain key param found where cut: "cut (trim_space raw) (CHR ''='') = (key, param, found)" by (cases "cut (trim_space raw) (CHR ''='')") auto
  show ?case
    unfolding validate_tokens.simps Let_def cut prod.case
    by (intro tokens_within_splits Cons.IH Cons.prems replaced)
qed simp

lemma applyValidateTag_within:
  "closed_mappings (tg_custom env) \<Longrightarrow> within R s \<Longrightarrow> within R (fst (applyValidateTag env s tag label))"
  using validate_tokens_within [of env R s label "split_on (CHR '','') tag" 0]
  by (auto simp: applyValidateTag_def appendValidationNotes_def Let_def split: prod.splits)

lemma keyword_tables_keep_ref:
  "map_of (text_keywords env s) key = Some f \<Longrightarrow> k_Ref (f v k) = k_Ref k"
  "map_of float_keywords key = Some h \<Longrightarrow> k_Ref (h x k) = k_Ref k"
  "map_of int_keywords key = Some i \<Longrightarrow> k_Ref (i n k) = k_Ref k"
  "map_of bool_keywords key = Some b \<Longrightarrow> k_Ref (b y k) = k_Ref k"
  by ((drule map_of_SomeD, auto simp: text_keywords_def float_keywords_def int_keywords_def bool_keywords_def)[])+

lemma openapi_entry_within: "within R (fst sp) \<Longrightarrow> within R (fst (fst (openapi_entry env label key val sp)))"
  unfolding openapi_entry_def
  by (auto simp: keyword_tables_keep_ref simp del: set_simps split: prod.splits option.splits)

lemma openapi_entries_within: "within R (fst sp) \<Longrightarrow> within R (fst (fst (openapi_entries env label raws sp)))"
proof (induction raws arbitrary: sp)
  case (Cons raw raws)
  show ?case
    using Cons openapi_entry_within [of R sp env label]
    by (simp add: Let_def split: prod.splits if_splits) (metis fst_conv)
qed simp

lemma apply_texts_within [simp]: "within R (apply_texts f s) = within R s"
  by (simp add: apply_texts_def Let_def)

lemma applyOpenAPITag_within: "within R s \<Longrightarrow> within R (fst (fst (applyOpenAPITag env s param tag label)))"
  using openapi_entries_within [of R "(s, param)"] by (simp add: applyOpenAPITag_def)

lemma applyEnhancedTags_within:
  assumes closed: "closed_mappings (tg_custom env)" and s: "within R s"
  shows "within R (fst (applyEnhancedTags env s f label))"
proof -
  define s1 where "s1 = apply_texts f (if tag_get f ''doc'' \<noteq> [] then with_kw (\<lambda>k. k\<lparr>k_Description := tag_get f ''doc''\<rparr>) s else s)"
  define sp where "sp = (if tag_get f ''openapi'' \<noteq> [] then applyOpenAPITag env s1 None (tag_get f ''openapi'') label else ((s1, None), []))"
  have "within R (fst (fst sp))" using s by (simp add: sp_def s1_def applyOpenAPITag_within)
  then show ?thesis
    unfolding applyEnhancedTags_def s1_def [symmetric] Let_def sp_def [symmetric]
    using applyValidateTag_within [OF closed] by (auto split: prod.splits) (metis fst_conv)
qed

lemma applyEnhancedTagsToParameter_within:
  assumes closed: "closed_mappings (tg_custom env)" and s: "\<And>x. pa_Schema p = Some x \<Longrightarrow> within R x"
  shows "\<exists>x. pa_Schema (fst (applyEnhancedTagsToParameter env p f label v)) = Some x \<and> within R x"
proof -
  define p1 where "p1 = (if tag_get f ''doc'' \<noteq> [] then p\<lparr>pa_Description := tag_get f ''doc''\<rparr> else p)"
  define s1 where "s1 = apply_texts f (case pa_Schema p of Some s \<Rightarrow> s | None \<Rightarrow> leaf no_keywords)"
  define sp where "sp = (if tag_get f ''openapi'' \<noteq> [] then applyOpenAPITag env s1 (Some p1) (tag_get f ''openapi'') label else ((s1, Some p1), []))"
  have "within R s1" using s by (simp add: s1_def split: option.splits)
  then have "within R (fst (fst sp))" by (simp add: sp_def applyOpenAPITag_within)
  then show ?thesis
    unfolding applyEnhancedTagsToParameter_def p1_def [symmetric] s1_def [symmetric] Let_def sp_def [symmetric]
    using applyValidateTag_within [OF closed] by (auto split: prod.splits) (metis fst_conv)
qed


subsection \<open>The generator\<close>

definition closed_env :: "schema_env \<Rightarrow> bool" where
  "closed_env env \<longleftrightarrow> (\<forall>(t, s)\<in>set (sv_known env). schema_refs s = []) \<and> closed_mappings (tg_custom env)"

definition refs_to :: "string set \<Rightarrow> string set" where
  "refs_to K = (\<lambda>k. schemaRefPrefix @ k) ` K"

definition known_keys :: "schemaGenerator \<Rightarrow> string set" where
  "known_keys g = set (keys (gn_schemas g))"

definition pending :: "schemaGenerator \<Rightarrow> string set" where
  "pending g = {k. get (gn_schemas g) k = Some None}"

definition plain_id :: "string \<Rightarrow> bool" where
  "plain_id i \<longleftrightarrow> \<not> has_suffix i RequestVariantSuffix"

definition key_ok :: "string \<Rightarrow> bool" where
  "key_ok k \<longleftrightarrow> (\<exists>ctx i. plain_id i \<and> k = componentKey ctx i)"

definition gen_ok :: "schemaGenerator \<Rightarrow> bool" where
  "gen_ok g \<longleftrightarrow>
     wf_map (gn_schemas g) \<and> wf_map (gn_schemaOwner g) \<and> set (keys (gn_schemaOwner g)) = known_keys g \<and>
     (\<forall>k s. get (gn_schemas g) k = Some (Some s) \<longrightarrow> within (refs_to (known_keys g)) s) \<and>
     (\<forall>k\<in>known_keys g. key_ok k) \<and> (\<forall>(t, i)\<in>set (gn_componentIDs g). plain_id i)"

text \<open>One stretch of derivation: components are added, and those under construction stay so.\<close>

definition evolves :: "schemaGenerator \<Rightarrow> schemaGenerator \<Rightarrow> bool" where
  "evolves g g' \<longleftrightarrow> gen_ok g' \<and> known_keys g \<subseteq> known_keys g' \<and> pending g' = pending g"

lemma refs_to_mono: "K \<subseteq> K' \<Longrightarrow> refs_to K \<subseteq> refs_to K'"
  by (auto simp: refs_to_def)

lemma evolves_refl: "gen_ok g \<Longrightarrow> evolves g g"
  by (simp add: evolves_def)

lemma evolves_trans: "evolves g g' \<Longrightarrow> evolves g' g'' \<Longrightarrow> evolves g g''"
  by (auto simp: evolves_def)

lemma evolves_within: "evolves g g' \<Longrightarrow> within (refs_to (known_keys g)) s \<Longrightarrow> within (refs_to (known_keys g')) s"
  by (auto simp: evolves_def intro: within_mono refs_to_mono [THEN subsetD])

lemma report_sel [simp]:
  "gn_schemas (report vs g) = gn_schemas g" "gn_schemaOwner (report vs g) = gn_schemaOwner g"
  "gn_componentIDs (report vs g) = gn_componentIDs g"
  by (induction vs arbitrary: g; simp add: report_def addViolation_def)+

lemma report_keeps [simp]: "gen_ok (report vs g) = gen_ok g" "known_keys (report vs g) = known_keys g" "pending (report vs g) = pending g"
  by (simp_all add: gen_ok_def known_keys_def pending_def)

lemma evolves_report: "gen_ok g \<Longrightarrow> evolves g (report vs g)"
  by (simp add: evolves_def)

lemma show_nat_digit: "\<exists>xs d. show_nat n = xs @ [digit_char (d mod 10)]"
  by (subst show_nat.simps) (auto intro: exI [of _ n])

lemma digit_not_t: "digit_char (d mod 10) \<noteq> CHR ''t''"
proof -
  have "digit_char (d mod 10) \<in> set (map digit_char [0..<10])" by (simp only: set_map set_upt) simp
  moreover have "CHR ''t'' \<notin> set (map digit_char [0..<10])" by code_simp
  ultimately show ?thesis by metis
qed

lemma plain_internal_id: "plain_id (internal_id n)"
proof -
  obtain xs d where "show_nat n = xs @ [digit_char (d mod 10)]" using show_nat_digit by blast
  then obtain ys where "internal_id n = ys @ [digit_char (d mod 10)]" by (simp add: internal_id_def)
  with digit_not_t [of d] show ?thesis
    by (simp add: plain_id_def RequestVariantSuffix_def suffix_def)
qed

lemma componentID_ok:
  assumes "componentID t g = (i, g')" and "gen_ok g"
  shows "plain_id i" and "gen_ok g'" and "gn_schemas g' = gn_schemas g" and "gn_schemaOwner g' = gn_schemaOwner g"
  using assms plain_internal_id
  by (auto simp: componentID_def gen_ok_def known_keys_def Let_def split: option.splits dest!: map_of_SomeD)

lemma note_known_ok:
  assumes "gen_ok g" and "schema_refs s = []"
  shows "evolves g (note_known t s g)"
proof -
  obtain i g1 where id: "componentID t g = (i, g1)" by (cases "componentID t g")
  note c = componentID_ok [OF id assms(1)]
  have key: "key_ok i" using c(1) by (auto simp: key_ok_def componentKey_def intro!: exI [of _ SchemaContextResponse])
  have sub: "refs_to (known_keys g) \<subseteq> refs_to (insert i (known_keys g))" by (intro refs_to_mono) auto
  show ?thesis
  proof (cases "get (gn_schemas g1) i = None \<and> sc_Ref s = []")
    case True
    let ?g = "fill i s (g1\<lparr>gn_schemaOwner := put i t (gn_schemaOwner g1)\<rparr>)"
    have keys: "known_keys ?g = insert i (known_keys g)" using c by (simp add: known_keys_def fill_def)
    have "gen_ok ?g"
      using c assms key sub unfolding gen_ok_def keys
      by (auto simp: fill_def known_keys_def within_def split: if_splits)
    moreover have "pending ?g = pending g"
      using True c assms by (auto simp: pending_def fill_def gen_ok_def)
    ultimately show ?thesis using True id keys by (auto simp: note_known_def evolves_def)
  next
    case False
    with id c show ?thesis by (auto simp: note_known_def evolves_def known_keys_def pending_def)
  qed
qed

lemma reserve_ok:
  assumes "gen_ok g" and "get (gn_schemaOwner g) key = None" and "key_ok key"
  shows "gen_ok (reserve key t g)" and "known_keys (reserve key t g) = insert key (known_keys g)"
    and "pending (reserve key t g) = insert key (pending g)" and "key \<notin> pending g"
proof -
  show keys: "known_keys (reserve key t g) = insert key (known_keys g)" by (simp add: known_keys_def reserve_def)
  have sub: "refs_to (known_keys g) \<subseteq> refs_to (insert key (known_keys g))" by (intro refs_to_mono) auto
  show "gen_ok (reserve key t g)"
    using assms sub unfolding gen_ok_def keys
    by (auto simp: reserve_def known_keys_def within_def split: if_splits) blast
  show "pending (reserve key t g) = insert key (pending g)"
    using assms by (auto simp: pending_def reserve_def gen_ok_def)
  have "key \<notin> known_keys g" using assms get_Some_keys [of "gn_schemaOwner g" key] by (auto simp: gen_ok_def)
  then show "key \<notin> pending g" using get_Some_keys [of "gn_schemas g" key] by (auto simp: pending_def known_keys_def)
qed

lemma fill_ok:
  assumes "gen_ok g" and "key \<in> known_keys g" and "within (refs_to (known_keys g)) s"
  shows "gen_ok (fill key s g)" and "known_keys (fill key s g) = known_keys g" and "pending (fill key s g) = pending g - {key}"
proof -
  show keys: "known_keys (fill key s g) = known_keys g" using assms(2) by (auto simp: known_keys_def fill_def)
  show "gen_ok (fill key s g)"
    using assms unfolding gen_ok_def keys by (auto simp: fill_def known_keys_def split: if_splits)
  show "pending (fill key s g) = pending g - {key}"
    using assms by (auto simp: pending_def fill_def gen_ok_def)
qed


subsection \<open>Derivation\<close>

lemma known_within: "closed_env env \<Longrightarrow> map_of (sv_known env) t = Some s \<Longrightarrow> schema_refs s = []"
  by (auto simp: closed_env_def dest!: map_of_SomeD)

lemma within_nullable: "within R s \<Longrightarrow> within R (nullable s)"
  by (auto simp: nullable_def intro!: within_set_parts split: schema_type.splits)

lemma within_enum_schema [simp]: "within R (fst (enum_schema env t))"
  by (auto simp: enum_schema_def split: option.splits)

lemma within_basicKindSchema [simp]: "within R (basicKindSchema env t)"
  by (simp add: basicKindSchema_def split: prod.splits)

lemma within_component_ref [simp]: "within (refs_to K) (component_ref k) \<longleftrightarrow> k \<in> K"
  by (auto simp: component_ref_def refs_to_def schemaRefPrefix_def)

definition members_within :: "string set \<Rightarrow> members \<Rightarrow> bool" where
  "members_within R m \<longleftrightarrow> (\<forall>x\<in>set (mb_allOf m) \<union> snd ` set (mb_properties m). within R x)"

lemma members_within_mono: "members_within R m \<Longrightarrow> R \<subseteq> R' \<Longrightarrow> members_within R' m"
  by (auto simp: members_within_def intro: within_mono)

lemma struct_schema_within: "members_within R m \<Longrightarrow> within R (struct_schema ctx m)"
  by (auto simp: struct_schema_def members_within_def closeObject_def intro!: within_set_parts)

lemma put_values: "x \<in> snd ` set (put k v m) \<Longrightarrow> x = v \<or> x \<in> snd ` set m"
  by (induction k v m rule: put.induct) (auto split: if_splits)

lemma presence_within: "within R s \<Longrightarrow> within R (applyValidationPresenceSemantics env s f)"
  by (auto simp: applyValidationPresenceSemantics_def intro!: within_set_parts dest: within_parts)

lemma add_member_within:
  assumes "closed_env env" and "within R s" and "members_within R m"
  shows "members_within R (fst (add_member env qualified f name omitEmpty s m))"
proof -
  let ?s = "if validateRequiresField (tag_get f ''validate'') then removeNullability s else s"
  let ?tagged = "applyEnhancedTags (tag_env.truncate env) ?s f (qualified @ ''.'' @ name)"
  have closed: "closed_mappings (tg_custom (tag_env.truncate env))" using assms(1) by (simp add: closed_env_def tag_env.defs)
  have "within R ?s" using assms(2) by (simp add: within_removeNullability)
  then have "within R (applyValidationPresenceSemantics env (fst ?tagged) f)"
    by (intro presence_within applyEnhancedTags_within [OF closed])
  moreover obtain s1 vs where "?tagged = (s1, vs)" by (cases ?tagged)
  ultimately show ?thesis
    using assms(3) unfolding members_within_def add_member_def Let_def by (auto dest!: put_values [OF imageI])
qed

definition derives_ok :: "schemaGenerator \<Rightarrow> Schema \<times> schemaGenerator \<Rightarrow> bool" where
  "derives_ok g r \<longleftrightarrow> evolves g (snd r) \<and> within (refs_to (known_keys (snd r))) (fst r)"

definition members_ok :: "schemaGenerator \<Rightarrow> members \<times> schemaGenerator \<Rightarrow> bool" where
  "members_ok g r \<longleftrightarrow> evolves g (snd r) \<and> members_within (refs_to (known_keys (snd r))) (fst r)"

lemma derives_okI: "gen_ok g \<Longrightarrow> (\<And>R. within R s) \<Longrightarrow> derives_ok g (s, g)"
  by (simp add: derives_ok_def evolves_refl)

lemma derives_ok_report: "gen_ok g \<Longrightarrow> (\<And>R. within R s) \<Longrightarrow> derives_ok g (s, report vs g)"
  by (simp add: derives_ok_def evolves_report)

lemma derives_ok_closed: "gen_ok g \<Longrightarrow> schema_refs s = [] \<Longrightarrow> derives_ok g (s, g)"
  by (simp add: derives_ok_def evolves_refl within_def)

lemma note_known_derives: "gen_ok g \<Longrightarrow> schema_refs s = [] \<Longrightarrow> derives_ok g (s, note_known t s g)"
  by (simp add: derives_ok_def note_known_ok) (simp add: within_def)

lemma derives_ok_map:
  "derives_ok g r \<Longrightarrow> (\<And>R s. within R s \<Longrightarrow> within R (f s)) \<Longrightarrow> derives_ok g (case r of (s, g') \<Rightarrow> (f s, g'))"
  by (cases r) (auto simp: derives_ok_def)

lemma derives_ok_trans: "evolves g g' \<Longrightarrow> derives_ok g' r \<Longrightarrow> derives_ok g r"
  by (auto simp: derives_ok_def intro: evolves_trans)

lemma members_ok_trans: "evolves g g' \<Longrightarrow> members_ok g' r \<Longrightarrow> members_ok g r"
  by (auto simp: members_ok_def intro: evolves_trans)

lemma deriveRegistryAny_ok: "closed_env env \<Longrightarrow> gen_ok g \<Longrightarrow> derives_ok g (deriveRegistryAny env g)"
  by (auto simp: deriveRegistryAny_def note_known_derives known_within intro: derives_okI split: option.splits)

lemma named_component_ok:
  assumes "gen_ok g1" and "get (gn_schemaOwner g1) key = None" and "key_ok key" and "derives_ok (reserve key t g1) (body, g2)"
  shows "derives_ok g1 (component_ref key, fill key body g2)"
proof -
  note r = reserve_ok(1-3) [OF assms(1-3), where t = t] reserve_ok(4) [OF assms(1-3)]
  have g2: "gen_ok g2" "insert key (known_keys g1) \<subseteq> known_keys g2" "pending g2 = insert key (pending g1)"
    "within (refs_to (known_keys g2)) body"
    using assms(4) r by (auto simp: derives_ok_def evolves_def)
  then have "key \<in> known_keys g2" by simp
  from fill_ok [OF g2(1) this g2(4)] g2 r(4) show ?thesis
    by (auto simp: derives_ok_def evolves_def)
qed

lemma empty_members: "members_within R \<lparr>mb_allOf = [], mb_properties = [], mb_required = []\<rparr>"
  by (simp add: members_within_def)

lemma struct_body_map: "members_ok g r \<Longrightarrow> derives_ok g (case r of (m, g') \<Rightarrow> (struct_schema ctx m, g'))"
  by (cases r) (simp add: members_ok_def derives_ok_def struct_schema_within)

lemma empty_struct_body: "gen_ok g \<Longrightarrow> derives_ok g (struct_schema ctx \<lparr>mb_allOf = [], mb_properties = [], mb_required = []\<rparr>, g)"
  by (intro derives_okI struct_schema_within empty_members)

lemma enum_body: "gen_ok g \<Longrightarrow> derives_ok g (case enum_schema env t of (s, vs) \<Rightarrow> (s, report vs g))"
  using within_enum_schema [of _ env t] by (cases "enum_schema env t") (auto intro: derives_ok_report)

text \<open>One unfolding of each function, given its recursive calls.\<close>

lemma reflect_step:
  assumes env: "closed_env env" and g: "gen_ok g"
    and named: "defined_type t \<Longrightarrow> t \<noteq> TInt [] 64 \<Longrightarrow> t \<noteq> TUint [] 64 \<Longrightarrow> derives_ok g (deriveNamedType env stack ctx t g)"
    and pointer: "\<And>e. t \<noteq> TInt [] 64 \<Longrightarrow> t \<noteq> TUint [] 64 \<Longrightarrow> \<not> defined_type t \<Longrightarrow> t = TPtr e \<Longrightarrow>
       map_of (sv_known env) t = None \<Longrightarrow> derives_ok g (deriveReflectType env stack ctx e g)"
    and element: "\<And>n k j e. t \<noteq> TInt [] 64 \<Longrightarrow> t \<noteq> TUint [] 64 \<Longrightarrow> \<not> defined_type t \<Longrightarrow> t \<in> {TSlice n e, TArray n j e, TMap n k e} \<Longrightarrow>
       derives_ok g (deriveReflectType env stack ctx e g)"
  shows "derives_ok g (deriveReflectType env stack ctx t g)"
proof (cases "t = TInt [] 64 \<or> t = TUint [] 64 \<or> defined_type t")
  case True
  with named g show ?thesis by (subst deriveReflectType.simps) (auto intro: derives_okI)
next
  case False
  show ?thesis
  proof (cases t)
    case (TPtr e)
    show ?thesis
    proof (cases "map_of (sv_known env) t")
      case None
      from pointer derives_ok_map [OF _ within_nullable] show ?thesis
        using False TPtr None by (subst deriveReflectType.simps) simp
    next
      case (Some s)
      with False TPtr derives_ok_closed [OF g known_within [OF env Some]] show ?thesis
        by (subst deriveReflectType.simps) simp
    qed
  qed (subst deriveReflectType.simps, use env g element False in \<open>auto simp: deriveRegistryAny_ok intro!: derives_okI derives_ok_map\<close>)+
qed

lemma named_step:
  assumes env: "closed_env env" and g: "gen_ok g"
    and body: "\<And>i g1. map_of (sv_known env) t = None \<Longrightarrow> \<not> sv_marshals env t \<Longrightarrow> (i, g1) = componentID t g \<Longrightarrow>
       get (gn_schemaOwner g1) (componentKey ctx i) = None \<Longrightarrow> gen_ok (reserve (componentKey ctx i) t g1) \<Longrightarrow>
       derives_ok (reserve (componentKey ctx i) t g1) (derive_body env stack ctx t (reserve (componentKey ctx i) t g1))"
  shows "derives_ok g (deriveNamedType env stack ctx t g)"
proof (cases "map_of (sv_known env) t = None \<and> \<not> sv_marshals env t")
  case True
  obtain i g1 where id: "componentID t g = (i, g1)" by (cases "componentID t g")
  note c = componentID_ok [OF id g]
  have same: "evolves g g1" using c by (simp add: evolves_def known_keys_def pending_def)
  let ?key = "componentKey ctx i"
  have key: "key_ok ?key" using c(1) by (auto simp: key_ok_def)
  show ?thesis
  proof (cases "get (gn_schemaOwner g1) ?key")
    case None
    obtain s g2 where s: "derive_body env stack ctx t (reserve ?key t g1) = (s, g2)"
      by (cases "derive_body env stack ctx t (reserve ?key t g1)")
    have "derives_ok (reserve ?key t g1) (s, g2)"
      using body [of i g1] True id None reserve_ok(1) [OF c(2) None key] s by simp
    from derives_ok_trans [OF same named_component_ok [OF c(2) None key this]] show ?thesis
      using True id None s by (subst deriveNamedType.simps) (simp add: Let_def)
  next
    case (Some u)
    then have "?key \<in> known_keys g1" using c(2) get_Some_keys [of "gn_schemaOwner g1" ?key] by (auto simp: gen_ok_def)
    with same Some True id show ?thesis by (subst deriveNamedType.simps) (simp add: Let_def derives_ok_def)
  qed
next
  case False
  with env g show ?thesis
    by (subst deriveNamedType.simps)
      (auto simp: note_known_derives known_within intro: derives_ok_report split: option.splits)
qed

lemma body_step:
  assumes g: "gen_ok g" and direct: "(if t \<in> set stack then None else alias_target env t) = None"
    and element: "\<And>n k j e. t \<in> {TSlice n e, TArray n j e, TMap n k e} \<Longrightarrow> derives_ok g (deriveReflectType env stack ctx e g)"
    and members: "\<And>n fs. t = TStruct n fs \<Longrightarrow>
       members_ok g (struct_members env stack ctx (reflectQualifiedName env t) fs \<lparr>mb_allOf = [], mb_properties = [], mb_required = []\<rparr> g)"
  shows "derives_ok g (derive_body env stack ctx t g)"
proof (cases t)
  case (TStruct n fs)
  show ?thesis
    by (subst derive_body.simps, unfold direct option.case) (use members [OF TStruct, THEN struct_body_map] TStruct in simp)
qed (subst derive_body.simps, unfold direct option.case,
    use element in \<open>simp add: g enum_body empty_struct_body derives_okI derives_ok_map\<close>)+

lemma member_added:
  assumes "closed_env env" and "members_within (refs_to (known_keys g)) m" and "derives_ok g (s, g2)"
    and "add_member env q f name omitEmpty s m = (m', vs)"
  shows "gen_ok (report vs g2)" and "evolves g (report vs g2)" and "members_within (refs_to (known_keys (report vs g2))) m'"
proof -
  have g2: "evolves g g2" "within (refs_to (known_keys g2)) s" using assms(3) by (simp_all add: derives_ok_def)
  then show "gen_ok (report vs g2)" and "evolves g (report vs g2)" by (simp_all add: evolves_def)
  have "members_within (refs_to (known_keys g2)) m"
    using members_within_mono [OF assms(2)] g2(1) by (simp add: evolves_def refs_to_mono)
  then show "members_within (refs_to (known_keys (report vs g2))) m'"
    using add_member_within [OF assms(1) g2(2)] assms(4) by (metis fst_conv report_keeps(2))
qed

lemma embedded_added:
  assumes "members_within (refs_to (known_keys g)) m" and "derives_ok g (s, g2)"
  shows "gen_ok g2" and "evolves g g2" and "members_within (refs_to (known_keys g2)) (m\<lparr>mb_allOf := mb_allOf m @ [s]\<rparr>)"
proof -
  show g2: "evolves g g2" "gen_ok g2" using assms(2) by (simp_all add: derives_ok_def evolves_def)
  have "members_within (refs_to (known_keys g2)) m"
    using members_within_mono [OF assms(1)] g2(1) by (simp add: evolves_def refs_to_mono)
  then show "members_within (refs_to (known_keys g2)) (m\<lparr>mb_allOf := mb_allOf m @ [s]\<rparr>)"
    using assms(2) by (auto simp: members_within_def derives_ok_def)
qed

lemma derivation_ok:
  "closed_env env \<Longrightarrow> gen_ok g \<Longrightarrow> derives_ok g (deriveReflectType env stack ctx t g)"
  "closed_env env \<Longrightarrow> gen_ok g \<Longrightarrow> derives_ok g (deriveNamedType env stack ctx t g)"
  "closed_env env \<Longrightarrow> gen_ok g \<Longrightarrow> derives_ok g (derive_body env stack ctx t g)"
  "closed_env env \<Longrightarrow> gen_ok g \<Longrightarrow> members_within (refs_to (known_keys g)) m \<Longrightarrow>
     members_ok g (struct_members env stack ctx q fs m g)"
proof (induction env stack ctx t g and env stack ctx t g and env stack ctx t g and env stack ctx q fs m g
    rule: deriveReflectType_deriveNamedType_derive_body_struct_members.induct)
  case (1 env stack ctx t g)
  show ?case by (rule reflect_step [OF "1.prems"]) (use 1 in auto)
next
  case (2 env stack ctx t g)
  show ?case by (rule named_step [OF "2.prems"]) (use 2 in auto)
next
  case (3 env stack ctx t g)
  show ?case
  proof (cases "if t \<in> set stack then None else alias_target env t")
    case (Some u)
    from "3.IH"(5) [OF Some "3.prems"] show ?thesis by (subst derive_body.simps, unfold Some option.case)
  next
    case None
    show ?thesis
      by (rule body_step [OF "3.prems"(2) None]) (use "3.IH"(1-4) [OF None _ "3.prems"] in \<open>auto simp: empty_members\<close>)
  qed
next
  case (4 env stack ctx q fs m g)
  show ?case
  proof (cases fs)
    case Nil
    with 4 show ?thesis by (subst struct_members.simps) (simp add: members_ok_def evolves_refl)
  next
    case (Cons f rest)
    obtain name omitEmpty skip explicit vs where json: "jsonFieldName f q = ((name, omitEmpty, skip, explicit), vs)"
      by (cases "jsonFieldName f q") auto
    let ?g = "report vs g"
    have ok: "gen_ok ?g" and m: "members_within (refs_to (known_keys ?g)) m" using "4.prems" by simp_all
    note env = "4.prems"(1) and IH = "4.IH" [OF Cons json [symmetric] refl refl refl refl]
    have same: "members_ok g r" if "members_ok ?g r" for r
      using members_ok_trans [OF evolves_report [OF "4.prems"(2)] that] .
    consider (gone) "skip \<or> embedded_struct f explicit = None \<and> \<not> exported f"
      | (field) "\<not> skip" "embedded_struct f explicit = None" "\<not> \<not> exported f"
      | (registered) e where "\<not> skip" "embedded_struct f explicit = Some e" "embeddedNeedsRegistry env e"
      | (embedded) e where "\<not> skip" "embedded_struct f explicit = Some e" "\<not> embeddedNeedsRegistry env e"
      by (cases "embedded_struct f explicit") auto
    then show ?thesis
    proof cases
      case gone
      with IH(1,2) env ok m show ?thesis by (subst struct_members.simps) (auto simp: Cons json Let_def intro!: same)
    next
      case field
      obtain s g2 where d: "deriveReflectType env stack ctx (sf_Type f) ?g = (s, g2)" by (cases "deriveReflectType env stack ctx (sf_Type f) ?g")
      obtain m' vs' where a: "add_member env q f name omitEmpty s m = (m', vs')" by (cases "add_member env q f name omitEmpty s m")
      note next_step = member_added [OF env m IH(3) [OF field env ok, unfolded d] a]
      from same [OF members_ok_trans [OF next_step(2) IH(4) [OF field d [symmetric] a [symmetric] env next_step(1,3)]]] show ?thesis
        using field by (subst struct_members.simps) (simp add: Cons json Let_def d a)
    next
      case (registered e)
      have "members_ok g (struct_members env stack ctx q rest m (report [EmbeddedSerialization q (sv_String env e)] ?g))"
        using IH(5) [OF registered env] ok m by (intro same members_ok_trans [OF evolves_report [OF ok]]) simp
      with registered show ?thesis by (subst struct_members.simps) (simp add: Cons json Let_def)
    next
      case (embedded e)
      let ?g1 = "if ctx = SchemaContextRequest then report [RequestEmbeds q (sv_String env e)] ?g else ?g"
      have g1: "evolves ?g ?g1" "gen_ok ?g1" "members_within (refs_to (known_keys ?g1)) m"
        using ok m by (simp_all add: evolves_report evolves_refl)
      obtain s g2 where d: "deriveReflectType env stack ctx (sf_Type f) ?g1 = (s, g2)" by (cases "deriveReflectType env stack ctx (sf_Type f) ?g1")
      note next_step = embedded_added [OF g1(3) IH(6) [OF embedded env g1(2), unfolded d]]
      from same [OF members_ok_trans [OF evolves_trans [OF g1(1) next_step(2)] IH(7) [OF embedded d [symmetric] env next_step(1,3)]]]
      show ?thesis using embedded d by (subst struct_members.simps) (simp add: Cons json Let_def)
    qed
  qed
qed

end
