(* ===== verification/Openapi_Facts.thy ===== *)
theory Openapi_Facts
  imports Openapi_Final Schema_Facts
begin

text \<open>
  References of the document. An action of the builder is \<open>sound\<close> when it keeps the generator settled, with
  every component built and every reference in a component resolved, and its result refers to components
  the generator has. Every pass of the builder is sound, so the document that \<open>Build\<close> keeps has no dangling
  reference.
\<close>

subsection \<open>Sound actions\<close>

definition settled :: "schemaGenerator \<Rightarrow> bool" where
  "settled g \<longleftrightarrow> gen_ok g \<and> pending g = {}"

definition sound :: "'a gen \<Rightarrow> (string set \<Rightarrow> 'a \<Rightarrow> bool) \<Rightarrow> string set \<Rightarrow> bool" where
  "sound m Q K \<longleftrightarrow>
     (\<forall>g. settled g \<longrightarrow> K \<subseteq> known_keys g \<longrightarrow>
        settled (snd (run_state m g)) \<and> known_keys g \<subseteq> known_keys (snd (run_state m g)) \<and>
        Q (known_keys (snd (run_state m g))) (fst (run_state m g)))"

named_theorems sound_rules

lemma sound_return [sound_rules]: "(\<And>K'. K \<subseteq> K' \<Longrightarrow> Q K' x) \<Longrightarrow> sound (yield x) Q K"
  by (simp add: sound_def)

lemma sound_bind:
  assumes "sound m P K" and "\<And>x K'. K \<subseteq> K' \<Longrightarrow> P K' x \<Longrightarrow> sound (f x) Q K'"
  shows "sound (State_Monad.bind m f) Q K"
  unfolding sound_def
proof (intro allI impI)
  fix g assume g: "settled g" "K \<subseteq> known_keys g"
  obtain x g' where m: "run_state m g = (x, g')" by (cases "run_state m g")
  have g': "settled g'" "known_keys g \<subseteq> known_keys g'" "P (known_keys g') x"
    using assms(1) [unfolded sound_def, rule_format, OF g] m by simp_all
  have "sound (f x) Q (known_keys g')" using g(2) g'(2,3) by (intro assms(2)) auto
  then show "settled (snd (run_state (State_Monad.bind m f) g)) \<and>
      known_keys g \<subseteq> known_keys (snd (run_state (State_Monad.bind m f) g)) \<and>
      Q (known_keys (snd (run_state (State_Monad.bind m f) g))) (fst (run_state (State_Monad.bind m f) g))"
    using g' by (auto simp: sound_def m)
qed

lemma sound_if [sound_rules]: "(b \<Longrightarrow> sound x Q K) \<Longrightarrow> (\<not> b \<Longrightarrow> sound y Q K) \<Longrightarrow> sound (if b then x else y) Q K"
  by simp

lemma sound_case_option [sound_rules]:
  "(v = None \<Longrightarrow> sound x Q K) \<Longrightarrow> (\<And>y. v = Some y \<Longrightarrow> sound (f y) Q K) \<Longrightarrow> sound (case v of None \<Rightarrow> x | Some y \<Rightarrow> f y) Q K"
  by (cases v) simp_all

lemma sound_mono: "sound m P K \<Longrightarrow> K \<subseteq> K' \<Longrightarrow> (\<And>K x. P K x \<Longrightarrow> Q K x) \<Longrightarrow> sound m Q K'"
  unfolding sound_def by (meson subset_trans)

text \<open>Schemas whose references are components.\<close>

definition resolved :: "string set \<Rightarrow> Schema list \<Rightarrow> bool" where
  "resolved K ss \<longleftrightarrow> (\<forall>s\<in>set ss. within (refs_to K) s)"

lemma resolved_simps [simp]:
  "resolved K []" "resolved K (s # ss) \<longleftrightarrow> within (refs_to K) s \<and> resolved K ss" "resolved K (ss @ ts) \<longleftrightarrow> resolved K ss \<and> resolved K ts"
  by (auto simp: resolved_def)

lemma resolved_mono: "resolved K ss \<Longrightarrow> K \<subseteq> K' \<Longrightarrow> resolved K' ss"
  by (auto simp: resolved_def intro: within_mono dest: refs_to_mono)

lemma resolved_within_mono: "within (refs_to K) s \<Longrightarrow> K \<subseteq> K' \<Longrightarrow> within (refs_to K') s"
  by (auto intro: within_mono dest: refs_to_mono)

lemma resolved_subset: "resolved K ss \<Longrightarrow> set ts \<subseteq> set ss \<Longrightarrow> resolved K ts"
  by (auto simp: resolved_def)

lemma set_map_filter_iff [simp]: "set (List.map_filter f xs) = {y. \<exists>x\<in>set xs. f x = Some y}"
  by (induction xs) (auto simp: map_filter_simps split: option.splits)

lemma sound_derive:
  assumes "closed_env env"
  shows "sound (DeriveSchemaIn env ctx t) (\<lambda>K s. within (refs_to K) s) K"
  unfolding sound_def
proof (intro allI impI)
  fix g assume g: "settled g" "K \<subseteq> known_keys g"
  show "settled (snd (run_state (DeriveSchemaIn env ctx t) g)) \<and>
      known_keys g \<subseteq> known_keys (snd (run_state (DeriveSchemaIn env ctx t) g)) \<and>
      within (refs_to (known_keys (snd (run_state (DeriveSchemaIn env ctx t) g)))) (fst (run_state (DeriveSchemaIn env ctx t) g))"
  proof (cases t)
    case None
    with g show ?thesis by (simp add: DeriveSchemaIn_def)
  next
    case (Some u)
    with g derivation_ok(1) [OF assms, of g "[]" ctx u] show ?thesis
      by (auto simp: DeriveSchemaIn_def settled_def derives_ok_def evolves_def)
  qed
qed

lemma sound_DeriveSchema: "closed_env env \<Longrightarrow> sound (DeriveSchema env t) (\<lambda>K s. within (refs_to K) s) K"
  unfolding DeriveSchema_def by (rule sound_derive)

lemma sound_add_violations: "sound (add_violations vs) (\<lambda>_ _. True) K"
  by (simp add: sound_def add_violations_def settled_def)

text \<open>A call and a call in sequence are different rules: the method \<open>intro\<close> chooses by the shape of the action.\<close>

lemmas derive_rules [sound_rules] =
  sound_derive sound_bind [OF sound_derive] sound_DeriveSchema sound_bind [OF sound_DeriveSchema]
  sound_bind [OF sound_add_violations]


subsection \<open>Parameters and bodies\<close>

lemma parameter_schemas_simps [simp]:
  "parameter_schemas [] = []"
  "parameter_schemas (p # ps) = (case pa_Schema p of None \<Rightarrow> [] | Some s \<Rightarrow> [s]) @ parameter_schemas ps"
  by (simp_all add: parameter_schemas_def map_filter_simps split: option.splits)

lemma resolved_option: "resolved K (case v of None \<Rightarrow> [] | Some s \<Rightarrow> [s]) \<longleftrightarrow> (\<forall>s. v = Some s \<longrightarrow> within (refs_to K) s)"
  by (cases v) auto

lemma path_parameters_resolved: "resolved K (parameter_schemas (extractPathParameters route))"
  by (auto simp: resolved_def parameter_schemas_def extractPathParameters_def new_parameter_def)

lemma upsert_resolved:
  "resolved K (parameter_schemas params) \<Longrightarrow> resolved K (parameter_schemas [p]) \<Longrightarrow> resolved K (parameter_schemas (upsertParameter params p))"
  by (induction params p rule: upsertParameter.induct) (auto simp: merge_parameter_def resolved_option split: option.splits)

lemma normalize_resolved: "within R s \<Longrightarrow> normalizeParameterSchema loc (Some s) = Some t \<Longrightarrow> within R t"
  by (auto simp: normalizeParameterSchema_def within_removeNullability)

lemma raw_parameters_sound [sound_rules]:
  assumes env: "closed_env env"
  shows "resolved K (parameter_schemas params) \<Longrightarrow> sound (raw_parameters env dps params) (\<lambda>K ps. resolved K (parameter_schemas ps)) K"
proof (induction dps arbitrary: params K)
  case Nil
  then show ?case by (auto intro!: sound_rules intro: resolved_mono)
next
  case (Cons dp dps)
  have "sound (case dp_Type dp of None \<Rightarrow> yield (typed ''string'') | Some t \<Rightarrow> DeriveSchema env (Some t)) (\<lambda>K s. within (refs_to K) s) K"
    by (intro sound_rules env) simp_all
  then show ?case
    unfolding raw_parameters.simps
    by (rule sound_bind)
      (intro Cons.IH upsert_resolved resolved_mono [OF Cons.prems];
       simp add: normalizeParameterSchema_def within_removeNullability)
qed

lemma field_schema_resolved:
  assumes env: "closed_env env" and s: "within (refs_to K) s"
  shows "resolved K (parameter_schemas [(fst (applyEnhancedTagsToParameter (tag_env.truncate env) (new_parameter n src req s) f label v))
           \<lparr>pa_Schema := normalizeParameterSchema src (map_option (\<lambda>x. applyValidationPresenceSemantics env x f)
              (pa_Schema (fst (applyEnhancedTagsToParameter (tag_env.truncate env) (new_parameter n src req s) f label v))))\<rparr>])"
proof -
  have "closed_mappings (tg_custom (tag_env.truncate env))" using env by (simp add: closed_env_def tag_env.defs)
  from applyEnhancedTagsToParameter_within [OF this, of "new_parameter n src req s" "refs_to K" f label v] s
  obtain x where "pa_Schema (fst (applyEnhancedTagsToParameter (tag_env.truncate env) (new_parameter n src req s) f label v)) = Some x"
    and "within (refs_to K) x" by (auto simp: new_parameter_def)
  then show ?thesis by (simp add: normalizeParameterSchema_def within_removeNullability presence_within)
qed

lemma field_parameter_sound:
  assumes env: "closed_env env"
  shows "sound (field_parameter env q fb f) (\<lambda>K p. resolved K (parameter_schemas [p])) K"
  unfolding field_parameter_def Let_def
  by (intro sound_rules env field_schema_resolved) (meson resolved_within_mono subset_trans)

lemmas field_parameter_rules [sound_rules] = sound_bind [OF field_parameter_sound]

lemma field_parameters_sound [sound_rules]:
  assumes env: "closed_env env"
  shows "resolved K (parameter_schemas params) \<Longrightarrow> sound (field_parameters env q fs fbs params) (\<lambda>K ps. resolved K (parameter_schemas ps)) K"
proof (induction fbs arbitrary: params K)
  case (Cons fb fbs)
  show ?case
    unfolding field_parameters.simps
    by (intro sound_rules env Cons.IH upsert_resolved resolved_mono [OF Cons.prems] order_refl)
qed (auto intro!: sound_rules intro: resolved_mono)

lemma buildParameters_sound [sound_rules]:
  assumes "closed_env env"
  shows "sound (buildParameters env m) (\<lambda>K ps. resolved K (parameter_schemas ps)) K"
  unfolding buildParameters_def Let_def
  by (auto intro!: sound_rules assms path_parameters_resolved split: option.splits)

lemma content_schemas_simps [simp]:
  "content_schemas [] = []" "content_schemas [(k, \<lparr>mt_Schema = Some s\<rparr>)] = [s]"
  by (simp_all add: content_schemas_def map_filter_simps)

lemma body_schema_sound [sound_rules]:
  assumes "closed_env env"
  shows "sound (body_schema env t) (\<lambda>K s. within (refs_to K) s) K"
  unfolding body_schema_def
  by (intro sound_rules assms within_removeNullability) (rule resolved_within_mono)

lemma buildRequestBody_sound [sound_rules]:
  assumes "closed_env env"
  shows "sound (buildRequestBody env m) (\<lambda>K b. resolved K (body_schemas b)) K"
  unfolding buildRequestBody_def
  by (intro sound_rules body_schema_sound [THEN sound_bind] assms; simp add: body_schemas_def request_body_def; erule (1) resolved_within_mono)


subsection \<open>Responses and operations\<close>

text \<open>The schemas of response headers have no references at all.\<close>

definition header_schemas :: "Header gomap \<Rightarrow> Schema list" where
  "header_schemas hs = List.map_filter (\<lambda>h. hd_Schema (snd h)) hs"

definition response_resolved :: "string set \<Rightarrow> SpecResponse \<Rightarrow> bool" where
  "response_resolved K r \<longleftrightarrow> resolved K (content_schemas (rs_Content r)) \<and> resolved {} (header_schemas (rs_Headers r))"

lemma response_resolved_mono: "response_resolved K r \<Longrightarrow> K \<subseteq> K' \<Longrightarrow> response_resolved K' r"
  by (auto simp: response_resolved_def intro: resolved_mono)

lemma header_schemas_simps [simp]:
  "header_schemas [] = []" "header_schemas [(k, h)] = (case hd_Schema h of None \<Rightarrow> [] | Some s \<Rightarrow> [s])"
  by (simp_all add: header_schemas_def map_filter_simps split: option.splits)

definition responses_resolved :: "string set \<Rightarrow> Responses \<Rightarrow> bool" where
  "responses_resolved K rs \<longleftrightarrow> (\<forall>r\<in>snd ` set rs. response_resolved K r)"

lemma responses_resolved_put:
  "responses_resolved K rs \<Longrightarrow> response_resolved K r \<Longrightarrow> responses_resolved K (put code r rs)"
  unfolding responses_resolved_def by (auto dest!: put_values [OF imageI])

lemma responses_resolved_mono: "responses_resolved K rs \<Longrightarrow> K \<subseteq> K' \<Longrightarrow> responses_resolved K' rs"
  by (auto simp: responses_resolved_def intro: response_resolved_mono)

lemma add_response_resolved:
  "responses_resolved K rs \<Longrightarrow> response_resolved K r \<Longrightarrow> responses_resolved K (add_response code r rs)"
  by (simp add: add_response_def responses_resolved_put)

lemma fold_responses_resolved:
  "responses_resolved K rs \<Longrightarrow> (\<And>x. response_resolved K ((f x))) \<Longrightarrow>
     responses_resolved K (fold (\<lambda>x. add_response (code x) (f x)) xs rs)"
  by (induction xs arbitrary: rs) (simp_all add: add_response_resolved)

lemma successSchema_sound:
  assumes "closed_env env"
  shows "sound (successSchema env m) (\<lambda>K s. within (refs_to K) s) K"
  unfolding successSchema_def
  by (auto intro!: sound_rules assms intro: resolved_within_mono split: responseMode.splits option.splits)
    (meson resolved_within_mono subset_trans)+

lemma headers_resolved [simp]:
  "resolved {} (header_schemas (success_headers m))" "resolved {} (header_schemas retry_after_header)"
  by (auto simp: resolved_def header_schemas_def success_headers_def retry_after_header_def Let_def split: bool.splits option.splits if_splits)

lemma success_response_sound:
  assumes "closed_env env"
  shows "sound (success_response env m) (\<lambda>K r. response_resolved K r) K"
  unfolding success_response_def Let_def
  by (intro sound_rules successSchema_sound [THEN sound_bind] assms; simp add: response_resolved_def; erule (1) resolved_within_mono)

lemma extra_responses_sound [sound_rules]:
  assumes env: "closed_env env"
  shows "responses_resolved K rs \<Longrightarrow> sound (extra_responses env produces xs rs) responses_resolved K"
proof (induction xs arbitrary: rs K)
  case (Cons x xs)
  then show ?case
    unfolding extra_responses.simps Let_def
    by (auto intro!: sound_rules env Cons.IH responses_resolved_put intro: responses_resolved_mono
        simp: response_resolved_def split: bool.splits option.splits)
qed (auto intro!: sound_rules intro: responses_resolved_mono)

definition problem_ref_ok :: "string set \<Rightarrow> string \<Rightarrow> bool" where
  "problem_ref_ok K ref \<longleftrightarrow> ref = [] \<or> ref \<in> refs_to K"

lemma problem_ref_mono: "problem_ref_ok K ref \<Longrightarrow> K \<subseteq> K' \<Longrightarrow> problem_ref_ok K' ref"
  using refs_to_mono [of K K'] by (auto simp: problem_ref_ok_def)

lemma problemJSON_resolved: "resolved K (content_schemas (problemJSON ref)) = problem_ref_ok K ref"
  by (simp add: problemJSON_def problem_ref_ok_def)

lemma derived_responses_resolved:
  assumes "responses_resolved K rs" and "problem_ref_ok K ref"
  shows "responses_resolved K (applyDerivedErrorResponses ref rs m)"
proof -
  have challenge: "responses_resolved K (challenge_response rs')" if rs': "responses_resolved K rs'" for rs'
  proof -
    have old: "response_resolved K r" if "get rs' ''401'' = Some r" for r
      using rs' that unfolding responses_resolved_def get_def by (metis imageI map_of_SomeD snd_conv)
    have header: "resolved {} (header_schemas (put k h hs))"
      if "resolved {} (header_schemas hs)" "hd_Schema h = Some (typed ''string'')" for k h hs
      using that unfolding resolved_def header_schemas_def set_map_filter_iff by (fastforce dest!: put_values [OF imageI])
    show ?thesis
      unfolding challenge_response_def Let_def
      by (intro responses_resolved_put rs')
        (use old in \<open>auto simp: response_resolved_def split: option.splits intro!: header\<close>)
  qed
  show ?thesis
    unfolding applyDerivedErrorResponses_def Let_def
    using assms by (auto intro!: challenge fold_responses_resolved
        simp: response_resolved_def guard_problem_def Let_def problemJSON_resolved)
qed

lemma buildResponses_sound:
  assumes env: "closed_env env" and ref: "problem_ref_ok K ref"
  shows "sound (buildResponses env ref m) responses_resolved K"
  unfolding buildResponses_def Let_def
proof (intro success_response_sound [OF env, THEN sound_bind])
  fix success K' assume K': "K \<subseteq> K'" "response_resolved K' success"
  let ?rs = "[(itoa (success_status m), success)]"
  have rs: "responses_resolved K' ?rs" using K'(2) by (simp add: responses_resolved_def)
  have "sound (case (om_raw m, om_doc m) of (True, Some doc) \<Rightarrow> extra_responses env (success_produces m) (rd_Responses doc) ?rs
      | _ \<Rightarrow> yield ?rs) responses_resolved K'"
    using rs by (auto intro!: sound_rules env intro: responses_resolved_mono split: bool.splits option.splits)
  then show "sound (State_Monad.bind (case (om_raw m, om_doc m) of (True, Some doc) \<Rightarrow> extra_responses env (success_produces m) (rd_Responses doc) ?rs
      | _ \<Rightarrow> yield ?rs) (\<lambda>rs1. yield (applyDerivedErrorResponses ref (fold (\<lambda>kind. add_response (itoa (pk_Status kind)) (declared_problem ref kind)) (om_problems m) rs1) m)))
      responses_resolved K'"
    by (rule sound_bind)
      (intro sound_return derived_responses_resolved fold_responses_resolved problem_ref_mono [OF ref];
       use K' in \<open>auto simp: declared_problem_def response_resolved_def problemJSON_resolved
          intro: responses_resolved_mono problem_ref_mono [OF ref]\<close>)
qed

definition operation_resolved :: "string set \<Rightarrow> SpecOperation \<Rightarrow> bool" where
  "operation_resolved K op \<longleftrightarrow>
     resolved K (parameter_schemas (so_Parameters op)) \<and> resolved K (body_schemas (so_RequestBody op)) \<and>
     responses_resolved K (so_Responses op)"

lemma operation_resolved_mono: "operation_resolved K op \<Longrightarrow> K \<subseteq> K' \<Longrightarrow> operation_resolved K' op"
  by (auto simp: operation_resolved_def intro: resolved_mono responses_resolved_mono)

lemma sort_parameters_resolved:
  "resolved K (parameter_schemas (sortOperationParameters ps)) = resolved K (parameter_schemas ps)"
  by (simp add: resolved_def parameter_schemas_def sortOperationParameters_def)

lemma buildOperation_sound:
  assumes env: "closed_env env" and ref: "problem_ref_ok K ref"
  shows "sound (buildOperation env ref m) (\<lambda>K op. operation_resolved K op) K"
  unfolding buildOperation_def
  by (intro buildResponses_sound [THEN sound_bind] buildParameters_sound [THEN sound_bind]
      buildRequestBody_sound [THEN sound_bind] sound_return env ref)
    (simp add: operation_resolved_def sort_parameters_resolved, meson resolved_mono responses_resolved_mono subset_trans)

definition item_resolved :: "string set \<Rightarrow> PathItem \<Rightarrow> bool" where
  "item_resolved K item \<longleftrightarrow>
     (\<forall>op\<in>set (item_operations item). operation_resolved K op) \<and> resolved K (parameter_schemas (pi_Parameters item))"

lemma item_resolved_mono: "item_resolved K item \<Longrightarrow> K \<subseteq> K' \<Longrightarrow> item_resolved K' item"
  by (auto simp: item_resolved_def intro: resolved_mono operation_resolved_mono)

definition paths_resolved :: "string set \<Rightarrow> PathItem gomap \<Rightarrow> bool" where
  "paths_resolved K paths \<longleftrightarrow> (\<forall>item\<in>snd ` set paths. item_resolved K item)"

lemma paths_resolved_put:
  "paths_resolved K paths \<Longrightarrow> item_resolved K item \<Longrightarrow> paths_resolved K (put path item paths)"
  unfolding paths_resolved_def by (auto dest!: put_values [OF imageI])

lemma paths_resolved_get: "paths_resolved K paths \<Longrightarrow> get paths path = Some item \<Longrightarrow> item_resolved K item"
  unfolding paths_resolved_def get_def by (metis imageI map_of_SomeD snd_conv)

lemma paths_resolved_mono: "paths_resolved K paths \<Longrightarrow> K \<subseteq> K' \<Longrightarrow> paths_resolved K' paths"
  by (auto simp: paths_resolved_def intro: item_resolved_mono)

lemma set_item_operations:
  "set (item_operations item) = \<Union> (set_option ` {pi_Get item, pi_Put item, pi_Post item, pi_Delete item, pi_Options item,
     pi_Head item, pi_Patch item, pi_Trace item})"
  unfolding item_operations_def set_map_filter_iff by auto

definition item_extends :: "SpecOperation \<Rightarrow> PathItem \<Rightarrow> PathItem \<Rightarrow> bool" where
  "item_extends op item item' \<longleftrightarrow>
     set (item_operations item') \<subseteq> insert op (set (item_operations item)) \<and> pi_Parameters item' = pi_Parameters item"

lemma item_extends_if: "item_extends op item x \<Longrightarrow> item_extends op item y \<Longrightarrow> item_extends op item (if b then x else y)"
  by simp

lemma item_extends_set: "item_extends op item (set_item_operation verb op item)"
  unfolding set_item_operation_def
  by (intro item_extends_if; simp add: item_extends_def set_item_operations) blast+

lemma set_item_operation_resolved:
  "item_resolved K item \<Longrightarrow> operation_resolved K op \<Longrightarrow> item_resolved K (set_item_operation verb op item)"
  using item_extends_set [of op item verb] by (auto simp: item_resolved_def item_extends_def)

lemma empty_item_resolved: "item_resolved K empty_item"
  by (simp add: item_resolved_def set_item_operations empty_item_def)

lemma build_operations_sound:
  assumes env: "closed_env env"
  shows "problem_ref_ok K ref \<Longrightarrow> paths_resolved K paths \<Longrightarrow>
    sound (build_operations env ref ms paths tags) (\<lambda>K r. paths_resolved K (fst r)) K"
proof (induction ms arbitrary: K paths tags)
  case (Cons m ms)
  show ?case
    unfolding build_operations.simps
  proof (intro buildOperation_sound [OF env Cons.prems(1), THEN sound_bind] Cons.IH)
    fix op K' assume K': "K \<subseteq> K'" "operation_resolved K' op"
    show "problem_ref_ok K' ref" using problem_ref_mono [OF Cons.prems(1) K'(1)] .
    have paths: "paths_resolved K' paths" using paths_resolved_mono [OF Cons.prems(2) K'(1)] .
    then show "paths_resolved K' (add_operation m op paths)"
      unfolding add_operation_def Let_def
      by (intro paths_resolved_put set_item_operation_resolved K'(2))
        (auto simp: empty_item_resolved intro: paths_resolved_get split: option.splits)
  qed
qed (auto intro!: sound_return intro: paths_resolved_mono)

lemma problem_ref_derived: "within (refs_to K) s \<Longrightarrow> K \<subseteq> K' \<Longrightarrow> problem_ref_ok K' (sc_Ref s)"
  using resolved_within_mono [of K s K'] by (auto simp: within_iff [of _ s] problem_ref_ok_def own_refs_def split: if_splits)

lemma newSpecSkeleton_sound:
  assumes "closed_env env"
  shows "sound (newSpecSkeleton env)
    (\<lambda>K r. problem_ref_ok K (snd r) \<and> sp_Paths (fst r) = [] \<and> co_Schemas (sp_Components (fst r)) = []) K"
  unfolding newSpecSkeleton_def
  by (intro sound_DeriveSchema [OF assms, THEN sound_bind] sound_return) (simp add: problem_ref_derived)


subsection \<open>Request contexts\<close>

lemma seq_list_sound:
  assumes "\<And>x K'. x \<in> set xs \<Longrightarrow> K \<subseteq> K' \<Longrightarrow> sound x (\<lambda>K s. within (refs_to K) s) K'"
  shows "sound (seq_list xs) resolved K"
  using assms
proof (induction xs arbitrary: K)
  case (Cons x xs)
  show ?case
    unfolding seq_list.simps
    by (rule sound_bind [OF Cons.prems], simp, simp, rule sound_bind [OF Cons.IH], use Cons.prems in auto, rule sound_return)
      (simp, meson resolved_mono resolved_within_mono subset_trans)
qed (simp add: sound_return)

lemma seq_entries_sound:
  assumes "\<And>e K'. e \<in> set es \<Longrightarrow> K \<subseteq> K' \<Longrightarrow> sound (snd e) (\<lambda>K s. within (refs_to K) s) K'"
  shows "sound (seq_entries es) (\<lambda>K ys. resolved K (map snd ys)) K"
  using assms
proof (induction es arbitrary: K)
  case (Cons e es)
  show ?case
    unfolding seq_entries.simps
    by (rule sound_bind [OF Cons.prems], simp, simp, rule sound_bind [OF Cons.IH], use Cons.prems in auto, rule sound_return)
      (simp, meson resolved_mono resolved_within_mono subset_trans)
qed (simp add: sound_return)

lemma seq_option_sound:
  assumes "\<And>x. v = Some x \<Longrightarrow> sound x (\<lambda>K s. within (refs_to K) s) K"
  shows "sound (seq_option v) (\<lambda>K y. \<forall>s. y = Some s \<longrightarrow> within (refs_to K) s) K"
  unfolding seq_option_def
  by (intro sound_case_option sound_return sound_bind [OF assms]) (auto intro: resolved_within_mono)

lemma seq_additional_sound:
  assumes "\<And>x. v = EachMember x \<Longrightarrow> sound x (\<lambda>K s. within (refs_to K) s) K"
  shows "sound (seq_additional v) (\<lambda>K y. \<forall>s. y = EachMember s \<longrightarrow> within (refs_to K) s) K"
  using assms unfolding seq_additional_def
  by (cases v) (auto intro!: sound_return intro: sound_bind resolved_within_mono)

lemma ref_of_variant: "within (refs_to K) s \<Longrightarrow> sc_Ref s \<noteq> [] \<Longrightarrow> trim_prefix (sc_Ref s) schemaRefPrefix \<in> K"
  by (auto simp: within_iff [of _ s] own_refs_def refs_to_def trim_prefix_def)

lemma sound_get: "(\<And>g. sound (f g) Q K) \<Longrightarrow> sound (State_Monad.bind State_Monad.get f) Q K"
  by (simp add: sound_def)

lemma requestVariant_sound:
  assumes "closed_env env" and "i \<in> K"
  shows "sound (requestVariant env i) (\<lambda>K v. \<forall>x. v = Some x \<longrightarrow> x \<in> K) K"
  unfolding requestVariant_def
  by (intro sound_rules sound_get assms(1))
    (use assms(2) in \<open>auto dest: ref_of_variant resolved_within_mono split: if_splits\<close>)

lemma within_Schema:
  "within R (Schema kw ps it ad oo ao al nt) \<longleftrightarrow>
     (k_Ref kw = [] \<or> k_Ref kw \<in> R) \<and> (\<forall>x\<in>set (map snd ps @ oo @ ao @ al). within R x) \<and>
     (\<forall>x. it = Some x \<longrightarrow> within R x) \<and> (\<forall>x. nt = Some x \<longrightarrow> within R x) \<and> (\<forall>x. ad = EachMember x \<longrightarrow> within R x)"
  by (subst within_iff) (cases ad; auto simp: own_refs_def subschemas_def)

lemma rebuilt_resolved:
  assumes "k_Ref kw = []" and "resolved K1 (map snd ps)" and "K1 \<subseteq> K2" and "\<forall>s. it = Some s \<longrightarrow> within (refs_to K2) s"
    and "K2 \<subseteq> K3" and "resolved K3 oo" and "K3 \<subseteq> K4" and "resolved K4 ao" and "K4 \<subseteq> K5" and "resolved K5 al"
    and "K5 \<subseteq> K6" and "\<forall>s. nt = Some s \<longrightarrow> within (refs_to K6) s" and "K6 \<subseteq> K7"
    and "\<forall>s. ad = EachMember s \<longrightarrow> within (refs_to K7) s" and "K7 \<subseteq> K"
  shows "within (refs_to K) (Schema kw ps it ad oo ao al nt)"
proof -
  have "K1 \<subseteq> K" "K2 \<subseteq> K" "K3 \<subseteq> K" "K4 \<subseteq> K" "K5 \<subseteq> K" "K6 \<subseteq> K" using assms by blast+
  then have "resolved K (map snd ps @ oo @ ao @ al)" using assms(2,6,8,10) by (auto intro: resolved_mono)
  moreover have "\<forall>x. it = Some x \<longrightarrow> within (refs_to K) x" "\<forall>x. nt = Some x \<longrightarrow> within (refs_to K) x"
    "\<forall>x. ad = EachMember x \<longrightarrow> within (refs_to K) x"
    using \<open>K2 \<subseteq> K\<close> \<open>K6 \<subseteq> K\<close> assms(4,12,14,15) resolved_within_mono by blast+
  ultimately show ?thesis using assms(1) by (simp add: within_Schema resolved_def)
qed

lemma point_sound: "closed_env env \<Longrightarrow> within (refs_to K) s \<Longrightarrow> sound (pointAtRequestVariants env s) (\<lambda>K s. within (refs_to K) s) K"
proof (induction s arbitrary: K)
  case (Schema kw ps it ad oo ao al nt)
  show ?case
  proof (cases "k_Ref kw = []")
    case False
    then have "trim_prefix (k_Ref kw) schemaRefPrefix \<in> K" using ref_of_variant [OF Schema.prems(2)] by simp
    note variant = requestVariant_sound [OF Schema.prems(1) this]
    have "within (refs_to K'') (Schema (case v of Some x \<Rightarrow> kw\<lparr>k_Ref := schemaRefPrefix @ x\<rparr> | None \<Rightarrow> kw) ps it ad oo ao al nt)"
      if "K \<subseteq> K''" "\<forall>x. v = Some x \<longrightarrow> x \<in> K''" for v K''
      using resolved_within_mono [OF Schema.prems(2) that(1)] that(2)
      by (cases v) (auto simp: within_Schema refs_to_def)
    then show ?thesis
      using False by (auto intro!: sound_bind [OF variant] sound_return) (meson subsetD subset_trans)
  next
    case True
    let ?s = "Schema kw ps it ad oo ao al nt" and ?W = "\<lambda>K s. within (refs_to K) s"
    have child: "sound (pointAtRequestVariants env x) ?W K'" if "x \<in> subschemas ?s" "K \<subseteq> K'" for x K'
    proof -
      have "within (refs_to K') x" using Schema.prems(2) that by (auto simp: within_iff [of _ ?s] intro: resolved_within_mono)
      with that(1) Schema show ?thesis by (auto simp: subschemas_def)
    qed
    have entries: "sound (seq_entries (map (map_prod id (pointAtRequestVariants env)) ps)) (\<lambda>K ys. resolved K (map snd ys)) K"
      by (rule seq_entries_sound) (clarsimp, rule child, force simp: subschemas_def)
    have several: "sound (seq_list (map (pointAtRequestVariants env) xs)) resolved K'" if "K \<subseteq> K'" "set xs \<subseteq> subschemas ?s" for xs K'
      by (rule seq_list_sound) (use that in \<open>auto intro!: child\<close>)
    have one: "sound (seq_option (map_option (pointAtRequestVariants env) v)) (\<lambda>K y. \<forall>s. y = Some s \<longrightarrow> ?W K s) K'"
      if "K \<subseteq> K'" "set_option v \<subseteq> subschemas ?s" for v K'
      by (rule seq_option_sound) (use that in \<open>auto intro!: child\<close>)
    have each: "sound (seq_additional (map_additional (pointAtRequestVariants env) ad)) (\<lambda>K y. \<forall>s. y = EachMember s \<longrightarrow> ?W K s) K'"
      if "K \<subseteq> K'" for K'
      by (rule seq_additional_sound) (use that in \<open>cases ad; auto intro!: child simp: subschemas_def\<close>)
    have subs: "set_option it \<subseteq> subschemas ?s" "set oo \<subseteq> subschemas ?s" "set ao \<subseteq> subschemas ?s" "set al \<subseteq> subschemas ?s"
      "set_option nt \<subseteq> subschemas ?s" by (auto simp: subschemas_def)
    show ?thesis
      unfolding pointAtRequestVariants.simps if_not_P [OF True [THEN not_not [THEN iffD2]]]
      apply (rule sound_bind [OF entries])
      apply (rule sound_bind [OF one [OF _ subs(1)]], blast)
      apply (rule sound_bind [OF several [OF _ subs(2)]], blast)
      apply (rule sound_bind [OF several [OF _ subs(3)]], blast)
      apply (rule sound_bind [OF several [OF _ subs(4)]], blast)
      apply (rule sound_bind [OF one [OF _ subs(5)]], blast)
      apply (rule sound_bind [OF each], blast)
      by (rule sound_return, rule rebuilt_resolved [OF True])
  qed
qed

lemma request_content_sound:
  assumes env: "closed_env env" and "resolved K (content_schemas content)"
  shows "sound (request_content env content) (\<lambda>K c. resolved K (content_schemas c)) K"
  using assms(2)
proof (induction content arbitrary: K)
  case Nil
  then show ?case by (simp add: request_content_def sound_return)
next
  case (Cons e content)
  obtain k mt where e: "e = (k, mt)" by (cases e)
  have one: "\<forall>s. mt_Schema mt = Some s \<longrightarrow> within (refs_to K) s" and rest: "resolved K (content_schemas content)"
    using Cons.prems by (auto simp: e content_schemas_def map_filter_simps split: option.splits)
  have first: "sound (requestContextSchema env (mt_Schema mt)) (\<lambda>K y. \<forall>s. y = Some s \<longrightarrow> within (refs_to K) s) K"
    unfolding requestContextSchema_def by (rule seq_option_sound) (use one in \<open>auto intro!: point_sound [OF env]\<close>)
  show ?case
    unfolding request_content_def e list.map prod.case seq_entries.simps snd_conv fst_conv bind_assoc bind_left_identity
    by (rule sound_bind [OF first], rule sound_bind [OF Cons.IH [unfolded request_content_def]],
        use rest in \<open>auto intro: resolved_mono\<close>, rule sound_return)
      (auto simp: content_schemas_def map_filter_simps split: option.splits intro: resolved_mono, meson resolved_within_mono subset_trans)
qed

lemma item_operation_in: "item_operation verb item = Some op \<Longrightarrow> op \<in> set (item_operations item)"
  unfolding item_operation_def set_item_operations by (auto split: if_splits)

lemma request_contexts_sound:
  assumes env: "closed_env env"
  shows "paths_resolved K (sp_Paths spec) \<Longrightarrow>
    sound (request_contexts env ms spec) (\<lambda>K r. paths_resolved K (sp_Paths r) \<and> sp_Components r = sp_Components spec) K"
proof (induction ms arbitrary: K spec)
  case (Cons m ms)
  let ?path = "convertRouteToOpenAPIPath (om_path m)"
  show ?case
  proof (cases "standard_body m \<and> specOperation spec ?path (om_method m) \<noteq> None")
    case False
    with Cons show ?thesis by (auto simp: Let_def split: bool.splits option.splits)
  next
    case True
    then obtain op item where op: "specOperation spec ?path (om_method m) = Some op" "standard_body m"
      and item: "get (sp_Paths spec) ?path = Some item" "item_operation (to_upper (om_method m)) item = Some op"
      by (auto simp: specOperation_def split: option.splits)
    have items: "item_resolved K item" using paths_resolved_get [OF Cons.prems item(1)] .
    then have ops: "operation_resolved K op" using item_operation_in [OF item(2)] by (simp add: item_resolved_def)
    show ?thesis
    proof (cases "so_RequestBody op")
      case None
      with Cons op show ?thesis by (simp add: Let_def)
    next
      case (Some b)
      have body: "resolved K (content_schemas (rb_Content b))" using ops Some by (simp add: operation_resolved_def body_schemas_def)
      let ?spec = "\<lambda>content. put_operation spec ?path (om_method m) (op\<lparr>so_RequestBody := Some (b\<lparr>rb_Content := content\<rparr>)\<rparr>)"
      have step: "paths_resolved K' (sp_Paths (?spec content)) \<and> sp_Components (?spec content) = sp_Components spec"
        if "K \<subseteq> K'" "resolved K' (content_schemas content)" for K' content
        using item that operation_resolved_mono [OF ops that(1)] item_resolved_mono [OF items that(1)] paths_resolved_mono [OF Cons.prems that(1)]
        by (auto simp: put_operation_def operation_resolved_def body_schemas_def intro!: paths_resolved_put set_item_operation_resolved)
      have "sound (State_Monad.bind (request_content env (rb_Content b)) (\<lambda>content. request_contexts env ms (?spec content)))
        (\<lambda>K r. paths_resolved K (sp_Paths r) \<and> sp_Components r = sp_Components spec) K"
      proof (rule sound_bind [OF request_content_sound [OF env body]])
        fix content K' assume "K \<subseteq> K'" "resolved K' (content_schemas content)"
        from step [OF this] Cons.IH [of K' "?spec content"] show "sound (request_contexts env ms (?spec content))
          (\<lambda>K r. paths_resolved K (sp_Paths r) \<and> sp_Components r = sp_Components spec) K'" by simp
      qed
      with op Some show ?thesis by (simp add: Let_def)
    qed
  qed
qed (auto intro!: sound_return intro: paths_resolved_mono)


subsection \<open>Reconciliation\<close>

text \<open>The generator while variants are moved and dropped: its components still refer to the names \<open>R\<close>.\<close>

definition shape :: "string set \<Rightarrow> schemaGenerator \<Rightarrow> bool" where
  "shape R g \<longleftrightarrow>
     wf_map (gn_schemas g) \<and> wf_map (gn_schemaOwner g) \<and> set (keys (gn_schemaOwner g)) = known_keys g \<and> pending g = {} \<and>
     (\<forall>k s. get (gn_schemas g) k = Some (Some s) \<longrightarrow> within (refs_to R) s) \<and>
     (\<forall>k\<in>known_keys g. key_ok k) \<and> (\<forall>(t, i)\<in>set (gn_componentIDs g). plain_id i)"

lemma settled_iff: "settled g \<longleftrightarrow> shape (known_keys g) g"
  by (auto simp: settled_def gen_ok_def shape_def)

lemma variant_base_append [simp]: "variant_base (i @ RequestVariantSuffix) = i"
  by (simp add: variant_base_def trim_suffix_def suffix_def)

lemma variant_key:
  assumes "key_ok v" and "has_suffix v RequestVariantSuffix"
  shows "plain_id (variant_base v)" and "v = variant_base v @ RequestVariantSuffix" and "key_ok (variant_base v)"
proof -
  obtain ctx i where i: "plain_id i" "v = componentKey ctx i" using assms(1) by (auto simp: key_ok_def)
  with assms(2) have v: "v = i @ RequestVariantSuffix" by (auto simp: componentKey_def plain_id_def split: if_splits)
  with i(1) show "plain_id (variant_base v)" and "v = variant_base v @ RequestVariantSuffix" by simp_all
  then show "key_ok (variant_base v)" by (auto simp: key_ok_def componentKey_def intro!: exI [of _ SchemaContextResponse])
qed

lemma keys_remove [simp]: "set (keys (remove k m)) = set (keys m) - {k}"
  by (auto simp: keys_def remove_def)

lemma shape_get: "shape R g \<Longrightarrow> v \<in> known_keys g \<Longrightarrow> \<exists>s. get (gn_schemas g) v = Some (Some s) \<and> within (refs_to R) s"
proof -
  assume g: "shape R g" and "v \<in> known_keys g"
  then obtain x where x: "get (gn_schemas g) v = Some x" using get_Some_keys [of "gn_schemas g" v] by (auto simp: known_keys_def)
  moreover have "v \<notin> pending g" using g by (simp add: shape_def)
  ultimately obtain s where "x = Some s" by (auto simp: pending_def)
  with x g show ?thesis by (simp add: shape_def)
qed

lemma move_shape:
  assumes "shape R g" and "v \<in> known_keys g" and "has_suffix v RequestVariantSuffix"
  shows "shape R (move_component v g)" and "known_keys (move_component v g) = insert (variant_base v) (known_keys g) - {v}"
proof -
  have ok: "key_ok v" using assms(1,2) by (auto simp: shape_def)
  note base = variant_key [OF ok assms(3)]
  obtain s where s: "get (gn_schemas g) v = Some (Some s)" "within (refs_to R) s" using shape_get [OF assms(1,2)] by blast
  have "v \<in> set (keys (gn_schemaOwner g))" using assms(1,2) by (simp add: shape_def)
  then obtain t where t: "get (gn_schemaOwner g) v = Some t" using get_Some_keys [of "gn_schemaOwner g" v] by auto
  show keys: "known_keys (move_component v g) = insert (variant_base v) (known_keys g) - {v}"
    by (simp add: known_keys_def move_component_def Let_def)
  show "shape R (move_component v g)"
    using assms(1) s t base(3) unfolding shape_def keys
    by (auto simp: move_component_def Let_def pending_def known_keys_def split: if_splits)
qed

lemma drop_shape:
  assumes "shape R g"
  shows "shape R (drop_component v g)" and "known_keys (drop_component v g) = known_keys g - {v}"
proof -
  show keys: "known_keys (drop_component v g) = known_keys g - {v}" by (simp add: known_keys_def drop_component_def)
  show "shape R (drop_component v g)"
    using assms unfolding shape_def keys by (auto simp: drop_component_def pending_def known_keys_def)
qed

lemma moves_shape:
  assumes "shape R g" and "distinct vs" and "set vs \<subseteq> known_keys g" and "\<forall>v\<in>set vs. has_suffix v RequestVariantSuffix"
  shows "shape R (fold move_component vs g) \<and> known_keys (fold move_component vs g) = known_keys g \<union> variant_base ` set vs - set vs"
  using assms
proof (induction vs arbitrary: g)
  case (Cons v vs)
  have v: "v \<in> known_keys g" "has_suffix v RequestVariantSuffix" using Cons.prems(3,4) by simp_all
  then have "key_ok v" using Cons.prems(1) unfolding shape_def by blast
  note v = v this
  note moved = move_shape [OF Cons.prems(1) v(1,2)]
  have fresh: "variant_base v \<notin> set (v # vs)" using variant_key(1) [OF v(3,2)] Cons.prems(4) by (auto simp: plain_id_def)
  have "set vs \<subseteq> known_keys (move_component v g)" using Cons.prems moved(2) by auto
  from Cons.IH [OF moved(1) _ this] Cons.prems(2,4) have rest: "shape R (fold move_component vs (move_component v g))"
    "known_keys (fold move_component vs (move_component v g)) = insert (variant_base v) (known_keys g) - {v} \<union> variant_base ` set vs - set vs"
    by (simp_all add: moved(2))
  have "v \<notin> variant_base ` set vs"
  proof
    assume "v \<in> variant_base ` set vs"
    then obtain w where w: "w \<in> set vs" "v = variant_base w" by blast
    then have "key_ok w" "has_suffix w RequestVariantSuffix" using Cons.prems unfolding shape_def by auto
    from variant_key(1) [OF this] w(2) v(2) show False by (simp add: plain_id_def)
  qed
  with rest fresh show ?case by (simp only: fold.simps comp_apply rest list.set image_insert) blast
qed simp

lemma drops_shape:
  "shape R g \<Longrightarrow> shape R (fold drop_component vs g) \<and> known_keys (fold drop_component vs g) = known_keys g - set vs"
  by (induction vs arbitrary: g) (auto simp: drop_shape)

text \<open>Following a mapping of references through the document.\<close>

definition follow :: "(string \<rightharpoonup> string) \<Rightarrow> string \<Rightarrow> string" where
  "follow mapping r = (case mapping r of Some r' \<Rightarrow> r' | None \<Rightarrow> r)"

lemma update_within:
  assumes "\<And>k. k \<in> K \<Longrightarrow> follow mapping (schemaRefPrefix @ k) \<in> refs_to K'" and "within (refs_to K) s"
  shows "within (refs_to K') (updateSchemaRefs mapping s)"
  using assms(2) by (rule within_updateSchemaRefs) (use assms(1) in \<open>auto simp: refs_to_def follow_def\<close>)

lemma update_parameters:
  "(\<And>s. within (refs_to K) s \<Longrightarrow> within (refs_to K') (f s)) \<Longrightarrow> resolved K (parameter_schemas ps) \<Longrightarrow>
     resolved K' (parameter_schemas (map_parameters f ps))"
  by (auto simp: resolved_def parameter_schemas_def map_parameters_def)

lemma update_content:
  "(\<And>s. within (refs_to K) s \<Longrightarrow> within (refs_to K') (f s)) \<Longrightarrow> resolved K (content_schemas c) \<Longrightarrow>
     resolved K' (content_schemas (map_content f c))"
  by (fastforce simp: resolved_def content_schemas_def map_content_def map_values_def)

lemma item_operations_map: "set (item_operations (map_item f item)) = f ` set (item_operations item)"
  unfolding set_item_operations by (simp add: map_item_def option.set_map image_Un)

lemma update_operation:
  assumes "\<And>s. within (refs_to K) s \<Longrightarrow> within (refs_to K') (updateSchemaRefs mapping s)" and "operation_resolved K op"
  shows "operation_resolved K' (updateOperationRefs mapping op)"
  using assms(2) update_parameters [OF assms(1)] update_content [OF assms(1)]
  by (auto simp: operation_resolved_def updateOperationRefs_def Let_def body_schemas_def responses_resolved_def
      response_resolved_def map_values_def split: option.splits)

lemma update_item:
  assumes "\<And>s. within (refs_to K) s \<Longrightarrow> within (refs_to K') (updateSchemaRefs mapping s)" and "item_resolved K item"
  shows "item_resolved K' (updatePathItemRefs mapping item)"
proof -
  have "set (item_operations (updatePathItemRefs mapping item)) = updateOperationRefs mapping ` set (item_operations item)"
    using item_operations_map [of "updateOperationRefs mapping" item] unfolding set_item_operations updatePathItemRefs_def by simp
  then show ?thesis
    using assms(2) update_operation [OF assms(1)] update_parameters [OF assms(1)]
    by (auto simp: item_resolved_def updatePathItemRefs_def)
qed

lemma update_document:
  assumes "\<And>s. within (refs_to K) s \<Longrightarrow> within (refs_to K') (updateSchemaRefs mapping s)"
    and "paths_resolved K (sp_Paths spec)" and "resolved K (map snd (co_Schemas (sp_Components spec)))"
  shows "paths_resolved K' (sp_Paths (updateRefs mapping spec))"
    and "resolved K' (map snd (co_Schemas (sp_Components (updateRefs mapping spec))))"
  using assms(2,3) update_item [OF assms(1)] assms(1)
  by (auto simp: updateRefs_def paths_resolved_def resolved_def map_values_def)

lemma collapse_loop_subset: "set (collapse_loop schemas rename shared c) \<subseteq> set c"
proof (induction schemas rename shared c rule: collapse_loop.induct)
  case (1 schemas rename shared c)
  then show ?case
    using collapse_round_subset [of schemas rename shared c] by (subst collapse_loop.simps) (auto simp: Let_def)
qed

lemma follow_variant:
  assumes "distinct vs"
  shows "follow (variant_mapping vs) (schemaRefPrefix @ k) = schemaRefPrefix @ (if k \<in> set vs then variant_base k else k)"
proof (cases "k \<in> set vs")
  case True
  then have "variant_mapping vs (schemaRefPrefix @ k) = Some (schemaRefPrefix @ variant_base k)"
    unfolding variant_mapping_def using assms by (intro map_of_is_SomeI) (auto simp: distinct_map inj_on_def comp_def)
  with True show ?thesis by (simp add: follow_def)
next
  case False
  then have "variant_mapping vs (schemaRefPrefix @ k) = None"
    unfolding variant_mapping_def by (auto simp: map_of_eq_None_iff)
  with False show ?thesis by (simp add: follow_def)
qed

lemma collapse_round_distinct: "distinct c \<Longrightarrow> distinct (collapse_round schemas rename vs c)"
  by (induction vs arbitrary: c) auto

lemma collapse_loop_distinct: "distinct c \<Longrightarrow> distinct (collapse_loop schemas rename shared c)"
proof (induction schemas rename shared c rule: collapse_loop.induct)
  case (1 schemas rename shared c)
  then show ?case
    using collapse_round_distinct [OF "1.prems"] by (subst collapse_loop.simps) (auto simp: Let_def)
qed

lemma request_variants_ok:
  assumes "settled g"
  shows "distinct (request_variants g)" and "v \<in> set (request_variants g) \<Longrightarrow> v \<in> known_keys g \<and> has_suffix v RequestVariantSuffix"
    and "v \<in> set (request_variants g) \<Longrightarrow> plain_id (variant_base v)"
proof -
  have wf: "distinct (map fst (gn_schemas g))" and keys: "\<forall>k\<in>known_keys g. key_ok k"
    using assms by (simp_all add: settled_def gen_ok_def wf_map_def)
  show "distinct (request_variants g)" unfolding request_variants_def by (rule distinct_map_filter [OF wf])
  show v: "v \<in> set (request_variants g) \<Longrightarrow> v \<in> known_keys g \<and> has_suffix v RequestVariantSuffix" for v
    by (auto simp: request_variants_def known_keys_def keys_def intro: rev_image_eqI)
  show "v \<in> set (request_variants g) \<Longrightarrow> plain_id (variant_base v)" using variant_key(1) v keys by blast
qed

text \<open>Moving the variants that stand alone and dropping those that collapse leaves no name without a component.\<close>

lemma moved_names:
  assumes g: "settled g" and rename: "set rename \<subseteq> set (request_variants g)" "distinct rename"
    and collapse: "set collapse \<subseteq> set (request_variants g)" "\<And>v. v \<in> set collapse \<Longrightarrow> variant_base v \<in> known_keys g"
  shows "shape (known_keys g) (fold drop_component collapse (fold move_component rename g))"
    and "k \<in> known_keys g \<Longrightarrow> (if k \<in> set (rename @ collapse) then variant_base k else k)
           \<in> known_keys (fold drop_component collapse (fold move_component rename g))"
proof -
  note variants = request_variants_ok [OF g]
  have "shape (known_keys g) (fold move_component rename g) \<and>
      known_keys (fold move_component rename g) = known_keys g \<union> variant_base ` set rename - set rename"
    using rename variants(2) g by (intro moves_shape) (auto simp: settled_iff)
  then have moved: "shape (known_keys g) (fold drop_component collapse (fold move_component rename g))"
    "known_keys (fold drop_component collapse (fold move_component rename g)) = known_keys g \<union> variant_base ` set rename - set rename - set collapse"
    using drops_shape by auto
  then show "shape (known_keys g) (fold drop_component collapse (fold move_component rename g))" by simp
  have fresh: "variant_base v \<notin> set (rename @ collapse)" if "v \<in> set (rename @ collapse)" for v
  proof
    assume "variant_base v \<in> set (rename @ collapse)"
    then have "has_suffix (variant_base v) RequestVariantSuffix" using rename(1) collapse(1) variants(2) by auto
    moreover have "plain_id (variant_base v)" using that rename(1) collapse(1) variants(3) by auto
    ultimately show False by (simp add: plain_id_def)
  qed
  show "(if k \<in> set (rename @ collapse) then variant_base k else k)
      \<in> known_keys (fold drop_component collapse (fold move_component rename g))" if "k \<in> known_keys g"
    using that fresh [of k] collapse(2) [of k] unfolding moved(2) by auto
qed

lemma reconcile_settled:
  assumes g: "settled g" and paths: "paths_resolved (known_keys g) (sp_Paths spec)" and none: "co_Schemas (sp_Components spec) = []"
    and result: "reconcileSchemaContexts spec g = (spec', g')"
  shows "settled g'" and "paths_resolved (known_keys g') (sp_Paths spec')" and "co_Schemas (sp_Components spec') = []"
proof -
  define alone where "alone v \<longleftrightarrow> get (gn_schemas g) (variant_base v) = None \<or> variant_base v \<notin> set (reachableComponents spec (gn_schemas g))" for v
  define rename where "rename = filter alone (request_variants g)"
  define shared where "shared = filter (\<lambda>v. \<not> alone v) (request_variants g)"
  define collapse where "collapse = collapse_loop (gn_schemas g) rename shared shared"
  define mapping where "mapping = variant_mapping (rename @ collapse)"
  define g1 where "g1 = fold drop_component collapse (fold move_component rename g)"
  have r: "(spec', g') = (if rename @ collapse = [] then (spec, g)
      else (updateRefs mapping spec, g1\<lparr>gn_schemas := map_values (map_option (updateSchemaRefs mapping)) (gn_schemas g1)\<rparr>))"
    unfolding result [symmetric] reconcileSchemaContexts_def Let_def alone_def [symmetric] rename_def [symmetric] shared_def [symmetric]
      collapse_def [symmetric] mapping_def [symmetric] g1_def [symmetric] ..
  note variants = request_variants_ok [OF g]
  have sub: "set collapse \<subseteq> set shared" unfolding collapse_def by (rule collapse_loop_subset)
  have distinct: "distinct (rename @ collapse)"
    using variants(1) sub collapse_loop_distinct [of shared] by (auto simp: rename_def shared_def collapse_def)
  have twin: "variant_base v \<in> known_keys g" if "v \<in> set collapse" for v
  proof -
    have "get (gn_schemas g) (variant_base v) \<noteq> None" using that sub by (auto simp: shared_def alone_def)
    then show ?thesis using get_Some_keys [of "gn_schemas g"] by (simp add: known_keys_def)
  qed
  have "set rename \<subseteq> set (request_variants g)" "distinct rename" "set collapse \<subseteq> set (request_variants g)"
    using variants(1) sub by (auto simp: rename_def shared_def)
  note names = moved_names [OF g this(1,2,3) twin, folded g1_def]
  have upd: "within (refs_to (known_keys g1)) (updateSchemaRefs mapping s)" if "within (refs_to (known_keys g)) s" for s
    by (rule update_within [OF _ that]) (unfold mapping_def follow_variant [OF distinct] refs_to_def, rule imageI, rule names(2))
  let ?g = "g1\<lparr>gn_schemas := map_values (map_option (updateSchemaRefs mapping)) (gn_schemas g1)\<rparr>"
  have keys: "known_keys ?g = known_keys g1" by (simp add: known_keys_def)
  have "settled ?g"
    using names(1) upd unfolding settled_iff shape_def keys by (auto simp: known_keys_def pending_def)
  then show "settled g'" and "paths_resolved (known_keys g') (sp_Paths spec')" and "co_Schemas (sp_Components spec') = []"
    using r g paths none keys update_document(1) [OF upd paths] by (auto simp: updateRefs_def map_values_def split: if_splits)
qed


subsection \<open>Final names\<close>

lemma componentSchemas_settled:
  assumes "settled g"
  shows "set (keys (componentSchemas g)) = known_keys g" and "s \<in> snd ` set (componentSchemas g) \<Longrightarrow> within (refs_to (known_keys g)) s"
proof -
  have wf: "distinct (map fst (gn_schemas g))" and refs: "\<And>k s. get (gn_schemas g) k = Some (Some s) \<Longrightarrow> within (refs_to (known_keys g)) s"
    and none: "\<And>k. get (gn_schemas g) k \<noteq> Some None"
    using assms by (auto simp: settled_def gen_ok_def wf_map_def pending_def)
  have entry: "get (gn_schemas g) k = Some x" if "(k, x) \<in> set (gn_schemas g)" for k x
    using that wf by (simp add: get_def)
  have comps: "set (componentSchemas g) = {(k, s). (k, Some s) \<in> set (gn_schemas g)}"
    by (force simp: componentSchemas_def)
  show "s \<in> snd ` set (componentSchemas g) \<Longrightarrow> within (refs_to (known_keys g)) s"
    using refs [OF entry] by (auto simp: comps)
  have "k \<in> fst ` {(k, s). (k, Some s) \<in> set (gn_schemas g)}" if "(k, x) \<in> set (gn_schemas g)" for k x
    using entry [OF that] none [of k] that by (cases x) (auto intro: rev_image_eqI)
  then show "set (keys (componentSchemas g)) = known_keys g"
    by (auto simp: keys_def known_keys_def comps intro: rev_image_eqI)
qed

text \<open>The naming loop gives every component with an owner a final name and reports every bad one.\<close>

lemma name_component_names:
  assumes "wf_map (nm_nameMap n)" and "get (gn_schemaOwner g) i = Some owner"
  shows "get (nm_nameMap (name_component env g i n)) = (get (nm_nameMap n))(i \<mapsto> final_name env i owner)"
    and "wf_map (nm_nameMap (name_component env g i n))"
    and "nm_violations (name_component env g i n) = [] \<Longrightarrow> nm_violations n = [] \<and> validComponentName (final_name env i owner)"
  using assms by (auto simp: name_component_def Let_def split: option.splits if_splits)

lemma fold_names:
  assumes "\<And>i. i \<in> set ids \<Longrightarrow> get (gn_schemaOwner g) i = Some (owner i)" and "wf_map (nm_nameMap n)"
  shows "get (nm_nameMap (fold (name_component env g) ids n)) k = (if k \<in> set ids then Some (final_name env k (owner k)) else get (nm_nameMap n) k) \<and>
         (nm_violations (fold (name_component env g) ids n) = [] \<longrightarrow>
            nm_violations n = [] \<and> (\<forall>i\<in>set ids. validComponentName (final_name env i (owner i))))"
  using assms
proof (induction ids arbitrary: n)
  case (Cons i ids)
  have owner: "get (gn_schemaOwner g) i = Some (owner i)" using Cons.prems(1) by simp
  note step = name_component_names [OF Cons.prems(2) owner, of env]
  from Cons.IH [OF _ step(2)] Cons.prems(1) step(1,3) show ?case by auto
qed simp

lemma map_of_prefixed: "map_of (map (\<lambda>(i, final). (p @ i, p @ final)) m) (p @ k) = map_option ((@) p) (map_of m k)"
  by (induction m) auto

lemma ref_mapping_prefix: "ref_mapping n (schemaRefPrefix @ k) = map_option ((@) schemaRefPrefix) (get (nm_nameMap n) k)"
  by (simp add: ref_mapping_def get_def map_of_prefixed)

lemma addViolation_sub: "set (gn_violations g) \<subseteq> set (gn_violations (addViolation v g))" "v \<in> set (gn_violations (addViolation v g))"
  by (auto simp: addViolation_def)

lemma report_sub: "set vs \<union> set (gn_violations g) \<subseteq> set (gn_violations (report vs g))"
  unfolding report_def
proof (induction vs arbitrary: g)
  case (Cons v vs)
  then show ?case using addViolation_sub(1) [of g v] addViolation_sub(2) [of v g] by fastforce
qed simp

lemma put_fold_keys: "set (keys (fold (\<lambda>(i, s). put (f i) s) xs m)) = f ` fst ` set xs \<union> set (keys m)"
  by (induction xs arbitrary: m) auto

lemma put_fold_values: "x \<in> snd ` set (fold (\<lambda>(i, s). put (f i) s) xs m) \<Longrightarrow> x \<in> snd ` set xs \<or> x \<in> snd ` set m"
proof (induction xs arbitrary: m)
  case (Cons e xs)
  obtain i s where e: "e = (i, s)" by (cases e)
  from Cons.prems have "x \<in> snd ` set xs \<or> x \<in> snd ` set (put (f i) s m)" by (intro Cons.IH) (simp add: e)
  then show ?case using put_values [of x "f i" s m] by (auto simp: e)
qed simp

lemma finalize_resolved:
  assumes g: "settled g" and paths: "paths_resolved (known_keys g) (sp_Paths spec)" and none: "co_Schemas (sp_Components spec) = []"
    and result: "run_state (finalizeSchemas env spec) g = (spec', g')" and clean: "gn_violations g' = []"
  shows "paths_resolved (set (keys (co_Schemas (sp_Components spec')))) (sp_Paths spec')"
    and "resolved (set (keys (co_Schemas (sp_Components spec')))) (map snd (co_Schemas (sp_Components spec')))"
    and "\<forall>n\<in>set (keys (co_Schemas (sp_Components spec'))). validComponentName n"
proof -
  let ?n = "name_components env g" and ?K = "known_keys g" and ?names = "set (keys (co_Schemas (sp_Components spec')))"
  note comps = componentSchemas_settled [OF g]
  define owner where "owner i = the (get (gn_schemaOwner g) i)" for i
  have owned: "get (gn_schemaOwner g) i = Some (owner i)" if "i \<in> ?K" for i
    using that g get_Some_keys [of "gn_schemaOwner g" i] by (auto simp: owner_def settled_def gen_ok_def)
  have names: "get (nm_nameMap ?n) k = (if k \<in> ?K then Some (final_name env k (owner k)) else None)"
    "nm_violations ?n = [] \<Longrightarrow> i \<in> ?K \<Longrightarrow> validComponentName (final_name env i (owner i))" for k i
    using fold_names [of "keys (componentSchemas g)" g owner "\<lparr>nm_nameMap = [], nm_usedNames = [], nm_violations = []\<rparr>" env] owned
    by (simp_all add: name_components_def comps(1))
  define filled where "filled = spec\<lparr>sp_Components := (sp_Components spec)\<lparr>co_Schemas :=
      fold (\<lambda>(i, s). put (name_of ?n i) s) (componentSchemas g) []\<rparr>\<rparr>"
  have doc: "spec' = (if componentSchemas g = [] then spec else updateRefs (ref_mapping ?n) filled)"
    and g': "componentSchemas g \<noteq> [] \<Longrightarrow> g' = report (nm_violations ?n) g"
    using result none by (auto simp: finalizeSchemas_def filled_def Let_def split: if_splits)
  have keys: "?names = (\<lambda>k. final_name env k (owner k)) ` ?K"
  proof (cases "componentSchemas g = []")
    case True
    with doc comps(1) none show ?thesis by simp
  next
    case False
    have "name_of ?n ` fst ` set (componentSchemas g) = (\<lambda>k. final_name env k (owner k)) ` ?K"
      unfolding comps(1) [unfolded keys_def set_map, symmetric] using comps(1)
      by (intro image_cong) (auto simp: name_of_def names(1) keys_def)
    with doc False show ?thesis by (simp add: updateRefs_def filled_def put_fold_keys)
  qed
  have upd: "within (refs_to ?names) (updateSchemaRefs (ref_mapping ?n) s)" if "within (refs_to ?K) s" for s
    by (rule update_within [OF _ that]) (auto simp: follow_def ref_mapping_prefix names(1) keys refs_to_def)
  have bodies: "resolved ?K (map snd (fold (\<lambda>(i, s). put (name_of ?n i) s) (componentSchemas g) []))"
    using comps(2) by (auto simp: resolved_def dest!: put_fold_values [OF imageI])
  have "paths_resolved ?names (sp_Paths spec') \<and> resolved ?names (map snd (co_Schemas (sp_Components spec')))"
  proof (cases "componentSchemas g = []")
    case True
    with doc comps(1) paths none keys show ?thesis by simp
  next
    case False
    with doc update_document [OF upd, where spec = filled] paths bodies show ?thesis by (simp add: filled_def)
  qed
  then show "paths_resolved ?names (sp_Paths spec')" and "resolved ?names (map snd (co_Schemas (sp_Components spec')))" by simp_all
  show "\<forall>n\<in>?names. validComponentName n"
  proof (cases "componentSchemas g = []")
    case True
    with comps(1) keys show ?thesis by simp
  next
    case False
    then have "nm_violations ?n = []" using clean report_sub [of "nm_violations ?n" g] g' by simp
    then show ?thesis by (simp add: keys names(2))
  qed
qed


subsection \<open>No dangling reference\<close>

lemma document_resolved:
  assumes "paths_resolved K (sp_Paths spec)" and "resolved K (map snd (co_Schemas (sp_Components spec)))"
  shows "resolved K (document_schemas spec)"
proof -
  have response: "resolved K (response_schemas r)" if "response_resolved K r" for r
    using that resolved_mono [of "{}" "header_schemas (rs_Headers r)" K]
    by (simp add: response_resolved_def response_schemas_def header_schemas_def)
  have op: "resolved K (operation_schemas op)" if "operation_resolved K op" for op
    using that response by (auto simp: operation_resolved_def operation_schemas_def responses_resolved_def resolved_def)
  have "resolved K (item_schemas item)" if "item_resolved K item" for item
    using that op by (auto simp: item_resolved_def item_schemas_def resolved_def)
  with assms show ?thesis by (auto simp: document_schemas_def paths_resolved_def resolved_def)
qed

lemma valid_name_visible: "validComponentName n \<Longrightarrow> visible (hd n) \<and> visible (last n)"
proof -
  assume n: "validComponentName n"
  have "visible c" if "word_char c \<or> c \<in> set ''._-''" for c
    using that by (auto simp: visible_def word_char_def is_digit_def Let_def)
  then have "\<forall>c\<in>set n. visible c" using n by (simp add: validComponentName_def list_all_iff)
  moreover have "n \<noteq> []" using n by (simp add: validComponentName_def)
  ultimately show ?thesis by simp
qed

lemma parse_schema_ref: "validComponentName n \<Longrightarrow> parseComponentRef (schemaRefPrefix @ n) = Some (''schemas'', n)"
proof -
  assume n: "validComponentName n"
  have "trim_space ''schemas'' = ''schemas''" by code_simp
  moreover have "trim_space n = n" "n \<noteq> []" using valid_name_visible [OF n] n trim_space_visible by (auto simp: validComponentName_def)
  moreover have "cut (''schemas/'' @ n) (CHR ''/'') = (''schemas'', n, True)"
    using cut_found [of "CHR ''/''" "''schemas''" n] by simp
  ultimately show ?thesis
    by (simp add: parseComponentRef_def schemaRefPrefix_def trim_prefix_def prefix_def)
qed

lemma resolved_validateRefs:
  assumes "resolved N (document_schemas spec)" and "N = set (keys (co_Schemas (sp_Components spec)))" and "\<forall>n\<in>N. validComponentName n"
  shows "validateRefs spec = []"
proof -
  have "ref_violation spec r = []" if "r \<in> set (collectComponentRefs spec)" for r
  proof -
    have "r \<in> refs_to N" using that assms(1) by (auto simp: collectComponentRefs_def resolved_def within_def)
    then obtain n where n: "n \<in> N" "r = schemaRefPrefix @ n" by (auto simp: refs_to_def)
    then show ?thesis
      using assms(2,3) parse_schema_ref [of n] by (simp add: ref_violation_def collectComponentMembers_def componentTypes_def)
  qed
  then show ?thesis by (simp add: validateRefs_def)
qed

end
