(* ===== verification/Openapi_Props.thy ===== *)
theory Openapi_Props
  imports Openapi_Facts Build_Facts
begin

text \<open>
  What the document says: every reference resolves, reachability and the collapse of request variants are
  exact, and the checks report what they say they do.
\<close>

subsection \<open>A documented operation\<close>

definition demo_schema_env :: schema_env where
  "demo_schema_env = \<lparr>tg_ParseFloat = (\<lambda>_. None), tg_quote = (\<lambda>s. s), tg_custom = [], sv_known = [],
     sv_enums = \<lparr>er_values = [], er_version = 0\<rparr>, sv_marshals = (\<lambda>_. False), sv_aliases = [], sv_String = struct_name,
     sv_nameFunc = DefaultModelNameFunc, sv_machine_int = (\<lambda>_. False), sv_zero_null = (\<lambda>_. False)\<rparr>"

definition demo_typed :: "(unit, unit, unit) endpointDecl" where
  "demo_typed = typed_decl (TStruct ''api.GetInput'' demo_fields) noBodyType demo_operation"

definition demo_accepted :: "(unit, unit) operationModel option \<times> (unit, unit) compiler" where
  "demo_accepted = endpoint demo_build_env demo_typed ''/users'' [demo_guard] \<lparr>df_Tags = []\<rparr> empty_compiler"

definition demo_model :: "(unit, unit) operationModel" where
  "demo_model = the (fst demo_accepted)"

lemma demo_model_accepted: "\<exists>c h. demo_accepted = (Some demo_model, c) \<and> om_handler demo_model = Some h"
proof -
  have "case demo_accepted of (None, _) \<Rightarrow> False | (Some m, _) \<Rightarrow> (case om_handler m of None \<Rightarrow> False | Some h \<Rightarrow> True)"
    by code_simp
  then obtain m c h where "demo_accepted = (Some m, c)" "om_handler m = Some h" by (auto split: prod.splits option.splits)
  then show ?thesis by (metis demo_model_def fst_conv option.sel)
qed

lemma demo_closed: "closed_env demo_schema_env"
  by (simp add: closed_env_def closed_mappings_def demo_schema_env_def)

lemma demo_document:
  "case run_state (buildSpecSkeletonAndOperations demo_schema_env [demo_model]) newSchemaGenerator of
     (spec, g) \<Rightarrow> gn_violations g = [] \<and> keys (co_Schemas (sp_Components spec)) = [''httpx.MessageResponse'', ''httpx.ProblemDetails'']"
  by code_simp


subsection \<open>The whole build of the document\<close>

lemma new_generator_settled: "settled newSchemaGenerator" "known_keys newSchemaGenerator = {}"
  by (simp_all add: settled_def gen_ok_def newSchemaGenerator_def known_keys_def pending_def)

lemma before_reconciliation_sound:
  assumes env: "closed_env env"
  shows "sound (do {
      skeleton \<leftarrow> newSpecSkeleton env;
      built \<leftarrow> build_operations env (snd skeleton) ops (sp_Paths (fst skeleton)) [];
      request_contexts env ops ((fst skeleton)\<lparr>sp_Paths := fst built, sp_Tags := buildTags (snd built)\<rparr>)
    }) (\<lambda>K r. paths_resolved K (sp_Paths r) \<and> co_Schemas (sp_Components r) = []) {}"
proof (rule sound_bind [OF newSpecSkeleton_sound [OF env]], elim conjE)
  fix skeleton :: "Spec \<times> string" and K
  assume ref: "problem_ref_ok K (snd skeleton)" and empty: "sp_Paths (fst skeleton) = []" "co_Schemas (sp_Components (fst skeleton)) = []"
  have "paths_resolved K (sp_Paths (fst skeleton))" by (simp add: empty paths_resolved_def)
  then show "sound (do {
      built \<leftarrow> build_operations env (snd skeleton) ops (sp_Paths (fst skeleton)) [];
      request_contexts env ops ((fst skeleton)\<lparr>sp_Paths := fst built, sp_Tags := buildTags (snd built)\<rparr>)
    }) (\<lambda>K r. paths_resolved K (sp_Paths r) \<and> co_Schemas (sp_Components r) = []) K"
    by (rule sound_bind [OF build_operations_sound [OF env ref]])
      (rule sound_mono [OF request_contexts_sound [OF env] order_refl]; simp add: empty)
qed

lemma built_document:
  assumes env: "closed_env env" and built: "run_state (buildSpecSkeletonAndOperations env ops) newSchemaGenerator = (spec, g)"
    and clean: "gn_violations g = []"
  shows "resolved (set (keys (co_Schemas (sp_Components spec)))) (document_schemas spec)"
    and "\<forall>n\<in>set (keys (co_Schemas (sp_Components spec))). validComponentName n"
proof -
  let ?first = "do {
      skeleton \<leftarrow> newSpecSkeleton env;
      built \<leftarrow> build_operations env (snd skeleton) ops (sp_Paths (fst skeleton)) [];
      request_contexts env ops ((fst skeleton)\<lparr>sp_Paths := fst built, sp_Tags := buildTags (snd built)\<rparr>)
    }"
  obtain s1 g1 where one: "run_state ?first newSchemaGenerator = (s1, g1)" by fastforce
  obtain s2 g2 where two: "reconcileSchemaContexts s1 g1 = (s2, g2)" by fastforce
  have three: "run_state (finalizeSchemas env s2) g2 = (spec, g)"
    using built one two unfolding buildSpecSkeletonAndOperations_def applyRequestSchemaContexts_def Let_def
    by (simp add: bind_assoc split: prod.splits)
  have first: "settled g1" "paths_resolved (known_keys g1) (sp_Paths s1)" "co_Schemas (sp_Components s1) = []"
    using before_reconciliation_sound [OF env, of ops, unfolded sound_def, rule_format, OF new_generator_settled(1)] one by simp_all
  note second = reconcile_settled [OF first two]
  note third = finalize_resolved [OF second three clean]
  from document_resolved [OF third(1,2)] third(3)
  show "resolved (set (keys (co_Schemas (sp_Components spec)))) (document_schemas spec)"
    and "\<forall>n\<in>set (keys (co_Schemas (sp_Components spec))). validComponentName n" by simp_all
qed


subsection \<open>Collapse of request variants\<close>

lemma map_refs_comp: "(\<And>r. r \<noteq> [] \<Longrightarrow> g r \<noteq> []) \<Longrightarrow> map_refs f (map_refs g s) = map_refs (\<lambda>r. f (g r)) s"
  by (induction s) (auto simp: prod.map_comp option.map_comp additional.map_comp comp_def
      intro!: option.map_cong0 additional.map_cong0 prod.map_cong0)

lemma canonical_absorbs:
  assumes "set S \<subseteq> set C" and "\<And>v. v \<in> set (rename @ S) \<Longrightarrow> plain_id (variant_base v)"
  shows "canonical rename C (canonical rename S r) = canonical rename C r"
proof (cases "canonical rename S r = r")
  case False
  let ?i = "trim_prefix r schemaRefPrefix"
  have i: "?i \<in> set (rename @ S)" "has_suffix ?i RequestVariantSuffix" "canonical rename S r = schemaRefPrefix @ variant_base ?i"
    using False by (auto simp: canonical_def Let_def split: if_splits)
  then have "canonical rename C r = schemaRefPrefix @ variant_base ?i" using assms(1) by (auto simp: canonical_def Let_def)
  moreover have "canonical rename C (schemaRefPrefix @ variant_base ?i) = schemaRefPrefix @ variant_base ?i"
    using assms(2) [OF i(1)] by (simp add: canonical_def plain_id_def)
  ultimately show ?thesis using i(3) by simp
qed simp

lemma canonical_ne: "r \<noteq> [] \<Longrightarrow> canonical rename C r \<noteq> []"
  by (simp add: canonical_def Let_def schemaRefPrefix_def)

text \<open>Reading more variants as their bases never tells two schemas apart.\<close>

lemma twins_agree_mono:
  assumes "set S \<subseteq> set C" and "\<And>v. v \<in> set (rename @ S) \<Longrightarrow> plain_id (variant_base v)" and "twins_agree schemas rename S v"
  shows "twins_agree schemas rename C v"
proof -
  have absorbs: "canonical rename C (canonical rename S r) = canonical rename C r" for r
    by (rule canonical_absorbs [OF assms(1)]) (rule assms(2))
  have again: "map_refs (canonical rename C) s = map_refs (canonical rename C) (map_refs (canonical rename S) s)" for s
    by (simp add: map_refs_comp canonical_ne absorbs)
  from assms(3) show ?thesis
    unfolding twins_agree_def schemasEquivalent_def canonicalizeRefs_def
    by (auto split: option.splits) (subst (1 2) again, simp)
qed

lemma collapse_round_keeps:
  assumes "\<And>v. v \<in> set (rename @ S) \<Longrightarrow> plain_id (variant_base v)" and "\<And>v. v \<in> set S \<Longrightarrow> twins_agree schemas rename S v"
  shows "set S \<subseteq> set c \<Longrightarrow> set S \<subseteq> set (collapse_round schemas rename vs c)"
proof (induction vs arbitrary: c)
  case (Cons v vs)
  have "v \<notin> set S" if "v \<in> set c" "\<not> twins_agree schemas rename c v"
    using that assms(2) twins_agree_mono [OF Cons.prems, of rename schemas v] assms(1) by blast
  then have "set S \<subseteq> set (if v \<in> set c \<and> \<not> twins_agree schemas rename c v then filter (\<lambda>x. x \<noteq> v) c else c)"
    using Cons.prems by auto
  from Cons.IH [OF this] show ?case by simp
qed simp

lemma collapse_round_fixed:
  "collapse_round schemas rename vs c = c \<Longrightarrow> v \<in> set vs \<Longrightarrow> v \<in> set c \<Longrightarrow> twins_agree schemas rename c v"
proof (induction vs)
  case (Cons w vs)
  have "\<not> (w \<in> set c \<and> \<not> twins_agree schemas rename c w)"
  proof
    assume w: "w \<in> set c \<and> \<not> twins_agree schemas rename c w"
    then have "length (filter (\<lambda>x. x \<noteq> w) c) < length c" by (metis (mono_tags, lifting) length_filter_less)
    with collapse_round_length [of schemas rename vs "filter (\<lambda>x. x \<noteq> w) c"] Cons.prems(1) w show False by simp
  qed
  with Cons show ?case by auto
qed simp

lemma collapse_loop_fixed:
  "set c \<subseteq> set shared \<Longrightarrow> v \<in> set (collapse_loop schemas rename shared c) \<Longrightarrow>
     twins_agree schemas rename (collapse_loop schemas rename shared c) v"
proof (induction schemas rename shared c rule: collapse_loop.induct)
  case (1 schemas rename shared c)
  show ?case
  proof (cases "collapse_round schemas rename shared c = c")
    case True
    then have "collapse_loop schemas rename shared c = c" by (subst collapse_loop.simps) simp
    with 1 True show ?thesis by (auto intro: collapse_round_fixed)
  next
    case False
    then have "collapse_loop schemas rename shared c = collapse_loop schemas rename shared (collapse_round schemas rename shared c)"
      by (subst collapse_loop.simps) simp
    with 1 False collapse_round_subset [of schemas rename shared c] show ?thesis by auto
  qed
qed

lemma collapse_loop_keeps:
  assumes "\<And>v. v \<in> set (rename @ S) \<Longrightarrow> plain_id (variant_base v)" and "\<And>v. v \<in> set S \<Longrightarrow> twins_agree schemas rename S v"
  shows "set S \<subseteq> set c \<Longrightarrow> set S \<subseteq> set (collapse_loop schemas rename shared c)"
  using assms
proof (induction schemas rename shared c rule: collapse_loop.induct)
  case (1 schemas rename shared c)
  from collapse_round_keeps [OF "1.prems"(2,3,1)] 1 show ?case
    by (subst collapse_loop.simps) (auto simp: Let_def)
qed


text \<open>
  C7. The collapse of request variants is the greatest fixed point: every variant it collapses agrees with
  its base once the collapsed references are read as their bases, and any set of shared variants with that
  property is collapsed too, so recursive and mutually recursive components are not kept twice.
\<close>

theorem collapse_greatest:
  assumes "list_all (\<lambda>v. plain_id (variant_base v)) (rename @ shared)"
  shows "(\<forall>v\<in>set (collapse_loop schemas rename shared shared).
            twins_agree schemas rename (collapse_loop schemas rename shared shared) v) \<and>
         (\<forall>S. set S \<subseteq> set shared \<and> (\<forall>v\<in>set S. twins_agree schemas rename S v) \<longrightarrow>
            set S \<subseteq> set (collapse_loop schemas rename shared shared))"
proof (intro conjI ballI allI impI)
  fix v assume "v \<in> set (collapse_loop schemas rename shared shared)"
  then show "twins_agree schemas rename (collapse_loop schemas rename shared shared) v" by (intro collapse_loop_fixed) simp_all
next
  fix S assume S: "set S \<subseteq> set shared \<and> (\<forall>v\<in>set S. twins_agree schemas rename S v)"
  show "set S \<subseteq> set (collapse_loop schemas rename shared shared)"
    using S assms by (intro collapse_loop_keeps) (auto simp: list_all_iff)
qed

text \<open>A recursive type and its request variant, which differ in the reference to themselves only.\<close>

definition demo_link :: "string \<Rightarrow> Schema" where
  "demo_link i = Schema (no_keywords\<lparr>k_Type := OneType ''object''\<rparr>) [(''next'', ref_to (schemaRefPrefix @ i))] None AnyMember [] [] [] None"

definition demo_twins :: "Schema option gomap" where
  "demo_twins = [(''T1'', Some (demo_link ''T1'')), (''T1.Request'', Some (demo_link ''T1.Request''))]"

theorem collapse_greatest_witness:
  "twins_agree demo_twins [] [''T1.Request''] ''T1.Request'' \<and> \<not> twins_agree demo_twins [] [] ''T1.Request'' \<and>
     ''T1.Request'' \<in> set (collapse_loop demo_twins [] [''T1.Request''] [''T1.Request''])"
proof -
  have agree: "twins_agree demo_twins [] [''T1.Request''] ''T1.Request''" "\<not> twins_agree demo_twins [] [] ''T1.Request''" by code_simp+
  have "list_all (\<lambda>v. plain_id (variant_base v)) ([] @ [''T1.Request''])" by code_simp
  from collapse_greatest [where schemas = demo_twins, OF this] agree
  have "set [''T1.Request''] \<subseteq> set (collapse_loop demo_twins [] [''T1.Request''] [''T1.Request''])"
    by (elim conjE allE [of _ "[''T1.Request'']"]) simp
  with agree show ?thesis by simp
qed


subsection \<open>Reachable components\<close>

definition refers :: "Schema option gomap \<Rightarrow> string \<Rightarrow> string \<Rightarrow> bool" where
  "refers schemas i j \<longleftrightarrow> j \<in> set (component_refs schemas i)"

lemma visit_all_grows: "set work \<union> set reached \<subseteq> set (visit_all schemas work reached)"
  by (induction schemas work reached rule: visit_all.induct) auto

lemma visit_all_only:
  "set (visit_all schemas work reached) \<subseteq> set reached \<union> {j. \<exists>i\<in>set work. (refers schemas)\<^sup>*\<^sup>* i j}"
proof (induction schemas work reached rule: visit_all.induct)
  case (2 schemas i work reached)
  show ?case
  proof (cases "i \<in> set reached")
    case False
    have "(refers schemas)\<^sup>*\<^sup>* i k" if "j \<in> set (component_refs schemas i)" "(refers schemas)\<^sup>*\<^sup>* j k" for j k
      using that by (auto simp: refers_def intro: converse_rtranclp_into_rtranclp)
    with 2(2) [OF False] False show ?thesis by auto
  qed (use 2 in auto)
qed simp

lemma visit_all_closed:
  "(\<And>i. i \<in> set reached \<Longrightarrow> set (component_refs schemas i) \<subseteq> set reached \<union> set work) \<Longrightarrow>
     i \<in> set (visit_all schemas work reached) \<Longrightarrow> refers schemas i j \<Longrightarrow> j \<in> set (visit_all schemas work reached)"
proof (induction schemas work reached rule: visit_all.induct)
  case (2 schemas k work reached)
  show ?case
  proof (cases "k \<in> set reached")
    case True
    with 2(1) [OF True] "2.prems" show ?thesis by auto
  next
    case False
    have "set (component_refs schemas i) \<subseteq> set (k # reached) \<union> set (component_refs schemas k @ work)" if "i \<in> set (k # reached)" for i
      using that "2.prems"(1) [of i] by auto
    with 2(2) [OF False] "2.prems"(2,3) False show ?thesis by auto
  qed
qed (auto simp: refers_def)

text \<open>
  C8. The visit of the components ends, whatever cycles they form, with exactly the components that the
  paths of the document refer to, directly or through other components.
\<close>

theorem reachable_exact:
  "set (reachableComponents spec schemas) = {j. \<exists>i\<in>set (document_refs spec). (refers schemas)\<^sup>*\<^sup>* i j}"
proof (intro equalityI subsetI)
  fix j assume "j \<in> set (reachableComponents spec schemas)"
  then show "j \<in> {j. \<exists>i\<in>set (document_refs spec). (refers schemas)\<^sup>*\<^sup>* i j}"
    using visit_all_only [of schemas "document_refs spec" "[]"] by (auto simp: reachableComponents_def)
next
  fix j assume "j \<in> {j. \<exists>i\<in>set (document_refs spec). (refers schemas)\<^sup>*\<^sup>* i j}"
  then obtain i where "(refers schemas)\<^sup>*\<^sup>* i j" and i: "i \<in> set (document_refs spec)" by auto
  then show "j \<in> set (reachableComponents spec schemas)"
  proof (induction rule: rtranclp_induct)
    case base
    then show ?case using visit_all_grows [of "document_refs spec" "[]" schemas] by (auto simp: reachableComponents_def)
  next
    case (step j k)
    with visit_all_closed [of "[]" schemas "document_refs spec" j k] show ?case by (auto simp: reachableComponents_def)
  qed
qed


subsection \<open>Security\<close>

text \<open>
  C9. The security that the document lists for an operation is exactly what the server asks for: a caller
  satisfies one of the listed alternatives, or none is listed, precisely when it meets the credentials of
  every guard on the way and the requirement declared on the operation.
\<close>

theorem documented_security:
  assumes "list_all (\<lambda>g. wf_requirement (gd_credentials g)) (om_guards m)" and "wf_requirement (om_security m)"
  shows "operationSecurity m = [] \<or> list_ex (satisfies G) (operationSecurity m) \<longleftrightarrow>
         list_all (\<lambda>g. meets G (gd_credentials g)) (om_guards m) \<and> meets G (om_security m)"
proof -
  let ?chain = "foldl And empty_requirement (map gd_credentials (om_guards m))"
  have chain: "wf_requirement ?chain \<and> (meets G ?chain \<longleftrightarrow> list_all (meets G) (map gd_credentials (om_guards m)))"
    using assms(1) by (intro credentials.chain) (simp add: list_all_iff)
  have all: "meets G (And ?chain (om_security m)) \<longleftrightarrow> meets G ?chain \<and> meets G (om_security m)"
    using chain assms(2) by (intro credentials.means_conjoin) simp_all
  have "operationSecurity m = [] \<or> list_ex (satisfies G) (operationSecurity m) \<longleftrightarrow> meets G (And ?chain (om_security m))"
    by (auto simp: operationSecurity_def Let_def meets_def Unstated_def foldl_map)
  with chain all show ?thesis by (simp add: list_all_iff)
qed

definition demo_secured :: "unit Guard" where
  "demo_secured = demo_guard\<lparr>gd_credentials := Requires [''BearerAuth'']\<rparr>"

theorem documented_security_witness:
  "\<not> list_ex (satisfies (\<lambda>_. None)) (operationSecurity (demo_model\<lparr>om_guards := [demo_secured]\<rparr>)) \<and>
     operationSecurity (demo_model\<lparr>om_guards := [demo_secured]\<rparr>) \<noteq> []"
proof -
  let ?m = "demo_model\<lparr>om_guards := [demo_secured]\<rparr>"
  have wf: "list_all (\<lambda>g. wf_requirement (gd_credentials g)) (om_guards ?m)" "wf_requirement (om_security ?m)" by code_simp+
  have "\<not> meets (\<lambda>_. None) (gd_credentials demo_secured)" by code_simp
  with documented_security [OF wf, of "\<lambda>_. None"] show ?thesis by simp
qed


subsection \<open>Ambiguous paths\<close>

definition template_shape :: "string \<Rightarrow> string" where
  "template_shape segment = (if isTemplatedSegment segment then ''{}'' else segment)"

lemma template_shape_eq: "template_shape a = template_shape b \<longleftrightarrow> a = b \<or> isTemplatedSegment a \<and> isTemplatedSegment b"
  by (auto simp: template_shape_def isTemplatedSegment_def suffix_def)

lemma segments_ambiguous_iff:
  "length ls = length rs \<Longrightarrow>
     segments_ambiguous ls rs diff \<longleftrightarrow> map template_shape ls = map template_shape rs \<and> (diff \<or> ls \<noteq> rs)"
  by (induction ls rs arbitrary: diff rule: list_induct2) (auto simp: template_shape_eq)

lemma pathsAreAmbiguous_iff:
  "pathsAreAmbiguous p q \<longleftrightarrow> map template_shape (splitPathSegments p) = map template_shape (splitPathSegments q) \<and>
     splitPathSegments p \<noteq> splitPathSegments q"
  using map_eq_imp_length_eq [of template_shape "splitPathSegments p" template_shape "splitPathSegments q"]
  by (auto simp: pathsAreAmbiguous_def Let_def segments_ambiguous_iff)

lemma ambiguous_pairs_Nil: "ambiguous_pairs ps = [] \<longleftrightarrow> (\<forall>p\<in>set ps. \<forall>q\<in>set ps. \<not> pathsAreAmbiguous p q)"
proof (induction ps)
  case (Cons p ps)
  have irrefl: "\<not> pathsAreAmbiguous p p" and sym: "\<And>q. pathsAreAmbiguous q p \<Longrightarrow> pathsAreAmbiguous p q"
    by (auto simp: pathsAreAmbiguous_iff)
  have "ambiguous_pairs (p # ps) = [] \<longleftrightarrow> (\<forall>q\<in>set ps. \<not> pathsAreAmbiguous p q) \<and> (\<forall>a\<in>set ps. \<forall>b\<in>set ps. \<not> pathsAreAmbiguous a b)"
    using Cons by (simp add: filter_empty_conv)
  then show ?case using sym by (auto simp only: list.set ball_simps irrefl simp_thms)
qed simp



text \<open>
  C6. A build without schema violations keeps a document with no dangling reference: every reference in a
  component, a parameter, a body, a response or a header names a component of the document, after request
  variants were added, reconciled and renamed.
\<close>

theorem document_refs_resolve:
  assumes "closed_env env" and "run_state (buildSpecSkeletonAndOperations env ops) newSchemaGenerator = (spec, g)"
    and "gn_violations g = []"
  shows "validateRefs spec = []"
  by (rule resolved_validateRefs [OF built_document(1) [OF assms] refl built_document(2) [OF assms]])

theorem document_refs_resolve_witness:
  "\<exists>spec g. run_state (buildSpecSkeletonAndOperations demo_schema_env [demo_model]) newSchemaGenerator = (spec, g) \<and>
     keys (co_Schemas (sp_Components spec)) = [''httpx.MessageResponse'', ''httpx.ProblemDetails''] \<and> validateRefs spec = []"
proof -
  obtain spec g where run: "run_state (buildSpecSkeletonAndOperations demo_schema_env [demo_model]) newSchemaGenerator = (spec, g)"
    by fastforce
  with demo_document have "gn_violations g = []"
    and names: "keys (co_Schemas (sp_Components spec)) = [''httpx.MessageResponse'', ''httpx.ProblemDetails'']" by simp_all
  from document_refs_resolve [OF demo_closed run this(1)] run names show ?thesis by blast
qed

end
