(* ===== verification/Openapi_Catalog.thy ===== *)
theory Openapi_Catalog
  imports Openapi_Props
begin

text \<open>
  The document and the catalog agree. Each operation of a build is documented under its path and method, and
  nothing else is; the passes after the first only change schemas.
\<close>

subsection \<open>Routes and their document paths\<close>

text \<open>
  \<open>normalizePath\<close>, by which the compiler tells routes apart, forgets more than the conversion to a document
  path: two routes with one document path are duplicates.
\<close>

definition trim_slash :: "string \<Rightarrow> string" where
  "trim_slash s = (let t = (if length s > 1 then trim_suffix s ''/'' else s) in if t = [] then ''/'' else t)"

definition erase_segment :: "string \<Rightarrow> string" where
  "erase_segment s = (if placeholder_segment s then ''{}'' else s)"

definition convert_segment :: "string \<Rightarrow> string" where
  "convert_segment part =
     (if placeholder_segment part
      then (case cut (trim_set part ''{}'') (CHR '':'') of (name, _, True) \<Rightarrow> ''{'' @ name @ ''}'' | _ \<Rightarrow> part)
      else part)"

definition erase_path :: "string \<Rightarrow> string" where
  "erase_path s = join (map erase_segment (split_on (CHR ''/'') s)) ''/''"

lemma normalizePath_alt: "normalizePath p = trim_slash (erase_path p)"
  by (simp add: normalizePath_def trim_slash_def erase_path_def erase_segment_def [abs_def] Let_def)

lemma convert_alt: "convertRouteToOpenAPIPath p = trim_slash (join (map convert_segment (split_on (CHR ''/'') p)) ''/'')"
  by (simp add: convertRouteToOpenAPIPath_def trim_slash_def convert_segment_def [abs_def] Let_def)

lemma set_cut: "set (fst (cut s c)) \<subseteq> set s"
  by (auto simp: cut_def dest: set_takeWhileD)

lemma set_trim_set: "set (trim_set s cs) \<subseteq> set s"
  by (auto simp: trim_set_def dest!: set_dropWhileD)

lemma convert_segment_chars: "CHR ''/'' \<notin> set s \<Longrightarrow> CHR ''/'' \<notin> set (convert_segment s)"
  using set_cut [of "trim_set s ''{}''" "CHR '':''"] set_trim_set [of s "''{}''"]
  by (cases "cut (trim_set s ''{}'') (CHR '':'')") (auto simp: convert_segment_def split: bool.splits)

lemma erase_convert: "erase_segment (convert_segment s) = erase_segment s"
  by (auto simp: erase_segment_def convert_segment_def placeholder_segment_def suffix_def split: prod.splits bool.splits)

lemma erase_converted:
  "erase_path (join (map convert_segment (split_on (CHR ''/'') p)) ''/'') = erase_path p"
proof -
  have "split_on (CHR ''/'') (join (map convert_segment (split_on (CHR ''/'') p)) [CHR ''/'']) = map convert_segment (split_on (CHR ''/'') p)"
    by (rule split_on_join) (auto dest!: split_on_no_sep convert_segment_chars)
  then show ?thesis by (simp add: erase_path_def comp_def erase_convert)
qed

lemma split_on_snoc: "split_on c (s @ [c]) = split_on c s @ [[]]"
  by (induction s) (simp_all add: hd_append tl_append split: list.splits)

lemma join_snoc: "xs \<noteq> [] \<Longrightarrow> join (xs @ [y]) sep = join xs sep @ sep @ y"
  by (induction xs sep rule: join.induct) simp_all

lemma erase_path_snoc: "erase_path (d @ ''/'') = erase_path d @ ''/''"
  by (simp add: erase_path_def split_on_snoc join_snoc erase_segment_def placeholder_segment_def)

lemma split_on_last: "s \<noteq> [] \<Longrightarrow> last s \<noteq> c \<Longrightarrow> last (split_on c s) \<noteq> []"
proof (induction s)
  case (Cons x s)
  then show ?case by (cases s; cases "split_on c s") (auto split: if_splits)
qed simp

lemma join_last: "xs \<noteq> [] \<Longrightarrow> last xs \<noteq> [] \<Longrightarrow> join xs sep \<noteq> [] \<and> last (join xs sep) = last (last xs)"
  by (induction xs sep rule: join.induct) auto

lemma erase_path_last:
  assumes "c \<noteq> []" and "last c \<noteq> CHR ''/''"
  shows "erase_path c \<noteq> [] \<and> last (erase_path c) \<noteq> CHR ''/''"
proof -
  let ?l = "last (split_on (CHR ''/'') c)"
  have "?l \<in> set (split_on (CHR ''/'') c)" by (rule last_in_set) simp
  then have "CHR ''/'' \<notin> set ?l" by (rule split_on_no_sep)
  then have "CHR ''/'' \<notin> set (erase_segment ?l)" by (simp add: erase_segment_def)
  moreover have ne: "erase_segment ?l \<noteq> []" using split_on_last [OF assms] by (simp add: erase_segment_def)
  ultimately have "last (erase_segment ?l) \<noteq> CHR ''/''" using last_in_set by metis
  with ne join_last [of "map erase_segment (split_on (CHR ''/'') c)" "''/''"] show ?thesis
    by (simp add: erase_path_def last_map)
qed

lemma erase_path_trim: "erase_path (trim_slash c) = trim_slash (erase_path c)"
proof (cases c rule: rev_cases)
  case Nil
  then show ?thesis by (simp add: trim_slash_def erase_path_def erase_segment_def placeholder_segment_def)
next
  case (snoc d x)
  show ?thesis
  proof (cases "x = CHR ''/''")
    case True
    have "erase_path d = [] \<longleftrightarrow> d = []"
    proof (cases "d = [] \<or> last d \<noteq> CHR ''/''")
      case False
      then have "d = butlast d @ ''/''" by (metis append_butlast_last_id)
      with erase_path_snoc [of "butlast d"] False show ?thesis by (metis append_is_Nil_conv not_Cons_self2)
    qed (use erase_path_last [of d] in \<open>auto simp: erase_path_def erase_segment_def placeholder_segment_def\<close>)
    with True snoc erase_path_snoc [of "[]"] show ?thesis by (auto simp: trim_slash_def erase_path_snoc trim_suffix_append)
  next
    case False
    then have "\<not> has_suffix c ''/''" "\<not> has_suffix (erase_path c) ''/''" "c \<noteq> []" "erase_path c \<noteq> []"
      using erase_path_last [of c] snoc by (auto simp: suffix_def)
    then show ?thesis by (simp add: trim_slash_def trim_suffix_def)
  qed
qed

lemma normalizePath_convert: "normalizePath p = erase_path (convertRouteToOpenAPIPath p)"
  by (simp add: normalizePath_alt convert_alt erase_path_trim erase_converted)



subsection \<open>What a document lists\<close>

type_synonym entry = "string \<times> string \<times> CredentialSet list"

definition entry_of :: "SpecOperation \<Rightarrow> entry" where
  "entry_of op = (so_OperationID op, so_routePattern op, so_Security op)"

definition item_entry :: "string \<Rightarrow> PathItem \<Rightarrow> entry option" where
  "item_entry verb item = map_option entry_of (item_operation verb item)"

definition listed :: "PathItem gomap \<Rightarrow> (string \<times> string \<times> entry) set" where
  "listed paths =
     {(path, verb, e). \<exists>item. get paths path = Some item \<and> item_entry verb item = Some e}"

definition model_entry :: "('s, 'c) operationModel \<Rightarrow> string \<times> string \<times> entry" where
  "model_entry m = (convertRouteToOpenAPIPath (om_path m), om_method m, om_id m, om_path m, operationSecurity m)"

definition model_key :: "('s, 'c) operationModel \<Rightarrow> string \<times> string" where
  "model_key m = (convertRouteToOpenAPIPath (om_path m), om_method m)"

definition taken :: "PathItem gomap \<Rightarrow> (string \<times> string) set" where
  "taken paths = (\<lambda>(path, verb, e). (path, verb)) ` listed paths"

lemma item_entry_set:
  "verb \<in> set httpMethods \<Longrightarrow> item_entry v (set_item_operation verb op item) = (if v = verb then Some (entry_of op) else item_entry v item)"
  by (auto simp: item_entry_def httpMethods_def item_operation_def set_item_operation_def)

lemma item_entry_replaced:
  assumes "item_operation verb item = Some op" and "entry_of op' = entry_of op"
  shows "item_entry v (set_item_operation verb op' item) = item_entry v item"
  using assms by (auto simp: item_entry_def item_operation_def set_item_operation_def split: if_splits)

lemma empty_item_entry [simp]: "item_entry verb empty_item = None"
  by (simp add: item_entry_def item_operation_def empty_item_def)

lemma taken_iff: "(path, verb) \<in> taken paths \<longleftrightarrow> (\<exists>item. get paths path = Some item \<and> item_entry verb item \<noteq> None)"
  by (force simp: taken_def listed_def)

lemma listed_put:
  assumes "wf_map paths" and "verb \<in> set httpMethods" and "(key, verb) \<notin> taken paths"
  shows "listed (put key (set_item_operation verb op (case get paths key of Some item \<Rightarrow> item | None \<Rightarrow> empty_item)) paths) =
     insert (key, verb, entry_of op) (listed paths)"
  using assms unfolding taken_iff
  by (cases "get paths key") (auto simp: listed_def item_entry_set split: if_splits)

lemma buildOperation_entry:
  "entry_of (fst (run_state (buildOperation env ref m) g)) = (om_id m, om_path m, operationSecurity m)"
  by (simp add: buildOperation_def entry_of_def Let_def split: prod.splits)

lemma build_operations_listed:
  assumes "run_state (build_operations env ref ms paths tags) g = ((paths', tags'), g')"
    and "wf_map paths" and "\<forall>m\<in>set ms. om_method m \<in> set httpMethods"
    and "distinct (map model_key ms)" and "model_key ` set ms \<inter> taken paths = {}"
  shows "wf_map paths' \<and> listed paths' = listed paths \<union> model_entry ` set ms"
  using assms
proof (induction ms arbitrary: paths tags g)
  case (Cons m ms)
  obtain op g1 where op: "run_state (buildOperation env ref m) g = (op, g1)" by fastforce
  have entry: "entry_of op = (om_id m, om_path m, operationSecurity m)" using buildOperation_entry [of env ref m g] op by simp
  let ?paths = "add_operation m op paths"
  have listed: "listed ?paths = insert (model_entry m) (listed paths)"
    using Cons.prems listed_put [of paths "om_method m" "convertRouteToOpenAPIPath (om_path m)" op] entry
    by (simp add: add_operation_def Let_def model_key_def model_entry_def)
  then have taken: "taken ?paths = insert (model_key m) (taken paths)" by (simp add: taken_def model_entry_def model_key_def)
  have wf: "wf_map ?paths" using Cons.prems(2) by (simp add: add_operation_def Let_def)
  from Cons.prems(1) op have "run_state (build_operations env ref ms ?paths (tags @ so_Tags op)) g1 = ((paths', tags'), g')" by simp
  from Cons.IH [OF this wf] Cons.prems taken listed show ?case by auto
qed simp

text \<open>The later passes change schemas only.\<close>

lemma updated_entry: "item_entry verb (updatePathItemRefs mapping item) = item_entry verb item"
  by (simp add: item_entry_def item_operation_def updatePathItemRefs_def map_item_def option.map_comp comp_def
      entry_of_def [abs_def] updateOperationRefs_def Let_def)

lemma listed_updateRefs: "listed (sp_Paths (updateRefs mapping spec)) = listed (sp_Paths spec)"
  by (auto simp: listed_def updateRefs_def updated_entry)

lemma listed_put_operation:
  assumes "wf_map (sp_Paths spec)" and "specOperation spec path verb = Some op" and "entry_of op' = entry_of op"
  shows "wf_map (sp_Paths (put_operation spec path verb op')) \<and> listed (sp_Paths (put_operation spec path verb op')) = listed (sp_Paths spec)"
proof -
  obtain item where item: "get (sp_Paths spec) path = Some item" "item_operation (to_upper verb) item = Some op"
    using assms(2) by (auto simp: specOperation_def split: option.splits)
  from item_entry_replaced [OF item(2) assms(3)] assms(1) item(1) show ?thesis
    by (auto simp: put_operation_def listed_def split: if_splits)
qed

lemma request_contexts_listed:
  assumes "run_state (request_contexts env ms spec) g = (spec', g')" and "wf_map (sp_Paths spec)"
  shows "wf_map (sp_Paths spec') \<and> listed (sp_Paths spec') = listed (sp_Paths spec)"
  using assms
proof (induction ms arbitrary: spec g)
  case (Cons m ms)
  let ?path = "convertRouteToOpenAPIPath (om_path m)"
  show ?case
  proof (cases "standard_body m \<and> (\<exists>op b. specOperation spec ?path (om_method m) = Some op \<and> so_RequestBody op = Some b)")
    case True
    then obtain op b where op: "specOperation spec ?path (om_method m) = Some op" "so_RequestBody op = Some b" "standard_body m" by blast
    obtain content g1 where content: "run_state (request_content env (rb_Content b)) g = (content, g1)" by fastforce
    let ?op = "op\<lparr>so_RequestBody := Some (b\<lparr>rb_Content := content\<rparr>)\<rparr>"
    have step: "run_state (request_contexts env ms (put_operation spec ?path (om_method m) ?op)) g1 = (spec', g')"
      using Cons.prems(1) op content by (simp add: Let_def)
    have "entry_of ?op = entry_of op" by (simp add: entry_of_def)
    from listed_put_operation [OF Cons.prems(2) op(1) this] Cons.IH [OF step] show ?thesis by simp
  next
    case False
    then have "run_state (request_contexts env ms spec) g = (spec', g')"
      using Cons.prems(1) by (auto simp: Let_def split: bool.splits option.splits)
    from Cons.IH [OF this Cons.prems(2)] show ?thesis .
  qed
qed simp

lemma reconcile_listed: "reconcileSchemaContexts spec g = (spec', g') \<Longrightarrow> listed (sp_Paths spec') = listed (sp_Paths spec)"
  by (auto simp: reconcileSchemaContexts_def Let_def listed_updateRefs split: if_splits)

lemma finalize_listed: "run_state (finalizeSchemas env spec) g = (spec', g') \<Longrightarrow> listed (sp_Paths spec') = listed (sp_Paths spec)"
  by (auto simp: finalizeSchemas_def Let_def listed_updateRefs split: if_splits)

lemma document_listed:
  assumes "\<forall>m\<in>set ops. om_method m \<in> set httpMethods" and "distinct (map model_key ops)"
  shows "listed (sp_Paths (fst (run_state (buildSpecSkeletonAndOperations env ops) newSchemaGenerator))) = model_entry ` set ops"
proof -
  obtain s0 ref g0 where zero: "run_state (newSpecSkeleton env) newSchemaGenerator = ((s0, ref), g0)" by (metis surj_pair)
  then have empty: "sp_Paths s0 = []" by (auto simp: newSpecSkeleton_def split: prod.splits)
  obtain paths tags g1 where one: "run_state (build_operations env ref ops [] []) g0 = ((paths, tags), g1)" by (metis surj_pair)
  define s1 where "s1 = s0\<lparr>sp_Paths := paths, sp_Tags := buildTags tags\<rparr>"
  obtain s2 g2 where two: "run_state (request_contexts env ops s1) g1 = (s2, g2)" by fastforce
  obtain s3 g3 where three: "reconcileSchemaContexts s2 g2 = (s3, g3)" by fastforce
  obtain s4 g4 where four: "run_state (finalizeSchemas env s3) g3 = (s4, g4)" by fastforce
  have all: "run_state (buildSpecSkeletonAndOperations env ops) newSchemaGenerator = (s4, g4)"
    unfolding buildSpecSkeletonAndOperations_def applyRequestSchemaContexts_def Let_def
    using zero one two three four by (simp add: empty s1_def)
  have none: "listed [] = {}" by (simp add: listed_def)
  have "wf_map paths \<and> listed paths = model_entry ` set ops"
    using build_operations_listed [OF one] assms none by (simp add: taken_def)
  with request_contexts_listed [OF two] have "listed (sp_Paths s2) = model_entry ` set ops" by (simp add: s1_def)
  with reconcile_listed [OF three] finalize_listed [OF four] all show ?thesis by simp
qed

lemma op_key_model: "op_key m = op_label (snd (model_key m)) (erase_path (fst (model_key m)))"
  by (simp add: op_key_def route_key_def model_key_def normalizePath_convert)

text \<open>
  C4. The document lists exactly the operations of the catalog. After a successful build, every operation is
  documented under its path and its method, with its id, its route and the security its guards ask for, and
  no other path or method is documented.
\<close>

theorem document_lists_catalog:
  assumes "buildWithStableRegistries env P gs g = Inr app"
  shows "listed (sp_Paths (fst (document_pass schemas (ap_ops app)))) = model_entry ` set (ap_ops app)"
proof -
  have app: "distinct (map op_key (ap_ops app))" "list_all (operation_ok env) (ap_ops app)"
    using build_checked [OF assms] by simp_all
  then have "distinct (map (\<lambda>k. op_label (snd k) (erase_path (fst k))) (map model_key (ap_ops app)))"
    by (simp add: op_key_model [abs_def] comp_def)
  then have "distinct (map model_key (ap_ops app))" by (rule distinct_map [THEN iffD1, THEN conjunct1])
  moreover have "\<forall>m\<in>set (ap_ops app). om_method m \<in> set httpMethods" using app(2) by (simp add: list_all_iff operation_ok_def)
  ultimately show ?thesis using document_listed [of "ap_ops app" schemas] by (auto simp: document_pass_def split: prod.splits)
qed

theorem document_lists_catalog_witness:
  "\<exists>app. buildWithStableRegistries demo_build_env demo_params demo_heap 0 = Inr app \<and>
     listed (sp_Paths (fst (document_pass demo_schema_env (ap_ops app)))) = model_entry ` set (ap_ops app) \<and>
     (\<lambda>(path, verb, i, route, security). i) ` listed (sp_Paths (fst (document_pass demo_schema_env (ap_ops app)))) = {''getUsersById''}"
proof -
  obtain app where b: "buildWithStableRegistries demo_build_env demo_params demo_heap 0 = Inr app"
    and ids: "map om_id (ap_ops app) = [''getUsersById'']" by (rule exE [OF demo_build]) (elim conjE)
  note l = document_lists_catalog [OF b, of demo_schema_env]
  have "(\<lambda>(path, verb, i, route, security). i) ` model_entry ` set (ap_ops app) = set (map om_id (ap_ops app))"
    by (simp add: image_image model_entry_def)
  with l ids b show ?thesis by simp
qed

end
