(* ===== verification/Openapi_Served.thy ===== *)
theory Openapi_Served
  imports Openapi_Props
begin

text \<open>
  The document and the handler agree. The statuses a compiled typed operation can answer with come from
  its guards, from the binding of the request, from the errors of the handler and from the commit of the
  reply; every one of them is a key of the responses the document lists for the operation.
\<close>

subsection \<open>What the document lists\<close>

definition documented :: "Responses \<Rightarrow> int \<Rightarrow> bool" where
  "documented rs status \<longleftrightarrow> itoa status \<in> set (keys rs)"

lemma keys_add_response: "set (keys (add_response code r rs)) = insert code (set (keys rs))"
  using get_Some_keys [of rs code] by (auto simp: add_response_def)

lemma keys_fold_responses: "set (keys (fold (\<lambda>x. add_response (code x) (f x)) xs rs)) = code ` set xs \<union> set (keys rs)"
  by (induction xs arbitrary: rs) (auto simp: keys_add_response)

lemma keys_derived:
  "set (keys (applyDerivedErrorResponses ref rs m)) =
     set (keys rs) \<union> set (derived_codes m) \<union> (\<Union>g\<in>set (om_guards m). (\<lambda>k. itoa (pk_Status k)) ` set (gd_problems g)) \<union>
     (if list_ex gd_challenge (om_guards m) then {''401''} else {})"
  unfolding applyDerivedErrorResponses_def Let_def
  by (auto simp: keys_fold_responses [where code = "\<lambda>x. x"] keys_fold_responses challenge_response_def Let_def)

lemma keys_buildResponses:
  assumes "run_state (buildResponses env ref m) g = (rs, g')" and "\<not> om_raw m"
  shows "set (keys rs) = insert (itoa (success_status m)) ((\<lambda>k. itoa (pk_Status k)) ` set (om_problems m)) \<union>
     set (derived_codes m) \<union> (\<Union>x\<in>set (om_guards m). (\<lambda>k. itoa (pk_Status k)) ` set (gd_problems x)) \<union>
     (if list_ex gd_challenge (om_guards m) then {''401''} else {})"
proof -
  obtain success g1 where "run_state (success_response env m) g = (success, g1)" by fastforce
  with assms have "rs = applyDerivedErrorResponses ref
      (fold (\<lambda>kind. add_response (itoa (pk_Status kind)) (declared_problem ref kind)) (om_problems m) [(itoa (success_status m), success)]) m"
    by (simp add: buildResponses_def Let_def)
  then show ?thesis by (auto simp: keys_derived keys_fold_responses) (auto simp: keys_def)
qed


subsection \<open>What the adapter answers\<close>

lemma adapter_problem:
  assumes "uncommitted w" and "problem_of_kind ks e" and "problemKindInvalid \<notin> ks"
  shows "\<exists>s. rw_status (dispatchAdapterError w r (Some e)) = Some s \<and>
           (s = 500 \<or> (\<exists>i\<in>ks. \<exists>d. problemDefinition i = Some d \<and> s = pkd_status d))"
proof -
  obtain p where p: "e = EProblem p" "pd_kind p \<in> ks" "pd_err p = None" using assms(2) by (auto simp: problem_of_kind_def)
  have challenge: "as_challenge e = None" using p by (simp add: as_challenge_def)
  have problem: "as_problem e = Some (Some p)" using p by (simp add: as_problem_def)
  obtain q t k where e: "errorToProblemDetails e True = (q, t, k)" by (cases "errorToProblemDetails e True")
  have k: "k = pd_kind p \<or> k = problemKindInternal"
    using e problem by (auto simp: errorToProblemDetails_def Let_def split: if_splits dest: restore_sealed_fields)
  have "pd_status q = 500 \<or> (\<exists>i\<in>ks. \<exists>d. problemDefinition i = Some d \<and> pd_status q = pkd_status d)"
    using k
  proof
    assume "k = pd_kind p"
    moreover from this have "k \<noteq> problemKindInvalid" using p(2) assms(3) by auto
    moreover from this obtain d where "problemDefinition k = Some d" by fastforce
    ultimately show ?thesis using errorToProblemDetails_spec(2) [OF e] p(2) by blast
  next
    assume "k = problemKindInternal"
    then show ?thesis using errorToProblemDetails_spec(2) [OF e] by simp
  qed
  then show ?thesis
    using dispatchProblem_sent [OF assms(1), of r e None False True] challenge e
    by (auto simp: dispatchAdapterError_def dispatchResolvedError_def resolved_problem_def)
qed

lemma adapter_validation:
  assumes "uncommitted w"
  shows "\<exists>s. rw_status (dispatchAdapterError w r (Some (EValidation vs))) = Some s \<and> (s = 500 \<or> s = 422)"
  using dispatchProblem_sent [OF assms, of r "EValidation vs" None False True]
  by (auto simp: dispatchAdapterError_def dispatchResolvedError_def resolved_problem_def as_challenge_def as_problem_def
      as_validation_def errorToProblemDetails_def pk_New_def mk_problem_def UnprocessableEntity_def kind_of_def split: prod.splits)

lemma compiled_plan_for: "compileProblemPlan l ks = plan_for l (Internal # ks) False"
proof -
  have "pp_allowChallenge (foldl allow p xs) = pp_allowChallenge p" for p xs
    by (induction xs arbitrary: p) (auto simp: allow_def)
  then have "(foldl allow (newProblemPlan l) (Internal # ks))\<lparr>pp_allowChallenge := False\<rparr> = foldl allow (newProblemPlan l) (Internal # ks)"
    by (intro problemPlan.equality) (simp_all add: allow_def newProblemPlan_def)
  then show ?thesis by (simp add: compileProblemPlan_def)
qed

lemma commit_status:
  assumes "uncommitted w"
  shows "\<exists>s. rw_status (commit encode encode_time (Some rp) w r p) = Some s \<and> (s = 500 \<or> s = wp_status p)"
proof (cases "committable encode encode_time p rp")
  case True
  with commit_committable [OF assms True] show ?thesis by (auto simp: sent_ok_def)
next
  case False
  with commit_not_committable [OF assms False] show ?thesis by (auto simp: sent_500_def)
qed

lemma nilReply_status: "uncommitted w \<Longrightarrow> rw_status (nilReply w) = Some 500"
  using httpx_Error_internal(1) [of "log_event LevelError ''handler returned nil reply and nil error'' w"] by (simp add: nilReply_def)


lemma compileRequest_binds:
  "compileRequest env (TStruct n fs) verb = (Some plan, []) \<Longrightarrow> \<not> pl_noInput plan \<Longrightarrow> pl_fields plan \<noteq> [] \<or> pl_body plan \<noteq> None"
  by (auto simp: compileRequest_def Let_def split: prod.splits if_splits)

lemma itoa_codes: "itoa 500 = ''500''" "itoa 401 = ''401''" "itoa 400 = ''400''" "itoa 413 = ''413''" "itoa 415 = ''415''" "itoa 422 = ''422''"
  by code_simp+

lemma valid_mode_status: "validateSuccessMode mode t = [] \<Longrightarrow> sm_status mode \<noteq> 0"
  by (cases "sm_mode mode") (auto simp: validateSuccessMode_def two_xx_def isRedirectStatus_def split: if_splits)

text \<open>
  The law of the struct validator: it rejects a value of a type only when the type declares a check that
  can fail, and then reports field errors.
\<close>

definition validator_lawful :: "('c, 't) build_env \<Rightarrow> gtype \<Rightarrow> bool" where
  "validator_lawful env t \<longleftrightarrow>
     (\<forall>v e. has_type t v \<and> validate_Struct env v = Some e \<longrightarrow> requestCarriesValidation t \<and> (\<exists>vs. e = EValidation vs))"

lemma truncate_validate [simp]: "validate_Struct (bind_env.truncate env) = validate_Struct env"
  by (simp add: bind_env.truncate_def)

text \<open>What a prepared operation is made of.\<close>

lemma prepared_typed:
  assumes "prepare_typed env success cookies reqType resType handler m0 = ([], m)" and "om_handler m = Some H" and "om_handler m0 = None"
  obtains h plan wp where "handler = Some h" "compileRequest env reqType (om_method m0) = (Some plan, [])" "om_reqPlan m = Some plan"
    "om_response m = Some wp" "wp_status wp = sm_status success" "sm_status success \<noteq> 0"
    "H = wrapRouteGuards (bound_handler env reqType plan (compileProblemPlan (op_label (om_method m0) (om_path m0)) (om_problems m0)) wp h)
       (om_routeGuards m0)"
  using assms
  by (auto simp: prepare_typed_def Let_def withResponseValidation_def compileWritePlan_def dest!: valid_mode_status
      split: prod.splits list.splits option.splits)

lemma bound_failure_documented:
  assumes plan: "compileRequest env (TStruct n fs) verb = (Some plan, [])" and input: "\<not> pl_noInput plan"
    and typed: "env_typed (bind_env.truncate env)" and lawful: "validator_lawful env (TStruct n fs)" and "uncommitted w"
    and fail: "Request.bind (bind_env.truncate env) plan r params (zero_value (TStruct n fs)) = Inl e"
    and m: "\<not> om_raw m" "om_reqPlan m = Some plan"
  shows "\<exists>st. rw_status (dispatchAdapterError w (Some r) (Some e)) = Some st \<and> itoa st \<in> set (derived_codes m)"
proof -
  have some: "pl_fields plan \<noteq> [] \<or> pl_body plan \<noteq> None" using compileRequest_binds [OF plan input] .
  from bind_failures [OF plan fail] show ?thesis
  proof (elim disjE exE conjE)
    fix v1 v
    assume v: "bind_body_stage (bind_env.truncate env) plan r (zero_value (TStruct n fs)) = Inr v1"
      "bind_fields (pl_fields plan) r params (plan_query plan r) v1 = Inr v" "validate_Struct (bind_env.truncate env) v = Some e"
    from bind_stages_typed [OF plan typed zero_value_typed(1) v(1,2)] v(3) lawful
    obtain vs where "requestCarriesValidation (TStruct n fs)" and e: "e = EValidation vs" by (auto simp: validator_lawful_def)
    then have "pl_canFailValidation plan" using compileRequest_ok(3) [OF plan] by blast
    with adapter_validation [OF assms(5), of "Some r" vs] some input m show ?thesis
      unfolding e by (auto simp: derived_codes_def itoa_codes)
  next
    assume k: "pl_canFailBind plan" "problem_of_kind body_kinds e" "pl_body plan = None \<longrightarrow> problem_of_kind {problemKindBadRequest} e"
    show ?thesis
    proof (cases "pl_body plan")
      case None
      with k adapter_problem [OF assms(5), of "{problemKindBadRequest}" e "Some r"] some input m show ?thesis
        by (auto simp: derived_codes_def itoa_codes)
    next
      case (Some bp)
      with k adapter_problem [OF assms(5) k(2), of "Some r"] some input m show ?thesis
        by (auto simp: derived_codes_def itoa_codes)
    qed
  next
    assume k: "pl_canFailValidation plan" "problem_of_kind {problemKindUnprocessableEntity} e"
    with adapter_problem [OF assms(5), of "{problemKindUnprocessableEntity}" e "Some r"] some input m show ?thesis
      by (auto simp: derived_codes_def itoa_codes)
  qed
qed

lemma bound_handler_documented:
  assumes plan: "compileRequest env (TStruct n fs) verb = (Some plan, [])"
    and typed: "env_typed (bind_env.truncate env)" and lawful: "validator_lawful env (TStruct n fs)" and w: "uncommitted w"
    and m: "\<not> om_raw m" "om_reqPlan m = Some plan"
  shows "\<exists>st. rw_status (fst (bound_handler env (TStruct n fs) plan (compileProblemPlan l ks) wp h r (w, s))) = Some st \<and>
           (itoa st \<in> set (derived_codes m) \<or> st = wp_status wp \<or> (\<exists>k\<in>set ks. st = pk_Status k))"
proof -
  have internal: "itoa 500 \<in> set (derived_codes m)" by (simp add: derived_codes_def itoa_codes)
  have "\<exists>st. rw_status (dispatchError w (Some r) (Some e) (Some (compileProblemPlan l ks))) = Some st \<and>
      (st = 500 \<or> (\<exists>k\<in>set ks. st = pk_Status k))" for e
    using dispatchError_outcome [OF w, where r = "Some r" and e = e and l = l and ks = "Internal # ks" and ch = False]
    by (auto simp: compiled_plan_for pk_Status_def Internal_def kind_of_def)
  then have failed: "\<exists>st. rw_status (dispatchError w (Some r) (Some e) (Some (compileProblemPlan l ks))) = Some st \<and>
      (itoa st \<in> set (derived_codes m) \<or> st = wp_status wp \<or> (\<exists>k\<in>set ks. st = pk_Status k))" for e
    using internal by metis
  have replied: "\<exists>st. rw_status (fst (case reply of None \<Rightarrow> (nilReply w, s')
        | Some rp \<Rightarrow> (commit (enc_value env) (enc_time env) (Some rp) w (Some r) wp, s'))) = Some st \<and>
      (itoa st \<in> set (derived_codes m) \<or> st = wp_status wp \<or> (\<exists>k\<in>set ks. st = pk_Status k))" for reply s'
  proof (cases reply)
    case None
    with internal nilReply_status [OF w] show ?thesis by simp
  next
    case (Some rp)
    obtain st where "rw_status (commit (enc_value env) (enc_time env) (Some rp) w (Some r) wp) = Some st" "st = 500 \<or> st = wp_status wp"
      using commit_status [OF w, of "enc_value env" "enc_time env" rp "Some r" wp] by blast
    with internal Some show ?thesis by auto
  qed
  show ?thesis
  proof (cases "if pl_noInput plan then Inr (zero_value (TStruct n fs))
      else Request.bind (bind_env.truncate env) plan r (chiParams env r) (zero_value (TStruct n fs))")
    case (Inl e)
    then have "\<not> pl_noInput plan" and "Request.bind (bind_env.truncate env) plan r (chiParams env r) (zero_value (TStruct n fs)) = Inl e"
      by (auto split: if_splits)
    from bound_failure_documented [OF plan this(1) typed lawful w this(2) m] show ?thesis
      unfolding bound_handler_def prod.case Inl by auto
  next
    case (Inr req)
    obtain reply err s' where h: "h (rq_ctx r) req s = ((reply, err), s')" by (metis surj_pair)
    show ?thesis
      unfolding bound_handler_def prod.case Inr sum.case h
      by (cases err) (simp_all only: option.case fst_conv failed replied)
  qed
qed

text \<open>A chain of guards whose rejections are documented, around a handler whose statuses are.\<close>

lemma guarded_documented:
  assumes w: "uncommitted w"
    and guards: "\<And>x st. x \<in> G \<Longrightarrow> st = 500 \<or> (\<exists>k\<in>set (gd_problems x). pk_valid k \<and> st = pk_Status k) \<or> gd_challenge x \<and> st = 401 \<Longrightarrow>
      documented rs st"
    and gs: "set gs \<subseteq> G" and h: "\<And>r. \<exists>st. rw_status (fst (h r (w, s))) = Some st \<and> documented rs st"
  shows "\<exists>st. rw_status (fst (wrapRouteGuards h gs r (w, s))) = Some st \<and> documented rs st"
proof (cases "judge gs r")
  case (Passed r')
  with wrapRouteGuards_outcome [OF w, where gs = gs and r = r and h = h and s = s] h show ?thesis by simp
next
  case (Stopped x r')
  with wrapRouteGuards_outcome [OF w, where gs = gs and r = r and h = h and s = s]
  obtain w' st where "x \<in> set gs" "wrapRouteGuards h gs r (w, s) = (w', s)" "rw_status w' = Some st"
    "st = 500 \<or> (\<exists>k\<in>set (gd_problems x). pk_valid k \<and> st = pk_Status k) \<or> gd_challenge x \<and> st = 401" by auto
  with guards [of x st] gs show ?thesis by auto
qed

text \<open>
  C5. The document never understates what an operation does. Whatever the request holds and whatever the
  handler does, a typed operation that was accepted answers with one status, and that status is among the
  responses the document lists for it: the success status, the problems it declares, those of its guards,
  and the failures derived from the request it binds.
\<close>

theorem served_status_documented:
  assumes accepted: "endpoint env (typed_decl (TStruct n fs) res op) pre chain d c = (Some m, c')" and H: "om_handler m = Some H"
    and typed: "env_typed (bind_env.truncate env)" and lawful: "validator_lawful env (TStruct n fs)" and w: "uncommitted w"
    and doc: "run_state (buildResponses schemas problemRef m) g = (rs, g')"
  shows "\<exists>st. rw_status (fst (wrapRouteGuards H chain r (w, s))) = Some st \<and> documented rs st"
proof -
  let ?ep = "typed_decl (TStruct n fs) res op"
  let ?m0 = "initial_model ?ep (joinPattern pre (ed_path ?ep)) chain d"
  obtain m1 where prep: "run_prepare env ?ep ?m0 = ([], m1)" and m: "m = m1\<lparr>om_id := om_id m\<rparr>"
    using endpoint_accepted [OF accepted refl] by metis
  have H1: "om_handler m1 = Some H" using H by (subst (asm) m) simp
  have m0: "om_handler ?m0 = None" "om_raw ?m0 = False" by (simp_all add: initial_model_def typed_decl_def Let_def)
  from prep have "prepare_typed env (op_Success op) (op_ResponseCookies op) (TStruct n fs) res (op_Handler op) ?m0 = ([], m1)"
    by (simp add: run_prepare_def typed_decl_def)
  then obtain h plan wp where plan: "compileRequest env (TStruct n fs) (om_method ?m0) = (Some plan, [])" and m1: "om_reqPlan m1 = Some plan"
    "om_response m1 = Some wp" "wp_status wp \<noteq> 0"
    and H': "H = wrapRouteGuards (bound_handler env (TStruct n fs) plan
        (compileProblemPlan (op_label (om_method ?m0) (om_path ?m0)) (om_problems ?m0)) wp h) (om_routeGuards ?m0)"
    using prepared_typed [OF _ H1 m0(1)] by metis
  note keeps = run_prepare_keeps [OF prep]
  have raw: "om_raw m1 = False"
    using prep m0(2) by (auto simp: run_prepare_def typed_decl_def prepare_typed_def Let_def split: prod.splits list.splits option.splits)
  have model: "\<not> om_raw m" "om_reqPlan m = Some plan" "om_problems m = om_problems ?m0" "success_status m = wp_status wp"
      "om_guards m = chain @ om_routeGuards ?m0"
    using raw m1 by (subst m; simp add: keeps success_status_def; simp add: initial_model_def Let_def)+
  note listed = keys_buildResponses [OF doc model(1), unfolded model(4)]
  have guards: "documented rs st" if "x \<in> set (om_guards m)" "st = 500 \<or> (\<exists>k\<in>set (gd_problems x). pk_valid k \<and> st = pk_Status k) \<or>
      gd_challenge x \<and> st = 401" for x st
    using that unfolding documented_def listed by (auto simp: itoa_codes derived_codes_def list_ex_iff)
  have own: "documented rs st" if "itoa st \<in> set (derived_codes m) \<or> st = wp_status wp \<or> (\<exists>k\<in>set (om_problems ?m0). st = pk_Status k)" for st
    using that unfolding documented_def listed model(3) by auto
  have bound: "\<exists>st. rw_status (fst (bound_handler env (TStruct n fs) plan
      (compileProblemPlan (op_label (om_method ?m0) (om_path ?m0)) (om_problems ?m0)) wp h r' (w, s))) = Some st \<and> documented rs st" for r'
    using bound_handler_documented [OF plan typed lawful w model(1,2), where ks = "om_problems ?m0"] own by meson
  have behind: "\<exists>st. rw_status (fst (H r' (w, s))) = Some st \<and> documented rs st" for r'
    unfolding H' by (rule guarded_documented [where G = "set (om_guards m)", OF w]) (fact guards, simp add: model(5), rule bound)
  show ?thesis
    by (rule guarded_documented [where G = "set (om_guards m)", OF w]) (fact guards, simp add: model(5), rule behind)
qed

theorem served_status_documented_witness:
  "\<exists>c h rs g' st. demo_accepted = (Some demo_model, c) \<and> om_handler demo_model = Some h \<and>
     run_state (buildResponses demo_schema_env [] demo_model) newSchemaGenerator = (rs, g') \<and>
     rw_status (fst (wrapRouteGuards h [demo_guard] demo_get (fresh_writer, ()))) = Some st \<and> documented rs st"
proof -
  obtain c h where m: "demo_accepted = (Some demo_model, c)" "om_handler demo_model = Some h" using demo_model_accepted by blast
  obtain rs g' where rs: "run_state (buildResponses demo_schema_env [] demo_model) newSchemaGenerator = (rs, g')" by fastforce
  have env: "bind_env.truncate demo_build_env = bind_env.truncate demo_env"
    by (simp add: demo_build_env_def compile_env.defs bind_env.defs)
  have "validator_lawful demo_build_env (TStruct ''api.GetInput'' demo_fields)"
    by (simp add: validator_lawful_def demo_build_env_def demo_env_def compile_env.defs)
  moreover have "uncommitted fresh_writer" by (simp add: uncommitted_def fresh_writer_def)
  ultimately show ?thesis
    using served_status_documented [OF m(1) [unfolded demo_accepted_def demo_typed_def] m(2) _ _ _ rs, of fresh_writer demo_get "()"]
      demo_env_typed m rs unfolding env by blast
qed

end
