(* ===== verification/Validation.thy ===== *)
theory Validation
  imports Schema_Facts Go_Errors "HOL-Library.Multiset"
begin

text \<open>
  The registry of custom validate tokens of \<^verbatim>\<open>internal/httpx/validation.go\<close>: each token is registered with
  its runtime validator and its schema mapping, the validator is built once from what is registered, and
  from then on the registry is frozen. The validator library is a parameter: what it refuses to register,
  what it says of a variable, and the order in which a Go map is iterated.
\<close>

subsection \<open>Mappings\<close>

definition Pattern :: "string \<Rightarrow> schema_mapping" where
  "Pattern pattern target param =
     (if \<not> schemaIsPlainString target then (target, ''must match '' @ pattern)
      else if k_Pattern (sc_kw target) \<noteq> [] \<and> k_Pattern (sc_kw target) \<noteq> pattern then (target, ''must match '' @ pattern)
      else (with_kw (\<lambda>k. k\<lparr>k_Pattern := pattern\<rparr>) target, []))"

definition Format :: "string \<Rightarrow> schema_mapping" where
  "Format format target param =
     (if hasType target ''string'' then (with_kw (\<lambda>k. k\<lparr>k_Format := format\<rparr>) target, [])
      else (target, ''must be a valid '' @ format))"

definition DocOnly :: "string \<Rightarrow> schema_mapping" where
  "DocOnly note target param = (target, if param \<noteq> [] then note @ '' ('' @ param @ '')'' else note)"

definition customNumericBound :: "(string \<Rightarrow> gval option) \<Rightarrow> boundKind \<Rightarrow> schema_mapping" where
  "customNumericBound parse kind target param =
     (if \<not> schemaIsNumeric target then (target, phrase kind @ param)
      else case parse param of
        None \<Rightarrow> (target, phrase kind @ param)
      | Some f \<Rightarrow> (with_kw (numeric_bound kind f) target, []))"

definition email_or_e164_mapping :: schema_mapping where
  "email_or_e164_mapping target param =
     (if hasType target ''string''
      then (set_AnyOf (sc_AnyOf target @
              [leaf (no_keywords\<lparr>k_Format := ''email''\<rparr>), leaf (no_keywords\<lparr>k_Pattern := patternE164\<rparr>)]) target, [])
      else (target, ''must be an email address or E.164 phone number''))"


subsection \<open>The registry\<close>

text \<open>A runtime validator reads the field and the token's parameter.\<close>

type_synonym validate_func = "gval \<Rightarrow> string \<Rightarrow> bool"

record Validation =
  va_Validate :: "validate_func option"
  va_Schema :: "schema_mapping option"

type_synonym validator = "(string \<times> validate_func) list"

record registry =
  customValidations :: "(string \<times> Validation) list"
  validatorBuilt :: bool
  validateErr :: "go_error option"
  builtValidator :: "validator option"

definition empty_registry :: registry where
  "empty_registry = \<lparr>customValidations = [], validatorBuilt = False, validateErr = None, builtValidator = None\<rparr>"

record validator_lib =
  vl_refuses :: "string \<Rightarrow> go_error option"
  vl_iterate :: "(string \<times> Validation) list \<Rightarrow> (string \<times> Validation) list"
  vl_Var :: "string \<Rightarrow> string \<Rightarrow> bool"
  vl_text :: "gval \<Rightarrow> string"
  vl_Float64Value :: "gval \<Rightarrow> (gval \<times> bool) option"
  vl_ParseFloat :: "string \<Rightarrow> gval option"
  vl_less :: "gval \<Rightarrow> gval \<Rightarrow> bool"
  vl_less_eq :: "gval \<Rightarrow> gval \<Rightarrow> bool"

datatype register_error = EmptyTag | NilValidate string | NilSchema string | AlreadyBuilt string | AlreadyRegistered string

definition RegisterValidation :: "string \<Rightarrow> Validation \<Rightarrow> registry \<Rightarrow> register_error option \<times> registry" where
  "RegisterValidation tag v st =
     (if trim_space tag = [] then (Some EmptyTag, st)
      else if va_Validate v = None then (Some (NilValidate tag), st)
      else if va_Schema v = None then (Some (NilSchema tag), st)
      else if validatorBuilt st then (Some (AlreadyBuilt tag), st)
      else if map_of (customValidations st) tag \<noteq> None then (Some (AlreadyRegistered tag), st)
      else (None, st\<lparr>customValidations := (tag, v) # customValidations st\<rparr>))"

definition lookupCustomValidation :: "string \<Rightarrow> registry \<Rightarrow> Validation option" where
  "lookupCustomValidation tag st = map_of (customValidations st) tag"

text \<open>The loop of \<open>newValidator\<close> over the registered tokens, and the validator it configures.\<close>

fun register_all :: "validator_lib \<Rightarrow> (string \<times> Validation) list \<Rightarrow> validator \<Rightarrow> go_error + validator" where
  "register_all lib [] built = Inr built"
| "register_all lib ((tag, v) # rest) built =
     (case vl_refuses lib tag of
        Some e \<Rightarrow> Inl (EWrap (''failed to register '' @ tag @ '' validation'') [e])
      | None \<Rightarrow> register_all lib rest (built @ [(tag, case va_Validate v of Some f \<Rightarrow> f | None \<Rightarrow> \<lambda>_ _. False)]))"

definition newValidator :: "validator_lib \<Rightarrow> (string \<times> Validation) list \<Rightarrow> go_error + validator" where
  "newValidator lib custom = register_all lib (vl_iterate lib custom) []"

text \<open>The name a field goes by in an error: \<open>RegisterTagNameFunc\<close>.\<close>

definition tag_name :: "sfield \<Rightarrow> string" where
  "tag_name f = (let name = hd (split_on (CHR '','') (tag_get f ''json'')) in if name = ''-'' then [] else name)"

definition InitValidator :: "validator_lib \<Rightarrow> registry \<Rightarrow> go_error option \<times> registry" where
  "InitValidator lib st =
     (if validatorBuilt st then (validateErr st, st)
      else case newValidator lib (customValidations st) of
        Inl e \<Rightarrow> (Some e, st\<lparr>validatorBuilt := True, validateErr := Some e\<rparr>)
      | Inr v \<Rightarrow> (None, st\<lparr>validatorBuilt := True, validateErr := None, builtValidator := Some v\<rparr>))"

text \<open>\<open>Inl\<close> is the panic.\<close>

definition validatorInstance :: "validator_lib \<Rightarrow> registry \<Rightarrow> (string + validator) \<times> registry" where
  "validatorInstance lib st =
     (case builtValidator st of
        Some v \<Rightarrow> (Inr v, st)
      | None \<Rightarrow>
          (case InitValidator lib st of
             (Some e, st') \<Rightarrow> (Inl ''httpx: validator initialization failed'', st')
           | (None, st') \<Rightarrow>
               (case builtValidator st' of
                  Some v \<Rightarrow> (Inr v, st')
                | None \<Rightarrow> (Inl ''httpx: validator initialization produced no validator'', st'))))"


subsection \<open>The built-in validators\<close>

definition field_text :: "validator_lib \<Rightarrow> gval \<Rightarrow> string" where
  "field_text lib field = (case field of VString s \<Rightarrow> s | _ \<Rightarrow> vl_text lib field)"

definition emailOrE164 :: "validator_lib \<Rightarrow> validate_func" where
  "emailOrE164 lib field param =
     (let val = field_text lib field in
      if val = [] then True
      else if vl_Var lib val ''email'' then True
      else vl_Var lib val ''e164'')"

text \<open>
  A \<open>pgtype.Numeric\<close> has the fields Int, Exp, NaN, InfinityModifier and Valid. \<open>None\<close> is a value of
  another type.
\<close>

definition zero_numeric :: gval where
  "zero_numeric = VStruct ''pgtype.Numeric'' [VPtr None, VInt 0, VBool False, VInt 0, VBool False]"

definition numeric_valid :: "gval \<Rightarrow> bool" where
  "numeric_valid v \<longleftrightarrow> get_field v 4 = VBool True"

definition as_numeric :: "gval \<Rightarrow> gval option" where
  "as_numeric v = (case v of VStruct n _ \<Rightarrow> if n = ''pgtype.Numeric'' then Some v else None | _ \<Rightarrow> None)"

definition extractPGNumeric :: "gval \<Rightarrow> gval option" where
  "extractPGNumeric field =
     (case field of VPtr None \<Rightarrow> Some zero_numeric | VPtr (Some x) \<Rightarrow> as_numeric x | _ \<Rightarrow> as_numeric field)"

definition comparePGNumeric :: "validator_lib \<Rightarrow> gval \<Rightarrow> string \<Rightarrow> (gval \<Rightarrow> gval \<Rightarrow> bool) \<Rightarrow> bool" where
  "comparePGNumeric lib field param cmp =
     (case extractPGNumeric field of
        None \<Rightarrow> False
      | Some numeric \<Rightarrow>
          if \<not> numeric_valid numeric then True
          else case vl_Float64Value lib numeric of
            None \<Rightarrow> False
          | Some (f, ok) \<Rightarrow>
              if \<not> ok then False
              else let threshold = trim_space param in
                if threshold = [] then False
                else case vl_ParseFloat lib threshold of None \<Rightarrow> False | Some p \<Rightarrow> cmp f p)"

definition pgNumericGT :: "validator_lib \<Rightarrow> validate_func" where
  "pgNumericGT lib field param = comparePGNumeric lib field param (\<lambda>val threshold. vl_less lib threshold val)"

definition pgNumericGTE :: "validator_lib \<Rightarrow> validate_func" where
  "pgNumericGTE lib field param = comparePGNumeric lib field param (\<lambda>val threshold. vl_less_eq lib threshold val)"

definition pgNumericLTE :: "validator_lib \<Rightarrow> validate_func" where
  "pgNumericLTE lib field param = comparePGNumeric lib field param (\<lambda>val threshold. vl_less_eq lib val threshold)"

definition builtins :: "validator_lib \<Rightarrow> (string \<times> Validation) list" where
  "builtins lib =
     [(''email_or_e164'', \<lparr>va_Validate = Some (emailOrE164 lib), va_Schema = Some email_or_e164_mapping\<rparr>),
      (''pg_numeric_gt'', \<lparr>va_Validate = Some (pgNumericGT lib),
         va_Schema = Some (customNumericBound (vl_ParseFloat lib) boundGreaterThan)\<rparr>),
      (''pg_numeric_gte'', \<lparr>va_Validate = Some (pgNumericGTE lib),
         va_Schema = Some (customNumericBound (vl_ParseFloat lib) boundAtLeast)\<rparr>),
      (''pg_numeric_lte'', \<lparr>va_Validate = Some (pgNumericLTE lib),
         va_Schema = Some (customNumericBound (vl_ParseFloat lib) boundAtMost)\<rparr>)]"

text \<open>The package initialisation: \<open>None\<close> is its panic.\<close>

fun register_builtins :: "(string \<times> Validation) list \<Rightarrow> registry \<Rightarrow> registry option" where
  "register_builtins [] st = Some st"
| "register_builtins ((tag, v) # rest) st =
     (case RegisterValidation tag v st of (Some e, st') \<Rightarrow> None | (None, st') \<Rightarrow> register_builtins rest st')"

definition validation_init :: "validator_lib \<Rightarrow> registry \<Rightarrow> registry option" where
  "validation_init lib st = register_builtins (vl_iterate lib (builtins lib)) st"


subsection \<open>The life of the registry\<close>

text \<open>Every way the program touches the registry is one of these calls, each under the mutex.\<close>

inductive registry_step :: "validator_lib \<Rightarrow> registry \<Rightarrow> registry \<Rightarrow> bool" for lib where
  registering: "registry_step lib st (snd (RegisterValidation tag v st))"
| initializing: "registry_step lib st (snd (InitValidator lib st))"
| reading: "registry_step lib st (snd (validatorInstance lib st))"

definition registry_reaches :: "validator_lib \<Rightarrow> registry \<Rightarrow> registry \<Rightarrow> bool" where
  "registry_reaches lib = (registry_step lib)\<^sup>*\<^sup>*"

text \<open>The mappings the schema derivation looks up.\<close>

definition custom_mappings :: "registry \<Rightarrow> (string \<times> schema_mapping) list" where
  "custom_mappings st = List.map_filter (\<lambda>(tag, v). map_option (Pair tag) (va_Schema v)) (customValidations st)"

text \<open>
  Every registered token has both halves, and a published validator runs exactly the registered ones.
\<close>

definition both_halves :: "string \<times> Validation \<Rightarrow> bool" where
  "both_halves e \<longleftrightarrow> va_Validate (snd e) \<noteq> None \<and> va_Schema (snd e) \<noteq> None"

definition runtime_of :: "(string \<times> Validation) list \<Rightarrow> validator" where
  "runtime_of custom = map (\<lambda>(tag, v). (tag, the (va_Validate v))) custom"

definition registry_ok :: "registry \<Rightarrow> bool" where
  "registry_ok st \<longleftrightarrow>
     distinct (map fst (customValidations st)) \<and> list_all both_halves (customValidations st) \<and>
     (builtValidator st \<noteq> None \<longleftrightarrow> validatorBuilt st \<and> validateErr st = None) \<and>
     (\<forall>v. builtValidator st = Some v \<longrightarrow> mset v = mset (runtime_of (customValidations st)))"

text \<open>Iterating a map visits each entry once, in some order.\<close>

definition iterates :: "validator_lib \<Rightarrow> bool" where
  "iterates lib \<longleftrightarrow> (\<forall>m. mset (vl_iterate lib m) = mset m)"


subsection \<open>Facts\<close>

lemma lookup_both_halves:
  "list_all both_halves m \<Longrightarrow> map_of m tag = Some v \<Longrightarrow> \<exists>f s. va_Validate v = Some f \<and> va_Schema v = Some s"
  by (drule map_of_SomeD) (auto simp: both_halves_def list_all_iff)

lemma register_all_spec:
  "register_all lib m built = Inr v \<Longrightarrow> list_all both_halves m \<Longrightarrow> v = built @ runtime_of m"
  by (induction lib m built rule: register_all.induct) (auto simp: runtime_of_def both_halves_def split: option.splits)

lemma register_all_total:
  "(\<exists>v. register_all lib m built = Inr v) \<longleftrightarrow> (\<forall>tag\<in>fst ` set m. vl_refuses lib tag = None)"
  by (induction lib m built rule: register_all.induct) (auto split: option.splits)

lemma iterated:
  assumes "iterates lib"
  shows "set (vl_iterate lib m) = set m" and "distinct (map fst (vl_iterate lib m)) \<longleftrightarrow> distinct (map fst m)"
    and "mset (runtime_of (vl_iterate lib m)) = mset (runtime_of m)"
proof -
  have m: "mset (vl_iterate lib m) = mset m" using assms by (simp add: iterates_def)
  then show "set (vl_iterate lib m) = set m" by (rule mset_eq_setD)
  show "distinct (map fst (vl_iterate lib m)) \<longleftrightarrow> distinct (map fst m)" using m by (metis mset_map mset_eq_imp_distinct_iff)
  show "mset (runtime_of (vl_iterate lib m)) = mset (runtime_of m)" using m by (simp add: runtime_of_def)
qed

lemma newValidator_runs:
  "iterates lib \<Longrightarrow> newValidator lib m = Inr v \<Longrightarrow> list_all both_halves m \<Longrightarrow> mset v = mset (runtime_of m)"
  using register_all_spec [of lib "vl_iterate lib m" "[]" v] iterated [of lib m] by (simp add: newValidator_def list_all_iff)

text \<open>Whether the validator can be built does not depend on the order of iteration.\<close>

lemma newValidator_total:
  "iterates lib \<Longrightarrow> (\<exists>v. newValidator lib m = Inr v) \<longleftrightarrow> (\<forall>tag\<in>fst ` set m. vl_refuses lib tag = None)"
  by (simp add: newValidator_def register_all_total iterated)

lemma registry_ok_Register: "registry_ok st \<Longrightarrow> registry_ok (snd (RegisterValidation tag v st))"
  by (auto simp: RegisterValidation_def registry_ok_def both_halves_def map_of_eq_None_iff)

lemma registry_ok_Init: "iterates lib \<Longrightarrow> registry_ok st \<Longrightarrow> registry_ok (snd (InitValidator lib st))"
  by (auto simp: InitValidator_def registry_ok_def newValidator_runs split: sum.splits)

lemma InitValidator_frame [simp]: "customValidations (snd (InitValidator lib st)) = customValidations st"
  by (simp add: InitValidator_def split: sum.splits)

lemma validatorInstance_state:
  "snd (validatorInstance lib st) = (if builtValidator st = None then snd (InitValidator lib st) else st)"
  by (auto simp: validatorInstance_def split: option.splits prod.splits)

lemma registry_ok_step: "registry_step lib st st' \<Longrightarrow> iterates lib \<Longrightarrow> registry_ok st \<Longrightarrow> registry_ok st'"
  by (induction rule: registry_step.induct) (simp_all add: registry_ok_Register registry_ok_Init validatorInstance_state)

lemma registry_frozen_step:
  "registry_step lib st st' \<Longrightarrow> validatorBuilt st \<Longrightarrow> builtValidator st = Some v \<Longrightarrow> st' = st"
  by (induction rule: registry_step.induct) (auto simp: RegisterValidation_def InitValidator_def validatorInstance_state)

lemma registry_ok_reaches:
  "registry_reaches lib st st' \<Longrightarrow> iterates lib \<Longrightarrow> registry_ok st \<Longrightarrow> registry_ok st'"
  unfolding registry_reaches_def by (induction rule: rtranclp_induct) (auto intro: registry_ok_step)

lemma registry_frozen:
  "registry_reaches lib st st' \<Longrightarrow> validatorBuilt st \<Longrightarrow> builtValidator st = Some v \<Longrightarrow> st' = st"
  unfolding registry_reaches_def by (induction rule: rtranclp_induct) (auto dest: registry_frozen_step)

text \<open>A registration is never taken back.\<close>

lemma registered_step: "registry_step lib st st' \<Longrightarrow> map_of (customValidations st) tag = Some v \<Longrightarrow> map_of (customValidations st') tag = Some v"
  by (induction rule: registry_step.induct) (auto simp: RegisterValidation_def validatorInstance_state)

lemma registered_reaches:
  "registry_reaches lib st st' \<Longrightarrow> map_of (customValidations st) tag = Some v \<Longrightarrow> map_of (customValidations st') tag = Some v"
  unfolding registry_reaches_def by (induction rule: rtranclp_induct) (auto dest: registered_step)

lemma register_builtins_all:
  "distinct (map fst xs) \<Longrightarrow> list_all (\<lambda>e. both_halves e \<and> trim_space (fst e) \<noteq> [] \<and> map_of (customValidations st) (fst e) = None) xs \<Longrightarrow>
     \<not> validatorBuilt st \<Longrightarrow>
     register_builtins xs st = Some (st\<lparr>customValidations := rev xs @ customValidations st\<rparr>)"
proof (induction xs arbitrary: st)
  case (Cons e xs)
  obtain tag v where e: "e = (tag, v)" by (cases e)
  let ?st = "st\<lparr>customValidations := (tag, v) # customValidations st\<rparr>"
  have "RegisterValidation tag v st = (None, ?st)" using Cons.prems by (auto simp: RegisterValidation_def e both_halves_def)
  moreover have "list_all (\<lambda>e. both_halves e \<and> trim_space (fst e) \<noteq> [] \<and> map_of (customValidations ?st) (fst e) = None) xs"
    using Cons.prems by (auto simp: list_all_iff e image_iff)
  ultimately show ?case using Cons.IH [of ?st] Cons.prems by (simp add: e)
qed simp

lemma builtins_well_formed:
  "distinct (map fst (builtins lib))" "list_all (\<lambda>e. both_halves e \<and> trim_space (fst e) \<noteq> []) (builtins lib)"
proof -
  have "trim_space s \<noteq> []" if "s \<in> {''email_or_e164'', ''pg_numeric_gt'', ''pg_numeric_gte'', ''pg_numeric_lte''}" for s
    using that by (auto simp: trim_space_visible visible_def)
  then show "list_all (\<lambda>e. both_halves e \<and> trim_space (fst e) \<noteq> []) (builtins lib)" by (simp add: builtins_def both_halves_def)
qed (simp add: builtins_def)

text \<open>The package initialisation does not panic, whatever the order, and registers the built-ins.\<close>

lemma validation_init_ok:
  assumes "iterates lib"
  shows "\<exists>st. validation_init lib empty_registry = Some st \<and> registry_ok st \<and> \<not> validatorBuilt st \<and>
     map_of (customValidations st) = map_of (builtins lib)"
proof -
  let ?xs = "vl_iterate lib (builtins lib)"
  have d: "distinct (map fst ?xs)" using iterated(2) [OF assms] builtins_well_formed(1) by blast
  have xs: "list_all (\<lambda>e. both_halves e \<and> trim_space (fst e) \<noteq> [] \<and> map_of (customValidations empty_registry) (fst e) = None) ?xs"
    using builtins_well_formed(2) by (simp add: list_all_iff iterated(1) [OF assms] empty_registry_def)
  have "validation_init lib empty_registry = Some (empty_registry\<lparr>customValidations := rev ?xs @ customValidations empty_registry\<rparr>)"
    unfolding validation_init_def by (rule register_builtins_all [OF d xs]) (simp add: empty_registry_def)
  moreover have "map_of (rev ?xs) = map_of (builtins lib)"
    using d builtins_well_formed(1) by (subst map_of_inject_set) (simp_all add: rev_map [symmetric] iterated(1) [OF assms])
  ultimately show ?thesis using d xs
    by (auto simp: registry_ok_def empty_registry_def rev_map [symmetric] list_all_iff intro!: exI)
qed

lemma custom_mappings_lookup:
  "registry_ok st \<Longrightarrow> map_of (custom_mappings st) tag = Option.bind (lookupCustomValidation tag st) va_Schema"
proof -
  have "map_of (List.map_filter (\<lambda>(tag, v). map_option (Pair tag) (va_Schema v)) m) tag = Option.bind (map_of m tag) va_Schema"
    if "list_all both_halves m" for m :: "(string \<times> Validation) list"
    using that by (induction m) (auto simp: List.map_filter_simps both_halves_def split: option.splits)
  then show "registry_ok st \<Longrightarrow> ?thesis" by (simp add: registry_ok_def custom_mappings_def lookupCustomValidation_def)
qed

lemma custom_token_mapped:
  assumes "map_of (tg_custom env) tag = Some m"
  shows "applyValidateToken env target tag param label \<noteq> None"
proof -
  have last: "(case map_of (tg_custom env) tag of Some f \<Rightarrow> (case f target param of (s, note) \<Rightarrow> Some (s, [], note)) | None \<Rightarrow> None) \<noteq> (None :: token_result option)"
    using assms by (simp split: prod.splits)
  have splits: "x \<noteq> None \<Longrightarrow> y \<noteq> None \<Longrightarrow> (if b then x else y) \<noteq> None"
    "x \<noteq> None \<Longrightarrow> (\<And>k. f k \<noteq> None) \<Longrightarrow> (case opt of None \<Rightarrow> x | Some k \<Rightarrow> f k) \<noteq> None"
    "(\<And>c d. g c d \<noteq> None) \<Longrightarrow> (case pr of (c, d) \<Rightarrow> g c d) \<noteq> None"
    for x y :: "token_result option" and b and opt :: "'a option" and f and pr :: "'b \<times> 'c" and g
    by (cases opt; cases pr; simp)+
  show ?thesis
    unfolding applyValidateToken_def by (intro last splits option.distinct(2))
qed

lemma runtime_tags: "mset v = mset (runtime_of m) \<Longrightarrow> fst ` set v = fst ` set m"
  by (drule mset_eq_setD) (force simp: runtime_of_def)

lemma runtime_lookup:
  assumes "mset v = mset (runtime_of m)" and "distinct (map fst m)" and "list_all both_halves m"
  shows "map_of v tag = Option.bind (map_of m tag) va_Validate"
proof -
  have fst: "map fst (runtime_of m) = map fst m" by (simp add: runtime_of_def comp_def split_def)
  then have "distinct (map fst v)" using assms(1,2) by (metis mset_map mset_eq_imp_distinct_iff)
  then have "map_of v = map_of (runtime_of m)"
    using assms(1,2) fst by (subst map_of_inject_set) (simp_all add: mset_eq_setD [OF assms(1)])
  moreover have "map_of (runtime_of m) tag = Option.bind (map_of m tag) va_Validate"
    using assms(3) by (induction m) (auto simp: runtime_of_def both_halves_def)
  ultimately show ?thesis by simp
qed


subsection \<open>Properties\<close>

text \<open>
  C15. No validator runs undocumented, and none comes late. Whatever is registered, initialised and read in
  whatever order after the package is initialised: once the validator is published, the tokens it runs are
  exactly the registered ones, each with the function it was registered with, each has a schema mapping,
  so the schema derivation never reports it as unmapped, and the built-in tokens are among them. From then
  on the registry is frozen: no call changes the registrations or the validator, and every further
  registration is refused.
\<close>

theorem validators_documented:
  assumes "iterates lib" and "validation_init lib empty_registry = Some st0" and "registry_reaches lib st0 st"
    and "builtValidator st = Some v" and "tg_custom env = custom_mappings st"
  shows "map_of v tag = Option.bind (lookupCustomValidation tag st) va_Validate \<and>
    (map_of v tag \<noteq> None \<longrightarrow> applyValidateToken env target tag param label \<noteq> None) \<and>
    (map_of (builtins lib) tag = Some b \<longrightarrow> map_of v tag = va_Validate b) \<and>
    (registry_reaches lib st st' \<longrightarrow> st' = st) \<and> fst (RegisterValidation tag new st) \<noteq> None"
proof -
  have ok0: "registry_ok st0" "map_of (customValidations st0) = map_of (builtins lib)"
    using validation_init_ok [OF assms(1)] assms(2) by auto
  have ok: "registry_ok st" by (rule registry_ok_reaches [OF assms(3,1) ok0(1)])
  then have built: "validatorBuilt st" "mset v = mset (runtime_of (customValidations st))" using assms(4) by (auto simp: registry_ok_def)
  have run: "map_of v tag = Option.bind (lookupCustomValidation tag st) va_Validate"
    using runtime_lookup [OF built(2)] ok by (simp add: registry_ok_def lookupCustomValidation_def)
  have "applyValidateToken env target tag param label \<noteq> None" if some: "map_of v tag \<noteq> None"
  proof -
    obtain val where val: "map_of (customValidations st) tag = Some val"
      using some run by (cases "lookupCustomValidation tag st") (auto simp: lookupCustomValidation_def)
    moreover have "list_all both_halves (customValidations st)" using ok by (simp add: registry_ok_def)
    ultimately obtain m where "va_Schema val = Some m" using lookup_both_halves by blast
    then have "map_of (tg_custom env) tag = Some m"
      using custom_mappings_lookup [OF ok] val by (simp add: assms(5) lookupCustomValidation_def)
    then show ?thesis by (rule custom_token_mapped)
  qed
  moreover have "map_of v tag = va_Validate b" if "map_of (builtins lib) tag = Some b"
    using registered_reaches [OF assms(3)] ok0(2) that run by (simp add: lookupCustomValidation_def)
  moreover have "registry_reaches lib st st' \<longrightarrow> st' = st" using registry_frozen [OF _ built(1) assms(4)] by blast
  moreover have "fst (RegisterValidation tag new st) \<noteq> None" using built(1) by (simp add: RegisterValidation_def)
  ultimately show ?thesis using run by blast
qed

definition demo_lib :: validator_lib where
  "demo_lib = \<lparr>vl_refuses = (\<lambda>_. None), vl_iterate = rev, vl_Var = (\<lambda>s t. t = ''email'' \<and> CHR ''@'' \<in> set s), vl_text = (\<lambda>_. []),
     vl_Float64Value = (\<lambda>v. Some (get_field v 1, True)), vl_ParseFloat = (\<lambda>s. map_option VInt (parse_int 64 s)),
     vl_less = (\<lambda>a b. case (a, b) of (VInt x, VInt y) \<Rightarrow> x < y | _ \<Rightarrow> False),
     vl_less_eq = (\<lambda>a b. case (a, b) of (VInt x, VInt y) \<Rightarrow> x \<le> y | _ \<Rightarrow> False)\<rparr>"

definition demo_slug_token :: Validation where
  "demo_slug_token = \<lparr>va_Validate = Some (\<lambda>v p. v \<noteq> VString []), va_Schema = Some (Pattern ''^[a-z]+$'')\<rparr>"

definition demo_tag_env :: "registry \<Rightarrow> tag_env" where
  "demo_tag_env st = \<lparr>tg_ParseFloat = (\<lambda>_. None), tg_quote = (\<lambda>s. s), tg_custom = custom_mappings st\<rparr>"

lemma demo_iterates: "iterates demo_lib"
  by (simp add: iterates_def demo_lib_def)

text \<open>A program that registers a token of its own and then builds the validator.\<close>

definition demo_registry :: registry where
  "demo_registry = snd (InitValidator demo_lib (snd (RegisterValidation ''slug'' demo_slug_token (the (validation_init demo_lib empty_registry)))))"

lemma demo_registry_runs:
  "validation_init demo_lib empty_registry = Some (the (validation_init demo_lib empty_registry))"
  "\<exists>v f. builtValidator demo_registry = Some v \<and> map_of v ''slug'' = Some f"
proof -
  have "validation_init demo_lib empty_registry \<noteq> None" using validation_init_ok [OF demo_iterates] by auto
  then show "validation_init demo_lib empty_registry = Some (the (validation_init demo_lib empty_registry))" by auto
  have "case builtValidator demo_registry of None \<Rightarrow> False | Some v \<Rightarrow> map fst v = map fst v \<and> (case map_of v ''slug'' of None \<Rightarrow> False | Some f \<Rightarrow> True)"
    by code_simp
  then show "\<exists>v f. builtValidator demo_registry = Some v \<and> map_of v ''slug'' = Some f" by (auto split: option.splits)
qed

lemma demo_registry_reached: "registry_reaches demo_lib (the (validation_init demo_lib empty_registry)) demo_registry"
  unfolding registry_reaches_def demo_registry_def
  by (rule rtranclp.rtrancl_into_rtrancl [OF r_into_rtranclp]) (rule registry_step.intros)+

theorem validators_documented_witness:
  "applyValidateToken (demo_tag_env demo_registry) (typed ''string'') ''slug'' [] [] \<noteq> None \<and>
   fst (RegisterValidation ''late'' demo_slug_token demo_registry) \<noteq> None"
proof -
  obtain v f where "builtValidator demo_registry = Some v" "map_of v ''slug'' = Some f" using demo_registry_runs(2) by blast
  with validators_documented [OF demo_iterates demo_registry_runs(1) demo_registry_reached, where v = v and tag = "''slug''"
      and env = "demo_tag_env demo_registry" and target = "typed ''string''" and param = "[]" and label = "[]"]
    validators_documented [OF demo_iterates demo_registry_runs(1) demo_registry_reached, where v = v and tag = "''late''"
      and env = "demo_tag_env demo_registry" and new = demo_slug_token]
  show ?thesis by (simp add: demo_tag_env_def)
qed

text \<open>Whether a number satisfies the bounds a schema states.\<close>

definition admits :: "validator_lib \<Rightarrow> schema_kw \<Rightarrow> gval \<Rightarrow> bool" where
  "admits lib k f \<longleftrightarrow>
     (case k_Minimum k of None \<Rightarrow> True | Some b \<Rightarrow> vl_less_eq lib b f) \<and>
     (case k_ExclusiveMinimum k of None \<Rightarrow> True | Some b \<Rightarrow> vl_less lib b f) \<and>
     (case k_Maximum k of None \<Rightarrow> True | Some b \<Rightarrow> vl_less_eq lib f b) \<and>
     (case k_ExclusiveMaximum k of None \<Rightarrow> True | Some b \<Rightarrow> vl_less lib f b)"

definition numeric_tokens :: "(string \<times> boundKind) list" where
  "numeric_tokens = [(''pg_numeric_gt'', boundGreaterThan), (''pg_numeric_gte'', boundAtLeast), (''pg_numeric_lte'', boundAtMost)]"

text \<open>\<open>strconv.ParseFloat\<close> accepts no white space around a number.\<close>

definition parses_trimmed :: "validator_lib \<Rightarrow> bool" where
  "parses_trimmed lib \<longleftrightarrow> (\<forall>s f. vl_ParseFloat lib s = Some f \<longrightarrow> s \<noteq> [] \<and> trim_space s = s)"

text \<open>
  C30. What a money field's token enforces is what the document says of it. For each of the three
  \<open>pg_numeric\<close> tokens with a bound that is a number: the mapping turns it into schema keywords without prose,
  and the runtime validator accepts a present number exactly if it still satisfies the schema's bounds; an
  absent amount is always accepted. A bound that is no number leaves the schema as it was and is described
  in prose.
\<close>

theorem numeric_tokens_documented:
  assumes "parses_trimmed lib" and "map_of numeric_tokens tag = Some kind" and "map_of (builtins lib) tag = Some b"
    and "va_Validate b = Some validate" and "va_Schema b = Some mapping"
    and "extractPGNumeric field = Some n" and "vl_Float64Value lib n = Some (f, True)"
    and "schemaIsNumeric target" and "admits lib (sc_kw target) f"
    and "k_Minimum (sc_kw target) = None" and "k_Maximum (sc_kw target) = None" and "k_ExclusiveMinimum (sc_kw target) = None"
  shows "(case vl_ParseFloat lib param of
            Some bound \<Rightarrow> snd (mapping target param) = [] \<and>
              (validate field param \<longleftrightarrow> \<not> numeric_valid n \<or> admits lib (sc_kw (fst (mapping target param))) f)
          | None \<Rightarrow> mapping target param = (target, phrase kind @ param)) \<and>
    (\<not> numeric_valid n \<longrightarrow> validate field param)"
proof -
  have tag: "(tag, kind) \<in> set numeric_tokens" by (rule map_of_SomeD [OF assms(2)])
  then have m: "mapping = customNumericBound (vl_ParseFloat lib) kind"
    and v: "validate = (case kind of boundGreaterThan \<Rightarrow> pgNumericGT lib | boundAtLeast \<Rightarrow> pgNumericGTE lib | _ \<Rightarrow> pgNumericLTE lib)"
    using assms(3-5) by (auto simp: numeric_tokens_def builtins_def)
  have kind: "kind \<noteq> boundLessThan" using tag by (auto simp: numeric_tokens_def)
  show ?thesis
  proof (cases "vl_ParseFloat lib param")
    case None
    then show ?thesis using assms(6-8) kind
      by (cases kind) (simp_all add: m v customNumericBound_def pgNumericGT_def pgNumericGTE_def pgNumericLTE_def comparePGNumeric_def)
  next
    case (Some bound)
    then have "param \<noteq> []" "trim_space param = param" using assms(1) by (auto simp: parses_trimmed_def)
    then show ?thesis using Some assms(6-) kind
      by (cases kind) (auto simp: m v customNumericBound_def pgNumericGT_def pgNumericGTE_def pgNumericLTE_def comparePGNumeric_def admits_def)
  qed
qed

definition demo_amount :: "int \<Rightarrow> gval" where
  "demo_amount n = VStruct ''pgtype.Numeric'' [VPtr None, VInt n, VBool False, VInt 0, VBool True]"

lemma demo_parses_trimmed: "parses_trimmed demo_lib"
proof -
  have "s \<noteq> [] \<and> trim_space s = s" if "parse_int 64 s = Some i" for s i
  proof -
    have digits: "s \<noteq> []" "list_all (\<lambda>c. is_digit c \<or> c = CHR ''-'' \<or> c = CHR ''+'') s"
      using that by (auto simp: parse_int_def Let_def list_all_iff split: list.splits if_splits)
    have "visible c" if "c \<in> set s" for c
      using that digits(2) digit_visible by (auto simp: list_all_iff visible_def)
    then have "visible (hd s)" "visible (last s)" using digits(1) by simp_all
    then show ?thesis using digits(1) by (simp add: trim_space_visible)
  qed
  then show ?thesis by (auto simp: parses_trimmed_def demo_lib_def)
qed

lemma demo_zero: "vl_ParseFloat demo_lib ''0'' = Some (VInt 0)"
  by code_simp

lemma demo_numbers:
  "extractPGNumeric (demo_amount i) = Some (demo_amount i)" "numeric_valid (demo_amount i)"
  "vl_Float64Value demo_lib (demo_amount i) = Some (VInt i, True)"
  by (simp_all add: extractPGNumeric_def as_numeric_def demo_amount_def numeric_valid_def demo_lib_def)

theorem numeric_tokens_documented_witness:
  "pgNumericGT demo_lib (demo_amount 5) ''0'' \<and> \<not> pgNumericGT demo_lib (demo_amount 0) ''0''"
proof -
  have "pgNumericGT demo_lib (demo_amount i) ''0'' \<longleftrightarrow> 0 < i" for i
    using numeric_tokens_documented [OF demo_parses_trimmed, where tag = "''pg_numeric_gt''" and validate = "pgNumericGT demo_lib"
        and field = "demo_amount i" and param = "''0''" and target = "typed ''number''" and f = "VInt i"]
    by (simp add: demo_numbers demo_zero numeric_tokens_def builtins_def customNumericBound_def schemaIsNumeric_def hasType_def
        typed_def leaf_def no_keywords_def admits_def)
      (simp add: demo_lib_def)
  then show ?thesis by simp
qed

text \<open>The mappings of the built-in tokens add no reference to a schema.\<close>

lemma builtin_mappings_closed:
  assumes "map_of (customValidations st) = map_of (builtins lib)" and "distinct (map fst (customValidations st))"
  shows "closed_mappings (custom_mappings st)"
proof -
  have "set (schema_refs (fst (f s p))) \<subseteq> set (schema_refs s)" if "(tag, b) \<in> set (builtins lib)" "va_Schema b = Some f" for tag b f s p
  proof -
    have self: "within (set (schema_refs s)) s" by (simp add: within_def)
    have "within (set (schema_refs s)) x" if "x \<in> set (sc_AnyOf s)" for x using within_parts(3) [OF self that] .
    with self have "within (set (schema_refs s)) (fst (f s p))"
      using that by (auto simp: builtins_def email_or_e164_mapping_def customNumericBound_def no_keywords_def
          intro!: within_set_parts split: option.splits)
    then show ?thesis by (simp add: within_def)
  qed
  moreover have "set (customValidations st) = set (builtins lib)"
    using assms builtins_well_formed(1) map_of_inject_set by blast
  ultimately show ?thesis by (force simp: closed_mappings_def custom_mappings_def List.map_filter_def)
qed

end
