(* ===== verification/Slog.thy ===== *)
theory Slog
  imports Http Go_Errors
begin

text \<open>
  \<^verbatim>\<open>pkg/slogx\<close>: attributes that travel in a context (\<^verbatim>\<open>context_handler.go\<close>) and the handler that splits
  records by level (\<^verbatim>\<open>split_handler.go\<close>). A handler at the bottom, which belongs to the standard library or a
  third party, is a value \<open>'h\<close> with its operations in \<open>leaf_ops\<close>. The attributes of a context are a Go slice,
  so they live in a backing array that contexts may share.
\<close>

subsection \<open>Slices\<close>

text \<open>A slice of attributes: its backing array, an index into the heap, and how much of it is used.\<close>

type_synonym attr = "string \<times> string"

type_synonym arrays = "attr list list"

record slice =
  sl_array :: nat
  sl_len :: nat

definition slice_cap :: "arrays \<Rightarrow> slice \<Rightarrow> nat" where
  "slice_cap hp s = length (hp ! sl_array s)"

definition slice_read :: "arrays \<Rightarrow> slice \<Rightarrow> attr list" where
  "slice_read hp s = take (sl_len s) (hp ! sl_array s)"

text \<open>
  \<open>append(s, xs...)\<close> writes in place while the capacity lasts and otherwise moves to a new array. How much
  room the new array has beyond what is needed, \<open>spare\<close>, is up to the runtime.
\<close>

definition go_append :: "(nat \<Rightarrow> nat) \<Rightarrow> slice \<Rightarrow> attr list \<Rightarrow> arrays \<Rightarrow> slice \<times> arrays" where
  "go_append spare s xs hp =
     (let need = sl_len s + length xs in
      if need \<le> slice_cap hp s then
        (s\<lparr>sl_len := need\<rparr>, hp[sl_array s := slice_read hp s @ xs @ drop need (hp ! sl_array s)])
      else (\<lparr>sl_array = length hp, sl_len = need\<rparr>, hp @ [slice_read hp s @ xs @ replicate (spare need) ([], [])]))"

definition wf_slice :: "arrays \<Rightarrow> slice \<Rightarrow> bool" where
  "wf_slice hp s \<longleftrightarrow> sl_array s < length hp \<and> sl_len s \<le> slice_cap hp s"


subsection \<open>Attributes in a context\<close>

text \<open>The value under \<open>SlogFields\<close>; a nil context is \<open>None\<close>.\<close>

record log_ctx =
  lc_fields :: "slice option"

definition Background :: log_ctx where
  "Background = \<lparr>lc_fields = None\<rparr>"

definition AppendCtx :: "(nat \<Rightarrow> nat) \<Rightarrow> log_ctx option \<Rightarrow> attr list \<Rightarrow> arrays \<Rightarrow> log_ctx \<times> arrays" where
  "AppendCtx spare parent attrs hp =
     (let ctx = (case parent of None \<Rightarrow> Background | Some c \<Rightarrow> c) in
      if attrs = [] then (ctx, hp)
      else case (case lc_fields ctx of
              Some existing \<Rightarrow> go_append spare existing attrs hp
            | None \<Rightarrow> go_append spare \<lparr>sl_array = length hp, sl_len = 0\<rparr> attrs (hp @ [[]])) of
        (v, hp') \<Rightarrow> (ctx\<lparr>lc_fields := Some v\<rparr>, hp'))"

definition ctx_attrs :: "arrays \<Rightarrow> log_ctx \<Rightarrow> attr list" where
  "ctx_attrs hp ctx = (case lc_fields ctx of None \<Rightarrow> [] | Some s \<Rightarrow> slice_read hp s)"

definition wf_ctx :: "arrays \<Rightarrow> log_ctx \<Rightarrow> bool" where
  "wf_ctx hp ctx \<longleftrightarrow> (case lc_fields ctx of None \<Rightarrow> True | Some s \<Rightarrow> wf_slice hp s)"


subsection \<open>Handlers\<close>

record log_record =
  lr_level :: int
  lr_message :: string
  lr_attrs :: "attr list"

record 'h leaf_ops =
  lo_Enabled :: "'h \<Rightarrow> int \<Rightarrow> bool"
  lo_Handle :: "'h \<Rightarrow> log_record \<Rightarrow> go_error option"
  lo_WithAttrs :: "'h \<Rightarrow> attr list \<Rightarrow> 'h"
  lo_WithGroup :: "'h \<Rightarrow> string \<Rightarrow> 'h"

datatype 'h slog_handler =
    Leaf 'h
  | SplitLevelHandler "'h slog_handler" "'h slog_handler" int
  | ContextHandler "'h slog_handler"

definition NewSplitLevelHandler :: "'h slog_handler \<Rightarrow> 'h slog_handler \<Rightarrow> int \<Rightarrow> 'h slog_handler" where
  "NewSplitLevelHandler low high threshold = SplitLevelHandler low high threshold"

definition handlerFor :: "'a \<Rightarrow> 'a \<Rightarrow> int \<Rightarrow> int \<Rightarrow> 'a" where
  "handlerFor low high threshold level = (if level \<ge> threshold then high else low)"

text \<open>
  \<open>ContextHandler\<close> embeds the handler below it and declares \<open>Handle\<close> only: its other methods are those of
  the embedded handler.
\<close>

primrec Enabled :: "'h leaf_ops \<Rightarrow> 'h slog_handler \<Rightarrow> int \<Rightarrow> bool" where
  "Enabled ops (Leaf h) level = lo_Enabled ops h level"
| "Enabled ops (SplitLevelHandler low high t) level = handlerFor (Enabled ops low) (Enabled ops high) t level level"
| "Enabled ops (ContextHandler h) level = Enabled ops h level"

text \<open>What is written where, and the error.\<close>

primrec Handle :: "'h leaf_ops \<Rightarrow> attr list \<Rightarrow> 'h slog_handler \<Rightarrow> log_record \<Rightarrow> ('h \<times> log_record) list \<times> go_error option" where
  "Handle ops extra (Leaf h) r = ([(h, r)], lo_Handle ops h r)"
| "Handle ops extra (SplitLevelHandler low high t) r =
     handlerFor (Handle ops extra low) (Handle ops extra high) t (lr_level r) r"
| "Handle ops extra (ContextHandler h) r = Handle ops extra h (r\<lparr>lr_attrs := lr_attrs r @ extra\<rparr>)"

primrec WithAttrs :: "'h leaf_ops \<Rightarrow> attr list \<Rightarrow> 'h slog_handler \<Rightarrow> 'h slog_handler" where
  "WithAttrs ops attrs (Leaf h) = Leaf (lo_WithAttrs ops h attrs)"
| "WithAttrs ops attrs (SplitLevelHandler low high t) = SplitLevelHandler (WithAttrs ops attrs low) (WithAttrs ops attrs high) t"
| "WithAttrs ops attrs (ContextHandler h) = WithAttrs ops attrs h"

primrec WithGroup :: "'h leaf_ops \<Rightarrow> string \<Rightarrow> 'h slog_handler \<Rightarrow> 'h slog_handler" where
  "WithGroup ops name (Leaf h) = Leaf (lo_WithGroup ops h name)"
| "WithGroup ops name (SplitLevelHandler low high t) = SplitLevelHandler (WithGroup ops name low) (WithGroup ops name high) t"
| "WithGroup ops name (ContextHandler h) = WithGroup ops name h"

text \<open>
  \<open>Logger.LogAttrs\<close>: a record of a level that is not enabled is dropped, and the handler's error is ignored.
\<close>

definition LogAttrs ::
  "'h leaf_ops \<Rightarrow> 'h slog_handler \<Rightarrow> arrays \<Rightarrow> log_ctx \<Rightarrow> int \<Rightarrow> string \<Rightarrow> attr list \<Rightarrow> ('h \<times> log_record) list" where
  "LogAttrs ops h hp ctx level msg attrs =
     (if Enabled ops h level
      then fst (Handle ops (ctx_attrs hp ctx) h \<lparr>lr_level = level, lr_message = msg, lr_attrs = attrs\<rparr>)
      else [])"

definition LevelDebug :: int where "LevelDebug = -4"
definition LevelInfo :: int where "LevelInfo = 0"

text \<open>The handler of \<^verbatim>\<open>cmd/api/main.go\<close>: \<open>LevelError\<close> is 8.\<close>

definition main_handler :: "'h \<Rightarrow> 'h \<Rightarrow> 'h \<Rightarrow> bool \<Rightarrow> 'h slog_handler" where
  "main_handler stdout stderr tinted production =
     (if production then ContextHandler (NewSplitLevelHandler (Leaf stdout) (Leaf stderr) 8)
      else ContextHandler (Leaf tinted))"


subsection \<open>Facts\<close>

lemma go_append_reads:
  assumes "wf_slice hp s" and "go_append spare s xs hp = (s', hp')"
  shows "slice_read hp' s' = slice_read hp s @ xs" and "wf_slice hp' s'" and "slice_read hp' s = slice_read hp s"
    and "length hp \<le> length hp'"
  using assms
  by (cases xs; auto simp: go_append_def Let_def wf_slice_def slice_read_def slice_cap_def nth_append min_def split: if_splits)+

lemma go_append_other:
  assumes "go_append spare s xs hp = (s', hp')" and "sl_array t < length hp"
    and "sl_array t \<noteq> sl_array s \<or> sl_len t \<le> sl_len s" and "wf_slice hp s"
  shows "slice_read hp' t = slice_read hp t"
  using assms
  by (auto simp: go_append_def Let_def wf_slice_def slice_read_def slice_cap_def nth_append min_def nth_list_update take_append split: if_splits)

lemma AppendCtx_extends:
  assumes "wf_ctx hp ctx" and "AppendCtx spare (Some ctx) attrs hp = (ctx', hp')"
  shows "ctx_attrs hp' ctx' = ctx_attrs hp ctx @ attrs" and "wf_ctx hp' ctx'" and "ctx_attrs hp' ctx = ctx_attrs hp ctx"
proof -
  have "ctx_attrs hp' ctx' = ctx_attrs hp ctx @ attrs \<and> wf_ctx hp' ctx' \<and> ctx_attrs hp' ctx = ctx_attrs hp ctx"
  proof (cases "attrs = []")
    case True
    with assms show ?thesis by (simp add: AppendCtx_def)
  next
    case False
    show ?thesis
    proof (cases "lc_fields ctx")
      case None
      have "wf_slice (hp @ [[]]) \<lparr>sl_array = length hp, sl_len = 0\<rparr>" by (simp add: wf_slice_def slice_cap_def)
      from go_append_reads [OF this] show ?thesis
        using False None assms(2)
        by (auto simp: AppendCtx_def Let_def ctx_attrs_def wf_ctx_def slice_read_def [of "hp @ [[]]"] split: prod.splits)
    next
      case (Some s)
      with assms(1) have "wf_slice hp s" by (simp add: wf_ctx_def)
      from go_append_reads [OF this] show ?thesis
        using False Some assms(2) by (auto simp: AppendCtx_def Let_def ctx_attrs_def wf_ctx_def split: prod.splits)
    qed
  qed
  then show "ctx_attrs hp' ctx' = ctx_attrs hp ctx @ attrs" "wf_ctx hp' ctx'" "ctx_attrs hp' ctx = ctx_attrs hp ctx" by simp_all
qed

text \<open>
  Contexts derived one from the other never disturb each other, but two that are derived from the same
  parent share its backing array while it has room: the later one overwrites what the earlier one added.
\<close>

lemma AppendCtx_siblings_clobber:
  assumes "wf_ctx hp ctx" and "lc_fields ctx = Some s" and "sl_len s + length as \<le> slice_cap hp s" and "length bs = length as"
    and "AppendCtx spare (Some ctx) as hp = (c1, hp1)" and "AppendCtx spare (Some ctx) bs hp1 = (c2, hp2)"
  shows "ctx_attrs hp1 c1 = ctx_attrs hp ctx @ as" and "ctx_attrs hp2 c1 = ctx_attrs hp ctx @ bs"
proof -
  show "ctx_attrs hp1 c1 = ctx_attrs hp ctx @ as" by (rule AppendCtx_extends(1) [OF assms(1,5)])
  show "ctx_attrs hp2 c1 = ctx_attrs hp ctx @ bs"
    using assms
    by (cases as) (auto simp: AppendCtx_def Let_def go_append_def ctx_attrs_def wf_ctx_def wf_slice_def slice_read_def
        slice_cap_def min_def split: if_splits)
qed

lemma LogAttrs_Context:
  "LogAttrs ops (ContextHandler h) hp ctx level msg attrs =
     (if Enabled ops h level
      then fst (Handle ops (ctx_attrs hp ctx) h \<lparr>lr_level = level, lr_message = msg, lr_attrs = attrs @ ctx_attrs hp ctx\<rparr>)
      else [])"
  by (simp add: LogAttrs_def)

text \<open>
  A logger derived with attributes or a group no longer has the context handler around it, so its records
  lack what the context carries.
\<close>

lemma derived_logger_drops_context:
  "LogAttrs ops (WithAttrs ops attrs (ContextHandler (Leaf h))) hp ctx level msg new =
     (if lo_Enabled ops (lo_WithAttrs ops h attrs) level
      then [(lo_WithAttrs ops h attrs, \<lparr>lr_level = level, lr_message = msg, lr_attrs = new\<rparr>)] else [])"
  by (simp add: LogAttrs_def)

text \<open>A sequence of derivations of a logger.\<close>

datatype derivation = Attrs "attr list" | Group string

fun derive :: "'h leaf_ops \<Rightarrow> derivation list \<Rightarrow> 'h slog_handler \<Rightarrow> 'h slog_handler" where
  "derive ops [] h = h"
| "derive ops (Attrs as # ds) h = derive ops ds (WithAttrs ops as h)"
| "derive ops (Group n # ds) h = derive ops ds (WithGroup ops n h)"

lemma derive_Split [simp]:
  "derive ops ds (SplitLevelHandler low high t) = SplitLevelHandler (derive ops ds low) (derive ops ds high) t"
  by (induction ops ds low arbitrary: high rule: derive.induct) simp_all

text \<open>
  However the logger is derived, every record reaches one stream only: from the threshold on the high one,
  below it the low one.
\<close>

lemma split_routes:
  "LogAttrs ops (derive ops ds (NewSplitLevelHandler low high t)) hp ctx level msg attrs =
     LogAttrs ops (derive ops ds (if level \<ge> t then high else low)) hp ctx level msg attrs"
  by (simp add: NewSplitLevelHandler_def LogAttrs_def handlerFor_def)

end
