(* ===== verification/Transport.thy ===== *)
theory Transport
  imports Client_Ip Slog Response
begin

text \<open>
  What stands between the network and the router: \<^verbatim>\<open>internal/middleware\<close> and \<open>wrapTransport\<close> of
  \<^verbatim>\<open>internal/server/routes.go\<close>. Handlers can panic here. The middlewares of third parties (request ids, CORS,
  security headers, heartbeat) are parameters, and so are the handlers that log records end up in.
\<close>

subsection \<open>Handlers that may panic\<close>

record transport_ctx = client_ctx +
  tc_fields :: "slice option"
  tc_RequestID :: "string option"

record ('h, 's) world =
  wd_state :: 's
  wd_arrays :: arrays
  wd_log :: "('h \<times> log_record) list"

datatype panic = PanicValue string | ErrAbortHandler

text \<open>The panic that is passed on, if any, and what was written and done until then.\<close>

type_synonym ('h, 's) served = "panic option \<times> response_writer \<times> ('h, 's) world"

type_synonym ('h, 's, 'c) server_handler = "'c http_request \<Rightarrow> response_writer \<times> ('h, 's) world \<Rightarrow> ('h, 's) served"

type_synonym ('h, 's, 'c) middleware = "('h, 's, 'c) server_handler \<Rightarrow> ('h, 's, 'c) server_handler"

text \<open>
  The logger, and what it says of a request that the model's requests do not hold; \<open>lg_elapsed\<close> is the
  latency in milliseconds and \<open>lg_stack\<close> the stack trace of a panic.
\<close>

record ('h, 'c) log_env =
  lg_ops :: "'h leaf_ops"
  lg_handler :: "'h slog_handler"
  lg_spare :: "nat \<Rightarrow> nat"
  lg_Host :: "'c http_request \<Rightarrow> string"
  lg_RawQuery :: "'c http_request \<Rightarrow> string"
  lg_elapsed :: int
  lg_stack :: string


subsection \<open>Logger\<close>

definition log_view :: "'x transport_ctx_scheme \<Rightarrow> log_ctx" where
  "log_view ctx = \<lparr>lc_fields = tc_fields ctx\<rparr>"

definition commonAttrs :: "('h, 'x transport_ctx_scheme) log_env \<Rightarrow> 'x transport_ctx_scheme http_request \<Rightarrow> attr list" where
  "commonAttrs env r =
     [(''request-id'', case tc_RequestID (rq_ctx r) of Some i \<Rightarrow> i | None \<Rightarrow> ''unknown''),
      (''method'', rq_method r), (''path'', rq_path r), (''ip'', rq_remote r), (''host'', lg_Host env r),
      (''query'', lg_RawQuery env r), (''user-agent'', header_get (rq_header r) ''User-Agent'')]"

text \<open>
  \<open>ww.Status()\<close> and \<open>ww.BytesWritten()\<close> for a writer nothing was sent through before: 0 stands for a status that
  was never written.
\<close>

definition ww_Status :: "response_writer \<Rightarrow> int" where
  "ww_Status w = (case rw_status w of None \<Rightarrow> 0 | Some code \<Rightarrow> code)"

definition ww_BytesWritten :: "response_writer \<Rightarrow> int" where
  "ww_BytesWritten w = int (length (rw_body w))"

text \<open>The completion is logged by a deferred function, so also when the handler panics.\<close>

definition Logger :: "('h, 'x transport_ctx_scheme) log_env \<Rightarrow> ('h, 's, 'x transport_ctx_scheme) middleware" where
  "Logger env next r ws =
     (case ws of (w, wd) \<Rightarrow>
        (case AppendCtx (lg_spare env) (Some (log_view (rq_ctx r))) (commonAttrs env r) (wd_arrays wd) of
           (ctx, arrs) \<Rightarrow>
             (case next (r\<lparr>rq_ctx := (rq_ctx r)\<lparr>tc_fields := lc_fields ctx\<rparr>\<rparr>)
                     (w, wd\<lparr>wd_arrays := arrs,
                            wd_log := wd_log wd @ LogAttrs (lg_ops env) (lg_handler env) arrs ctx LevelInfo ''request started'' []\<rparr>) of
                (p, w', wd') \<Rightarrow>
                  (p, w', wd'\<lparr>wd_log := wd_log wd' @
                     LogAttrs (lg_ops env) (lg_handler env) (wd_arrays wd') ctx LevelInfo ''request completed''
                       [(''status'', itoa (ww_Status w')), (''bytes'', itoa (ww_BytesWritten w')),
                        (''latency-ms'', itoa (lg_elapsed env))]\<rparr>))))"


subsection \<open>Recovery\<close>

definition panic_attrs :: "('h, 'x transport_ctx_scheme) log_env \<Rightarrow> 'x transport_ctx_scheme http_request \<Rightarrow> string \<Rightarrow> attr list" where
  "panic_attrs env r recovered =
     [(''panic'', recovered), (''stack'', lg_stack env), (''method'', rq_method r), (''path'', rq_path r),
      (''request_id'', case tc_RequestID (rq_ctx r) of Some i \<Rightarrow> i | None \<Rightarrow> [])]"

text \<open>
  \<open>recover\<close> ends every panic; an \<open>ErrAbortHandler\<close> is ended too, but nothing is done about it. \<open>LevelError\<close> of
  \<open>slog\<close> is 8.
\<close>

definition Recovery :: "('h, 'x transport_ctx_scheme) log_env \<Rightarrow> ('h, 's, 'x transport_ctx_scheme) middleware" where
  "Recovery env next r ws =
     (case next r ws of
        (Some (PanicValue recovered), w, wd) \<Rightarrow>
          (None, httpx_Error w (Some r) (Some (EOther ''panic recovered'')),
           wd\<lparr>wd_log := wd_log wd @ LogAttrs (lg_ops env) (lg_handler env) (wd_arrays wd) (log_view (rq_ctx r)) 8
                ''panic recovered'' (panic_attrs env r recovered)\<rparr>)
      | (_, w, wd) \<Rightarrow> (None, w, wd))"


subsection \<open>The chain\<close>

record ('h, 's, 'c) transport_lib =
  tl_RequestID :: "('h, 's, 'c) middleware"
  tl_cors :: "('h, 's, 'c) middleware"
  tl_secure :: "('h, 's, 'c) middleware"
  tl_heartbeat :: "('h, 's, 'c) middleware"

definition middlewares ::
  "('h, 'x transport_ctx_scheme) log_env \<Rightarrow> ('h, 's, 'x transport_ctx_scheme) transport_lib \<Rightarrow> string list
     \<Rightarrow> ('h, 's, 'x transport_ctx_scheme) middleware list" where
  "middlewares env lib trustedProxies =
     [Middleware (NewResolver (ParsePrefixes trustedProxies)), tl_RequestID lib, Logger env, Recovery env,
      tl_cors lib, tl_secure lib, tl_heartbeat lib]"

text \<open>The loop from the last middleware to the first.\<close>

fun wrap_from :: "nat \<Rightarrow> ('h, 's, 'c) middleware list \<Rightarrow> ('h, 's, 'c) server_handler \<Rightarrow> ('h, 's, 'c) server_handler" where
  "wrap_from 0 ms handler = handler"
| "wrap_from (Suc i) ms handler = wrap_from i ms ((ms ! i) handler)"

definition wrapTransport ::
  "('h, 'x transport_ctx_scheme) log_env \<Rightarrow> ('h, 's, 'x transport_ctx_scheme) transport_lib \<Rightarrow> string list
     \<Rightarrow> ('h, 's, 'x transport_ctx_scheme) server_handler \<Rightarrow> ('h, 's, 'x transport_ctx_scheme) server_handler" where
  "wrapTransport env lib trustedProxies app =
     (let ms = middlewares env lib trustedProxies in wrap_from (length ms) ms app)"


subsection \<open>Facts\<close>

lemma wrap_from_foldr: "wrap_from (length ms) ms h = foldr (\<lambda>m f. m f) ms h"
proof -
  have "n \<le> length ms \<Longrightarrow> wrap_from n ms h = foldr (\<lambda>m f. m f) (take n ms) h" for n
    by (induction n arbitrary: h) (simp_all add: take_Suc_conv_app_nth)
  then show ?thesis by simp
qed

lemma wrapTransport_nested:
  "wrapTransport env lib proxies app =
     Middleware (NewResolver (ParsePrefixes proxies)) (tl_RequestID lib (Logger env (Recovery env
       (tl_cors lib (tl_secure lib (tl_heartbeat lib app))))))"
  unfolding wrapTransport_def Let_def wrap_from_foldr by (simp add: middlewares_def)

text \<open>
  The law of the request-id middleware: it puts an id into the context and calls the next handler, once and
  last, with the request unchanged otherwise.
\<close>

definition sets_request_id :: "('h, 's, 'x transport_ctx_scheme) middleware \<Rightarrow> bool" where
  "sets_request_id m \<longleftrightarrow> (\<exists>f. \<forall>next r. m next r = next (r\<lparr>rq_ctx := (rq_ctx r)\<lparr>tc_RequestID := Some (f r)\<rparr>\<rparr>))"

lemma errorToProblemDetails_other:
  "errorToProblemDetails (EOther m) classify = (pk_New Internal ''An unexpected error occurred'', False, problemKindInternal)"
  by (simp add: errorToProblemDetails_def as_problem_def as_validation_def classifyDatabaseError_def as_pg_def errors_is_def
      error_tree.simps [of "EOther m"])

lemma httpx_Error_other: "httpx_Error w r (Some (EOther m)) = dispatchProblem w r (EOther m) None False True"
  by (simp add: httpx_Error_def dispatchResolvedError_def as_challenge_def error_tree.simps [of "EOther m"])

lemma recovered_500: "uncommitted w \<Longrightarrow> rw_status (httpx_Error w r (Some (EOther m))) = Some 500"
  using dispatchProblem_sent [of w r "EOther m" None False True]
  by (auto simp: httpx_Error_other resolved_problem_def errorToProblemDetails_other)

lemma write_status_kept:
  "rw_status w = Some st \<Longrightarrow> rw_status (write_header code w) = Some st"
  "rw_status w = Some st \<Longrightarrow> rw_status (write_body b w) = Some st"
  by (simp_all add: write_header_def write_body_def)

lemma write_problem_committed: "rw_status w = Some st \<Longrightarrow> rw_status (write_problem p b w) = Some st"
  by (simp add: write_problem_def Let_def write_status_kept set_header_def)

lemma writeProblemDetails_committed:
  assumes "rw_status w = Some st"
  shows "rw_status (writeProblemDetails w p) = Some st"
proof -
  have cases: "(\<And>b. rw_status (f b) = Some st) \<Longrightarrow> rw_status g = Some st \<Longrightarrow> rw_status (case x of None \<Rightarrow> g | Some b \<Rightarrow> f b) = Some st"
    for f g and x :: "string option" by (cases x) simp_all
  show ?thesis unfolding writeProblemDetails_def Let_def
    by (intro cases write_problem_committed) (simp_all only: log_event_frame assms)
qed

lemma recovered_committed: "rw_status w = Some st \<Longrightarrow> rw_status (httpx_Error w r (Some (EOther m))) = Some st"
proof -
  assume w: "rw_status w = Some st"
  obtain w' where "rw_status w' = rw_status w" "dispatchProblem w r (EOther m) None False True =
      writeProblemDetails w' (with_instance r (resolved_problem (EOther m) None False True))"
    using dispatchProblem_writes [of w r "EOther m" None False True] by blast
  with w writeProblemDetails_committed [of w' st] show ?thesis by (simp add: httpx_Error_other)
qed

text \<open>What the chain does around the middlewares that are parameters and the application.\<close>

definition inner_chain ::
  "('h, 's, 'x transport_ctx_scheme) transport_lib \<Rightarrow> ('h, 's, 'x transport_ctx_scheme) server_handler
     \<Rightarrow> ('h, 's, 'x transport_ctx_scheme) server_handler" where
  "inner_chain lib app = tl_cors lib (tl_secure lib (tl_heartbeat lib app))"

definition resolved_request :: "Resolver \<Rightarrow> 'x transport_ctx_scheme http_request \<Rightarrow> 'x transport_ctx_scheme http_request" where
  "resolved_request rs r =
     (let r1 = r\<lparr>rq_header := header_del (rq_header r) trueClientIPHeader\<rparr> in
      case Resolve rs (Some r1) of
        None \<Rightarrow> r1
      | Some a \<Rightarrow> r1\<lparr>rq_ctx := (rq_ctx r1)\<lparr>ctx_client := Some a\<rparr>, rq_remote := Addr_String a\<rparr>)"

lemma Middleware_resolved: "Middleware rs next r ws = next (resolved_request rs r) ws"
  by (simp add: Middleware_def resolved_request_def Let_def split: option.splits)

lemma transport_enters:
  assumes "sets_request_id (tl_RequestID lib)"
  obtains r1 i ctx arrs where
    "r1 = (let r0 = resolved_request (NewResolver (ParsePrefixes proxies)) r in r0\<lparr>rq_ctx := (rq_ctx r0)\<lparr>tc_RequestID := Some i\<rparr>\<rparr>)"
    and "AppendCtx (lg_spare env) (Some (log_view (rq_ctx r1))) (commonAttrs env r1) (wd_arrays wd) = (ctx, arrs)"
    and "wrapTransport env lib proxies app r (w, wd) =
       (case Recovery env (inner_chain lib app) (r1\<lparr>rq_ctx := (rq_ctx r1)\<lparr>tc_fields := lc_fields ctx\<rparr>\<rparr>)
          (w, wd\<lparr>wd_arrays := arrs,
                 wd_log := wd_log wd @ LogAttrs (lg_ops env) (lg_handler env) arrs ctx LevelInfo ''request started'' []\<rparr>) of
        (p, w', wd') \<Rightarrow>
          (p, w', wd'\<lparr>wd_log := wd_log wd' @
             LogAttrs (lg_ops env) (lg_handler env) (wd_arrays wd') ctx LevelInfo ''request completed''
               [(''status'', itoa (ww_Status w')), (''bytes'', itoa (ww_BytesWritten w')),
                (''latency-ms'', itoa (lg_elapsed env))]\<rparr>))"
proof -
  obtain f where id: "tl_RequestID lib h q = h (q\<lparr>rq_ctx := (rq_ctx q)\<lparr>tc_RequestID := Some (f q)\<rparr>\<rparr>)" for h q
    using assms by (auto simp: sets_request_id_def)
  let ?r0 = "resolved_request (NewResolver (ParsePrefixes proxies)) r"
  let ?r1 = "?r0\<lparr>rq_ctx := (rq_ctx ?r0)\<lparr>tc_RequestID := Some (f ?r0)\<rparr>\<rparr>"
  obtain ctx arrs where a: "AppendCtx (lg_spare env) (Some (log_view (rq_ctx ?r1))) (commonAttrs env ?r1) (wd_arrays wd) = (ctx, arrs)"
    by fastforce
  show thesis
    by (rule that [of "?r1" "f ?r0", OF _ a]) (simp_all only: Let_def wrapTransport_nested Middleware_resolved id Logger_def a prod.case inner_chain_def)
qed

text \<open>The writer after the recovery.\<close>

definition recovered_writer :: "panic option \<Rightarrow> 'c http_request \<Rightarrow> response_writer \<Rightarrow> response_writer" where
  "recovered_writer p r w =
     (case p of Some (PanicValue _) \<Rightarrow> httpx_Error w (Some r) (Some (EOther ''panic recovered'')) | _ \<Rightarrow> w)"

lemma Recovery_outcome:
  assumes "next r ws = (p, w, wd)"
  shows "\<exists>extra. Recovery env next r ws = (None, recovered_writer p r w, wd\<lparr>wd_log := wd_log wd @ extra\<rparr>)"
proof -
  have "\<exists>extra. wd = wd\<lparr>wd_log := wd_log wd @ extra\<rparr>" by (rule exI [of _ "[]"]) simp
  with assms show ?thesis unfolding Recovery_def recovered_writer_def by (auto split: option.splits panic.splits)
qed

lemma recovered_writer_status:
  "uncommitted w \<Longrightarrow> rw_status (recovered_writer (Some (PanicValue v)) r w) = Some 500"
  "rw_status w = Some st \<Longrightarrow> rw_status (recovered_writer p r w) = Some st"
  by (auto simp: recovered_writer_def recovered_500 recovered_committed split: option.splits panic.splits)

lemma resolved_request_frame [simp]:
  "rq_method (resolved_request rs r) = rq_method r" "rq_path (resolved_request rs r) = rq_path r"
  by (simp_all add: resolved_request_def Let_def split: option.splits)


subsection \<open>Properties\<close>


lemma Recovery_ends_abort: "next r ws = (Some ErrAbortHandler, w, wd) \<Longrightarrow> Recovery env next r ws = (None, w, wd)"
  by (simp add: Recovery_def)

definition demo_log_env :: "(nat, transport_ctx) log_env" where
  "demo_log_env = \<lparr>lg_ops = \<lparr>lo_Enabled = (\<lambda>_ l. 0 \<le> l), lo_Handle = (\<lambda>_ _. None), lo_WithAttrs = (\<lambda>h _. h), lo_WithGroup = (\<lambda>h _. h)\<rparr>,
     lg_handler = main_handler 1 2 3 True, lg_spare = (\<lambda>n. n), lg_Host = (\<lambda>_. ''api.test''), lg_RawQuery = (\<lambda>_. []),
     lg_elapsed = 7, lg_stack = ''main.go:1''\<rparr>"

definition demo_transport_lib :: "(nat, nat, transport_ctx) transport_lib" where
  "demo_transport_lib =
     \<lparr>tl_RequestID = (\<lambda>next r. next (r\<lparr>rq_ctx := (rq_ctx r)\<lparr>tc_RequestID := Some ''req-1''\<rparr>\<rparr>)),
      tl_cors = (\<lambda>next. next), tl_secure = (\<lambda>next. next), tl_heartbeat = (\<lambda>next. next)\<rparr>"

lemma demo_sets_request_id: "sets_request_id (tl_RequestID demo_transport_lib)"
  by (auto simp: sets_request_id_def demo_transport_lib_def intro: exI [of _ "\<lambda>_. ''req-1''"])

text \<open>An application that counts its requests and then panics.\<close>

definition demo_panicking :: "(nat, nat, transport_ctx) server_handler" where
  "demo_panicking r ws = (case ws of (w, wd) \<Rightarrow> (Some (PanicValue ''secret''), w, wd\<lparr>wd_state := wd_state wd + 1\<rparr>))"

definition demo_arrival :: "transport_ctx http_request" where
  "demo_arrival = \<lparr>rq_method = ''GET'', rq_path = ''/'',
     rq_header = header_set Map.empty forwardedForHeader ''198.51.100.9, ::ffff:203.0.113.7, 10.1.2.3'',
     rq_query = (\<lambda>_. []), rq_cookies = [], rq_remote = ''127.0.0.1'', rq_body = None, rq_content_length = 0,
     rq_ctx = \<lparr>auth_user = None, ctx_client = None, tc_fields = None, tc_RequestID = None\<rparr>\<rparr>"

definition quiet_world :: "(nat, nat) world" where
  "quiet_world = \<lparr>wd_state = 0, wd_arrays = [], wd_log = []\<rparr>"


lemma log_to_main:
  assumes "lg_handler env = main_handler out err tint production" and "lo_Enabled (lg_ops env) (if production then out else tint) LevelInfo"
  shows "LogAttrs (lg_ops env) (lg_handler env) hp ctx LevelInfo msg attrs =
     [(if production then out else tint, \<lparr>lr_level = LevelInfo, lr_message = msg, lr_attrs = attrs @ ctx_attrs hp ctx\<rparr>)]"
  using assms by (cases production) (simp_all add: LogAttrs_def main_handler_def NewSplitLevelHandler_def handlerFor_def LevelInfo_def)

text \<open>The address of a request from a peer whose forwarding chain breaks trust at a hop.\<close>

definition attributed :: "Resolver \<Rightarrow> 'c http_request \<Rightarrow> Addr \<Rightarrow> string \<Rightarrow> Addr" where
  "attributed rs r peer hop =
     (if \<not> IsTrusted rs peer then peer
      else case parseAddr hop of
        Some a \<Rightarrow> a
      | None \<Rightarrow> (case parseAddr (header_get (rq_header r) realIPHeader) of Some a \<Rightarrow> a | None \<Rightarrow> peer))"



end
