(* ===== verification/App_Config.thy ===== *)
theory App_Config
  imports Db Jwt Client_Ip
begin

text \<open>
  \<^verbatim>\<open>config\<close>: the configuration structs, the conversions the server asks of them and the one-shot
  \<open>InitConfig\<close>. Durations count nanoseconds. Reading the environment (\<open>envconfig\<close>), loading a key pair and the
  two middleware libraries the options go to are parameters. Fields that no code reads are left out.
\<close>

subsection \<open>The structs\<close>

record Server_config =
  srv_AppEnv :: string
  srv_Port :: int
  srv_IdleTimeout :: int
  srv_ReadTimeout :: int
  srv_WriteTimeout :: int
  srv_TrustedProxies :: "string list"
  srv_TLSCertPath :: string
  srv_TLSKeyPath :: string

text \<open>\<open>cors.Options\<close> has the same fields.\<close>

record Cors =
  co_AllowedOrigins :: "string list"
  co_AllowedMethods :: "string list"
  co_AllowedHeaders :: "string list"
  co_ExposedHeaders :: "string list"
  co_AllowCredentials :: bool
  co_MaxAge :: int

record Secure =
  sec_AllowedHosts :: "string list"
  sec_HostsProxyHeaders :: "string list"
  sec_SSLProxyHeaders :: "(string \<times> string) list"
  sec_SSLHost :: string
  sec_ContentSecurityPolicy :: string
  sec_AllowedHostsAreRegex :: bool
  sec_SSLRedirect :: bool
  sec_STSSeconds :: int
  sec_STSIncludeSubdomains :: bool
  sec_STSPreload :: bool
  sec_FrameDeny :: bool
  sec_ContentTypeNosniff :: bool
  sec_BrowserXssFilter :: bool

record OpenAPI_contact =
  oc_Name :: string
  oc_URL :: string
  oc_Email :: string

record OpenAPI_license =
  ol_Name :: string
  ol_URL :: string
  ol_Identifier :: string

record OpenAPI_config =
  oa_Enabled :: bool
  oa_Title :: string
  oa_Description :: string
  oa_Version :: string
  oa_Servers :: "string list"
  oa_TermsOfService :: string
  oa_Contact :: "OpenAPI_contact option"
  oa_License :: "OpenAPI_license option"

record AppConfig =
  cf_Server :: Server_config
  cf_Cors :: Cors
  cf_Secure :: Secure
  cf_DB :: Database_config
  cf_Jwt :: Jwt_config
  cf_OpenAPI :: OpenAPI_config

text \<open>The zero value of the configuration.\<close>

definition zero_config :: AppConfig where
  "zero_config =
     \<lparr>cf_Server = \<lparr>srv_AppEnv = [], srv_Port = 0, srv_IdleTimeout = 0, srv_ReadTimeout = 0, srv_WriteTimeout = 0,
        srv_TrustedProxies = [], srv_TLSCertPath = [], srv_TLSKeyPath = []\<rparr>,
      cf_Cors = \<lparr>co_AllowedOrigins = [], co_AllowedMethods = [], co_AllowedHeaders = [], co_ExposedHeaders = [],
        co_AllowCredentials = False, co_MaxAge = 0\<rparr>,
      cf_Secure = \<lparr>sec_AllowedHosts = [], sec_HostsProxyHeaders = [], sec_SSLProxyHeaders = [], sec_SSLHost = [],
        sec_ContentSecurityPolicy = [], sec_AllowedHostsAreRegex = False, sec_SSLRedirect = False, sec_STSSeconds = 0,
        sec_STSIncludeSubdomains = False, sec_STSPreload = False, sec_FrameDeny = False, sec_ContentTypeNosniff = False,
        sec_BrowserXssFilter = False\<rparr>,
      cf_DB = \<lparr>dc_RootUrl = [], dc_RiverUrl = [], dc_TimeZone = [], dc_PoolMax = 0, dc_PoolMin = 0, dc_MaxConnLifetime = 0,
        dc_MaxConnIdleTime = 0, dc_HealthCheckPeriod = 0, dc_ConnectTimeout = 0, dc_LogQueries = False\<rparr>,
      cf_Jwt = \<lparr>jc_PubKeyPath = [], jc_PvtKeyPath = [], jc_AccessExpiryTime = 0, jc_RefreshExpiryTime = 0, jc_ClockSkew = 0\<rparr>,
      cf_OpenAPI = \<lparr>oa_Enabled = False, oa_Title = [], oa_Description = [], oa_Version = [], oa_Servers = [],
        oa_TermsOfService = [], oa_Contact = None, oa_License = None\<rparr>\<rparr>"

definition DocsConfig :: AppConfig where
  "DocsConfig = zero_config\<lparr>cf_OpenAPI :=
     \<lparr>oa_Enabled = True, oa_Title = ''Tinker API'', oa_Description = ''API documentation for the Go PostgreSQL starter'',
      oa_Version = ''1.0.0'', oa_Servers = [''https://localhost:3000''], oa_TermsOfService = [], oa_Contact = None,
      oa_License = Some \<lparr>ol_Name = ''MIT'', ol_URL = ''https://opensource.org/license/mit'', ol_Identifier = []\<rparr>\<rparr>\<rparr>"


subsection \<open>Conversions\<close>

definition TrustedProxyPrefixes :: "Server_config \<Rightarrow> Prefix list" where
  "TrustedProxyPrefixes s = ParsePrefixes (srv_TrustedProxies s)"

definition IsProduction :: "Server_config \<Rightarrow> bool" where
  "IsProduction s \<longleftrightarrow> srv_AppEnv s = ''production''"

text \<open>The certificates of the configuration; \<open>Inl\<close> is the exit of \<open>log.Fatalf\<close>.\<close>

definition TLSOptions :: "(string \<Rightarrow> string \<Rightarrow> go_error + 'k) \<Rightarrow> Server_config \<Rightarrow> go_error + 'k list" where
  "TLSOptions LoadX509KeyPair s =
     (case LoadX509KeyPair (srv_TLSCertPath s) (srv_TLSKeyPath s) of
        Inl e \<Rightarrow> Inl (EWrap ''Error loading certificate and key file'' [e])
      | Inr serverTLSCert \<Rightarrow> Inr [serverTLSCert])"

definition CorsOptions :: "Cors \<Rightarrow> Cors" where
  "CorsOptions c =
     \<lparr>co_AllowedOrigins = co_AllowedOrigins c, co_AllowedMethods = co_AllowedMethods c, co_AllowedHeaders = co_AllowedHeaders c,
      co_ExposedHeaders = co_ExposedHeaders c, co_AllowCredentials = co_AllowCredentials c, co_MaxAge = co_MaxAge c\<rparr>"

text \<open>The options that are passed on; hosts and the redirect to TLS are not.\<close>

record secure_Options =
  so_STSSeconds :: int
  so_STSIncludeSubdomains :: bool
  so_STSPreload :: bool
  so_FrameDeny :: bool
  so_ContentTypeNosniff :: bool
  so_BrowserXssFilter :: bool
  so_ContentSecurityPolicy :: string

definition SecureOptions :: "Secure \<Rightarrow> secure_Options" where
  "SecureOptions s =
     \<lparr>so_STSSeconds = sec_STSSeconds s, so_STSIncludeSubdomains = sec_STSIncludeSubdomains s, so_STSPreload = sec_STSPreload s,
      so_FrameDeny = sec_FrameDeny s, so_ContentTypeNosniff = sec_ContentTypeNosniff s,
      so_BrowserXssFilter = sec_BrowserXssFilter s, so_ContentSecurityPolicy = sec_ContentSecurityPolicy s\<rparr>"


subsection \<open>Initialisation\<close>

text \<open>The package variables, and \<open>envconfig.Process\<close>, which may fail after it has set some fields.\<close>

record config_state =
  confOnce :: bool
  confInstance :: "AppConfig option"

definition InitConfig ::
  "(AppConfig \<Rightarrow> go_error option \<times> AppConfig) \<Rightarrow> config_state \<Rightarrow> (AppConfig option \<times> go_error option) \<times> config_state" where
  "InitConfig Process st =
     (if confOnce st then ((confInstance st, None), st)
      else case Process zero_config of
        (err, conf) \<Rightarrow> ((Some conf, err), \<lparr>confOnce = True, confInstance = Some conf\<rparr>))"

lemma InitConfig_once:
  assumes "InitConfig Process st = ((c, err), st')"
  shows "InitConfig Process st' = ((c, None), st')"
  using assms by (auto simp: InitConfig_def split: if_splits prod.splits)

text \<open>A second call after a failed first one hands out the partial configuration without an error.\<close>

lemma InitConfig_forgets_failure:
  assumes "\<not> confOnce st" and "Process zero_config = (Some e, conf)"
  shows "fst (InitConfig Process st) = (Some conf, Some e)"
    and "fst (InitConfig Process (snd (InitConfig Process st))) = (Some conf, None)"
  using assms by (simp_all add: InitConfig_def)

end
