(* ===== verification/Boot.thy ===== *)
theory Boot
  imports App_Config Validation
begin

text \<open>
  Starting and stopping the API binary: \<open>Bootstrap\<close> of \<^verbatim>\<open>internal/server/bootstrap.go\<close>, \<^verbatim>\<open>cmd/api/main.go\<close> and the
  server of \<^verbatim>\<open>internal/server/server.go\<close>. It composes the database, the token service and the validator
  registry; what the driver, the queue package, the file system and the network do is in \<open>boot_env\<close>.
\<close>

subsection \<open>Bootstrap\<close>

record ('p, 'q, 'pv, 'pb) boot_env =
  be_ParseConfig :: "string \<Rightarrow> go_error + PoolConfig"
  be_NewWithConfig :: "PoolConfig \<Rightarrow> go_error + 'p"
  be_ping :: "'p \<Rightarrow> go_error option"
  be_NewClient :: "'p \<Rightarrow> queue_config \<Rightarrow> go_error + 'q"
  be_start :: "'q \<Rightarrow> go_error option"
  be_stop :: "'q \<Rightarrow> go_error option"
  be_ReadFile :: "string \<Rightarrow> go_error + string"
  be_parsePriv :: "string \<Rightarrow> go_error + 'pv"
  be_parsePub :: "string \<Rightarrow> go_error + 'pb"
  be_jwt :: "'pv \<Rightarrow> 'pb \<Rightarrow> jwt_lib"
  be_validator :: validator_lib
  be_Process :: "AppConfig \<Rightarrow> go_error option \<times> AppConfig"

text \<open>The open pools and the package variables the start touches.\<close>

record 'p boot_state =
  bs_open :: "'p list"
  bs_jwt :: jwt_state
  bs_registry :: registry
  bs_config :: config_state

record ('p, 'q) AppServer =
  sv_conf :: AppConfig
  sv_db :: "('p, 'q) PostgresDB"

definition NewServer :: "AppConfig \<Rightarrow> ('p, 'q) PostgresDB \<Rightarrow> ('p, 'q) AppServer" where
  "NewServer conf database = \<lparr>sv_conf = conf, sv_db = database\<rparr>"

text \<open>Every failure after the database was opened closes it first; no queue was started yet.\<close>

definition give_up :: "string \<Rightarrow> go_error \<Rightarrow> ('p, 'q) PostgresDB \<Rightarrow> 'p boot_state \<Rightarrow> (go_error + ('p, 'q) AppServer) \<times> 'p boot_state" where
  "give_up msg e database st = (Inl (EWrap msg [e]), st\<lparr>bs_open := fst (Close database (bs_open st))\<rparr>)"

definition Bootstrap ::
  "('p, 'q, 'pv, 'pb) boot_env \<Rightarrow> AppConfig \<Rightarrow> 'p boot_state \<Rightarrow> (go_error + ('p, 'q) AppServer) \<times> 'p boot_state" where
  "Bootstrap env conf st =
     (case New (be_ParseConfig env) (be_NewWithConfig env) (cf_DB conf) (bs_open st) of
        (Inl e, opened) \<Rightarrow> (Inl (EWrap ''initializing database'' [e]), st\<lparr>bs_open := opened\<rparr>)
      | (Inr database, opened) \<Rightarrow>
          (let st1 = st\<lparr>bs_open := opened\<rparr> in
           case Ping (be_ping env) database of
             Some e \<Rightarrow> give_up ''pinging database'' e database st1
           | None \<Rightarrow>
               (case InitJWT (be_ReadFile env) (be_parsePriv env) (be_parsePub env) (be_jwt env) (cf_Jwt conf) (bs_jwt st1) of
                  (Some e, j) \<Rightarrow> give_up ''initializing jwt service'' e database (st1\<lparr>bs_jwt := j\<rparr>)
                | (None, j) \<Rightarrow>
                    (let st2 = st1\<lparr>bs_jwt := j\<rparr> in
                     case InitValidator (be_validator env) (bs_registry st2) of
                       (Some e, reg) \<Rightarrow> give_up ''registering validators'' e database (st2\<lparr>bs_registry := reg\<rparr>)
                     | (None, reg) \<Rightarrow> (Inr (NewServer conf database), st2\<lparr>bs_registry := reg\<rparr>)))))"


subsection \<open>The API binary\<close>

datatype fatal = ParsingConfFailed go_error | NilConfig | BootstrapFailed go_error | QueueFailed go_error

text \<open>
  \<^verbatim>\<open>cmd/api/main.go\<close> up to \<open>Server.Start\<close>: the reason of a fatal exit or the server, the state, and the calls on
  the queue client.
\<close>

definition api_main ::
  "('p, 'q, 'pv, 'pb) boot_env \<Rightarrow> 'p boot_state \<Rightarrow> (fatal + ('p, 'q) AppServer) \<times> 'p boot_state \<times> 'q queue_call list" where
  "api_main env st =
     (case InitConfig (be_Process env) (bs_config st) of
        ((c, err), cs) \<Rightarrow>
          (let st0 = st\<lparr>bs_config := cs\<rparr> in
           case err of
             Some e \<Rightarrow> (Inl (ParsingConfFailed e), st0, [])
           | None \<Rightarrow>
               (case c of
                  None \<Rightarrow> (Inl NilConfig, st0, [])
                | Some conf \<Rightarrow>
                    (case Bootstrap env conf st0 of
                       (Inl e, st1) \<Rightarrow> (Inl (BootstrapFailed e), st1, [])
                     | (Inr app, st1) \<Rightarrow>
                         (case StartQueue (be_NewClient env) (be_start env) (srv_AppEnv (cf_Server conf)) (sv_db app) of
                            (Some e, database, calls) \<Rightarrow>
                              (case Close database (bs_open st1) of
                                 (opened, stops) \<Rightarrow> (Inl (QueueFailed e), st1\<lparr>bs_open := opened\<rparr>, calls @ stops))
                          | (None, database, calls) \<Rightarrow> (Inr (app\<lparr>sv_db := database\<rparr>), st1, calls))))))"


subsection \<open>Serving and stopping\<close>

record 'k http_Server =
  hs_Addr :: string
  hs_TLSConfig :: "'k list"
  hs_IdleTimeout :: int
  hs_ReadTimeout :: int
  hs_WriteTimeout :: int
  hs_ErrorLog_level :: int

text \<open>\<open>Inl\<close> is the exit of \<open>TLSOptions\<close>. \<open>LevelWarn\<close> is 4, \<open>LevelDebug\<close> is -4.\<close>

definition http_server :: "(string \<Rightarrow> string \<Rightarrow> go_error + 'k) \<Rightarrow> Server_config \<Rightarrow> go_error + 'k http_Server" where
  "http_server LoadX509KeyPair conf =
     (case TLSOptions LoadX509KeyPair conf of
        Inl e \<Rightarrow> Inl e
      | Inr tls \<Rightarrow> Inr
          \<lparr>hs_Addr = CHR '':'' # itoa (srv_Port conf), hs_TLSConfig = tls, hs_IdleTimeout = srv_IdleTimeout conf,
           hs_ReadTimeout = srv_ReadTimeout conf, hs_WriteTimeout = srv_WriteTimeout conf,
           hs_ErrorLog_level = (if IsProduction conf then 4 else -4)\<rparr>)"

datatype ('p, 'q) stop_event = StopsQueue 'q | ClosesPool 'p | ShutsDownHTTP | LogsError string

definition queue_events :: "'q queue_call list \<Rightarrow> ('p, 'q) stop_event list" where
  "queue_events calls = List.map_filter (\<lambda>c. case c of QStop q \<Rightarrow> Some (StopsQueue q) | QStart q \<Rightarrow> None) calls"

definition closing_events :: "('p, 'q) PostgresDB \<Rightarrow> ('p, 'q) stop_event list" where
  "closing_events database = queue_events (snd (Close database [])) @ [ClosesPool (rootStore database), ClosesPool (riverStore database)]"

text \<open>The closure that \<open>Start\<close> hands to \<open>handleShutdown\<close>, as the events of a shutdown signal.\<close>

definition on_shutdown :: "('q \<Rightarrow> go_error option) \<Rightarrow> go_error option \<Rightarrow> ('p, 'q) PostgresDB \<Rightarrow> ('p, 'q) stop_event list" where
  "on_shutdown stop http_result database =
     (case StopQueue stop database of
        (err, calls) \<Rightarrow>
          queue_events calls @ (if err \<noteq> None then [LogsError ''failed to stop job queue''] else []) @
          closing_events database @ [ShutsDownHTTP] @
          (if http_result \<noteq> None then [LogsError ''server shutdown failed''] else []))"

text \<open>
  \<open>Start\<close>: a handler that does not build is a panic; \<open>closed\<close> is whether \<open>ListenAndServeTLS\<close> ended with
  \<open>ErrServerClosed\<close>, and then the shutdown is waited for; any other end is logged.
\<close>

datatype ('p, 'q) start_end = BuildPanic string | TLSExit go_error | Stopped "('p, 'q) stop_event list" | ServeFailed

definition Start ::
  "(string \<Rightarrow> string \<Rightarrow> go_error + 'k) \<Rightarrow> (string + 'handler) \<Rightarrow> bool \<Rightarrow> ('q \<Rightarrow> go_error option) \<Rightarrow> go_error option
     \<Rightarrow> ('p, 'q) AppServer \<Rightarrow> ('p, 'q) start_end" where
  "Start LoadX509KeyPair built closed stop http_result s =
     (case built of
        Inl msg \<Rightarrow> BuildPanic msg
      | Inr handler \<Rightarrow>
          (case http_server LoadX509KeyPair (cf_Server (sv_conf s)) of
             Inl e \<Rightarrow> TLSExit e
           | Inr server \<Rightarrow> if closed then Stopped (on_shutdown stop http_result (sv_db s)) else ServeFailed))"


subsection \<open>Facts\<close>

text \<open>The pools a constructor hands out are not open yet.\<close>

definition fresh_pools :: "('p, 'q, 'pv, 'pb) boot_env \<Rightarrow> 'p list \<Rightarrow> bool" where
  "fresh_pools env opened \<longleftrightarrow> (\<forall>c p. be_NewWithConfig env c = Inr p \<longrightarrow> p \<notin> set opened)"

lemma New_balance:
  assumes "fresh_pools env opened"
  shows "New (be_ParseConfig env) (be_NewWithConfig env) conf opened = (Inl e, opened') \<Longrightarrow> opened' = opened"
    and "New (be_ParseConfig env) (be_NewWithConfig env) conf opened = (Inr database, opened') \<Longrightarrow>
      opened' = opened @ [rootStore database, riverStore database] \<and> queue database = None \<and>
      (\<forall>q. fst (Close (database\<lparr>queue := q\<rparr>) opened') = opened)"
  using New_Close_balance [of "be_NewWithConfig env" opened "be_ParseConfig env" conf] assms
  by (auto simp: fresh_pools_def New_def Let_def split: sum.splits)

text \<open>The token service was either initialised or its error is remembered.\<close>

definition jwt_settled :: "jwt_state \<Rightarrow> bool" where
  "jwt_settled j \<longleftrightarrow> (jwtOnce j \<longrightarrow> jwtSvc j \<noteq> None \<or> initErr j \<noteq> None)"

lemma InitJWT_settles:
  "InitJWT f pv pb lib c j = (err, j') \<Longrightarrow> jwt_settled j \<Longrightarrow> jwtOnce j' \<and> jwt_settled j' \<and> (err = None \<longrightarrow> jwtSvc j' \<noteq> None)"
  by (auto simp: InitJWT_def jwt_settled_def Let_def split: if_splits sum.splits option.splits)

lemma InitValidator_settles:
  "iterates lib \<Longrightarrow> registry_ok reg \<Longrightarrow> InitValidator lib reg = (None, reg') \<Longrightarrow> builtValidator reg' \<noteq> None"
  by (auto simp: InitValidator_def registry_ok_def split: if_splits sum.splits)

lemma Bootstrap_balance:
  fixes env :: "('p, 'q, 'pv, 'pb) boot_env"
  assumes "fresh_pools env (bs_open st)" and "Bootstrap env conf st = (res, st')"
  shows "case res of Inl e \<Rightarrow> bs_open st' = bs_open st
    | Inr app \<Rightarrow> bs_open st' = bs_open st @ [rootStore (sv_db app), riverStore (sv_db app)] \<and> queue (sv_db app) = None \<and>
        (\<forall>q. fst (Close ((sv_db app)\<lparr>queue := q\<rparr>) (bs_open st')) = bs_open st) \<and>
        sv_conf app = conf \<and>
        (\<exists>j. InitJWT (be_ReadFile env) (be_parsePriv env) (be_parsePub env) (be_jwt env) (cf_Jwt conf) (bs_jwt st) = (None, j) \<and> bs_jwt st' = j) \<and>
        (\<exists>reg. InitValidator (be_validator env) (bs_registry st) = (None, reg) \<and> bs_registry st' = reg)"
proof -
  obtain built :: "go_error + ('p, 'q) PostgresDB" and opened where new: "New (be_ParseConfig env) (be_NewWithConfig env) (cf_DB conf) (bs_open st) = (built, opened)" by fastforce
  show ?thesis
  proof (cases built)
    case (Inl e)
    note a = New_balance(1) [OF assms(1) new [unfolded Inl]]
    show ?thesis using assms(2) a by (auto simp: Bootstrap_def new Inl)
  next
    case (Inr database)
    note b = New_balance(2) [OF assms(1) new [unfolded Inr]]
    then have "fst (Close database opened) = bs_open st" by (metis PostgresDB.surjective PostgresDB.update_convs(3) old.unit.exhaust)
    with b assms(2) show ?thesis
      by (auto simp: Bootstrap_def new Inr give_up_def NewServer_def Let_def split: option.splits prod.splits)
  qed
qed

lemma StartQueue_result:
  "StartQueue NewClient start AppEnv db = (err, db', calls) \<Longrightarrow>
     \<exists>q. db' = db\<lparr>queue := q\<rparr> \<and> calls = (case q of None \<Rightarrow> [] | Some c \<Rightarrow> [QStart c]) \<and>
       (err = None \<longrightarrow> (\<exists>c. q = Some c \<and> start c = None))"
  by (auto simp: StartQueue_def split: sum.splits)

text \<open>
  On a shutdown signal the queue is stopped twice, and the pools are closed before the HTTP server is asked to
  let the requests in flight finish.
\<close>

lemma shutdown_order:
  "queue database = Some q \<Longrightarrow> stop q = None \<Longrightarrow>
     on_shutdown stop None database =
       [StopsQueue q, StopsQueue q, ClosesPool (rootStore database), ClosesPool (riverStore database), ShutsDownHTTP]"
  by (simp add: on_shutdown_def StopQueue_def closing_events_def Close_def queue_events_def List.map_filter_simps)


subsection \<open>Properties\<close>


text \<open>A start in which the queue client refuses to start.\<close>

definition demo_boot :: "bool \<Rightarrow> (nat, nat, unit, unit) boot_env" where
  "demo_boot queue_works =
     \<lparr>be_ParseConfig = (\<lambda>url. Inr \<lparr>pl_MaxConns = 4, pl_MinConns = 0, pl_MaxConnLifetime = 0, pl_MaxConnIdleTime = 0,
        pl_HealthCheckPeriod = 0, pl_ConnectTimeout = 0, pl_search_path = ''river'', pl_tracer = False, pl_timezone = None\<rparr>),
      be_NewWithConfig = (\<lambda>c. Inr (if pl_timezone c = None then 2 else 1)), be_ping = (\<lambda>_. None), be_NewClient = (\<lambda>_ _. Inr 9),
      be_start = (\<lambda>_. if queue_works then None else Some (EOther ''no leader'')), be_stop = (\<lambda>_. None),
      be_ReadFile = (\<lambda>_. Inr ''pem''), be_parsePriv = (\<lambda>_. Inr ()), be_parsePub = (\<lambda>_. Inr ()),
      be_jwt = (\<lambda>_ _. \<lparr>jl_sign = (\<lambda>_. Inr ''token''), jl_parse = (\<lambda>_ _ _. Inl (EOther ''bad''))\<rparr>), be_validator = demo_lib,
      be_Process = (\<lambda>c. (None, c))\<rparr>"

definition demo_boot_state :: "nat boot_state" where
  "demo_boot_state = \<lparr>bs_open = [7], bs_jwt = \<lparr>jwtOnce = False, jwtSvc = None, initErr = None\<rparr>,
     bs_registry = empty_registry, bs_config = \<lparr>confOnce = False, confInstance = None\<rparr>\<rparr>"


end
