(* ===== verification/Docs_Tool.thy ===== *)
theory Docs_Tool
  imports App_Config Openapi_Final
begin

text \<open>
  The generator of the committed document, \<^verbatim>\<open>cmd/openapi/main.go\<close>, and the handlers that serve the embedded
  copy, \<^verbatim>\<open>internal/server/docs.go\<close> and \<^verbatim>\<open>scalar.go\<close>. The file system is a map from paths to contents and
  permissions; which system call fails, and how far a failed write got, is in \<open>file_env\<close>. The compiled document
  and its encoder are parameters here: they are what \<open>Openapi_Final\<close> computes.
\<close>

subsection \<open>Writing a file\<close>

type_synonym files = "string \<rightharpoonup> string \<times> nat"

record file_env =
  fe_CreateTemp :: "go_error + string"
  fe_Chmod :: "go_error option"
  fe_Write :: "(go_error \<times> nat) option"
  fe_Close :: "go_error option"
  fe_Rename :: "go_error option"
  fe_Remove :: "go_error option"

text \<open>The deferred removal, whose error is ignored. A temporary file starts with the permissions 0600.\<close>

definition removed :: "file_env \<Rightarrow> string \<Rightarrow> files \<Rightarrow> files" where
  "removed env name fs = (case fe_Remove env of None \<Rightarrow> fs(name := None) | Some _ \<Rightarrow> fs)"

definition writeFileAtomic :: "file_env \<Rightarrow> string \<Rightarrow> string \<Rightarrow> files \<Rightarrow> go_error option \<times> files" where
  "writeFileAtomic env path data fs =
     (case fe_CreateTemp env of
        Inl e \<Rightarrow> (Some e, fs)
      | Inr tmpName \<Rightarrow>
          let fs1 = fs(tmpName \<mapsto> ([], 0x180)) in
          case fe_Chmod env of
            Some e \<Rightarrow> (Some (EWrap ''setting temporary file permissions'' [e]), removed env tmpName fs1)
          | None \<Rightarrow>
              (case fe_Write env of
                 Some (e, n) \<Rightarrow> (Some (EWrap ''writing temporary spec'' [e]), removed env tmpName (fs1(tmpName \<mapsto> (take n data, 0x1A4))))
               | None \<Rightarrow>
                   (let fs2 = fs1(tmpName \<mapsto> (data, 0x1A4)) in
                    case fe_Close env of
                      Some e \<Rightarrow> (Some e, removed env tmpName fs2)
                    | None \<Rightarrow>
                        (case fe_Rename env of
                           Some e \<Rightarrow> (Some (EWrap ''replacing spec'' [e]), removed env tmpName fs2)
                         | None \<Rightarrow> (None, removed env tmpName (fs2(tmpName := None, path := fs2 tmpName)))))))"


subsection \<open>The generator\<close>

definition specPath :: string where
  "specPath = ''internal/server/openapi.json''"

definition openAPIInfo :: "OpenAPI_config \<Rightarrow> Info" where
  "openAPIInfo c =
     \<lparr>in_Title = oa_Title c, in_Summary = [], in_Description = oa_Description c, in_Version = oa_Version c,
      in_TermsOfService = oa_TermsOfService c, in_Servers = oa_Servers c,
      in_Contact = map_option (\<lambda>t. \<lparr>ct_Name = oc_Name t, ct_URL = oc_URL t, ct_Email = oc_Email t\<rparr>) (oa_Contact c),
      in_License = map_option (\<lambda>l. \<lparr>li_Name = ol_Name l, li_Identifier = ol_Identifier l, li_URL = ol_URL l\<rparr>) (oa_License c)\<rparr>"

text \<open>The exit status, and the files.\<close>

definition openapi_main :: "file_env \<Rightarrow> (Spec \<Rightarrow> string option) \<Rightarrow> Spec option \<Rightarrow> files \<Rightarrow> int \<times> files" where
  "openapi_main env marshal frozen fs =
     (case OpenAPI marshal frozen (openAPIInfo (cf_OpenAPI DocsConfig)) of
        Inl e \<Rightarrow> (1, fs)
      | Inr out \<Rightarrow> (case writeFileAtomic env specPath out fs of (Some e, fs') \<Rightarrow> (1, fs') | (None, fs') \<Rightarrow> (0, fs')))"


subsection \<open>Serving the copy\<close>

text \<open>\<open>http.Error\<close>: a plain text reply with a line end.\<close>

definition http_Error :: "string \<Rightarrow> int \<Rightarrow> response_writer \<Rightarrow> response_writer" where
  "http_Error msg code w =
     (let w1 = set_header ''X-Content-Type-Options'' ''nosniff'' (set_header ''Content-Type'' ''text/plain; charset=utf-8''
          (w\<lparr>rw_header := header_del (rw_header w) ''Content-Length''\<rparr>))
      in write_body (msg @ [CHR 0x0A]) (write_header code w1))"

text \<open>\<open>embedded\<close> is what reading the embedded file gives.\<close>

definition openAPIJSON :: "string option \<Rightarrow> response_writer \<Rightarrow> response_writer" where
  "openAPIJSON embedded w =
     (case embedded of
        None \<Rightarrow> http_Error ''OpenAPI spec unavailable'' 500 w
      | Some data \<Rightarrow> write_body data (set_header ''Content-Type'' ''application/json'' w))"

text \<open>The options of the page generator, a third-party package.\<close>

record scalar_Options =
  so_SpecURL :: string
  so_SpecContent :: string
  so_PageTitle :: string
  so_DarkMode :: bool
  so_ShowSidebar :: bool
  so_HideModels :: bool
  so_HideDownloadButton :: bool
  so_Layout :: string

definition scalar_options :: "string \<Rightarrow> string list \<Rightarrow> scalar_Options" where
  "scalar_options specURL specContent =
     (let opts = \<lparr>so_SpecURL = specURL, so_SpecContent = [], so_PageTitle = ''API Documentation'', so_DarkMode = True,
          so_ShowSidebar = True, so_HideModels = False, so_HideDownloadButton = False, so_Layout = ''modern''\<rparr>
      in case specContent of
           c # _ \<Rightarrow> if c \<noteq> [] then opts\<lparr>so_SpecURL := [], so_SpecContent := c\<rparr> else opts
         | [] \<Rightarrow> opts)"

definition scalarUIHandler :: "(scalar_Options \<Rightarrow> string option) \<Rightarrow> string \<Rightarrow> string list \<Rightarrow> response_writer \<Rightarrow> response_writer" where
  "scalarUIHandler ApiReferenceHTML specURL specContent w =
     (case ApiReferenceHTML (scalar_options specURL specContent) of
        None \<Rightarrow> http_Error ''Failed to generate API reference'' 500
          (log_event LevelError ''[openapi] scalarUIHandler: failed to generate API reference HTML'' w)
      | Some htmlContent \<Rightarrow>
          write_body (htmlContent @ [CHR 0x0A]) (write_header 200 (set_header ''Content-Type'' ''text/html; charset=utf-8'' w)))"

definition openAPIUI :: "(scalar_Options \<Rightarrow> string option) \<Rightarrow> string option \<Rightarrow> response_writer \<Rightarrow> response_writer" where
  "openAPIUI ApiReferenceHTML embedded w =
     (case embedded of
        None \<Rightarrow> http_Error ''OpenAPI spec unavailable'' 500 w
      | Some data \<Rightarrow> scalarUIHandler ApiReferenceHTML [] [data] w)"


subsection \<open>Facts\<close>

text \<open>A name \<open>CreateTemp\<close> returns belongs to no file yet.\<close>

definition fresh_temp :: "file_env \<Rightarrow> string \<Rightarrow> files \<Rightarrow> bool" where
  "fresh_temp env path fs \<longleftrightarrow> (\<forall>name. fe_CreateTemp env = Inr name \<longrightarrow> fs name = None \<and> name \<noteq> path)"

lemma writeFileAtomic_cases:
  assumes "fresh_temp env path fs" and "writeFileAtomic env path data fs = (err, fs')"
  shows "fs' path = (if err = None then Some (data, 0x1A4) else fs path)"
    and "\<And>p. p \<noteq> path \<Longrightarrow> fe_CreateTemp env \<noteq> Inr p \<Longrightarrow> fs' p = fs p"
    and "\<And>p. p \<noteq> path \<Longrightarrow> err = None \<or> fe_Remove env = None \<Longrightarrow> fs' p = fs p"
  using assms
  by (auto simp: writeFileAtomic_def removed_def fresh_temp_def Let_def split: sum.splits option.splits if_splits)

lemma docs_info: "openAPIInfo (cf_OpenAPI DocsConfig) =
    \<lparr>in_Title = ''Tinker API'', in_Summary = [], in_Description = ''API documentation for the Go PostgreSQL starter'',
     in_Version = ''1.0.0'', in_TermsOfService = [], in_Servers = [''https://localhost:3000''], in_Contact = None,
     in_License = Some \<lparr>li_Name = ''MIT'', li_Identifier = [], li_URL = ''https://opensource.org/license/mit''\<rparr>\<rparr>"
  by (simp add: openAPIInfo_def DocsConfig_def)

lemma openapi_main_document:
  "OpenAPI marshal (Some spec) (openAPIInfo (cf_OpenAPI DocsConfig)) =
     (case marshal (spec\<lparr>sp_Info := specInfo (openAPIInfo (cf_OpenAPI DocsConfig)),
          sp_Servers := [\<lparr>sr_URL = ''https://localhost:3000'', sr_Description = ''API Server''\<rparr>]\<rparr>) of
        None \<Rightarrow> Inl MarshalFailed
      | Some out \<Rightarrow> Inr (out @ [CHR 0x0A]))"
proof -
  have "trim_space ''Tinker API'' \<noteq> []" "trim_space ''1.0.0'' \<noteq> []" by (simp_all add: trim_space_visible visible_def)
  then show ?thesis by (simp add: OpenAPI_def docs_info)
qed


subsection \<open>Properties\<close>

text \<open>
  C22. The committed document is replaced as a whole or not at all. The generator exits with 0 exactly if the
  file then holds the complete encoded document with the metadata of the canonical configuration; otherwise
  it exits with 1 and the file is what it was, whichever system call failed and however much was written.
  No other file changes, except that a temporary one stays if its removal fails.
\<close>

theorem openapi_main_atomic:
  assumes "fresh_temp env specPath fs" and "openapi_main env marshal (Some spec) fs = (code, fs')"
  shows "(code = 0 \<and> (\<exists>out. marshal (spec\<lparr>sp_Info := specInfo (openAPIInfo (cf_OpenAPI DocsConfig)),
              sp_Servers := [\<lparr>sr_URL = ''https://localhost:3000'', sr_Description = ''API Server''\<rparr>]\<rparr>) = Some out \<and>
            fs' = fs(specPath \<mapsto> (out @ [CHR 0x0A], 0x1A4)))) \<or>
     (code = 1 \<and> fs' specPath = fs specPath \<and>
       (\<forall>p. fe_CreateTemp env \<noteq> Inr p \<or> fe_Remove env = None \<longrightarrow> fs' p = fs p))"
proof (cases "OpenAPI marshal (Some spec) (openAPIInfo (cf_OpenAPI DocsConfig))")
  case (Inl e)
  with assms(2) show ?thesis by (simp add: openapi_main_def)
next
  case (Inr out)
  then obtain doc where doc: "marshal (spec\<lparr>sp_Info := specInfo (openAPIInfo (cf_OpenAPI DocsConfig)),
      sp_Servers := [\<lparr>sr_URL = ''https://localhost:3000'', sr_Description = ''API Server''\<rparr>]\<rparr>) = Some doc" "out = doc @ [CHR 0x0A]"
    unfolding openapi_main_document by (auto split: option.splits)
  obtain err fs1 where w: "writeFileAtomic env specPath out fs = (err, fs1)" by fastforce
  note c = writeFileAtomic_cases [OF assms(1) w]
  show ?thesis
  proof (cases err)
    case None
    have "fs1 = fs(specPath \<mapsto> (out, 0x1A4))" using c(1,3) None by (intro ext) simp
    then show ?thesis using assms(2) doc None w by (simp add: openapi_main_def Inr)
  next
    case (Some e)
    then have "code = 1" "fs' = fs1" using assms(2) by (simp_all add: openapi_main_def Inr w)
    moreover have "fs1 p = fs p" if "fe_CreateTemp env \<noteq> Inr p \<or> fe_Remove env = None" for p
      using that c Some by (cases "p = specPath") auto
    ultimately show ?thesis using c(1) Some by simp
  qed
qed

text \<open>A disk that is full after two bytes, and the file as it was.\<close>

definition demo_files :: files where
  "demo_files = [specPath \<mapsto> (''{}'', 0x1A4), ''go.mod'' \<mapsto> (''module'', 0x1A4)]"

definition demo_disk :: "(go_error \<times> nat) option \<Rightarrow> file_env" where
  "demo_disk full = \<lparr>fe_CreateTemp = Inr ''internal/server/.openapi-1.json'', fe_Chmod = None, fe_Write = full, fe_Close = None,
     fe_Rename = None, fe_Remove = None\<rparr>"

definition demo_spec :: Spec where
  "demo_spec = \<lparr>sp_OpenAPI = ''3.1.0'',
     sp_Info = \<lparr>si_Title = [], si_Summary = [], si_Description = [], si_TermsOfService = [], si_Contact = None, si_License = None, si_Version = []\<rparr>,
     sp_JSONSchemaDialect = [], sp_Servers = [], sp_Paths = [], sp_Components = \<lparr>co_Schemas = [], co_SecuritySchemes = []\<rparr>,
     sp_Tags = [], sp_Security = []\<rparr>"

theorem openapi_main_atomic_witness:
  "openapi_main (demo_disk (Some (EOther ''no space'', 2))) (\<lambda>_. Some ''{doc}'') (Some demo_spec) demo_files = (1, demo_files) \<and>
   fst (openapi_main (demo_disk None) (\<lambda>_. Some ''{doc}'') (Some demo_spec) demo_files) = 0"
proof -
  have fresh: "fresh_temp (demo_disk f) specPath demo_files" for f
    by (simp add: fresh_temp_def demo_disk_def demo_files_def specPath_def)
  let ?run = "openapi_main (demo_disk (Some (EOther ''no space'', 2))) (\<lambda>_. Some ''{doc}'') (Some demo_spec) demo_files"
  have "fst ?run = 1" "fst (openapi_main (demo_disk None) (\<lambda>_. Some ''{doc}'') (Some demo_spec) demo_files) = 0"
    unfolding openapi_main_def openapi_main_document by (simp_all add: writeFileAtomic_def demo_disk_def Let_def)
  moreover have "snd ?run = demo_files"
    using openapi_main_atomic [OF fresh [of "Some (EOther ''no space'', 2)"], where marshal = "\<lambda>_. Some ''{doc}''" and spec = demo_spec
        and code = "fst ?run" and fs' = "snd ?run"] \<open>fst ?run = 1\<close>
    by (auto simp: demo_disk_def intro!: ext)
  ultimately show ?thesis by (simp add: prod_eq_iff)
qed

end
