(* ===== verification/Helpers.thy ===== *)
theory Helpers
  imports Go_Prelude
begin

text \<open>
  The small packages: \<^verbatim>\<open>pkg/filter\<close>, which reads paging and sorting from a query, and the pointer helpers of
  \<^verbatim>\<open>pkg/ptrx\<close>. Machine integers have 64 bits.
\<close>

subsection \<open>Paging\<close>

definition paginationDefaultPage :: int where "paginationDefaultPage = 1"
definition paginationDefaultSize :: int where "paginationDefaultSize = 30"
definition queryParamPage :: string where "queryParamPage = ''page''"
definition queryParamLimit :: string where "queryParamLimit = ''limit''"
definition queryParamOffset :: string where "queryParamOffset = ''offset''"
definition queryParamDisablePaging :: string where "queryParamDisablePaging = ''disable_paging''"
definition queryParamSort :: string where "queryParamSort = ''sort''"

record Filter =
  fl_Page :: int
  fl_Offset :: int
  fl_Limit :: int
  fl_DisablePaging :: bool
  fl_Sort :: "string \<rightharpoonup> string"
  fl_Search :: bool

text \<open>\<open>url.Values\<close>: the values of a name, \<open>None\<close> where the name is absent; \<open>Get\<close> takes the first.\<close>

type_synonym url_values = "string \<Rightarrow> string list option"

definition query_Get :: "url_values \<Rightarrow> string \<Rightarrow> string" where
  "query_Get q name = (case q name of Some (v # _) \<Rightarrow> v | _ \<Rightarrow> [])"

definition int64 :: "int \<Rightarrow> int" where
  "int64 n = (n + 2 ^ 63) mod 2 ^ 64 - 2 ^ 63"

definition sort_entry :: "(string \<rightharpoonup> string) \<Rightarrow> string \<Rightarrow> (string \<rightharpoonup> string)" where
  "sort_entry m val =
     (case cut val (CHR '','') of (key, order, found) \<Rightarrow> m(key \<mapsto> (if found then to_upper order else ''ASC'')))"

definition NewFilter :: "url_values \<Rightarrow> Filter" where
  "NewFilter queries =
     (let page = (case parse_int 64 (query_Get queries queryParamPage) of Some n \<Rightarrow> n | None \<Rightarrow> paginationDefaultPage);
          limit = (case parse_int 64 (query_Get queries queryParamLimit) of Some n \<Rightarrow> n | None \<Rightarrow> paginationDefaultSize);
          offset = (case parse_int 64 (query_Get queries queryParamOffset) of
              Some n \<Rightarrow> n | None \<Rightarrow> int64 (limit * int64 (page - 1)));
          disablePaging = (case parse_bool (query_Get queries queryParamDisablePaging) of Some b \<Rightarrow> b | None \<Rightarrow> False);
          sortKey = (case queries queryParamSort of Some s \<Rightarrow> foldl sort_entry Map.empty s | None \<Rightarrow> Map.empty)
      in \<lparr>fl_Page = page, fl_Offset = offset, fl_Limit = limit, fl_DisablePaging = disablePaging, fl_Sort = sortKey,
          fl_Search = False\<rparr>)"


subsection \<open>Pointers\<close>

text \<open>A pointer is \<open>None\<close> when nil. The zero value of the type is an argument.\<close>

definition ptr_To :: "'a \<Rightarrow> 'a option" where
  "ptr_To v = Some v"

definition ptr_Deref :: "'a \<Rightarrow> 'a option \<Rightarrow> 'a" where
  "ptr_Deref zero p = (case p of None \<Rightarrow> zero | Some v \<Rightarrow> v)"

definition ptr_FromZero :: "'a \<Rightarrow> 'a \<Rightarrow> 'a option" where
  "ptr_FromZero zero v = (if v = zero then None else Some v)"


subsection \<open>Facts\<close>

lemma ptr_roundtrip:
  "ptr_Deref zero (ptr_To v) = v" "ptr_Deref zero (ptr_FromZero zero v) = v" "ptr_FromZero zero v \<noteq> Some zero"
  by (simp_all add: ptr_To_def ptr_Deref_def ptr_FromZero_def)

lemma int64_id: "- (2 ^ 63) \<le> n \<Longrightarrow> n < 2 ^ 63 \<Longrightarrow> int64 n = n"
  by (simp add: int64_def)

text \<open>
  A page and a size that are given and positive, without an explicit offset, skip the earlier pages exactly;
  nothing keeps page 0 or a negative size from giving a negative offset.
\<close>

lemma NewFilter_page:
  assumes "query_Get queries queryParamPage = itoa p" and "query_Get queries queryParamLimit = itoa n"
    and "query_Get queries queryParamOffset = []"
    and "- (2 ^ 63) < p" and "p < 2 ^ 63" and "- (2 ^ 63) \<le> n" and "n < 2 ^ 63"
    and "- (2 ^ 63) \<le> n * (p - 1)" and "n * (p - 1) < 2 ^ 63"
  shows "fl_Page (NewFilter queries) = p" and "fl_Limit (NewFilter queries) = n" and "fl_Offset (NewFilter queries) = n * (p - 1)"
proof -
  have "parse_int 64 [] = None" by (simp add: parse_int_def)
  moreover have "parse_int 64 (itoa p) = Some p" "parse_int 64 (itoa n) = Some n" using assms by (intro parse_int_itoa; simp)+
  ultimately show "fl_Page (NewFilter queries) = p" "fl_Limit (NewFilter queries) = n" "fl_Offset (NewFilter queries) = n * (p - 1)"
    using assms by (simp_all add: NewFilter_def Let_def int64_id)
qed

text \<open>The last value given for a key decides its order.\<close>

lemma foldl_sort_entry:
  "foldl sort_entry m vals key =
     (case List.find (\<lambda>v. fst (cut v (CHR '','')) = key) (rev vals) of
        None \<Rightarrow> m key
      | Some v \<Rightarrow> Some (case cut v (CHR '','') of (k, order, found) \<Rightarrow> if found then to_upper order else ''ASC''))"
proof (induction vals rule: rev_induct)
  case (snoc v vals)
  then show ?case by (auto simp: sort_entry_def split: prod.splits option.splits)
qed simp

end
