(* ===== verification/Api_Tree.thy ===== *)
theory Api_Tree
  imports Auth Build_Facts Docs_Tool Boot Transport
begin

text \<open>
  The API of this program: the operations of \<^verbatim>\<open>internal/api/auth/routes.go\<close>, the tree of
  \<^verbatim>\<open>internal/server/routes.go\<close>, and what the compiler makes of it. Handlers of operations get their input as
  reflected values and read the fields that the code reads.
\<close>

subsection \<open>The types of the operations\<close>

definition api_field :: "string \<Rightarrow> string \<Rightarrow> string \<Rightarrow> gtype \<Rightarrow> sfield" where
  "api_field name js validate t =
     SField name [] False ((''json'', js) # (if validate = [] then [] else [(''validate'', validate)])) t"

definition RegisterRequest_type :: gtype where
  "RegisterRequest_type = TStruct ''auth.RegisterRequest''
     [api_field ''Email'' ''email'' ''required,email,lowercase'' (TString []),
      api_field ''Password'' ''password'' ''required,min=8'' (TString [])]"

definition LoginRequest_type :: gtype where
  "LoginRequest_type = TStruct ''auth.LoginRequest''
     [api_field ''Identity'' ''identity'' ''required,email_or_e164,lowercase'' (TString []),
      api_field ''Password'' ''password'' ''required,min=8'' (TString [])]"

definition body_field :: "gtype \<Rightarrow> sfield" where
  "body_field t = SField ''Body'' [] False [(''body'', ''required'')] t"

definition RegisterInput_type :: gtype where
  "RegisterInput_type = TStruct ''auth.RegisterInput'' [body_field RegisterRequest_type]"

definition LoginInput_type :: gtype where
  "LoginInput_type = TStruct ''auth.LoginInput'' [body_field LoginRequest_type]"

definition EmptyInput_type :: gtype where
  "EmptyInput_type = TStruct ''auth.EmptyInput'' []"

definition RoleType_type :: gtype where
  "RoleType_type = TString ''sqlc.RoleType''"

definition UserResponse_type :: gtype where
  "UserResponse_type = TStruct ''auth.UserResponse''
     [api_field ''ID'' ''id'' [] (TInt [] 64), api_field ''Email'' ''email'' [] (TString []),
      api_field ''EmailVerified'' ''email_verified'' [] (TBool []), api_field ''Phone'' ''phone'' [] (TString []),
      api_field ''PhoneVerified'' ''phone_verified'' [] (TBool []), api_field ''Role'' ''role'' [] RoleType_type,
      api_field ''CreatedAt'' ''created_at'' [] TTime, api_field ''UpdatedAt'' ''updated_at'' [] TTime]"

definition Tokens_type :: gtype where
  "Tokens_type = TStruct ''jwt.Tokens''
     [api_field ''AccessToken'' ''access_token'' [] (TString []), api_field ''RefreshToken'' ''refresh_token'' [] (TString []),
      api_field ''ExpiresIn'' ''expires_in'' [] (TInt [] 64)]"

text \<open>The registration of \<^verbatim>\<open>internal/server/known_types.go\<close>.\<close>

definition register_known_types :: "enum_registry \<Rightarrow> enum_registry option" where
  "register_known_types reg = RegisterEnum RoleType_type [RoleTypeAdmin, RoleTypeCustomer] reg"


subsection \<open>Roles in the database\<close>

text \<open>
  The scanner and the valuer of \<^verbatim>\<open>models.go\<close>. What the driver hands over is nothing, bytes, a string or a value
  of another type; the error is returned beside the receiver, which is written before the inner scan is tried.
\<close>

datatype scan_src = SrcNil | SrcBytes string | SrcString string | SrcOther string

record NullRoleType =
  nr_RoleType :: string
  nr_Valid :: bool

definition RoleType_Scan :: "scan_src \<Rightarrow> string \<Rightarrow> string option \<times> string" where
  "RoleType_Scan src e =
     (case src of
        SrcBytes s \<Rightarrow> (None, s)
      | SrcString s \<Rightarrow> (None, s)
      | SrcNil \<Rightarrow> (Some ''unsupported scan type for RoleType: <nil>'', e)
      | SrcOther t \<Rightarrow> (Some (''unsupported scan type for RoleType: '' @ t), e))"

definition NullRoleType_Scan :: "scan_src \<Rightarrow> NullRoleType \<Rightarrow> string option \<times> NullRoleType" where
  "NullRoleType_Scan val ns =
     (if val = SrcNil then (None, ns\<lparr>nr_RoleType := [], nr_Valid := False\<rparr>)
      else case RoleType_Scan val (nr_RoleType ns) of (err, e) \<Rightarrow> (err, ns\<lparr>nr_RoleType := e, nr_Valid := True\<rparr>))"

definition NullRoleType_Value :: "NullRoleType \<Rightarrow> scan_src" where
  "NullRoleType_Value ns = (if nr_Valid ns then SrcString (nr_RoleType ns) else SrcNil)"

lemma null_role_roundtrip:
  "fst (NullRoleType_Scan (NullRoleType_Value ns) old) = None"
  "NullRoleType_Value (snd (NullRoleType_Scan (NullRoleType_Value ns) old)) = NullRoleType_Value ns"
  by (auto simp: NullRoleType_Scan_def NullRoleType_Value_def RoleType_Scan_def)

text \<open>A scan that fails leaves a valid value behind.\<close>

lemma null_role_scan_failure: "fst (NullRoleType_Scan val ns) \<noteq> None \<Longrightarrow> nr_Valid (snd (NullRoleType_Scan val ns))"
  by (auto simp: NullRoleType_Scan_def split: prod.splits if_splits)


subsection \<open>Handlers on bound requests\<close>

definition str_field :: "gval \<Rightarrow> nat \<Rightarrow> string" where
  "str_field v i = (case get_field v i of VString s \<Rightarrow> s | _ \<Rightarrow> [])"

definition answered :: "go_error + 't Reply \<Rightarrow> 't Reply option \<times> go_error option" where
  "answered res = (case res of Inl e \<Rightarrow> (None, Some e) | Inr rp \<Rightarrow> (Some rp, None))"

definition op_handle_Login :: "'s service \<Rightarrow> ('s, 'x req_ctx_scheme, 't) typed_handler" where
  "op_handle_Login svc ctx req st =
     (let b = get_field req 0
      in (answered (handle_Login svc \<lparr>lr_Identity = str_field b 0, lr_Password = str_field b 1\<rparr> st), st))"

definition op_handle_RegisterAdmin :: "'s service \<Rightarrow> ('s, 'x req_ctx_scheme, 't) typed_handler" where
  "op_handle_RegisterAdmin svc ctx req st =
     (let b = get_field req 0
      in case handle_RegisterAdmin svc \<lparr>rr_Email = str_field b 0, rr_Password = str_field b 1\<rparr> st of
           (res, st') \<Rightarrow> (answered res, st'))"

definition op_handle_Me :: "'s service \<Rightarrow> ('s, 'x req_ctx_scheme, 't) typed_handler" where
  "op_handle_Me svc ctx req st = (answered (handle_Me svc ctx st), st)"

definition op_handle_Refresh :: "'s service \<Rightarrow> ('s, 'x req_ctx_scheme, 't) typed_handler" where
  "op_handle_Refresh svc ctx req st = (answered (handle_Refresh svc ctx st), st)"


subsection \<open>The operations\<close>

definition blank_operation :: "('s, 'c, 't) Operation" where
  "blank_operation = \<lparr>op_ID = [], op_Method = [], op_Path = [], op_Summary = [], op_Description = [], op_Tags = [],
     op_BodyDescription = [], op_SuccessDescription = [], op_Success = \<lparr>sm_mode = modeUnset, sm_status = 0\<rparr>, op_Problems = [],
     op_Guards = [], op_ResponseCookies = [], op_Security = empty_requirement, op_Handler = None\<rparr>"

definition op_Login :: "'s service \<Rightarrow> ('s, 'x req_ctx_scheme, 't) Operation" where
  "op_Login h = blank_operation
     \<lparr>op_Method := ''POST'', op_Path := ''/login'', op_Summary := ''Log in'', op_BodyDescription := ''User credentials'',
      op_SuccessDescription := ''Authentication tokens issued'', op_Success := Enveloped 200,
      op_Problems := [Described Unauthorized ''The credentials are invalid''], op_Handler := Some (op_handle_Login h)\<rparr>"

definition op_Register :: "'s service \<Rightarrow> ('s, 'x req_ctx_scheme, 't) Operation" where
  "op_Register h = blank_operation
     \<lparr>op_Method := ''POST'', op_Path := ''/register'', op_Summary := ''Register an administrator'',
      op_BodyDescription := ''New user details'', op_SuccessDescription := ''User registered'', op_Success := Message 201,
      op_Problems := [Described Conflict ''A user with this identity already exists''],
      op_Handler := Some (op_handle_RegisterAdmin h)\<rparr>"

definition op_Me :: "'s service \<Rightarrow> 'x req_ctx_scheme Guard \<Rightarrow> ('s, 'x req_ctx_scheme, 't) Operation" where
  "op_Me h access = blank_operation
     \<lparr>op_Method := ''GET'', op_Path := ''/me'', op_Summary := ''Get the current user'',
      op_SuccessDescription := ''Current user returned'', op_Success := Enveloped 200,
      op_Problems := [Described NotFound ''The authenticated user no longer exists''], op_Guards := [access],
      op_Handler := Some (op_handle_Me h)\<rparr>"

definition op_Refresh :: "'s service \<Rightarrow> 'x req_ctx_scheme Guard \<Rightarrow> ('s, 'x req_ctx_scheme, 't) Operation" where
  "op_Refresh h refresh = blank_operation
     \<lparr>op_Method := ''POST'', op_Path := ''/refresh'', op_Summary := ''Refresh authentication tokens'',
      op_SuccessDescription := ''Fresh authentication tokens issued'', op_Success := Enveloped 200,
      op_Problems := [Described Unauthorized ''The refresh identity is invalid''], op_Guards := [refresh],
      op_Handler := Some (op_handle_Refresh h)\<rparr>"


subsection \<open>The tree\<close>

text \<open>\<open>None\<close> is the panic of a guard that cannot be made.\<close>

definition auth_Routes ::
  "'s service \<Rightarrow> ('s, 'x req_ctx_scheme, 't) group_heap \<Rightarrow> (nat \<times> ('s, 'x req_ctx_scheme, 't) group_heap) option" where
  "auth_Routes h gs =
     (case NewGroup \<lparr>df_Tags = [''auth'']\<rparr> gs of
        (g, gs1) \<Rightarrow>
          let gs2 = Register g RegisterInput_type noBodyType (op_Register h) (Register g LoginInput_type Tokens_type (op_Login h) gs1) in
          case AccessGuard (sv_token h) (sv_now h) of
            None \<Rightarrow> None
          | Some access \<Rightarrow>
              let gs3 = Register g EmptyInput_type UserResponse_type (op_Me h access) gs2 in
              (case RefreshGuard (sv_token h) (sv_now h) of
                 None \<Rightarrow> None
               | Some refresh \<Rightarrow> Some (g, Register g EmptyInput_type Tokens_type (op_Refresh h refresh) gs3)))"

text \<open>
  What the infrastructure handlers are made of: the metrics handler and the page generator of third parties,
  and the embedded document.
\<close>

record ('s, 'c) infra_env =
  ie_metrics :: "('s, 'c) handler"
  ie_ReferenceHTML :: "scalar_Options \<Rightarrow> string option"
  ie_embedded :: "string option"

definition openAPIJSON_handler :: "('s, 'c) infra_env \<Rightarrow> ('s, 'c) handler" where
  "openAPIJSON_handler infra r ws = (openAPIJSON (ie_embedded infra) (fst ws), snd ws)"

definition openAPIUI_handler :: "('s, 'c) infra_env \<Rightarrow> ('s, 'c) handler" where
  "openAPIUI_handler infra r ws = (openAPIUI (ie_ReferenceHTML infra) (ie_embedded infra) (fst ws), snd ws)"

definition server_Routes ::
  "('s, 'x req_ctx_scheme) infra_env \<Rightarrow> 's service \<Rightarrow> ('s, 'x req_ctx_scheme, 't) group_heap
     \<Rightarrow> (nat \<times> ('s, 'x req_ctx_scheme, 't) group_heap) option" where
  "server_Routes infra authHandler gs =
     (case NewGroup \<lparr>df_Tags = []\<rparr> gs of
        (root, gs1) \<Rightarrow>
          let gs2 = HandleInfra root ''GET'' ''/metrics'' (Some (ie_metrics infra)) gs1;
              gs3 = HandleInfra root ''GET'' ''/docs/json'' (Some (openAPIJSON_handler infra)) gs2;
              gs4 = HandleInfra root ''GET'' ''/docs/ui'' (Some (openAPIUI_handler infra)) gs3
          in case Sub root ''/api/v1'' gs4 of
               (v1, gs5) \<Rightarrow>
                 (case auth_Routes authHandler gs5 of
                    None \<Rightarrow> None
                  | Some (a, gs6) \<Rightarrow> Some (root, Mount v1 ''/auth'' (Some a) gs6)))"


text \<open>
  \<open>MustBuild\<close>, \<open>BuildHandler\<close> and \<open>RouterForDocs\<close>. \<open>serve\<close> is what the router does with the calls made on
  it; the outer \<open>None\<close> is a panic.
\<close>

definition MustBuild :: "'e list + ('s, 'c) Application \<Rightarrow> ('s, 'c) Application option" where
  "MustBuild built = (case built of Inl _ \<Rightarrow> None | Inr app \<Rightarrow> Some app)"

definition BuildHandler ::
  "('x req_ctx_scheme, 't) build_env \<Rightarrow> ('s, 'x req_ctx_scheme) build_params
     \<Rightarrow> (('s, 'x req_ctx_scheme) chi_call list \<Rightarrow> ('h, 'w, 'y transport_ctx_scheme) server_handler)
     \<Rightarrow> ('h, 'y transport_ctx_scheme) log_env \<Rightarrow> ('h, 'w, 'y transport_ctx_scheme) transport_lib \<Rightarrow> string list
     \<Rightarrow> ('s, 'x req_ctx_scheme) infra_env \<Rightarrow> 's service
     \<Rightarrow> (build_violation list + ('h, 'w, 'y transport_ctx_scheme) server_handler) option" where
  "BuildHandler env P serve log lib proxies infra h =
     (case server_Routes infra h ([] :: ('s, 'x req_ctx_scheme, 't) group_heap) of
        None \<Rightarrow> None
      | Some (g, gs) \<Rightarrow>
          Some (case buildWithStableRegistries env P gs g of
            Inl vs \<Rightarrow> Inl vs
          | Inr app \<Rightarrow> Inr (wrapTransport log lib proxies (serve (ap_router app)))))"

definition MustBuildHandler ::
  "(build_violation list + ('h, 'w, 'y transport_ctx_scheme) server_handler) option
     \<Rightarrow> ('h, 'w, 'y transport_ctx_scheme) server_handler option" where
  "MustBuildHandler built = (case built of Some (Inr handler) \<Rightarrow> Some handler | _ \<Rightarrow> None)"

definition RouterForDocs ::
  "validator_lib \<Rightarrow> registry \<Rightarrow> ('x req_ctx_scheme, 't) build_env \<Rightarrow> ('s, 'x req_ctx_scheme) build_params
     \<Rightarrow> ('s, 'x req_ctx_scheme) infra_env \<Rightarrow> 's service \<Rightarrow> ('s, 'x req_ctx_scheme) Application option" where
  "RouterForDocs vlib st env P infra h =
     (case InitValidator vlib st of
        (Some _, _) \<Rightarrow> None
      | (None, _) \<Rightarrow>
          (case server_Routes infra h ([] :: ('s, 'x req_ctx_scheme, 't) group_heap) of
             None \<Rightarrow> None
           | Some (g, gs) \<Rightarrow> MustBuild (buildWithStableRegistries env P gs g)))"

end
