(* ===== verification/Api_Surface.thy ===== *)
theory Api_Surface
  imports Api_Tree
begin

text \<open>
  What the compiler makes of the tree of this program: the first pass over the real declarations, with the
  reflected types of \<^verbatim>\<open>internal/api/auth/schema.go\<close>, and the operations that come out of it.
\<close>

subsection \<open>Requests without path parameters\<close>

definition known_enums :: enum_registry where
  "known_enums = the (register_known_types \<lparr>er_values = [], er_version = 0\<rparr>)"

text \<open>A request whose only faults are those of its validate tags and that has no path parameter.\<close>

definition request_clean :: "'x compile_env_scheme \<Rightarrow> gtype \<Rightarrow> string \<Rightarrow> bool" where
  "request_clean env t method \<longleftrightarrow>
     map_option pl_pathParams (fst (compileRequest env t method)) = Some [] \<and>
     snd (compileRequest env t method) = map InvalidValidateTags (compileValidationTags env t)"

definition body_at_0 :: "requestPlan \<times> req_violation list \<Rightarrow> bool" where
  "body_at_0 x \<longleftrightarrow>
     (case pl_body (fst x) of None \<Rightarrow> False | Some bp \<Rightarrow> bp_index bp = 0) \<and> pl_pathParams (fst x) = [] \<and> snd x = []"

lemma request_cleanI:
  assumes "type_kind t = KStruct" "type_fields t = [f]" "body_at_0 (compile_fields env method 0 [f] [] (empty_plan t))"
    "validateCrossFieldBoundary [f] f = []" "fst (bindingTagsInside (sf_Type f) []) = []" "fst (validateDiveTargets t []) = []"
  shows "request_clean env t method"
proof -
  obtain plan where c: "compile_fields env method 0 [f] [] (empty_plan t) = (plan, [])" and b: "\<exists>bp. pl_body plan = Some bp \<and> bp_index bp = 0"
    and p: "pl_pathParams plan = []"
    using assms(3) by (cases "compile_fields env method 0 [f] [] (empty_plan t)") (auto simp: body_at_0_def split: option.splits)
  from b obtain bp where "pl_body plan = Some bp" "bp_index bp = 0" by blast
  with assms p show ?thesis by (simp add: request_clean_def compileRequest_def Let_def c del: compile_fields.simps)
qed

lemma body_fields:
  assumes "enums env = known_enums"
  shows "body_at_0 (compile_fields (env :: ('c, 't) build_env) ''POST'' 0 [body_field LoginRequest_type] [] (empty_plan LoginInput_type))"
    and "body_at_0 (compile_fields env ''POST'' 0 [body_field RegisterRequest_type] [] (empty_plan RegisterInput_type))"
proof -
  have "body_at_0 (compile_fields e ''POST'' 0 [body_field LoginRequest_type] [] (empty_plan LoginInput_type)) \<and>
        body_at_0 (compile_fields e ''POST'' 0 [body_field RegisterRequest_type] [] (empty_plan RegisterInput_type))"
    if "e = \<lparr>ParseFloat = a1, ParseTime = a2, UnmarshalText = a3, UnmarshalJSON = a4, knownTypeRegistered = a5, UnmarshalRead = a6,
      LenientUnmarshal = a7, quote = a8, validate_Struct = a9, var_rejects = a10, init_error = a11, filtered_panic = a12, struct_panic = a13,
      known_null = a14, type_String = a15, enums = known_enums, ParseMediaType = a16, enc_value = a17, enc_time = a18,
      url_params = a19, chi_endpoint = a20, chi_mount = a21\<rparr>"
    for e :: "('c, 't) build_env" and a1 a2 a3 a4 a5 a6 a7 a8 a9 a10 a11 a12 a13 a14 a15 a16 a17 a18 a19 a20 a21
    unfolding that by code_simp
  then show "body_at_0 (compile_fields env ''POST'' 0 [body_field LoginRequest_type] [] (empty_plan LoginInput_type))"
    "body_at_0 (compile_fields env ''POST'' 0 [body_field RegisterRequest_type] [] (empty_plan RegisterInput_type))"
    using assms by (cases env; simp)+
qed

lemma requests_clean:
  assumes "enums env = known_enums"
  shows "request_clean (env :: ('c, 't) build_env) LoginInput_type ''POST''" "request_clean env RegisterInput_type ''POST''"
    "request_clean env EmptyInput_type method"
proof -
  have shape: "type_kind LoginInput_type = KStruct" "type_fields LoginInput_type = [body_field LoginRequest_type]"
    "type_kind RegisterInput_type = KStruct" "type_fields RegisterInput_type = [body_field RegisterRequest_type]" by code_simp+
  have boundary: "validateCrossFieldBoundary [body_field LoginRequest_type] (body_field LoginRequest_type) = []"
    "validateCrossFieldBoundary [body_field RegisterRequest_type] (body_field RegisterRequest_type) = []"
    "fst (bindingTagsInside (sf_Type (body_field LoginRequest_type)) []) = []" "fst (validateDiveTargets LoginInput_type []) = []"
    "fst (bindingTagsInside (sf_Type (body_field RegisterRequest_type)) []) = []" "fst (validateDiveTargets RegisterInput_type []) = []"
    by code_simp+
  show "request_clean env LoginInput_type ''POST''"
    by (rule request_cleanI [OF shape(1,2) body_fields(1) [OF assms] boundary(1,3,4)])
  show "request_clean env RegisterInput_type ''POST''"
    by (rule request_cleanI [OF shape(3,4) body_fields(2) [OF assms] boundary(2,5,6)])
  show "request_clean env EmptyInput_type method"
    by (simp add: request_clean_def compileRequest_def EmptyInput_type_def empty_plan_def Let_def validateDiveTargets.simps)
qed


subsection \<open>The tree as a heap of groups\<close>

definition service_access_guard :: "'s service \<Rightarrow> 'x req_ctx_scheme Guard" where
  "service_access_guard h = the (AccessGuard (sv_token h) (sv_now h))"
definition service_refresh_guard :: "'s service \<Rightarrow> 'x req_ctx_scheme Guard" where
  "service_refresh_guard h = the (RefreshGuard (sv_token h) (sv_now h))"

lemma guards_exist:
  "AccessGuard (sv_token h) (sv_now h) = Some (service_access_guard h)" "RefreshGuard (sv_token h) (sv_now h) = Some (service_refresh_guard h)"
  "guard_valid (service_access_guard h)" "guard_valid (service_refresh_guard h)"
  "gd_id (service_access_guard h) = ''access-token''" "gd_id (service_refresh_guard h) = ''refresh-token''"
  by (simp_all add: service_access_guard_def service_refresh_guard_def AccessGuard_def RefreshGuard_def bearerGuard_Some guard_valid_def)

definition auth_endpoints :: "'s service \<Rightarrow> ('s, 'x req_ctx_scheme, 't) endpointDecl list" where
  "auth_endpoints h = [typed_decl LoginInput_type Tokens_type (op_Login h), typed_decl RegisterInput_type noBodyType (op_Register h),
     typed_decl EmptyInput_type UserResponse_type (op_Me h (service_access_guard h)),
     typed_decl EmptyInput_type Tokens_type (op_Refresh h (service_refresh_guard h))]"

definition infra_routes :: "('s, 'c) infra_env \<Rightarrow> ('s, 'c) infraDecl list" where
  "infra_routes infra = [\<lparr>id_method = ''GET'', id_path = ''/metrics'', id_handler = Some (ie_metrics infra)\<rparr>,
    \<lparr>id_method = ''GET'', id_path = ''/docs/json'', id_handler = Some (openAPIJSON_handler infra)\<rparr>,
    \<lparr>id_method = ''GET'', id_path = ''/docs/ui'', id_handler = Some (openAPIUI_handler infra)\<rparr>]"

definition child_link :: "string \<Rightarrow> nat \<Rightarrow> groupChild" where
  "child_link p i = \<lparr>gc_pattern = p, gc_node = Some i\<rparr>"

definition api_heap :: "('s, 'x req_ctx_scheme) infra_env \<Rightarrow> 's service \<Rightarrow> ('s, 'x req_ctx_scheme, 't) group_heap" where
  "api_heap infra h =
    [\<lparr>g_defaults = \<lparr>df_Tags = []\<rparr>, g_guards = [], g_children = [child_link ''/api/v1'' 1],
      g_endpoints = [], g_infra = infra_routes infra, g_attached = False\<rparr>,
     \<lparr>g_defaults = \<lparr>df_Tags = []\<rparr>, g_guards = [], g_children = [child_link ''/auth'' 2],
      g_endpoints = [], g_infra = [], g_attached = True\<rparr>,
     \<lparr>g_defaults = \<lparr>df_Tags = [''auth'']\<rparr>, g_guards = [], g_children = [],
      g_endpoints = auth_endpoints h, g_infra = [], g_attached = True\<rparr>]"

lemma server_Routes_heap: "server_Routes infra h [] = Some (0, api_heap infra h)"
  by (simp add: server_Routes_def auth_Routes_def NewGroup_def HandleInfra_def Sub_def group_child_def Mount_def Register_def
      update_group_def new_group_def Let_def guards_exist api_heap_def infra_routes_def auth_endpoints_def child_link_def)


subsection \<open>Declarations without a fault\<close>

definition same_head :: "('s, 'c) operationModel \<Rightarrow> ('s, 'c) operationModel \<Rightarrow> bool" where
  "same_head m m' \<longleftrightarrow> om_method m' = om_method m \<and> om_path m' = om_path m \<and> om_id m' = om_id m \<and> om_raw m' = om_raw m \<and>
     om_problems m' = om_problems m \<and> om_guards m' = om_guards m"

lemma prepare_typed_clean:
  assumes "request_clean env reqType (om_method m)" "compileValidationTags env reqType = []" "compileValidationTags env resType = []"
    "pathPlaceholders (om_path m) = []" "validateSuccessMode success resType = []"
  shows "\<exists>m' wp. prepare_typed env success cookies reqType resType (Some h) m = ([], m') \<and> same_head m m' \<and> om_handler m' \<noteq> None \<and>
     om_response m' = Some wp \<and> wp_status wp = sm_status success"
proof -
  obtain plan where "compileRequest env reqType (om_method m) = (Some plan, [])" "pl_pathParams plan = []"
    using assms(1,2) by (cases "compileRequest env reqType (om_method m)") (auto simp: request_clean_def)
  with assms show ?thesis
    by (simp add: prepare_typed_def Let_def crossCheckPlaceholders_def compileWritePlan_def withResponseValidation_def same_head_def)
qed

definition op_surface :: "('s, 'c) operationModel \<Rightarrow> string \<times> string \<times> string \<times> int \<times> string list \<times> string list" where
  "op_surface m = (om_method m, om_path m, om_id m, (case om_response m of Some wp \<Rightarrow> wp_status wp | None \<Rightarrow> 0),
     map pk_Code (om_problems m), map gd_id (om_guards m))"

text \<open>A compiler state without complaints, with its operations, routes and ids.\<close>

definition settled ::
  "('s, 'c) compiler \<Rightarrow> (string \<times> string \<times> string \<times> int \<times> string list \<times> string list) list \<Rightarrow> string list \<Rightarrow> string list \<Rightarrow> bool" where
  "settled c ops ks js \<longleftrightarrow> 
     cp_violations c = [] \<and> map op_surface (cp_ops c) = ops \<and> list_all (\<lambda>m. \<not> om_raw m) (cp_ops c) \<and>
     map fst (cp_seen c) = ks \<and> map fst (cp_opIDs c) = js"

lemma endpoint_clean:
  assumes "settled c ops ks js" and ep: "ep = typed_decl reqType resType op" "op_Handler op = Some h" "op_ID op = []"
    and full: "full = joinPattern pre (op_Path op)" and m: "method = op_Method op"
    and i: "i = generateOperationID method full" "i \<notin> set js"
    and k: "key = op_label method (normalizePath full)" "key \<notin> set ks"
    and g: "list_all guard_valid (op_Guards op)"
    and p: "method \<in> set httpMethods" "has_prefix (op_Path op) ''/''" "chi_endpoint env full = None"
    and d: "problem_check (op_label method full) [] (op_Problems op) = []" "op_Security op = empty_requirement" "op_ResponseCookies op = []"
    and r: "request_clean env reqType method" "compileValidationTags env reqType = []" "compileValidationTags env resType = []"
      "pathPlaceholders full = []" "validateSuccessMode (op_Success op) resType = []"
  shows "\<exists>m' c'. endpoint env ep pre [] df c = (Some m', c') \<and>
     settled c' (ops @ [(method, full, i, sm_status (op_Success op), map pk_Code (op_Problems op), map gd_id (op_Guards op))]) (key # ks) (i # js)"
proof -
  let ?m0 = "initial_model ep full [] df"
  have m0: "om_method ?m0 = method" "om_path ?m0 = full" "om_id ?m0 = []" "om_raw ?m0 = False" "om_problems ?m0 = op_Problems op"
    "om_guards ?m0 = op_Guards op"
    using ep g m by (simp_all add: initial_model_def typed_decl_def Let_def list_all_iff filter_id_conv)
  obtain m1 wp where m1: "run_prepare env ep ?m0 = ([], m1)" "same_head ?m0 m1" "om_handler m1 \<noteq> None"
    "om_response m1 = Some wp" "wp_status wp = sm_status (op_Success op)"
    using prepare_typed_clean [of env reqType ?m0 resType "op_Success op" "op_ResponseCookies op" h] r m0
    by (auto simp: run_prepare_def ep typed_decl_def)
  have c: "map_of (cp_seen c) key = None" "map_of (cp_opIDs c) i = None"
    using assms(1) i(2) k(2) by (force simp: settled_def map_of_eq_None_iff)+
  have checks: "pattern_check env (op_label method full) method (op_Path op) full = []" "guard_check_list (op_label method full) (op_Guards op) = []"
    "validateRequirementSet (op_label method full) empty_requirement = None"
    using p g by (simp_all add: pattern_check_def guard_check_list_def list_all_iff filter_empty_conv empty_requirement_def validateRequirementSet_def)
  have "endpoint env ep pre [] df c = (Some (m1\<lparr>om_id := i\<rparr>),
      c\<lparr>cp_ops := cp_ops c @ [m1\<lparr>om_id := i\<rparr>], cp_seen := (key, full) # cp_seen c, cp_opIDs := (i, op_label method full) # cp_opIDs c\<rparr>)"
    using m1 m0 c checks d ep full m
    by (simp add: endpoint_def Let_def typed_decl_def complain_def claimRoute_def claimID_def same_head_def k(1) i(1) cloneRequirementSet_def)
  with assms(1) m1 m0 show ?thesis by (auto simp: settled_def op_surface_def same_head_def)
qed


subsection \<open>What the tree asks of the environment\<close>

text \<open>The registered enums of \<^verbatim>\<open>known_types.go\<close>, a
  validator that accepts the tags of these types, a router that accepts these patterns.\<close>

definition api_structs :: "gtype list" where
  "api_structs = [LoginInput_type, LoginRequest_type, RegisterInput_type, RegisterRequest_type, EmptyInput_type, UserResponse_type,
     TTime, Tokens_type, noBodyType]"

definition build_admits :: "('c, 't) build_env \<Rightarrow> bool" where
  "build_admits env \<longleftrightarrow> enums env = known_enums \<and> init_error env = None \<and>
     list_all (\<lambda>t. filtered_panic env t = None \<and> struct_panic env (populatedValidationValue t 0 []) = None) api_structs \<and>
     list_all (\<lambda>p. chi_endpoint env p = None) [''/metrics'', ''/docs/json'', ''/docs/ui'', ''/api/v1/auth/login'',
       ''/api/v1/auth/register'', ''/api/v1/auth/me'', ''/api/v1/auth/refresh''] \<and>
     chi_mount env ''/api/v1'' = None \<and> chi_mount env ''/auth'' = None"

lemma validation_structs:
  "fst (collectValidationStructs LoginInput_type []) = [LoginInput_type, LoginRequest_type]"
  "fst (collectValidationStructs RegisterInput_type []) = [RegisterInput_type, RegisterRequest_type]"
  "fst (collectValidationStructs EmptyInput_type []) = [EmptyInput_type]"
  "fst (collectValidationStructs UserResponse_type []) = [UserResponse_type, TTime]"
  "fst (collectValidationStructs Tokens_type []) = [Tokens_type]"
  "fst (collectValidationStructs noBodyType []) = [noBodyType]"
  by code_simp+

lemma tags_clean:
  assumes "build_admits env"
  shows "compileValidationTags env LoginInput_type = []" "compileValidationTags env RegisterInput_type = []"
    "compileValidationTags env EmptyInput_type = []" "compileValidationTags env UserResponse_type = []"
    "compileValidationTags env Tokens_type = []" "compileValidationTags env noBodyType = []"
  using assms by (simp_all add: build_admits_def api_structs_def compileValidationTags_def validation_structs List.map_filter_simps
      del: collectValidationStructs.simps populatedValidationValue.simps)

lemma api_ids:
  "generateOperationID ''POST'' ''/api/v1/auth/login'' = ''postApiV1AuthLogin''"
  "generateOperationID ''POST'' ''/api/v1/auth/register'' = ''postApiV1AuthRegister''"
  "generateOperationID ''GET'' ''/api/v1/auth/me'' = ''getApiV1AuthMe''"
  "generateOperationID ''POST'' ''/api/v1/auth/refresh'' = ''postApiV1AuthRefresh''"
  by code_simp+

lemma api_paths:
  "joinPattern [] ''/metrics'' = ''/metrics''" "joinPattern [] ''/docs/json'' = ''/docs/json''" "joinPattern [] ''/docs/ui'' = ''/docs/ui''"
  "joinPattern [] ''/api/v1'' = ''/api/v1''" "joinPattern ''/api/v1'' ''/auth'' = ''/api/v1/auth''"
  "joinPattern ''/api/v1/auth'' ''/login'' = ''/api/v1/auth/login''" "joinPattern ''/api/v1/auth'' ''/register'' = ''/api/v1/auth/register''"
  "joinPattern ''/api/v1/auth'' ''/me'' = ''/api/v1/auth/me''" "joinPattern ''/api/v1/auth'' ''/refresh'' = ''/api/v1/auth/refresh''"
  "normalizePath ''/metrics'' = ''/metrics''" "normalizePath ''/docs/json'' = ''/docs/json''" "normalizePath ''/docs/ui'' = ''/docs/ui''"
  "normalizePath ''/api/v1/auth/login'' = ''/api/v1/auth/login''" "normalizePath ''/api/v1/auth/register'' = ''/api/v1/auth/register''"
  "normalizePath ''/api/v1/auth/me'' = ''/api/v1/auth/me''" "normalizePath ''/api/v1/auth/refresh'' = ''/api/v1/auth/refresh''"
  "pathPlaceholders ''/api/v1/auth/login'' = []" "pathPlaceholders ''/api/v1/auth/register'' = []"
  "pathPlaceholders ''/api/v1/auth/me'' = []" "pathPlaceholders ''/api/v1/auth/refresh'' = []"
  by code_simp+

lemma infra_clean:
  assumes "build_admits env"
  shows "\<exists>eps c. infrastructures env (infra_routes infra) [] empty_compiler = (eps, c) \<and>
     settled c [] [''GET /docs/ui'', ''GET /docs/json'', ''GET /metrics''] []"
  using assms by (simp add: build_admits_def infra_routes_def infrastructure_def Let_def api_paths pattern_check_def httpMethods_def
      complain_def claimRoute_def op_label_def empty_compiler_def settled_def)

lemma topology_clean:
  "validateChildTopology env (api_heap infra h) 0 [] = ([], [True])"
  "validateChildTopology env (api_heap infra h) (Suc 0) ''/api/v1'' = ([], [True])"
  "validateChildTopology env (api_heap infra h) 2 ''/api/v1/auth'' = ([], [])"
proof -
  have m: "mountContainsRoutePattern ''/api/v1'' ''/metrics'' = False" "mountContainsRoutePattern ''/api/v1'' ''/docs/json'' = False"
    "mountContainsRoutePattern ''/api/v1'' ''/docs/ui'' = False" by code_simp+
  show "validateChildTopology env (api_heap infra h) 0 [] = ([], [True])"
    by (simp add: validateChildTopology_def collectTopologyClaims_def api_heap_def infra_routes_def child_link_def enumerate_from_def
        child_mount_def group_routes_def mount_conflicts_def m)
  show "validateChildTopology env (api_heap infra h) (Suc 0) ''/api/v1'' = ([], [True])" "validateChildTopology env (api_heap infra h) 2 ''/api/v1/auth'' = ([], [])"
    by (simp_all add: validateChildTopology_def collectTopologyClaims_def api_heap_def child_link_def enumerate_from_def
        child_mount_def group_routes_def mount_conflicts_def)
qed


subsection \<open>The operations, in the order of declaration\<close>

definition auth_surface :: "(string \<times> string \<times> string \<times> int \<times> string list \<times> string list) list" where
  "auth_surface =
    [(''POST'', ''/api/v1/auth/login'', ''postApiV1AuthLogin'', 200, [''unauthorized''], []),
     (''POST'', ''/api/v1/auth/register'', ''postApiV1AuthRegister'', 201, [''conflict''], []),
     (''GET'', ''/api/v1/auth/me'', ''getApiV1AuthMe'', 200, [''not-found''], [''access-token'']),
     (''POST'', ''/api/v1/auth/refresh'', ''postApiV1AuthRefresh'', 200, [''unauthorized''], [''refresh-token''])]"

lemma declared_problems:
  "problem_check l [] (op_Problems (op_Login h)) = []" "problem_check l [] (op_Problems (op_Register h)) = []"
  "problem_check l [] (op_Problems (op_Me h a)) = []" "problem_check l [] (op_Problems (op_Refresh h a)) = []"
  "map pk_Code (op_Problems (op_Login h)) = [''unauthorized'']" "map pk_Code (op_Problems (op_Register h)) = [''conflict'']"
  "map pk_Code (op_Problems (op_Me h a)) = [''not-found'']" "map pk_Code (op_Problems (op_Refresh h a)) = [''unauthorized'']"
  unfolding op_Login_def op_Register_def op_Me_def op_Refresh_def by code_simp+

lemma success_types:
  "validateSuccessMode (Enveloped 200) Tokens_type = []" "validateSuccessMode (Message 201) noBodyType = []"
  "validateSuccessMode (Enveloped 200) UserResponse_type = []"
  "sm_status (Enveloped 200) = 200" "sm_status (Message 201) = 201"
  by code_simp+

lemma op_fields:
  "op_Handler (op_Login h) = Some (op_handle_Login h)" "op_Handler (op_Register h) = Some (op_handle_RegisterAdmin h)"
  "op_Handler (op_Me h a) = Some (op_handle_Me h)" "op_Handler (op_Refresh h a) = Some (op_handle_Refresh h)"
  "op_Path (op_Login h) = ''/login''" "op_Path (op_Register h) = ''/register''" "op_Path (op_Me h a) = ''/me''" "op_Path (op_Refresh h a) = ''/refresh''"
  "op_Method (op_Login h) = ''POST''" "op_Method (op_Register h) = ''POST''" "op_Method (op_Me h a) = ''GET''" "op_Method (op_Refresh h a) = ''POST''"
  "op_Success (op_Login h) = Enveloped 200" "op_Success (op_Register h) = Message 201"
  "op_Success (op_Me h a) = Enveloped 200" "op_Success (op_Refresh h a) = Enveloped 200"
  "op_Guards (op_Login h) = []" "op_Guards (op_Register h) = []" "op_Guards (op_Me h a) = [a]" "op_Guards (op_Refresh h a) = [a]"
  by (simp_all add: op_Login_def op_Register_def op_Me_def op_Refresh_def blank_operation_def)

lemma op_blanks:
  "op_ID (op_Login h) = []" "op_ID (op_Register h) = []" "op_ID (op_Me h a) = []" "op_ID (op_Refresh h a) = []"
  "op_Security (op_Login h) = empty_requirement" "op_Security (op_Register h) = empty_requirement"
  "op_Security (op_Me h a) = empty_requirement" "op_Security (op_Refresh h a) = empty_requirement"
  "op_ResponseCookies (op_Login h) = []" "op_ResponseCookies (op_Register h) = []"
  "op_ResponseCookies (op_Me h a) = []" "op_ResponseCookies (op_Refresh h a) = []"
  by (simp_all add: op_Login_def op_Register_def op_Me_def op_Refresh_def blank_operation_def)

lemma auth_endpoints_clean:
  fixes env :: "('x req_ctx_scheme, 't) build_env"
  assumes e: "build_admits env" and c: "settled c [] [''GET /docs/ui'', ''GET /docs/json'', ''GET /metrics''] []"
  shows "\<exists>eps c' ks js. endpoints env (auth_endpoints h) ''/api/v1/auth'' [] df c = (eps, c') \<and> settled c' auth_surface ks js"
proof -
  have en: "enums env = known_enums" and chi: "chi_endpoint env ''/api/v1/auth/login'' = None" "chi_endpoint env ''/api/v1/auth/register'' = None"
    "chi_endpoint env ''/api/v1/auth/me'' = None" "chi_endpoint env ''/api/v1/auth/refresh'' = None"
    using e by (simp_all add: build_admits_def)
  note facts = api_paths api_ids chi tags_clean [OF e] requests_clean [OF en] declared_problems success_types guards_exist op_fields op_blanks
    httpMethods_def op_label_def
  let ?run = "\<lambda>d. endpoint env d ''/api/v1/auth'' [] df"
  let ?ks = "[''GET /docs/ui'', ''GET /docs/json'', ''GET /metrics'']"
  let ?ks1 = "''POST /api/v1/auth/login'' # ?ks" and ?is1 = "''postApiV1AuthLogin'' # []"
  let ?d1 = "typed_decl LoginInput_type Tokens_type (op_Login h)"
  have "\<exists>m c'. ?run ?d1 c = (Some m, c') \<and> settled c' (take 1 auth_surface) ?ks1 ?is1"
    using endpoint_clean [OF c, of ?d1 LoginInput_type Tokens_type "op_Login h" "op_handle_Login h" "''/api/v1/auth/login''" "''/api/v1/auth''"
      "''POST''" "''postApiV1AuthLogin''" "''POST /api/v1/auth/login''" env df, OF refl]
    by (simp add: facts auth_surface_def)
  then obtain m1 c1 where c1: "?run ?d1 c = (Some m1, c1)" "settled c1 (take 1 auth_surface) ?ks1 ?is1" by blast
  let ?ks2 = "''POST /api/v1/auth/register'' # ?ks1" and ?is2 = "''postApiV1AuthRegister'' # ?is1"
  let ?d2 = "typed_decl RegisterInput_type noBodyType (op_Register h)"
  have "\<exists>m c'. ?run ?d2 c1 = (Some m, c') \<and> settled c' (take 2 auth_surface) ?ks2 ?is2"
    using endpoint_clean [OF c1(2), of ?d2 RegisterInput_type noBodyType "op_Register h" "op_handle_RegisterAdmin h" "''/api/v1/auth/register''" "''/api/v1/auth''"
      "''POST''" "''postApiV1AuthRegister''" "''POST /api/v1/auth/register''" env df, OF refl]
    by (simp add: facts auth_surface_def)
  then obtain m2 c2 where c2: "?run ?d2 c1 = (Some m2, c2)" "settled c2 (take 2 auth_surface) ?ks2 ?is2" by blast
  let ?ks3 = "''GET /api/v1/auth/me'' # ?ks2" and ?is3 = "''getApiV1AuthMe'' # ?is2"
  let ?d3 = "typed_decl EmptyInput_type UserResponse_type (op_Me h (service_access_guard h))"
  have "\<exists>m c'. ?run ?d3 c2 = (Some m, c') \<and> settled c' (take 3 auth_surface) ?ks3 ?is3"
    using endpoint_clean [OF c2(2), of ?d3 EmptyInput_type UserResponse_type "op_Me h (service_access_guard h)" "op_handle_Me h" "''/api/v1/auth/me''" "''/api/v1/auth''"
      "''GET''" "''getApiV1AuthMe''" "''GET /api/v1/auth/me''" env df, OF refl]
    by (simp add: facts auth_surface_def)
  then obtain m3 c3 where c3: "?run ?d3 c2 = (Some m3, c3)" "settled c3 (take 3 auth_surface) ?ks3 ?is3" by blast
  let ?ks4 = "''POST /api/v1/auth/refresh'' # ?ks3" and ?is4 = "''postApiV1AuthRefresh'' # ?is3"
  let ?d4 = "typed_decl EmptyInput_type Tokens_type (op_Refresh h (service_refresh_guard h))"
  have "\<exists>m c'. ?run ?d4 c3 = (Some m, c') \<and> settled c' (take 4 auth_surface) ?ks4 ?is4"
    using endpoint_clean [OF c3(2), of ?d4 EmptyInput_type Tokens_type "op_Refresh h (service_refresh_guard h)" "op_handle_Refresh h" "''/api/v1/auth/refresh''" "''/api/v1/auth''"
      "''POST''" "''postApiV1AuthRefresh''" "''POST /api/v1/auth/refresh''" env df, OF refl]
    by (simp add: facts auth_surface_def)
  then obtain m4 c4 where c4: "?run ?d4 c3 = (Some m4, c4)" "settled c4 (take 4 auth_surface) ?ks4 ?is4" by blast
  have "settled c4 auth_surface ?ks4 ?is4" using c4(2) by (simp add: auth_surface_def)
  then show ?thesis using c1(1) c2(1) c3(1) c4(1) by (auto simp: auth_endpoints_def)
qed

lemma sort_key_map: "map f (sort_key (g \<circ> f) xs) = sort_key g (map f xs)"
proof -
  have ins: "map f (insort_key (g \<circ> f) x ys) = insort_key g (f x) (map f ys)" for x ys by (induction ys) auto
  show ?thesis by (induction xs) (simp_all add: ins [unfolded o_def])
qed

lemma api_heap_nth:
  "length (api_heap infra h) = 3"
  "api_heap infra h ! 0 = \<lparr>g_defaults = \<lparr>df_Tags = []\<rparr>, g_guards = [], g_children = [child_link ''/api/v1'' 1],
      g_endpoints = [], g_infra = infra_routes infra, g_attached = False\<rparr>"
  "api_heap infra h ! Suc 0 = \<lparr>g_defaults = \<lparr>df_Tags = []\<rparr>, g_guards = [], g_children = [child_link ''/auth'' 2],
      g_endpoints = [], g_infra = [], g_attached = True\<rparr>"
  "api_heap infra h ! 2 = \<lparr>g_defaults = \<lparr>df_Tags = [''auth'']\<rparr>, g_guards = [], g_children = [],
      g_endpoints = auth_endpoints h, g_infra = [], g_attached = True\<rparr>"
  by (simp_all add: api_heap_def)

lemma tree_clean:
  fixes env :: "('x req_ctx_scheme, 't) build_env"
  assumes e: "build_admits env"
  shows "\<exists>root c ks js. node env (api_heap infra h) (Some 0) [] [] [] empty_compiler = (root, c) \<and> settled c auth_surface ks js"
proof -
  obtain eps0 c0 where c0: "infrastructures env (infra_routes infra) [] empty_compiler = (eps0, c0)"
    "settled c0 [] [''GET /docs/ui'', ''GET /docs/json'', ''GET /metrics''] []"
    using infra_clean [OF e] by blast
  obtain eps1 c1 ks js where c1: "endpoints env (auth_endpoints h) ''/api/v1/auth'' [] \<lparr>df_Tags = [''auth'']\<rparr> c0 = (eps1, c1)" "settled c1 auth_surface ks js"
    using auth_endpoints_clean [OF e c0(2)] by blast
  have chi: "chi_mount env ''/api/v1'' = None" "chi_mount env ''/auth'' = None" using e by (simp_all add: build_admits_def)
  have idle [simp]: "complain [] c = c" for c :: "('s, 'x req_ctx_scheme) compiler" by (simp add: complain_def)
  note step = nodes.simps api_heap_nth topology_clean child_pattern_check_def api_paths chi child_link_def
  have "node env (api_heap infra h) (Some 2) ''/api/v1/auth'' [] [Suc 0, 0] c0 = (MatNode [] eps1 [], c1)"
    by (simp add: node.simps(2) [where i = 2] step c1)
  then have "node env (api_heap infra h) (Some (Suc 0)) ''/api/v1'' [] [0] c0 = (MatNode [] [] [(''/auth'', MatNode [] eps1 [])], c1)"
    by (simp add: node.simps(2) [where i = "Suc 0"] step)
  then have "node env (api_heap infra h) (Some 0) [] [] [] empty_compiler
      = (MatNode [] eps0 [(''/api/v1'', MatNode [] [] [(''/auth'', MatNode [] eps1 [])])], c1)"
    by (simp add: node.simps(2) [where i = 0] step c0)
  with c1(2) show ?thesis by blast
qed

definition surface_entry :: "OperationDescriptor \<Rightarrow> string \<times> string \<times> string \<times> int \<times> string list \<times> string list" where
  "surface_entry d = (od_Method d, od_Path d, od_OperationID d, od_Status d, map pk_Code (od_Problems d), od_GuardIDs d)"

definition api_surface :: "(string \<times> string \<times> string \<times> int \<times> string list \<times> string list) list" where
  "api_surface =
    [(''GET'', ''/api/v1/auth/me'', ''getApiV1AuthMe'', 200, [''not-found''], [''access-token'']),
     (''POST'', ''/api/v1/auth/login'', ''postApiV1AuthLogin'', 200, [''unauthorized''], []),
     (''POST'', ''/api/v1/auth/refresh'', ''postApiV1AuthRefresh'', 200, [''unauthorized''], [''refresh-token'']),
     (''POST'', ''/api/v1/auth/register'', ''postApiV1AuthRegister'', 201, [''conflict''], [])]"

lemma api_surface_sorted: "sort_key (\<lambda>(method, path, _). (method, path)) auth_surface = api_surface"
  by code_simp


definition calm_build_env :: "(unit req_ctx_scheme, unit) build_env" where
  "calm_build_env = compile_env.extend (demo_env\<lparr>enums := known_enums\<rparr>)
     (build_env.fields (\<lambda>s. Some s) (\<lambda>_. JRaw None) (\<lambda>_. JRaw None) (\<lambda>_. []) (\<lambda>_. None) (\<lambda>_. None))"

definition silent_infra :: "(user_table, unit req_ctx_scheme) infra_env" where
  "silent_infra = \<lparr>ie_metrics = (\<lambda>r ws. ws), ie_ReferenceHTML = (\<lambda>_. None), ie_embedded = None\<rparr>"

definition lenient_params :: "(user_table, unit req_ctx_scheme) build_params" where
  "lenient_params = \<lparr>bp_spec = (\<lambda>_. []), bp_render = (\<lambda>_. []), bp_chi_panic = (\<lambda>_. None)\<rparr>"


end
