(* ===== verification/Spec2Isabelle.thy ===== *)
theory Spec2Isabelle
  imports Acl Problem Guard Response Cache Rate_Limit Argon2id Jwt Db Auth Enums Request_Bind Build_Facts Client_Ip
    Openapi_Catalog Openapi_Served Validation Slog Transport App_Config Boot Docs_Tool Helpers Api_Tree Api_Surface
begin

text \<open>
  This library verifies the Go service starter of this repository: a typed HTTP framework (\<^verbatim>\<open>internal/httpx\<close>)
  that compiles declared operations into handlers and into an OpenAPI document, the services under it (database,
  cache, rate limits, tokens, passwords), one API (\<^verbatim>\<open>internal/api/auth\<close>) and the binaries that start it and
  generate its document (\<^verbatim>\<open>cmd/api\<close>, \<^verbatim>\<open>cmd/openapi\<close>). Paths are relative to the root of the Go module.
\<close>

section \<open>The program and its theories\<close>

text \<open>
  A request passes, from the outside in, through the transport middlewares (\<open>Transport\<close> over \<open>Slog\<close> and
  \<open>Client_Ip\<close>), the router the compiler filled (\<open>Build\<close>, \<open>Routing\<close>), the guards of the operation (\<open>Guard\<close>, \<open>Jwt\<close>),
  the binding of its input (\<open>Request\<close>, \<open>Request_Compile\<close>, \<open>Request_Bind\<close>), its handler (\<open>Auth\<close> over \<open>Db\<close>,
  \<open>Argon2id\<close> and \<open>Jwt\<close>), and the writer that commits the reply (\<open>Response\<close>) or the dispatcher that turns an
  error into a problem (\<open>Problem\<close>). The same compiled operations give the document (\<open>Schema\<close> to
  \<open>Openapi_Served\<close>). \<open>Boot\<close> starts and stops all of it, \<open>Api_Tree\<close> declares what is served.

  \<^item> Foundations. \<open>Go_Prelude\<close> (strings, numbers, sorting), \<open>Go_Map\<close> (string-keyed maps), \<open>Go_Reflect\<close> (types,
    tags and values as the reflection of Go shows them), \<open>Go_Errors\<close> (error values and their chains), \<open>Http\<close>
    (requests, headers, cookies, the response writer), \<open>Wire_Json\<close> (the encoder on the wire), \<open>Net_Ip\<close> (addresses
    and prefixes as words).
  \<^item> Errors and replies. \<open>Problem\<close> (\<^verbatim>\<open>internal/httpx/problem.go\<close>), \<open>Response\<close> (\<^verbatim>\<open>response.go\<close>).
  \<^item> Access. \<open>Acl\<close> (\<^verbatim>\<open>pkg/acl\<close>), \<open>Guard\<close> (\<^verbatim>\<open>guard.go\<close>), \<open>Jwt\<close> (\<^verbatim>\<open>internal/jwt\<close>), \<open>Argon2id\<close> (\<^verbatim>\<open>pkg/argon2id\<close>).
  \<^item> Requests. \<open>Enums\<close> (\<^verbatim>\<open>enum.go\<close>, the enum validators of \<^verbatim>\<open>request.go\<close>), \<open>Request\<close> (setters and the binder),
    \<open>Request_Compile\<close> (the compilation of a request type and the validate tags), \<open>Validation\<close> (the registry of
    custom tokens in \<^verbatim>\<open>validation.go\<close>), \<open>Request_Bind\<close> (what binding gives).
  \<^item> Declarations and the build. \<open>Declaration\<close> (\<^verbatim>\<open>declaration.go\<close>), \<open>Routing\<close> and \<open>Build\<close> (\<^verbatim>\<open>compile.go\<close>),
    \<open>Build_Facts\<close> (what a successful build guarantees).
  \<^item> The document. \<open>Schema\<close> and \<open>Schema_Tags\<close> and \<open>Schema_Derive\<close> (\<^verbatim>\<open>schema.go\<close>), \<open>Component_Names\<close> (names of
    components), \<open>Openapi\<close>, \<open>Openapi_Components\<close> and \<open>Openapi_Final\<close> (the passes of \<^verbatim>\<open>openapi.go\<close> in their order),
    and the facts: \<open>Schema_Facts\<close>, \<open>Openapi_Facts\<close>, \<open>Openapi_Props\<close>, \<open>Openapi_Catalog\<close>, \<open>Openapi_Served\<close>.
  \<^item> Data. \<open>Db\<close> (\<^verbatim>\<open>internal/db\<close>), \<open>Cache\<close> (\<^verbatim>\<open>internal/db/cache/cache.go\<close> over its SQL statements), \<open>Rate_Limit\<close>
    (\<^verbatim>\<open>ratelimit.go\<close>), \<open>Auth\<close> (\<^verbatim>\<open>internal/api/auth\<close> over \<^verbatim>\<open>users.sql.go\<close>).
  \<^item> The process. \<open>Client_Ip\<close> (\<^verbatim>\<open>pkg/clientip\<close>), \<open>Slog\<close> (\<^verbatim>\<open>pkg/slogx\<close>), \<open>Transport\<close> (\<^verbatim>\<open>internal/middleware\<close> and the
    chain of \<^verbatim>\<open>internal/server/routes.go\<close>), \<open>App_Config\<close> (\<^verbatim>\<open>config\<close>), \<open>Boot\<close> (\<^verbatim>\<open>bootstrap.go\<close>, \<^verbatim>\<open>server.go\<close>,
    \<^verbatim>\<open>cmd/api/main.go\<close>), \<open>Docs_Tool\<close> (\<^verbatim>\<open>cmd/openapi/main.go\<close>, \<^verbatim>\<open>docs.go\<close>, \<^verbatim>\<open>scalar.go\<close>), \<open>Helpers\<close> (\<^verbatim>\<open>pkg/filter\<close>,
    \<^verbatim>\<open>pkg/ptrx\<close>), \<open>Api_Tree\<close> (\<^verbatim>\<open>internal/api/auth/routes.go\<close>, \<^verbatim>\<open>internal/server/routes.go\<close>, \<^verbatim>\<open>known_types.go\<close>) and
    \<open>Api_Surface\<close> (what the compiler makes of that tree).
\<close>

section \<open>How the code is represented\<close>

text \<open>
  \<^item> A Go struct is a record, an enumeration or a closed interface a datatype, a map an association list or a
    partial function. Definitions keep the names of the code; where one name is used twice (methods, or a name
    of the library), a prefix or suffix tells them apart.
  \<^item> A function that changes package or receiver state takes the state and returns it: the registries
    (\<open>Enums\<close>, \<open>Validation\<close>, \<open>Schema_Derive\<close>), the table of the cache, the users, the pools (\<open>Db\<close>, \<open>Boot\<close>), the
    response writer. The response writer keeps what was committed, so a second status or a late header has the
    effect it has on the wire: none.
  \<^item> Errors are values of \<open>go_error\<close> in a sum or beside the result; a panic is a result of its own (\<open>panic\<close> in
    \<open>Transport\<close>, \<open>None\<close> or a constructor elsewhere, as the definition says).
  \<^item> Handlers are functions from a request and a pair of writer and program state \<open>'s\<close>; a guard may replace the
    request, whose context is the type parameter \<open>'c\<close>.
  \<^item> Go types are the finite trees \<open>gtype\<close>; a typed handler gets its request as a \<open>gval\<close> of that type.
  \<^item> Integers are \<open>int\<close> with the range checked where the code checks or converts (\<open>parse_int\<close>, the wire
    integers, \<open>int64\<close> in \<open>Helpers\<close>); addresses are words; slices that are shared are indices into a heap of backing
    arrays (\<open>Slog\<close>).
\<close>

section \<open>What is proved\<close>

text \<open>
  \<^item> Errors: the dispatcher sends one status, 500 or a declared one, and a declared problem keeps its sealed
    vocabulary; the writer always completes; a panic never leaves the transport chain.
  \<^item> Access: the handler of a guarded operation runs only behind all its guards; a guard is exactly a
    well-formed configuration; only live access tokens pass the access guard; login needs the stored password;
    the client address and the address in the log cannot be forged by a forwarded header of an untrusted peer.
  \<^item> Requests: a bound value has the request type, each parameter comes from its own source, and a failure is
    one the plan announces. Custom validators run only with their documentation, and the numeric tokens
    enforce the bound they document.
  \<^item> The build: a compiled catalog has no contradictions, the router serves exactly the catalog behind its
    guards, and the retry loop returns once the registries are quiet. The invariants of the first pass are
    proved once in the locale \<open>compiler_invariant\<close> and interpreted for three of them. The real tree of this
    program compiles to its four operations.
  \<^item> The document: it lists exactly the catalog, every reference resolves, reachability and the collapse of
    request variants are the least and greatest fixed points they stand for, the documented security is that
    of the guards, and every status the handler can answer with is documented.
  \<^item> Replies and encodings: a reply is committed as a whole or not at all; pages, wire integers, tokens and
    password hashes round-trip.
  \<^item> Data: transactions are atomic, the cache returns what was stored until it expires, the limiter admits no
    more than its budget in a window. The limiter is proved over the locale \<open>counter_store\<close> and interpreted on
    the cache; the authentication over \<open>user_repository\<close> on the user table; the credential algebra is the locale
    \<open>requirement_algebra\<close>.
  \<^item> The process: a start that fails releases its pools, and the generator replaces the document as a whole.
\<close>

section \<open>Termination and bounds\<close>

text \<open>
  Recursion over types, schemas, errors and groups is structural or has a measure; no definition uses fuel.
  The declaration tree is a heap of groups that may be mounted in a cycle: each level of the compiler uses up a
  group that is not active yet. Reachability and collapse in \<open>Openapi_Components\<close> recurse on the components that
  are left. The retry loop of \<open>BuildWith\<close> may run for ever, so it is a \<open>partial_function\<close> with \<open>None\<close> for not
  returning, and that it returns is a property. The depth limit 8 of \<open>populatedValidationValue\<close> is the code's own.
\<close>

section \<open>Not modelled\<close>

text \<open>
  \<^item> Third-party packages are parameters: the router, the struct validator, the token library, Argon2, the pgx
    and River clients, the CORS and security middlewares, the metrics handler and the page generator; so are the
    JSON decoder, the document encoder, clocks, random sources, files and the network. What the proofs need of
    them is a named hypothesis with a witness.
  \<^item> Struct types that contain themselves: their reflected type is not a finite tree. The code has branches
    for them (visited sets, references to a component being built), which the model keeps but cannot reach.
  \<^item> Locks and atomics: every operation on a registry is one step, and interleavings are sequences of
    steps (\<open>registry_step\<close> in \<open>Validation\<close>, the rounds of \<open>BuildWith\<close>).
  \<^item> The text of log lines and of some error messages, where nothing depends on it; the fields of the document
    that no code sets; the signal goroutine of a shutdown, of which the events and their order are modelled.
  \<^item> \<^verbatim>\<open>pkg/buildinfo\<close> and \<^verbatim>\<open>pkg/ctxkeys\<close> (constants), \<^verbatim>\<open>internal/server/embed.go\<close> (a directive) and the generated
    \<^verbatim>\<open>internal/db/sqlc/db.go\<close>.
\<close>

end
